(* ===== verification/Prelude.thy ===== *)
theory Prelude
  imports Main "HOL-Library.State_Monad" "HOL-Library.Sublist"
begin

text \<open>
  Shared machinery of the development: the state in which the program's operations run, a
  calculus of traces over them, the two loop shapes of the program, and generic facts on lists
  and maps.

  An operation of the operator talks to the outside (the Kubernetes API server, the clock, the
  random source) and nothing else is shared between operations. Its model is a value of the
  library's state monad over a \<open>world\<close>: the outside state, of an arbitrary type \<open>'c\<close>, and the
  history of what was asked and what was answered. The history is a ghost variable: no operation
  reads it. A theorem about \<open>post\<close> or \<open>runs\<close> quantifies over every outside state and
  every way the outside answers, so it also covers interference by other clients of the cluster
  between any two calls.
\<close>

section \<open>Worlds and runs\<close>

record ('c, 'ev) world =
  outside :: 'c
  history :: "'ev list"

type_synonym ('c, 'ev, 'a) op = "(('c, 'ev) world, 'a) state"

abbreviation ret :: "'a \<Rightarrow> ('s, 'a) state" where
  "ret \<equiv> State_Monad.return"

definition perform :: "('c \<Rightarrow> 'r \<times> 'c) \<Rightarrow> ('r \<Rightarrow> 'ev) \<Rightarrow> ('c, 'ev, 'r) op" where
  "perform f ev = State (\<lambda>w. case f (outside w) of
     (r, c) \<Rightarrow> (r, w\<lparr>outside := c, history := history w @ [ev r]\<rparr>))"

lemma run_state_perform [simp]:
  "run_state (perform f ev) w = (case f (outside w) of
     (r, c) \<Rightarrow> (r, w\<lparr>outside := c, history := history w @ [ev r]\<rparr>))"
  by (simp add: perform_def)

text \<open>
  For evaluating a run on a concrete world: the continuation is not rewritten before the first
  part has been run.
\<close>

lemma bind_eval_cong: "m = m' \<Longrightarrow> (m \<bind> f) = (m' \<bind> f)" for m m' :: "('s, 'a) state"
  by simp

text \<open>\<open>runs m tr r\<close>: in some outside state, \<open>m\<close> issues exactly \<open>tr\<close> and returns \<open>r\<close>.\<close>

definition runs :: "('c, 'ev, 'a) op \<Rightarrow> 'ev list \<Rightarrow> 'a \<Rightarrow> bool" where
  "runs m tr r \<longleftrightarrow> (\<exists>w w'. run_state m w = (r, w') \<and> history w' = history w @ tr)"

text \<open>\<open>post m Q\<close>: every run of \<open>m\<close> extends the history by a trace that satisfies \<open>Q\<close>.\<close>

definition post :: "('c, 'ev, 'a) op \<Rightarrow> ('ev list \<Rightarrow> 'a \<Rightarrow> bool) \<Rightarrow> bool" where
  "post m Q \<longleftrightarrow> (\<forall>w. case run_state m w of
     (r, w') \<Rightarrow> \<exists>tr. history w' = history w @ tr \<and> Q tr r)"

lemma postI:
  "(\<And>w r w'. run_state m w = (r, w') \<Longrightarrow> \<exists>tr. history w' = history w @ tr \<and> Q tr r) \<Longrightarrow> post m Q"
  by (auto simp: post_def split: prod.splits)

lemma postE:
  assumes "post m Q" and "run_state m w = (r, w')"
  obtains tr where "history w' = history w @ tr" and "Q tr r"
proof -
  from assms have "\<exists>tr. history w' = history w @ tr \<and> Q tr r"
    unfolding post_def by (auto dest!: spec [of _ w])
  then show ?thesis using that by blast
qed

lemma post_runs: "post m Q \<Longrightarrow> runs m tr r \<Longrightarrow> Q tr r"
  unfolding runs_def by (metis postE same_append_eq)

lemma post_run_state:
  assumes "post m Q" and "run_state m w = (r, w')"
  shows "\<exists>tr. history w' = history w @ tr \<and> runs m tr r \<and> Q tr r"
  using assms unfolding runs_def by (metis postE)

lemma post_self: "post m Q \<Longrightarrow> post m (\<lambda>tr r. Q tr r \<and> runs m tr r)"
proof (rule postI)
  fix w r w'
  assume "post m Q" and "run_state m w = (r, w')"
  from post_run_state [OF this] show "\<exists>tr. history w' = history w @ tr \<and> Q tr r \<and> runs m tr r" by blast
qed

named_theorems vcg \<comment> \<open>rules that decompose a \<open>post\<close> goal along the program text\<close>

lemma post_ret [vcg]: "Q [] a \<Longrightarrow> post (ret a) Q"
  by (simp add: post_def)

lemma post_bind [vcg]:
  assumes "post m (\<lambda>tr a. post (f a) (\<lambda>tr' b. Q (tr @ tr') b))"
  shows "post (m \<bind> f) Q"
proof (rule postI)
  fix w b w2
  assume run: "run_state (m \<bind> f) w = (b, w2)"
  obtain a w1 where m: "run_state m w = (a, w1)" by fastforce
  with run have f: "run_state (f a) w1 = (b, w2)" by simp
  from assms m obtain tr where tr: "history w1 = history w @ tr"
    and q: "post (f a) (\<lambda>tr' b. Q (tr @ tr') b)"
    by (rule postE)
  from q f obtain tr' where "history w2 = history w1 @ tr'" and "Q (tr @ tr') b"
    by (rule postE)
  with tr show "\<exists>tr. history w2 = history w @ tr \<and> Q tr b" by auto
qed

lemma post_perform [vcg]: "(\<And>r. Q [ev r] r) \<Longrightarrow> post (perform f ev) Q"
  by (auto simp: post_def split: prod.splits)

lemma post_weaken: "post m P \<Longrightarrow> (\<And>tr r. P tr r \<Longrightarrow> Q tr r) \<Longrightarrow> post m Q"
  by (rule postI, erule (1) postE) blast

lemma post_conj:
  assumes "post m P" and "post m Q"
  shows "post m (\<lambda>tr r. P tr r \<and> Q tr r)"
proof (rule postI)
  fix w r w'
  assume run: "run_state m w = (r, w')"
  from assms(1) run obtain tr where "history w' = history w @ tr" "P tr r" by (rule postE)
  moreover from assms(2) run obtain tr' where "history w' = history w @ tr'" "Q tr' r" by (rule postE)
  ultimately show "\<exists>tr. history w' = history w @ tr \<and> P tr r \<and> Q tr r" by auto
qed

lemma post_sum [vcg]:
  "(\<And>e. x = Inl e \<Longrightarrow> post (f e) Q) \<Longrightarrow> (\<And>y. x = Inr y \<Longrightarrow> post (g y) Q) \<Longrightarrow>
   post (case x of Inl e \<Rightarrow> f e | Inr y \<Rightarrow> g y) Q"
  by (cases x) auto

lemma post_option [vcg]:
  "(x = None \<Longrightarrow> post m Q) \<Longrightarrow> (\<And>y. x = Some y \<Longrightarrow> post (g y) Q) \<Longrightarrow>
   post (case x of None \<Rightarrow> m | Some y \<Rightarrow> g y) Q"
  by (cases x) auto

lemma post_if [vcg]:
  "(b \<Longrightarrow> post m Q) \<Longrightarrow> (\<not> b \<Longrightarrow> post n Q) \<Longrightarrow> post (if b then m else n) Q"
  by auto

lemma post_let [vcg]: "post (f x) Q \<Longrightarrow> post (Let x f) Q"
  by simp

lemma post_prod [vcg]:
  "(\<And>a b. x = (a, b) \<Longrightarrow> post (f a b) Q) \<Longrightarrow> post (case x of (a, b) \<Rightarrow> f a b) Q"
  by (cases x) auto

section \<open>Request policies\<close>

text \<open>\<open>emits A m\<close>: whatever the outside answers, every event of a run of \<open>m\<close> satisfies \<open>A\<close>.\<close>

definition emits :: "('ev \<Rightarrow> bool) \<Rightarrow> ('c, 'ev, 'a) op \<Rightarrow> bool" where
  "emits A m \<longleftrightarrow> post m (\<lambda>tr _. \<forall>e \<in> set tr. A e)"

named_theorems emits_intros \<comment> \<open>rules that decompose an \<open>emits\<close> goal along the program text\<close>

lemma emits_ret [emits_intros]: "emits A (ret a)"
  by (auto simp: emits_def intro: vcg)

lemma emits_bind [emits_intros]:
  assumes "emits A m" and "\<And>a. emits A (f a)"
  shows "emits A (m \<bind> f)"
  unfolding emits_def
proof (rule post_bind, rule post_weaken)
  show "post m (\<lambda>tr _. \<forall>e \<in> set tr. A e)" using assms(1) by (simp add: emits_def)
  fix tr a
  assume "\<forall>e \<in> set tr. A e"
  moreover have "post (f a) (\<lambda>tr _. \<forall>e \<in> set tr. A e)" using assms(2) by (simp add: emits_def)
  ultimately show "post (f a) (\<lambda>tr' b. \<forall>e \<in> set (tr @ tr'). A e)"
    by (elim post_weaken) auto
qed

lemma emits_perform [emits_intros]: "(\<And>r. A (ev r)) \<Longrightarrow> emits A (perform f ev)"
  by (auto simp: emits_def intro: vcg)

lemma emits_sum [emits_intros]:
  "(\<And>e. x = Inl e \<Longrightarrow> emits A (f e)) \<Longrightarrow> (\<And>y. x = Inr y \<Longrightarrow> emits A (g y)) \<Longrightarrow>
   emits A (case x of Inl e \<Rightarrow> f e | Inr y \<Rightarrow> g y)"
  by (cases x) auto

lemma emits_option [emits_intros]:
  "(x = None \<Longrightarrow> emits A m) \<Longrightarrow> (\<And>y. x = Some y \<Longrightarrow> emits A (g y)) \<Longrightarrow>
   emits A (case x of None \<Rightarrow> m | Some y \<Rightarrow> g y)"
  by (cases x) auto

lemma emits_if [emits_intros]:
  "(b \<Longrightarrow> emits A m) \<Longrightarrow> (\<not> b \<Longrightarrow> emits A n) \<Longrightarrow> emits A (if b then m else n)"
  by auto

lemma emits_let [emits_intros]: "emits A (f x) \<Longrightarrow> emits A (Let x f)"
  by simp

lemma emits_prod [emits_intros]:
  "(\<And>a b. x = (a, b) \<Longrightarrow> emits A (f a b)) \<Longrightarrow> emits A (case x of (a, b) \<Rightarrow> f a b)"
  by (cases x) auto

lemma emits_mono: "emits A m \<Longrightarrow> (\<And>e. A e \<Longrightarrow> B e) \<Longrightarrow> emits B m"
  unfolding emits_def by (erule post_weaken) blast

lemma emits_runs: "emits A m \<Longrightarrow> runs m tr r \<Longrightarrow> e \<in> set tr \<Longrightarrow> A e"
  unfolding emits_def by (drule (1) post_runs) blast

section \<open>Loops\<close>

text \<open>
  \<open>for_each f xs\<close> is \<open>for i := range xs { if err := f(xs[i]); err != nil { return err } }\<close>:
  the first error ends the loop. An error of the source (a possibly nil \<open>error\<close>) is an option.
\<close>

fun for_each :: "('a \<Rightarrow> ('s, 'e option) state) \<Rightarrow> 'a list \<Rightarrow> ('s, 'e option) state" where
  "for_each f [] = ret None"
| "for_each f (x # xs) = f x \<bind> (\<lambda>r. case r of None \<Rightarrow> for_each f xs | Some e \<Rightarrow> ret (Some e))"

text \<open>
  \<open>fold_each f a xs\<close> is the same loop with an accumulator: each pass returns an error, which
  ends the loop, or the accumulator's next value.
\<close>

fun fold_each :: "('b \<Rightarrow> 'a \<Rightarrow> ('s, 'e + 'b) state) \<Rightarrow> 'b \<Rightarrow> 'a list \<Rightarrow> ('s, 'e + 'b) state" where
  "fold_each f b [] = ret (Inr b)"
| "fold_each f b (x # xs) =
     f b x \<bind> (\<lambda>r. case r of Inl e \<Rightarrow> ret (Inl e) | Inr b' \<Rightarrow> fold_each f b' xs)"

lemma emits_for_each [emits_intros]:
  "(\<And>x. x \<in> set xs \<Longrightarrow> emits A (f x)) \<Longrightarrow> emits A (for_each f xs)"
  by (induction xs) (auto intro!: emits_intros)

lemma emits_fold_each [emits_intros]:
  "(\<And>b x. x \<in> set xs \<Longrightarrow> emits A (f b x)) \<Longrightarrow> emits A (fold_each f b xs)"
  by (induction xs arbitrary: b) (auto intro!: emits_intros)

text \<open>
  What a loop did, pass by pass: the passes that ended without error, in order, and, when an
  error ended the loop, the pass that returned it.
\<close>

fun loop_trace ::
  "('a \<Rightarrow> 'ev list \<Rightarrow> 'e option \<Rightarrow> bool) \<Rightarrow> 'a list \<Rightarrow> 'ev list \<Rightarrow> 'e option \<Rightarrow> bool" where
  "loop_trace P [] tr r \<longleftrightarrow> tr = [] \<and> r = None"
| "loop_trace P (x # xs) tr r \<longleftrightarrow>
     (\<exists>t1 t2. tr = t1 @ t2 \<and> P x t1 None \<and> loop_trace P xs t2 r) \<or>
     (\<exists>e. r = Some e \<and> P x tr (Some e))"

lemma post_for_each:
  assumes "\<And>x. x \<in> set xs \<Longrightarrow> post (f x) (P x)"
  shows "post (for_each f xs) (loop_trace P xs)"
  using assms
proof (induction xs)
  case Nil
  show ?case by (auto intro: vcg)
next
  case (Cons x xs)
  have rest: "post (for_each f xs) (\<lambda>t2 r. loop_trace P (x # xs) (t1 @ t2) r)"
    if "P x t1 None" for t1
  proof (rule post_weaken)
    show "post (for_each f xs) (loop_trace P xs)" using Cons by simp
  qed (use that in auto)
  show ?case
    unfolding for_each.simps
  proof (rule post_bind, rule post_weaken)
    show "post (f x) (P x)" using Cons.prems by simp
    fix tr r
    assume "P x tr r"
    then show "post (case r of None \<Rightarrow> for_each f xs | Some e \<Rightarrow> ret (Some e))
        (\<lambda>tr' b. loop_trace P (x # xs) (tr @ tr') b)"
      by (cases r) (use rest in \<open>auto intro!: post_ret\<close>)
  qed
qed

lemma post_for_eachI:
  "(\<And>x. x \<in> set xs \<Longrightarrow> post (f x) (P x)) \<Longrightarrow>
   (\<And>tr r. loop_trace P xs tr r \<Longrightarrow> Q tr r) \<Longrightarrow> post (for_each f xs) Q"
  by (rule post_weaken [OF post_for_each])

lemma loop_trace_None:
  "loop_trace P xs tr None \<Longrightarrow> \<exists>ts. tr = concat ts \<and> list_all2 (\<lambda>x t. P x t None) xs ts"
proof (induction xs arbitrary: tr)
  case Nil
  then show ?case by (auto intro: exI [of _ "[]"])
next
  case (Cons x xs)
  then obtain t1 t2 where "tr = t1 @ t2" "P x t1 None" and t2: "loop_trace P xs t2 None"
    by auto
  moreover from Cons.IH [OF t2] obtain ts
    where "t2 = concat ts" "list_all2 (\<lambda>x t. P x t None) xs ts" by blast
  ultimately have "tr = concat (t1 # ts)" "list_all2 (\<lambda>x t. P x t None) (x # xs) (t1 # ts)"
    by auto
  then show ?case by blast
qed

lemma loop_trace_segment:
  "loop_trace P xs tr None \<Longrightarrow> x \<in> set xs \<Longrightarrow> \<exists>a t b. tr = a @ t @ b \<and> P x t None"
proof (induction xs arbitrary: tr)
  case (Cons y ys)
  then obtain t1 t2 where tr: "tr = t1 @ t2" and y: "P y t1 None" and ys: "loop_trace P ys t2 None"
    by auto
  show ?case
  proof (cases "x = y")
    case True
    then show ?thesis using tr y by (metis append_Nil)
  next
    case False
    with Cons.prems(2) Cons.IH [OF ys] obtain a t b where "t2 = a @ t @ b" "P x t None" by auto
    then show ?thesis using tr by (metis append_assoc)
  qed
qed simp

lemma loop_trace_mem:
  "loop_trace P xs tr None \<Longrightarrow> x \<in> set xs \<Longrightarrow> \<exists>t. P x t None \<and> set t \<subseteq> set tr"
  by (induction xs arbitrary: tr) (fastforce)+

lemma loop_trace_event:
  "loop_trace P xs tr r \<Longrightarrow> e \<in> set tr \<Longrightarrow> \<exists>x \<in> set xs. \<exists>t r'. P x t r' \<and> e \<in> set t \<and> set t \<subseteq> set tr"
  by (induction xs arbitrary: tr) (fastforce)+

text \<open>What a loop that ended without error did to a view of the outside.\<close>

lemma for_each_view:
  assumes step: "\<And>x w w'. x \<in> set xs \<Longrightarrow> run_state (f x) w = (None, w') \<Longrightarrow>
      V (outside w') = g x (V (outside w))"
    and run: "run_state (for_each f xs) w = (None, w')"
  shows "V (outside w') = fold g xs (V (outside w))"
  using assms
proof (induction xs arbitrary: w)
  case (Cons x xs)
  obtain r w1 where x: "run_state (f x) w = (r, w1)" by fastforce
  with Cons.prems(2) have "r = None" and rest: "run_state (for_each f xs) w1 = (None, w')"
    by (auto split: option.splits)
  with x Cons.prems(1) have "V (outside w1) = g x (V (outside w))" by simp
  moreover have "V (outside w') = fold g xs (V (outside w1))"
    using Cons.IH [OF _ rest] Cons.prems(1) by simp
  ultimately show ?case by simp
qed simp

text \<open>
  The loop with an accumulator: an invariant over the elements done, the accumulator and the
  trace so far; below, one that does not mention the elements done.
\<close>

lemma post_fold_each_prefix:
  fixes I :: "'a list \<Rightarrow> 'b \<Rightarrow> 'ev list \<Rightarrow> bool" and E :: "'e \<Rightarrow> 'ev list \<Rightarrow> bool"
  assumes step: "\<And>b x done tr. x \<in> set xs \<Longrightarrow> I done b tr \<Longrightarrow>
      post (f b x) (\<lambda>t r. case r of Inl e \<Rightarrow> E e (tr @ t) | Inr b' \<Rightarrow> I (done @ [x]) b' (tr @ t))"
    and init: "I done b tr0"
  shows "post (fold_each f b xs)
     (\<lambda>t r. case r of Inl e \<Rightarrow> E e (tr0 @ t) | Inr b' \<Rightarrow> I (done @ xs) b' (tr0 @ t))"
  using assms
proof (induction xs arbitrary: b tr0 "done")
  case Nil
  then show ?case by (auto intro: vcg)
next
  case (Cons x xs)
  let ?S = "\<lambda>t r. case r of Inl e \<Rightarrow> E e (tr0 @ t) | Inr b' \<Rightarrow> I (done @ [x]) b' (tr0 @ t)"
  let ?Q = "\<lambda>t r. case r of Inl e \<Rightarrow> E e (tr0 @ t) | Inr b' \<Rightarrow> I (done @ x # xs) b' (tr0 @ t)"
  have rest: "post (fold_each f b' xs) (\<lambda>t'. ?Q (t @ t'))" if "I (done @ [x]) b' (tr0 @ t)" for b' t
    using Cons.IH [of "done @ [x]" b' "tr0 @ t"] Cons.prems(1) that by simp
  show ?case
    unfolding fold_each.simps
  proof (rule post_bind, rule post_weaken)
    show "post (f b x) ?S" using Cons.prems by simp
    fix t r
    assume "?S t r"
    then show "post (case r of Inl e \<Rightarrow> ret (Inl e) | Inr b' \<Rightarrow> fold_each f b' xs) (\<lambda>t'. ?Q (t @ t'))"
      by (cases r) (use rest in \<open>auto intro!: post_ret\<close>)
  qed
qed

lemma post_fold_each:
  fixes I :: "'b \<Rightarrow> 'ev list \<Rightarrow> bool" and E :: "'e \<Rightarrow> 'ev list \<Rightarrow> bool"
  assumes "\<And>b x tr. x \<in> set xs \<Longrightarrow> I b tr \<Longrightarrow>
      post (f b x) (\<lambda>t r. case r of Inl e \<Rightarrow> E e (tr @ t) | Inr b' \<Rightarrow> I b' (tr @ t))"
    and "I b tr0"
  shows "post (fold_each f b xs)
     (\<lambda>t r. case r of Inl e \<Rightarrow> E e (tr0 @ t) | Inr b' \<Rightarrow> I b' (tr0 @ t))"
  using post_fold_each_prefix [where I = "\<lambda>_. I"] assms by blast

section \<open>Excuses\<close>

text \<open>
  What went wrong somewhere in a trace went wrong in the trace: a loop whose passes succeed unless
  something bad happened succeeds unless something bad happened.
\<close>

locale excuse =
  fixes bad :: "'ev list \<Rightarrow> bool"
  assumes bad_left: "bad xs \<Longrightarrow> bad (xs @ ys)" and bad_right: "bad ys \<Longrightarrow> bad (xs @ ys)"
begin

lemma bad_Cons: "bad tr \<Longrightarrow> bad (e # tr)"
  using bad_right [of tr "[e]"] by simp

lemma post_loop:
  assumes "\<And>x. x \<in> set xs \<Longrightarrow> post (f x) (\<lambda>tr r. r = None \<or> bad tr)"
  shows "post (for_each f xs) (\<lambda>tr r. r = None \<or> bad tr)"
  using assms
proof (induction xs)
  case (Cons x xs)
  have "post (for_each f xs) (\<lambda>t' r. r = None \<or> bad (t @ t'))" for t
    by (rule post_weaken [OF Cons.IH [OF Cons.prems]]) (auto intro: bad_right)
  moreover have "post (for_each f xs) (\<lambda>t' r. r = None \<or> bad (t @ t'))" if "bad t" for t
    by (rule post_weaken [OF Cons.IH [OF Cons.prems]]) (auto intro: bad_left that)
  ultimately show ?case
    unfolding for_each.simps by (intro vcg post_weaken [OF Cons.prems [of x]]) auto
qed (auto intro: vcg)

lemma post_fold:
  assumes "\<And>b x. x \<in> set xs \<Longrightarrow>
      post (f b x) (\<lambda>tr r. (\<exists>b'. r = Inr b' \<and> h b' = g x (h b)) \<or> bad tr)"
  shows "post (fold_each f b xs) (\<lambda>tr r. (\<exists>b'. r = Inr b' \<and> h b' = fold g xs (h b)) \<or> bad tr)"
  using assms
proof (induction xs arbitrary: b)
  case (Cons x xs)
  let ?Q = "\<lambda>tr r. (\<exists>b'. r = Inr b' \<and> h b' = fold g (x # xs) (h b)) \<or> bad tr"
  have rest: "post (fold_each f b' xs) (\<lambda>t'. ?Q (t @ t'))" if "h b' = g x (h b) \<or> bad t" for b' t
    by (rule post_weaken [OF Cons.IH [OF Cons.prems]]) (use that in \<open>auto intro: bad_left bad_right\<close>)
  show ?case
    unfolding fold_each.simps
    by (intro vcg post_weaken [OF Cons.prems [of x]] rest) auto
qed (auto intro: vcg)

end

section \<open>Compositional trace properties\<close>

text \<open>
  A property of traces that holds of the empty trace and of appended traces holds of the runs of
  an operation when it holds of the runs of its parts.
\<close>

locale trace_property =
  fixes P :: "'ev list \<Rightarrow> bool"
  assumes P_Nil: "P []" and P_append: "P xs \<Longrightarrow> P ys \<Longrightarrow> P (xs @ ys)"
begin

definition keeps :: "('c, 'ev, 'a) op \<Rightarrow> bool" where
  "keeps m \<longleftrightarrow> post m (\<lambda>tr _. P tr)"

lemma keeps_ret: "keeps (ret a)"
  by (simp add: keeps_def post_ret P_Nil)

lemma keeps_bind:
  assumes "keeps m" and "\<And>a. keeps (f a)"
  shows "keeps (m \<bind> f)"
  unfolding keeps_def
proof (rule post_bind, rule post_weaken [OF assms(1) [unfolded keeps_def]])
  fix tr a
  assume "P tr"
  then show "post (f a) (\<lambda>tr' _. P (tr @ tr'))"
    by (intro post_weaken [OF assms(2) [unfolded keeps_def]]) (rule P_append)
qed

lemma keeps_sum:
  "(\<And>e. x = Inl e \<Longrightarrow> keeps (f e)) \<Longrightarrow> (\<And>y. x = Inr y \<Longrightarrow> keeps (g y)) \<Longrightarrow>
   keeps (case x of Inl e \<Rightarrow> f e | Inr y \<Rightarrow> g y)"
  by (cases x) auto

lemma keeps_option:
  "(x = None \<Longrightarrow> keeps m) \<Longrightarrow> (\<And>y. x = Some y \<Longrightarrow> keeps (g y)) \<Longrightarrow>
   keeps (case x of None \<Rightarrow> m | Some y \<Rightarrow> g y)"
  by (cases x) auto

lemma keeps_if: "(b \<Longrightarrow> keeps m) \<Longrightarrow> (\<not> b \<Longrightarrow> keeps n) \<Longrightarrow> keeps (if b then m else n)"
  by auto

lemma keeps_let: "keeps (f x) \<Longrightarrow> keeps (Let x f)"
  by simp

lemma keeps_prod:
  "(\<And>a b. x = (a, b) \<Longrightarrow> keeps (f a b)) \<Longrightarrow> keeps (case x of (a, b) \<Rightarrow> f a b)"
  by (cases x) auto

lemma keeps_for_each:
  "(\<And>x. x \<in> set xs \<Longrightarrow> keeps (f x)) \<Longrightarrow> keeps (for_each f xs)"
  by (induction xs) (auto intro!: keeps_ret keeps_bind keeps_option)

lemma keeps_fold_each:
  "(\<And>b x. x \<in> set xs \<Longrightarrow> keeps (f b x)) \<Longrightarrow> keeps (fold_each f b xs)"
  by (induction xs arbitrary: b) (auto intro!: keeps_ret keeps_bind keeps_sum)

lemma keeps_runs: "keeps m \<Longrightarrow> runs m tr r \<Longrightarrow> P tr"
  unfolding keeps_def by (rule post_runs)

lemmas keeps_intros = keeps_ret keeps_bind keeps_sum keeps_option keeps_if keeps_let keeps_prod
  keeps_for_each keeps_fold_each

end

section \<open>Order of events\<close>

text \<open>\<open>guarded P Q tr\<close>: no \<open>Q\<close> event before the first \<open>P\<close> event.\<close>

fun guarded :: "('ev \<Rightarrow> bool) \<Rightarrow> ('ev \<Rightarrow> bool) \<Rightarrow> 'ev list \<Rightarrow> bool" where
  "guarded P Q [] = True"
| "guarded P Q (e # es) = (\<not> Q e \<and> (P e \<or> guarded P Q es))"

lemma guarded_iff:
  "guarded P Q tr \<longleftrightarrow> (\<forall>a e b. tr = a @ e # b \<longrightarrow> Q e \<longrightarrow> (\<exists>x \<in> set a. P x))"
proof (induction tr)
  case (Cons y ys)
  have split: "(\<forall>a e b. y # ys = a @ e # b \<longrightarrow> R a e) \<longleftrightarrow>
      R [] y \<and> (\<forall>a e b. ys = a @ e # b \<longrightarrow> R (y # a) e)" for R
    by (auto simp: Cons_eq_append_conv)
  show ?case unfolding split using Cons by auto
qed simp

lemma guarded_append:
  "guarded P Q (xs @ ys) \<longleftrightarrow> guarded P Q xs \<and> ((\<exists>x \<in> set xs. P x) \<or> guarded P Q ys)"
  by (induction xs) auto

lemma guarded_quiet: "\<forall>e \<in> set tr. \<not> Q e \<Longrightarrow> guarded P Q tr"
  by (induction tr) auto

text \<open>\<open>followed_by P Q tr\<close>: after some \<open>P\<close> event the rest of the trace satisfies \<open>Q\<close>.\<close>

fun followed_by :: "('ev \<Rightarrow> bool) \<Rightarrow> ('ev list \<Rightarrow> bool) \<Rightarrow> 'ev list \<Rightarrow> bool" where
  "followed_by P Q [] = False"
| "followed_by P Q (e # es) = (P e \<and> Q es \<or> followed_by P Q es)"

lemma followed_by_iff: "followed_by P Q tr \<longleftrightarrow> (\<exists>a e b. tr = a @ e # b \<and> P e \<and> Q b)"
proof (induction tr)
  case (Cons y ys)
  then show ?case by (auto simp: Cons_eq_append_conv)
qed simp

lemma followed_by_append: "followed_by P Q ys \<Longrightarrow> followed_by P Q (xs @ ys)"
  by (induction xs) auto

lemma followed_by_snoc [simp]:
  "followed_by P (list_ex R) (xs @ [y]) \<longleftrightarrow> followed_by P (list_ex R) xs \<or> (\<exists>x \<in> set xs. P x) \<and> R y"
  by (induction xs) auto

text \<open>
  \<open>preceded R A tr\<close>: each event \<open>e\<close> of the trace stands in the relation \<open>R\<close> to the set of the
  events before it and of those in \<open>A\<close>.
\<close>

fun preceded :: "('ev \<Rightarrow> 'ev set \<Rightarrow> bool) \<Rightarrow> 'ev set \<Rightarrow> 'ev list \<Rightarrow> bool" where
  "preceded R A [] = True"
| "preceded R A (e # es) = (R e A \<and> preceded R (insert e A) es)"

lemma preceded_append [simp]:
  "preceded R A (xs @ ys) \<longleftrightarrow> preceded R A xs \<and> preceded R (A \<union> set xs) ys"
  by (induction xs arbitrary: A) auto

lemma preceded_at: "preceded R A (a @ e # b) \<Longrightarrow> R e (A \<union> set a)"
  by simp

lemma preceded_more:
  assumes "\<And>e A B. R e A \<Longrightarrow> A \<subseteq> B \<Longrightarrow> R e B"
  shows "preceded R A tr \<Longrightarrow> A \<subseteq> B \<Longrightarrow> preceded R B tr"
proof (induction tr arbitrary: A B)
  case (Cons e es)
  then have "preceded R (insert e B) es" by (metis insert_mono preceded.simps(2))
  with Cons.prems assms show ?case by auto
qed simp

lemma preceded_trace_property:
  assumes "\<And>e A B. R e A \<Longrightarrow> A \<subseteq> B \<Longrightarrow> R e B"
  shows "trace_property (preceded R {})"
  by unfold_locales (auto intro: preceded_more [OF assms])

lemma preceded_free: "(\<And>e B. e \<in> set tr \<Longrightarrow> A \<subseteq> B \<Longrightarrow> R e B) \<Longrightarrow> preceded R A tr"
proof (induction tr arbitrary: A)
  case (Cons e es)
  have "preceded R (insert e A) es" using Cons.prems by (intro Cons.IH) auto
  then show ?case using Cons.prems by auto
qed simp

lemma preceded_weaken:
  "preceded R A tr \<Longrightarrow> (\<And>e B. R e B \<Longrightarrow> S e B) \<Longrightarrow> preceded S A tr"
  by (induction tr arbitrary: A) auto

section \<open>Lists and maps\<close>

lemma remdups_removeAll_mem [simp]: "x \<in> set (removeAll y xs) \<longleftrightarrow> x \<in> set xs \<and> x \<noteq> y"
  by auto

text \<open>Changing the entries of a list of keys one after the other, by an idempotent change.\<close>

lemma fold_entries:
  assumes "\<And>x. g (g x) = g x"
  shows "fold (\<lambda>x m. m(f x := g (m (f x)))) xs m = (\<lambda>k. if k \<in> f ` set xs then g (m k) else m k)"
  using assms by (induction xs arbitrary: m) (auto simp: fun_eq_iff)

text \<open>The part of a map whose keys satisfy a test.\<close>

definition restrict_keys :: "('k \<Rightarrow> bool) \<Rightarrow> ('k \<rightharpoonup> 'v) \<Rightarrow> ('k \<rightharpoonup> 'v)" where
  "restrict_keys p m = (\<lambda>k. if p k then m k else None)"

lemma restrict_keys_apply [simp]: "restrict_keys p m k = (if p k then m k else None)"
  by (simp add: restrict_keys_def)

lemma restrict_keys_twice [simp]:
  "restrict_keys p (restrict_keys q m) = restrict_keys (\<lambda>k. p k \<and> q k) m"
  by (auto simp: restrict_keys_def)

lemma suffix_append_same [simp]: "suffix t (xs @ t)"
  by (simp add: suffix_def)

end
