(* ===== verification/Go_Std.thy ===== *)
theory Go_Std
  imports Prelude "HOL-Library.Word" "HOL-Library.Signed_Division"
begin

text \<open>
  What the operator uses of the Go language and its standard library: byte strings
  (\<open>strings.HasPrefix\<close>, \<open>HasSuffix\<close>, \<open>TrimSuffix\<close>, \<open>TrimSpace\<close>), number parsing
  (\<open>fmt.Sscanf\<close> with the verb \<open>%d\<close>, \<open>strconv.Atoi\<close>), number printing, \<open>encoding/hex\<close>,
  64-bit signed integers with wrap-around and truncating division, and \<open>time.Time\<close> as
  nanoseconds since the Unix epoch. A Go string is a list of bytes, as HOL's \<open>string\<close> is.
\<close>

section \<open>Strings\<close>

definition HasPrefix :: "string \<Rightarrow> string \<Rightarrow> bool" where
  "HasPrefix s p \<longleftrightarrow> take (length p) s = p"

definition HasSuffix :: "string \<Rightarrow> string \<Rightarrow> bool" where
  "HasSuffix s t \<longleftrightarrow> length t \<le> length s \<and> drop (length s - length t) s = t"

definition TrimSuffix :: "string \<Rightarrow> string \<Rightarrow> string" where
  "TrimSuffix s t = (if HasSuffix s t then take (length s - length t) s else s)"

lemma HasPrefix_prefix: "HasPrefix s p \<longleftrightarrow> prefix p s"
  unfolding HasPrefix_def prefix_def by (metis append_eq_conv_conj append_take_drop_id)

lemma HasSuffix_suffix: "HasSuffix s t \<longleftrightarrow> suffix t s"
  unfolding HasSuffix_def suffix_def
  by (metis append_take_drop_id append_eq_conv_conj diff_le_self length_append le_add2
      add_diff_cancel_right')

lemma HasSuffix_append [simp]: "HasSuffix (xs @ t) t"
  by (simp add: HasSuffix_suffix)

lemma HasPrefix_append [simp]: "HasPrefix (p @ xs) p"
  by (simp add: HasPrefix_def)

lemma TrimSuffix_append [simp]: "TrimSuffix (xs @ t) t = xs"
  by (simp add: TrimSuffix_def)

lemma TrimSuffix_restore: "HasSuffix s t \<Longrightarrow> TrimSuffix s t @ t = s"
  by (metis HasSuffix_suffix TrimSuffix_append suffix_def)

text \<open>
  White space as \<open>unicode.IsSpace\<close> and \<open>fmt\<close> have it: the ASCII characters, and the UTF-8
  encodings of U+0085, U+00A0, U+1680, U+2000 to U+200A, U+2028, U+2029, U+202F, U+205F, U+3000.
\<close>

definition ascii_spaces :: "char list" where
  "ascii_spaces = [CHR 0x09, CHR 0x0A, CHR 0x0B, CHR 0x0C, CHR 0x0D, CHR 0x20]"

definition wide_spaces :: "string list" where
  "wide_spaces =
     [[CHR 0xC2, CHR 0x85], [CHR 0xC2, CHR 0xA0], [CHR 0xE1, CHR 0x9A, CHR 0x80],
      [CHR 0xE2, CHR 0x81, CHR 0x9F], [CHR 0xE3, CHR 0x80, CHR 0x80]] @
     map (\<lambda>b. [CHR 0xE2, CHR 0x80, b])
       [CHR 0x80, CHR 0x81, CHR 0x82, CHR 0x83, CHR 0x84, CHR 0x85, CHR 0x86, CHR 0x87, CHR 0x88,
        CHR 0x89, CHR 0x8A, CHR 0xA8, CHR 0xA9, CHR 0xAF]"

text \<open>The number of bytes of the white-space rune a string starts with, 0 if it starts with none.\<close>

definition leading_space :: "string \<Rightarrow> nat" where
  "leading_space s =
     (case s of [] \<Rightarrow> 0
      | c # _ \<Rightarrow> if c \<in> set ascii_spaces then 1
          else (case find (HasPrefix s) wide_spaces of None \<Rightarrow> 0 | Some e \<Rightarrow> length e))"

definition trailing_space :: "string \<Rightarrow> nat" where
  "trailing_space s =
     (if s = [] then 0
      else if last s \<in> set ascii_spaces then 1
      else (case find (HasSuffix s) wide_spaces of None \<Rightarrow> 0 | Some e \<Rightarrow> length e))"

function TrimLeftSpace :: "string \<Rightarrow> string" where
  "TrimLeftSpace s =
     (if s = [] \<or> leading_space s = 0 then s else TrimLeftSpace (drop (leading_space s) s))"
  by pat_completeness auto
termination
  by (relation "measure length") auto

function TrimRightSpace :: "string \<Rightarrow> string" where
  "TrimRightSpace s =
     (if s = [] \<or> trailing_space s = 0 then s
      else TrimRightSpace (take (length s - trailing_space s) s))"
  by pat_completeness auto
termination
  by (relation "measure length") auto

declare TrimLeftSpace.simps [simp del] TrimRightSpace.simps [simp del]

definition TrimSpace :: "string \<Rightarrow> string" where
  "TrimSpace s = TrimRightSpace (TrimLeftSpace s)"

lemma TrimSpace_id:
  "leading_space s = 0 \<Longrightarrow> trailing_space s = 0 \<Longrightarrow> TrimSpace s = s"
  by (simp add: TrimSpace_def TrimLeftSpace.simps [of s] TrimRightSpace.simps [of s])

section \<open>Numbers as text\<close>

definition is_digit :: "char \<Rightarrow> bool" where
  "is_digit c \<longleftrightarrow> 48 \<le> (of_char c :: nat) \<and> (of_char c :: nat) \<le> 57"

definition digit_value :: "char \<Rightarrow> nat" where
  "digit_value c = of_char c - 48"

definition decimal :: "string \<Rightarrow> nat" where
  "decimal = foldl (\<lambda>n c. 10 * n + digit_value c) 0"

definition int64_range :: "int \<Rightarrow> bool" where
  "int64_range i \<longleftrightarrow> - (2 ^ 63) \<le> i \<and> i < 2 ^ 63"

text \<open>An optional sign, the digits after it, and the number they denote.\<close>

definition split_sign :: "string \<Rightarrow> bool \<times> string" where
  "split_sign s = (case s of [] \<Rightarrow> (False, [])
     | c # cs \<Rightarrow> if c = CHR ''-'' then (True, cs) else if c = CHR ''+'' then (False, cs) else (False, s))"

definition signed :: "bool \<Rightarrow> nat \<Rightarrow> int" where
  "signed neg n = (if neg then - int n else int n)"

text \<open>
  \<open>strconv.Atoi\<close> on a 64-bit platform: a sign, then one or more decimal digits and nothing else,
  within the range of \<open>int64\<close>. \<open>None\<close> is the error return.
\<close>

definition Atoi :: "string \<Rightarrow> int option" where
  "Atoi s = (let (neg, ds) = split_sign s; v = signed neg (decimal ds)
     in if ds \<noteq> [] \<and> list_all is_digit ds \<and> int64_range v then Some v else None)"

text \<open>
  \<open>fmt.Sscanf(s, "%d", &n)\<close>: leading white space is skipped (a newline is an error), then an
  optional sign and the longest run of decimal digits are read; what follows is left unread, and
  leaving it unread is no error. \<open>None\<close> is the error return.
\<close>

function skip_space :: "string \<Rightarrow> string option" where
  "skip_space s =
     (if s = [] then Some []
      else if hd s = CHR 0x0A then None
      else if leading_space s = 0 then Some s
      else skip_space (drop (leading_space s) s))"
  by pat_completeness auto
termination
  by (relation "measure length") auto

declare skip_space.simps [simp del]

definition scan_int :: "string \<Rightarrow> int option" where
  "scan_int s = (let (neg, rest) = split_sign s; ds = takeWhile is_digit rest;
       v = signed neg (decimal ds)
     in if ds \<noteq> [] \<and> int64_range v then Some v else None)"

definition Sscanf_d :: "string \<Rightarrow> int option" where
  "Sscanf_d s = (case skip_space s of None \<Rightarrow> None | Some t \<Rightarrow> scan_int t)"

text \<open>Printing: \<open>%d\<close> of a non-negative number, \<open>%v\<close> of a string slice, hexadecimal digits.\<close>

definition digit_char :: "nat \<Rightarrow> char" where
  "digit_char n = char_of (n + 48)"

function show_nat :: "nat \<Rightarrow> string" where
  "show_nat n = (if n < 10 then [digit_char n] else show_nat (n div 10) @ [digit_char (n mod 10)])"
  by pat_completeness auto
termination
  by (relation "measure id") auto

declare show_nat.simps [simp del]

fun join :: "string \<Rightarrow> string list \<Rightarrow> string" where
  "join sep [] = []"
| "join sep [x] = x"
| "join sep (x # y # ys) = x @ sep @ join sep (y # ys)"

definition show_strings :: "string list \<Rightarrow> string" where
  "show_strings xs = ''['' @ join '' '' xs @ '']''"

definition hex_digit :: "nat \<Rightarrow> char" where
  "hex_digit n = (if n < 10 then char_of (n + 48) else char_of (n + 87))"

definition EncodeToString :: "8 word list \<Rightarrow> string" where
  "EncodeToString bs = concat (map (\<lambda>b. [hex_digit (unat b div 16), hex_digit (unat b mod 16)]) bs)"

lemma length_EncodeToString [simp]: "length (EncodeToString bs) = 2 * length bs"
  by (induction bs) (auto simp: EncodeToString_def)

lemma EncodeToString_digits: "list_all (\<lambda>c. \<exists>n < 16. c = hex_digit n) (EncodeToString bs)"
proof -
  have "unat b div 16 < 16" for b :: "8 word"
  proof -
    have "unat b < 2 ^ 8" using unsigned_less [of b] by simp
    then show ?thesis by (simp add: less_mult_imp_div_less)
  qed
  then have "\<exists>n < 16. hex_digit (unat b div 16) = hex_digit n" for b :: "8 word" by blast
  moreover have "\<exists>n < 16. hex_digit (unat b mod 16) = hex_digit n" for b :: "8 word"
    by (rule exI [of _ "unat b mod 16"]) simp
  ultimately show ?thesis by (induction bs) (simp_all add: EncodeToString_def)
qed

lemma is_digit_digit_char [simp]: "n < 10 \<Longrightarrow> is_digit (digit_char n)"
  by (simp add: is_digit_def digit_char_def)

lemma digit_value_digit_char [simp]: "n < 10 \<Longrightarrow> digit_value (digit_char n) = n"
  by (simp add: digit_value_def digit_char_def)

lemma decimal_snoc [simp]: "decimal (s @ [c]) = 10 * decimal s + digit_value c"
  by (simp add: decimal_def)

lemma decimal_show_nat [simp]: "decimal (show_nat n) = n"
proof (induction n rule: show_nat.induct)
  case (1 n)
  show ?case
  proof (cases "n < 10")
    case True
    then show ?thesis
      by (simp add: show_nat.simps [of n] decimal_def)
  next
    case False
    with 1 show ?thesis
      by (simp add: show_nat.simps [of n])
  qed
qed

lemma show_nat_digits: "list_all is_digit (show_nat n)"
proof (induction n rule: show_nat.induct)
  case (1 n)
  then show ?case by (cases "n < 10") (simp_all add: show_nat.simps [of n])
qed

lemma show_nat_nonempty [simp]: "show_nat n \<noteq> []"
  by (simp add: show_nat.simps [of n])

lemma is_digit_not_sign: "is_digit c \<Longrightarrow> c \<noteq> CHR ''-'' \<and> c \<noteq> CHR ''+''"
  by (auto simp: is_digit_def)

lemma wide_spaces_hd: "e \<in> set wide_spaces \<Longrightarrow> e \<noteq> [] \<and> \<not> is_digit (hd e)"
  by (auto simp: wide_spaces_def is_digit_def)

lemma is_digit_not_space:
  assumes "is_digit c"
  shows "c \<notin> set ascii_spaces" "find (HasPrefix (c # cs)) wide_spaces = None"
proof -
  show "c \<notin> set ascii_spaces"
    using assms by (auto simp: is_digit_def ascii_spaces_def)
  have "\<not> HasPrefix (c # cs) e" if "e \<in> set wide_spaces" for e
    using wide_spaces_hd [OF that] assms by (cases e) (auto simp: HasPrefix_def)
  then show "find (HasPrefix (c # cs)) wide_spaces = None"
    by (auto simp: find_None_iff)
qed

lemma leading_space_digit: "is_digit c \<Longrightarrow> leading_space (c # cs) = 0"
  by (simp add: leading_space_def is_digit_not_space)

lemma split_sign_digits: "list_all is_digit s \<Longrightarrow> split_sign s = (False, s)"
  by (cases s) (auto simp: split_sign_def dest: is_digit_not_sign)

lemma takeWhile_digits: "list_all is_digit s \<Longrightarrow> takeWhile is_digit s = s"
  by (simp add: list_all_iff)

lemma Sscanf_d_digits:
  assumes "list_all is_digit s" and "s \<noteq> []" and "decimal s < 2 ^ 63"
  shows "Sscanf_d s = Some (int (decimal s))"
proof -
  obtain c cs where s: "s = c # cs" using assms(2) by (cases s) auto
  have c: "is_digit c" using assms(1) s by simp
  then have "c \<noteq> CHR 0x0A" by (auto simp: is_digit_def)
  with c s have "skip_space s = Some s"
    by (simp add: skip_space.simps [of "c # cs"] leading_space_digit)
  with assms show ?thesis
    by (simp add: Sscanf_d_def scan_int_def split_sign_digits takeWhile_digits signed_def int64_range_def)
qed

section \<open>int64 and time\<close>

type_synonym int64 = "64 word"

text \<open>Go's \<open>/\<close> on \<open>int64\<close> truncates towards zero.\<close>

definition int64_div :: "int64 \<Rightarrow> int64 \<Rightarrow> int64" where
  "int64_div a b = word_of_int (sint a sdiv sint b)"

text \<open>\<open>time.Duration\<close> is an \<open>int64\<close> of nanoseconds.\<close>

type_synonym duration = int64

definition Second :: duration where "Second = 1000000000"

definition Minute :: duration where "Minute = 60000000000"

text \<open>
  \<open>time.Time\<close> is an instant: nanoseconds since the Unix epoch, of unbounded range. \<open>UnixNano\<close>
  keeps the low 64 bits, \<open>Add\<close> and \<open>Before\<close> are exact. The zero time is 1 January of year 1.
\<close>

type_synonym time = int

definition zero_time :: time where
  "zero_time = - 62135596800000000000"

definition UnixNano :: "time \<Rightarrow> int64" where
  "UnixNano t = word_of_int t"

definition time_of_nanos :: "int64 \<Rightarrow> time" where
  "time_of_nanos n = sint n"

definition time_add :: "time \<Rightarrow> duration \<Rightarrow> time" where
  "time_add t d = t + sint d"

text \<open>\<open>(*metav1.Time).IsZero\<close>: true of a nil pointer and of the zero time.\<close>

definition IsZero :: "time option \<Rightarrow> bool" where
  "IsZero t = (case t of None \<Rightarrow> True | Some x \<Rightarrow> x = zero_time)"

lemma sint_word_of_int_range: "int64_range i \<Longrightarrow> sint (word_of_int i :: int64) = i"
  unfolding int64_range_def by transfer (simp add: signed_take_bit_int_eq_self)

end
