(* ===== verification/Kube.thy ===== *)
theory Kube
  imports Go_Std
begin

text \<open>
  The vocabulary the operator shares with the Kubernetes API: errors, the objects it reads and
  writes (the fields its code uses), the client it calls, and the history of those calls.

  The API server, controller-runtime and apimachinery are not part of this repository. They are
  one parameter, a record \<open>kube\<close> with a field per operation the code calls: each field takes the
  request and the outside state and gives the answer and the next outside state. Nothing is
  assumed of it here; what a theorem relies on it states as a hypothesis.
\<close>

section \<open>Errors\<close>

text \<open>
  A non-nil Go \<open>error\<close>. The API client's errors carry a status reason, which the classifiers of
  \<open>k8s.io/apimachinery/pkg/api/errors\<close> read, also through \<open>fmt.Errorf\<close> with \<open>%w\<close>; errors made
  by \<open>fmt.Errorf\<close> without \<open>%w\<close> are plain text.
\<close>

datatype reason = NotFound | AlreadyExists | OtherReason

datatype gerr =
    ApiError reason string
  | Text string
  | Wrap string gerr string

type_synonym 'a reply = "gerr + 'a"  \<comment> \<open>\<open>(value, error)\<close>\<close>
type_synonym error = "gerr option"   \<comment> \<open>\<open>error\<close>, \<open>None\<close> for nil\<close>

primrec error_text :: "gerr \<Rightarrow> string" where
  "error_text (ApiError _ msg) = msg"
| "error_text (Text msg) = msg"
| "error_text (Wrap a e b) = a @ error_text e @ b"

primrec reason_of :: "gerr \<Rightarrow> reason" where
  "reason_of (ApiError r _) = r"
| "reason_of (Text _) = OtherReason"
| "reason_of (Wrap _ e _) = reason_of e"

definition IsNotFound :: "gerr \<Rightarrow> bool" where
  "IsNotFound e \<longleftrightarrow> reason_of e = NotFound"

definition IsAlreadyExists :: "gerr \<Rightarrow> bool" where
  "IsAlreadyExists e \<longleftrightarrow> reason_of e = AlreadyExists"

definition IgnoreNotFound :: "error \<Rightarrow> error" where
  "IgnoreNotFound r = (case r of None \<Rightarrow> None | Some e \<Rightarrow> if IsNotFound e then None else Some e)"

lemma IsNotFound_Wrap [simp]: "IsNotFound (Wrap a e b) = IsNotFound e"
  by (simp add: IsNotFound_def)

lemma IgnoreNotFound_nil [simp]: "IgnoreNotFound None = None"
  by (simp add: IgnoreNotFound_def)

lemma IgnoreNotFound_None_iff [simp]:
  "IgnoreNotFound r = None \<longleftrightarrow> (\<forall>e. r = Some e \<longrightarrow> IsNotFound e)"
  by (auto simp: IgnoreNotFound_def split: option.splits)

lemma IgnoreNotFound_Some_iff [simp]:
  "IgnoreNotFound r = Some e \<longleftrightarrow> r = Some e \<and> \<not> IsNotFound e"
  by (auto simp: IgnoreNotFound_def split: option.splits)

section \<open>Objects\<close>

type_synonym labels = "string \<rightharpoonup> string"

text \<open>A namespaced object's key: namespace and name.\<close>

type_synonym key = "string \<times> string"

text \<open>Reading a Go map: the zero value where the key is missing.\<close>

definition label :: "labels \<Rightarrow> string \<Rightarrow> string" where
  "label m k = (case m k of None \<Rightarrow> [] | Some v \<Rightarrow> v)"

text \<open>\<open>resource.Quantity\<close> is only copied; its zero value prints as 0.\<close>

datatype quantity = Quantity string

definition zero_quantity :: quantity where
  "zero_quantity = Quantity ''0''"

record resources =
  limits :: "string \<rightharpoonup> quantity"
  requests :: "string \<rightharpoonup> quantity"

record pvc =
  pvc_name :: string
  pvc_namespace :: string
  pvc_labels :: labels
  pvc_annotations :: labels
  pvc_finalizers :: "string list"
  pvc_deletionTimestamp :: "time option"
  pvc_accessModes :: "string list"
  pvc_resources :: resources
  pvc_storageClassName :: "string option"
  pvc_volumeMode :: "string option"
  pvc_volumeName :: string
  pvc_phase :: string

abbreviation pvc_key :: "pvc \<Rightarrow> key" where
  "pvc_key p \<equiv> (pvc_namespace p, pvc_name p)"

record object_reference =
  ref_kind :: string
  ref_namespace :: string
  ref_name :: string
  ref_uid :: string
  ref_apiVersion :: string
  ref_resourceVersion :: string

record pv =
  pv_name :: string
  pv_claimRef :: "object_reference option"
  pv_reclaimPolicy :: string

record secret =
  secret_name :: string
  secret_namespace :: string
  secret_stringData :: labels

text \<open>VolSync's ReplicationSource.\<close>

record rs_trigger_spec =
  schedule :: "string option"
  manual :: string

record rs_rsync_tls =
  rst_keySecret :: "string option"
  rst_address :: "string option"
  rst_copyMethod :: string
  rst_storageClassName :: "string option"
  rst_accessModes :: "string list"

record rs_status =
  lastManualSync :: string
  lastSyncTime :: "time option"

record rs =
  rs_name :: string
  rs_namespace :: string
  rs_labels :: labels
  rs_sourcePVC :: string
  rs_trigger :: "rs_trigger_spec option"
  rs_paused :: bool
  rs_rsyncTLS :: "rs_rsync_tls option"
  rs_stat :: "rs_status option"

abbreviation rs_key :: "rs \<Rightarrow> key" where
  "rs_key r \<equiv> (rs_namespace r, rs_name r)"

text \<open>VolSync's ReplicationDestination.\<close>

record rd_rsync_tls =
  rdt_serviceType :: "string option"
  rdt_keySecret :: "string option"
  rdt_copyMethod :: string
  rdt_capacity :: "quantity option"
  rdt_storageClassName :: "string option"
  rdt_accessModes :: "string list"
  rdt_destinationPVC :: "string option"

record rd_tls_status =
  rds_address :: "string option"
  rds_keySecret :: "string option"

record rd =
  rd_name :: string
  rd_namespace :: string
  rd_labels :: labels
  rd_rsyncTLS :: "rd_rsync_tls option"
  rd_stat :: "rd_tls_status option option"  \<comment> \<open>\<open>Status\<close>, then \<open>Status.RsyncTLS\<close>\<close>

abbreviation rd_key :: "rd \<Rightarrow> key" where
  "rd_key r \<equiv> (rd_namespace r, rd_name r)"

datatype owner_ref = OwnerRef (ow_apiVersion: string) (ow_kind: string) (ow_name: string) (ow_uid: string)

record service_export =
  se_name :: string
  se_namespace :: string
  se_group :: string
  se_kind :: string
  se_version :: string
  se_ownerRefs :: "owner_ref list"

text \<open>Ramen's VolumeReplicationGroup, pods (for each volume, the claim it mounts, if any).\<close>

record vrg =
  vrg_name :: string
  vrg_namespace :: string
  vrg_action :: string
  vrg_replicationState :: string
  vrg_state :: string

record pod =
  pod_name :: string
  pod_namespace :: string
  pod_labels :: labels
  pod_volumes :: "string option list"

abbreviation pod_key :: "pod \<Rightarrow> key" where
  "pod_key p \<equiv> (pod_namespace p, pod_name p)"

text \<open>Label selectors: the API's form, and the parsed one, a conjunction of requirements.\<close>

record requirement =
  req_key :: string
  req_operator :: string
  req_values :: "string list"

record label_selector =
  matchLabels :: "(string \<times> string) list"
  matchExpressions :: "requirement list"

type_synonym selector = "requirement list"

text \<open>The VolumeGroupReplication, its class, and its status conditions.\<close>

record condition =
  cond_type :: string
  cond_status :: string
  cond_reason :: string
  cond_message :: string
  cond_lastTransitionTime :: time
  cond_observedGeneration :: int

record vgr =
  vgr_name :: string
  vgr_namespace :: string
  vgr_labels :: labels
  vgr_finalizers :: "string list"
  vgr_generation :: int
  vgr_deletionTimestamp :: "time option"
  vgr_className :: string
  vgr_replicationState :: string
  vgr_selector :: "label_selector option"
  vgr_state :: string
  vgr_pvcRefs :: "string list"
  vgr_lastSyncTime :: "time option"
  vgr_observedGeneration :: int
  vgr_conditions :: "condition list"

abbreviation vgr_key :: "vgr \<Rightarrow> key" where
  "vgr_key v \<equiv> (vgr_namespace v, vgr_name v)"

record vgr_class =
  class_labels :: labels
  class_provisioner :: string
  class_parameters :: labels

text \<open>\<open>client.ListOption\<close>s: a namespace, labels that must match, a selector.\<close>

record list_options =
  inNamespace :: "string option"
  matchingLabels :: "(string \<times> string) list"
  matchingSelector :: selector

section \<open>The client\<close>

text \<open>
  One field per operation. \<open>Update\<close>, \<open>Status().Update\<close>, \<open>Create\<close> and \<open>CreateOrUpdate\<close> give
  the object the caller's variable holds afterwards (the server's version). The last five fields
  are pure functions of controller-runtime and apimachinery.
\<close>

record 'c kube =
  k_get_vgr :: "key \<Rightarrow> 'c \<Rightarrow> vgr reply \<times> 'c"
  k_list_vgr :: "list_options \<Rightarrow> 'c \<Rightarrow> vgr list reply \<times> 'c"
  k_update_vgr :: "vgr \<Rightarrow> 'c \<Rightarrow> vgr reply \<times> 'c"
  k_status_vgr :: "vgr \<Rightarrow> 'c \<Rightarrow> vgr reply \<times> 'c"
  k_get_class :: "string \<Rightarrow> 'c \<Rightarrow> vgr_class reply \<times> 'c"
  k_get_vrg :: "key \<Rightarrow> 'c \<Rightarrow> vrg reply \<times> 'c"
  k_list_vrg :: "list_options \<Rightarrow> 'c \<Rightarrow> vrg list reply \<times> 'c"
  k_get_pvc :: "key \<Rightarrow> 'c \<Rightarrow> pvc reply \<times> 'c"
  k_list_pvc :: "list_options \<Rightarrow> 'c \<Rightarrow> pvc list reply \<times> 'c"
  k_create_pvc :: "pvc \<Rightarrow> 'c \<Rightarrow> pvc reply \<times> 'c"
  k_update_pvc :: "pvc \<Rightarrow> 'c \<Rightarrow> pvc reply \<times> 'c"
  k_delete_pvc :: "key \<Rightarrow> 'c \<Rightarrow> error \<times> 'c"
  k_get_pv :: "string \<Rightarrow> 'c \<Rightarrow> pv reply \<times> 'c"
  k_update_pv :: "pv \<Rightarrow> 'c \<Rightarrow> pv reply \<times> 'c"
  k_get_secret :: "key \<Rightarrow> 'c \<Rightarrow> secret reply \<times> 'c"
  k_get_rs :: "key \<Rightarrow> 'c \<Rightarrow> rs reply \<times> 'c"
  k_list_rs :: "list_options \<Rightarrow> 'c \<Rightarrow> rs list reply \<times> 'c"
  k_update_rs :: "rs \<Rightarrow> 'c \<Rightarrow> rs reply \<times> 'c"
  k_delete_rs :: "key \<Rightarrow> 'c \<Rightarrow> error \<times> 'c"
  k_apply_rs :: "key \<Rightarrow> (rs \<Rightarrow> rs reply) \<Rightarrow> 'c \<Rightarrow> rs reply \<times> 'c"
  k_get_rd :: "key \<Rightarrow> 'c \<Rightarrow> rd reply \<times> 'c"
  k_list_rd :: "list_options \<Rightarrow> 'c \<Rightarrow> rd list reply \<times> 'c"
  k_delete_rd :: "key \<Rightarrow> 'c \<Rightarrow> error \<times> 'c"
  k_apply_rd :: "key \<Rightarrow> (rd \<Rightarrow> rd reply) \<Rightarrow> 'c \<Rightarrow> rd reply \<times> 'c"
  k_apply_export :: "service_export \<Rightarrow> (service_export \<Rightarrow> service_export reply) \<Rightarrow> 'c \<Rightarrow> service_export reply \<times> 'c"
  k_list_pod :: "list_options \<Rightarrow> 'c \<Rightarrow> pod list reply \<times> 'c"
  k_delete_pod :: "key \<Rightarrow> 'c \<Rightarrow> error \<times> 'c"
  k_delete_job :: "key \<Rightarrow> 'c \<Rightarrow> error \<times> 'c"
  k_now :: "'c \<Rightarrow> time \<times> 'c"
  k_rand :: "nat \<Rightarrow> 'c \<Rightarrow> 8 word list reply \<times> 'c"
  k_contains_finalizer :: "string list \<Rightarrow> string \<Rightarrow> bool"
  k_add_finalizer :: "string list \<Rightarrow> string \<Rightarrow> string list"
  k_remove_finalizer :: "string list \<Rightarrow> string \<Rightarrow> string list"
  k_set_owner :: "key \<Rightarrow> owner_ref list \<Rightarrow> owner_ref list reply"
  k_selector :: "label_selector \<Rightarrow> selector reply"
  k_requirement :: "string \<Rightarrow> string \<Rightarrow> string list \<Rightarrow> requirement option \<times> error"

text \<open>
  What the documentation of controllerutil says of the finalizer functions: the test is
  membership, adding appends what is missing, removing drops every occurrence.
\<close>

definition finalizer_functions :: "'c kube \<Rightarrow> bool" where
  "finalizer_functions K \<longleftrightarrow>
     (\<forall>fs f. k_contains_finalizer K fs f = (f \<in> set fs) \<and>
        k_add_finalizer K fs f = (if f \<in> set fs then fs else fs @ [f]) \<and>
        k_remove_finalizer K fs f = removeAll f fs)"

lemma finalizer_laws:
  assumes "finalizer_functions K"
  shows "k_contains_finalizer K fs f \<longleftrightarrow> f \<in> set fs"
    "k_add_finalizer K fs f = (if f \<in> set fs then fs else fs @ [f])"
    "k_remove_finalizer K fs f = removeAll f fs"
  using assms by (simp_all add: finalizer_functions_def)

section \<open>The history\<close>

datatype event =
    E_get_vgr key "vgr reply"
  | E_list_vgr list_options "vgr list reply"
  | E_update_vgr vgr "vgr reply"
  | E_status_vgr vgr "vgr reply"
  | E_get_class string "vgr_class reply"
  | E_get_vrg key "vrg reply"
  | E_list_vrg list_options "vrg list reply"
  | E_get_pvc key "pvc reply"
  | E_list_pvc list_options "pvc list reply"
  | E_create_pvc pvc "pvc reply"
  | E_update_pvc pvc "pvc reply"
  | E_delete_pvc key error
  | E_get_pv string "pv reply"
  | E_update_pv pv "pv reply"
  | E_get_secret key "secret reply"
  | E_get_rs key "rs reply"
  | E_list_rs list_options "rs list reply"
  | E_update_rs rs "rs reply"
  | E_delete_rs key error
  | E_apply_rs key "rs \<Rightarrow> rs reply" "rs reply"
  | E_get_rd key "rd reply"
  | E_list_rd list_options "rd list reply"
  | E_delete_rd key error
  | E_apply_rd key "rd \<Rightarrow> rd reply" "rd reply"
  | E_apply_export service_export "service_export \<Rightarrow> service_export reply" "service_export reply"
  | E_list_pod list_options "pod list reply"
  | E_delete_pod key error
  | E_delete_job key error
  | E_now time
  | E_rand nat "8 word list reply"

type_synonym ('c, 'a) kop = "('c, event, 'a) op"

definition GetVGR :: "'c kube \<Rightarrow> key \<Rightarrow> ('c, vgr reply) kop" where
  "GetVGR K k = perform (k_get_vgr K k) (E_get_vgr k)"

definition ListVGR :: "'c kube \<Rightarrow> list_options \<Rightarrow> ('c, vgr list reply) kop" where
  "ListVGR K opts = perform (k_list_vgr K opts) (E_list_vgr opts)"

definition UpdateVGR :: "'c kube \<Rightarrow> vgr \<Rightarrow> ('c, vgr reply) kop" where
  "UpdateVGR K v = perform (k_update_vgr K v) (E_update_vgr v)"

definition StatusUpdateVGR :: "'c kube \<Rightarrow> vgr \<Rightarrow> ('c, vgr reply) kop" where
  "StatusUpdateVGR K v = perform (k_status_vgr K v) (E_status_vgr v)"

definition GetClass :: "'c kube \<Rightarrow> string \<Rightarrow> ('c, vgr_class reply) kop" where
  "GetClass K n = perform (k_get_class K n) (E_get_class n)"

definition GetVRG :: "'c kube \<Rightarrow> key \<Rightarrow> ('c, vrg reply) kop" where
  "GetVRG K k = perform (k_get_vrg K k) (E_get_vrg k)"

definition ListVRG :: "'c kube \<Rightarrow> list_options \<Rightarrow> ('c, vrg list reply) kop" where
  "ListVRG K opts = perform (k_list_vrg K opts) (E_list_vrg opts)"

definition GetPVC :: "'c kube \<Rightarrow> key \<Rightarrow> ('c, pvc reply) kop" where
  "GetPVC K k = perform (k_get_pvc K k) (E_get_pvc k)"

definition ListPVC :: "'c kube \<Rightarrow> list_options \<Rightarrow> ('c, pvc list reply) kop" where
  "ListPVC K opts = perform (k_list_pvc K opts) (E_list_pvc opts)"

definition CreatePVC :: "'c kube \<Rightarrow> pvc \<Rightarrow> ('c, pvc reply) kop" where
  "CreatePVC K p = perform (k_create_pvc K p) (E_create_pvc p)"

definition UpdatePVC :: "'c kube \<Rightarrow> pvc \<Rightarrow> ('c, pvc reply) kop" where
  "UpdatePVC K p = perform (k_update_pvc K p) (E_update_pvc p)"

definition DeletePVC :: "'c kube \<Rightarrow> key \<Rightarrow> ('c, error) kop" where
  "DeletePVC K k = perform (k_delete_pvc K k) (E_delete_pvc k)"

definition GetPV :: "'c kube \<Rightarrow> string \<Rightarrow> ('c, pv reply) kop" where
  "GetPV K n = perform (k_get_pv K n) (E_get_pv n)"

definition UpdatePV :: "'c kube \<Rightarrow> pv \<Rightarrow> ('c, pv reply) kop" where
  "UpdatePV K p = perform (k_update_pv K p) (E_update_pv p)"

definition GetSecret :: "'c kube \<Rightarrow> key \<Rightarrow> ('c, secret reply) kop" where
  "GetSecret K k = perform (k_get_secret K k) (E_get_secret k)"

definition GetRS :: "'c kube \<Rightarrow> key \<Rightarrow> ('c, rs reply) kop" where
  "GetRS K k = perform (k_get_rs K k) (E_get_rs k)"

definition ListRS :: "'c kube \<Rightarrow> list_options \<Rightarrow> ('c, rs list reply) kop" where
  "ListRS K opts = perform (k_list_rs K opts) (E_list_rs opts)"

definition UpdateRS :: "'c kube \<Rightarrow> rs \<Rightarrow> ('c, rs reply) kop" where
  "UpdateRS K r = perform (k_update_rs K r) (E_update_rs r)"

definition DeleteRSObject :: "'c kube \<Rightarrow> key \<Rightarrow> ('c, error) kop" where
  "DeleteRSObject K k = perform (k_delete_rs K k) (E_delete_rs k)"

definition CreateOrUpdateRS :: "'c kube \<Rightarrow> key \<Rightarrow> (rs \<Rightarrow> rs reply) \<Rightarrow> ('c, rs reply) kop" where
  "CreateOrUpdateRS K k f = perform (k_apply_rs K k f) (E_apply_rs k f)"

definition GetRD :: "'c kube \<Rightarrow> key \<Rightarrow> ('c, rd reply) kop" where
  "GetRD K k = perform (k_get_rd K k) (E_get_rd k)"

definition ListRD :: "'c kube \<Rightarrow> list_options \<Rightarrow> ('c, rd list reply) kop" where
  "ListRD K opts = perform (k_list_rd K opts) (E_list_rd opts)"

definition DeleteRDObject :: "'c kube \<Rightarrow> key \<Rightarrow> ('c, error) kop" where
  "DeleteRDObject K k = perform (k_delete_rd K k) (E_delete_rd k)"

definition CreateOrUpdateRD :: "'c kube \<Rightarrow> key \<Rightarrow> (rd \<Rightarrow> rd reply) \<Rightarrow> ('c, rd reply) kop" where
  "CreateOrUpdateRD K k f = perform (k_apply_rd K k f) (E_apply_rd k f)"

definition CreateOrUpdateExport :: "'c kube \<Rightarrow> service_export \<Rightarrow>
    (service_export \<Rightarrow> service_export reply) \<Rightarrow> ('c, service_export reply) kop" where
  "CreateOrUpdateExport K e f = perform (k_apply_export K e f) (E_apply_export e f)"

definition ListPod :: "'c kube \<Rightarrow> list_options \<Rightarrow> ('c, pod list reply) kop" where
  "ListPod K opts = perform (k_list_pod K opts) (E_list_pod opts)"

definition DeletePod :: "'c kube \<Rightarrow> key \<Rightarrow> ('c, error) kop" where
  "DeletePod K k = perform (k_delete_pod K k) (E_delete_pod k)"

definition DeleteJob :: "'c kube \<Rightarrow> key \<Rightarrow> ('c, error) kop" where
  "DeleteJob K k = perform (k_delete_job K k) (E_delete_job k)"

definition Now :: "'c kube \<Rightarrow> ('c, time) kop" where
  "Now K = perform (k_now K) E_now"

definition RandRead :: "'c kube \<Rightarrow> nat \<Rightarrow> ('c, 8 word list reply) kop" where
  "RandRead K n = perform (k_rand K n) (E_rand n)"

lemmas client_defs =
  GetVGR_def ListVGR_def UpdateVGR_def StatusUpdateVGR_def GetClass_def GetVRG_def ListVRG_def
  GetPVC_def ListPVC_def CreatePVC_def UpdatePVC_def DeletePVC_def GetPV_def UpdatePV_def
  GetSecret_def GetRS_def ListRS_def UpdateRS_def DeleteRSObject_def CreateOrUpdateRS_def
  GetRD_def ListRD_def DeleteRDObject_def CreateOrUpdateRD_def CreateOrUpdateExport_def
  ListPod_def DeletePod_def DeleteJob_def Now_def RandRead_def

text \<open>The calculus's rules for single calls: any answer is possible.\<close>

lemma client_post [vcg]:
  "(\<And>r. Q0 [E_get_vgr k r] r) \<Longrightarrow> post (GetVGR K k) Q0"
  "(\<And>r. Q1 [E_list_vgr opts r] r) \<Longrightarrow> post (ListVGR K opts) Q1"
  "(\<And>r. Q2 [E_update_vgr g r] r) \<Longrightarrow> post (UpdateVGR K g) Q2"
  "(\<And>r. Q3 [E_status_vgr g r] r) \<Longrightarrow> post (StatusUpdateVGR K g) Q3"
  "(\<And>r. Q4 [E_get_class n r] r) \<Longrightarrow> post (GetClass K n) Q4"
  "(\<And>r. Q5 [E_get_vrg k r] r) \<Longrightarrow> post (GetVRG K k) Q5"
  "(\<And>r. Q6 [E_list_vrg opts r] r) \<Longrightarrow> post (ListVRG K opts) Q6"
  "(\<And>r. Q7 [E_get_pvc k r] r) \<Longrightarrow> post (GetPVC K k) Q7"
  "(\<And>r. Q8 [E_list_pvc opts r] r) \<Longrightarrow> post (ListPVC K opts) Q8"
  "(\<And>r. Q9 [E_create_pvc p r] r) \<Longrightarrow> post (CreatePVC K p) Q9"
  "(\<And>r. Q10 [E_update_pvc p r] r) \<Longrightarrow> post (UpdatePVC K p) Q10"
  "(\<And>r. Q11 [E_delete_pvc k r] r) \<Longrightarrow> post (DeletePVC K k) Q11"
  "(\<And>r. Q12 [E_get_pv pn r] r) \<Longrightarrow> post (GetPV K pn) Q12"
  "(\<And>r. Q13 [E_update_pv v1 r] r) \<Longrightarrow> post (UpdatePV K v1) Q13"
  "(\<And>r. Q14 [E_get_secret k r] r) \<Longrightarrow> post (GetSecret K k) Q14"
  "(\<And>r. Q15 [E_get_rs k r] r) \<Longrightarrow> post (GetRS K k) Q15"
  "(\<And>r. Q16 [E_list_rs opts r] r) \<Longrightarrow> post (ListRS K opts) Q16"
  "(\<And>r. Q17 [E_update_rs s r] r) \<Longrightarrow> post (UpdateRS K s) Q17"
  "(\<And>r. Q18 [E_delete_rs k r] r) \<Longrightarrow> post (DeleteRSObject K k) Q18"
  "(\<And>r. Q19 [E_apply_rs k fs r] r) \<Longrightarrow> post (CreateOrUpdateRS K k fs) Q19"
  "(\<And>r. Q20 [E_get_rd k r] r) \<Longrightarrow> post (GetRD K k) Q20"
  "(\<And>r. Q21 [E_list_rd opts r] r) \<Longrightarrow> post (ListRD K opts) Q21"
  "(\<And>r. Q22 [E_delete_rd k r] r) \<Longrightarrow> post (DeleteRDObject K k) Q22"
  "(\<And>r. Q23 [E_apply_rd k fd r] r) \<Longrightarrow> post (CreateOrUpdateRD K k fd) Q23"
  "(\<And>r. Q24 [E_apply_export x fx r] r) \<Longrightarrow> post (CreateOrUpdateExport K x fx) Q24"
  "(\<And>r. Q25 [E_list_pod opts r] r) \<Longrightarrow> post (ListPod K opts) Q25"
  "(\<And>r. Q26 [E_delete_pod k r] r) \<Longrightarrow> post (DeletePod K k) Q26"
  "(\<And>r. Q27 [E_delete_job k r] r) \<Longrightarrow> post (DeleteJob K k) Q27"
  "(\<And>r. Q28 [E_now r] r) \<Longrightarrow> post (Now K) Q28"
  "(\<And>r. Q29 [E_rand m r] r) \<Longrightarrow> post (RandRead K m) Q29"
  by (simp_all add: client_defs post_perform)

lemma client_emits [emits_intros]:
  "(\<And>r. A (E_get_vgr k r)) \<Longrightarrow> emits A (GetVGR K k)"
  "(\<And>r. A (E_list_vgr opts r)) \<Longrightarrow> emits A (ListVGR K opts)"
  "(\<And>r. A (E_update_vgr g r)) \<Longrightarrow> emits A (UpdateVGR K g)"
  "(\<And>r. A (E_status_vgr g r)) \<Longrightarrow> emits A (StatusUpdateVGR K g)"
  "(\<And>r. A (E_get_class n r)) \<Longrightarrow> emits A (GetClass K n)"
  "(\<And>r. A (E_get_vrg k r)) \<Longrightarrow> emits A (GetVRG K k)"
  "(\<And>r. A (E_list_vrg opts r)) \<Longrightarrow> emits A (ListVRG K opts)"
  "(\<And>r. A (E_get_pvc k r)) \<Longrightarrow> emits A (GetPVC K k)"
  "(\<And>r. A (E_list_pvc opts r)) \<Longrightarrow> emits A (ListPVC K opts)"
  "(\<And>r. A (E_create_pvc p r)) \<Longrightarrow> emits A (CreatePVC K p)"
  "(\<And>r. A (E_update_pvc p r)) \<Longrightarrow> emits A (UpdatePVC K p)"
  "(\<And>r. A (E_delete_pvc k r)) \<Longrightarrow> emits A (DeletePVC K k)"
  "(\<And>r. A (E_get_pv pn r)) \<Longrightarrow> emits A (GetPV K pn)"
  "(\<And>r. A (E_update_pv v1 r)) \<Longrightarrow> emits A (UpdatePV K v1)"
  "(\<And>r. A (E_get_secret k r)) \<Longrightarrow> emits A (GetSecret K k)"
  "(\<And>r. A (E_get_rs k r)) \<Longrightarrow> emits A (GetRS K k)"
  "(\<And>r. A (E_list_rs opts r)) \<Longrightarrow> emits A (ListRS K opts)"
  "(\<And>r. A (E_update_rs s r)) \<Longrightarrow> emits A (UpdateRS K s)"
  "(\<And>r. A (E_delete_rs k r)) \<Longrightarrow> emits A (DeleteRSObject K k)"
  "(\<And>r. A (E_apply_rs k fs r)) \<Longrightarrow> emits A (CreateOrUpdateRS K k fs)"
  "(\<And>r. A (E_get_rd k r)) \<Longrightarrow> emits A (GetRD K k)"
  "(\<And>r. A (E_list_rd opts r)) \<Longrightarrow> emits A (ListRD K opts)"
  "(\<And>r. A (E_delete_rd k r)) \<Longrightarrow> emits A (DeleteRDObject K k)"
  "(\<And>r. A (E_apply_rd k fd r)) \<Longrightarrow> emits A (CreateOrUpdateRD K k fd)"
  "(\<And>r. A (E_apply_export x fx r)) \<Longrightarrow> emits A (CreateOrUpdateExport K x fx)"
  "(\<And>r. A (E_list_pod opts r)) \<Longrightarrow> emits A (ListPod K opts)"
  "(\<And>r. A (E_delete_pod k r)) \<Longrightarrow> emits A (DeletePod K k)"
  "(\<And>r. A (E_delete_job k r)) \<Longrightarrow> emits A (DeleteJob K k)"
  "(\<And>r. A (E_now r)) \<Longrightarrow> emits A (Now K)"
  "(\<And>r. A (E_rand m r)) \<Longrightarrow> emits A (RandRead K m)"
  by (simp_all add: client_defs emits_perform)

text \<open>
  The server answers a read with an object of the key that was asked for. Theorems that follow an
  object through several calls take this as a hypothesis on the history.
\<close>

fun answer_keyed :: "event \<Rightarrow> bool" where
  "answer_keyed (E_get_pvc k (Inr p)) = (pvc_key p = k)"
| "answer_keyed (E_get_rs k (Inr s)) = (rs_key s = k)"
| "answer_keyed (E_get_rd k (Inr d)) = (rd_key d = k)"
| "answer_keyed _ = True"

definition keyed :: "event list \<Rightarrow> bool" where
  "keyed tr \<longleftrightarrow> list_all answer_keyed tr"

lemma keyed_simps [simp]:
  "keyed []" "keyed (e # tr) \<longleftrightarrow> answer_keyed e \<and> keyed tr"
  "keyed (tr @ tr') \<longleftrightarrow> keyed tr \<and> keyed tr'"
  by (simp_all add: keyed_def)

lemma keyed_pvc: "keyed tr \<Longrightarrow> E_get_pvc k (Inr p) \<in> set tr \<Longrightarrow> pvc_key p = k"
  by (auto simp: keyed_def list_all_iff)

end
