(* ===== verification/Schedule.thy ===== *)
theory Schedule
  imports Kube
begin

text \<open>
  Scheduling intervals: \<open>ConvertSchedulingIntervalToCronSpec\<close> and \<open>getScheduleCronSpec\<close> of
  internal/volsync/handler.go, \<open>ParseSchedulingInterval\<close> and \<open>isWithinScheduleWindow\<close> of
  internal/controller/primary_reconciler.go. All four are pure; the durations are \<open>int64\<close>
  nanoseconds, so the multiplication of \<open>ParseSchedulingInterval\<close> wraps as Go's does.
\<close>

section \<open>Cron specifications\<close>

definition SchedulingIntervalMinLength :: nat where
  "SchedulingIntervalMinLength = 2"

definition CronSpecMaxDayOfMonth :: int where
  "CronSpecMaxDayOfMonth = 28"

definition DefaultScheduleCronSpec :: string where
  "DefaultScheduleCronSpec = ''*/5 * * * *''"

text \<open>\<open>string([]rune(b)[0])\<close> for a one-byte string: a byte that is no rune by itself is U+FFFD.\<close>

definition rune_string :: "char \<Rightarrow> string" where
  "rune_string c =
     (if (of_char c :: nat) < 128 then [c] else [CHR 0xEF, CHR 0xBF, CHR 0xBD])"

definition lower_unit :: "string \<Rightarrow> string" where
  "lower_unit mhd =
     (if mhd = ''M'' then ''m'' else if mhd = ''H'' then ''h'' else if mhd = ''D'' then ''d'' else mhd)"

definition ConvertSchedulingIntervalToCronSpec :: "string \<Rightarrow> string reply" where
  "ConvertSchedulingIntervalToCronSpec schedulingInterval =
     (if length schedulingInterval < SchedulingIntervalMinLength
      then Inl (Text (''scheduling interval '' @ schedulingInterval @ '' is invalid''))
      else
        let mhd = lower_unit (rune_string (last schedulingInterval));
            num = butlast schedulingInterval
        in case Sscanf_d num of
             None \<Rightarrow> Inl (Text (''scheduling interval prefix '' @ num @
               '' cannot be converted to an int value''))
           | Some numInt \<Rightarrow>
               let cronSpec =
                     (if mhd = ''m'' then ''*/'' @ num @ '' * * * *''
                      else if mhd = ''h'' then ''0 */'' @ num @ '' * * *''
                      else if mhd = ''d'' then
                        ''0 0 */'' @ (if numInt > CronSpecMaxDayOfMonth then ''28'' else num) @ '' * *''
                      else [])
               in if cronSpec = []
                  then Inl (Text (''scheduling interval '' @ schedulingInterval @
                    '' is invalid. Unable to parse m/h/d''))
                  else Inr cronSpec)"

text \<open>The receiver's \<open>schedulingInterval\<close> field is the argument.\<close>

definition getScheduleCronSpec :: "string \<Rightarrow> string reply" where
  "getScheduleCronSpec schedulingInterval =
     (if schedulingInterval \<noteq> '''' \<and> schedulingInterval \<noteq> ''0m''
      then ConvertSchedulingIntervalToCronSpec schedulingInterval
      else Inr DefaultScheduleCronSpec)"

definition unit_chars :: "char list" where
  "unit_chars = ''mhdMHD''"

text \<open>The cron line of a unit (lower or upper case) and the text of its field.\<close>

definition cron_line :: "char \<Rightarrow> string \<Rightarrow> string" where
  "cron_line u field =
     (if u \<in> set ''mM'' then ''*/'' @ field @ '' * * * *''
      else if u \<in> set ''hH'' then ''0 */'' @ field @ '' * * *''
      else ''0 0 */'' @ field @ '' * *'')"

lemma convert_snoc:
  "ConvertSchedulingIntervalToCronSpec (num @ [u]) =
     (if num = [] then Inl (Text (''scheduling interval '' @ [u] @ '' is invalid''))
      else case Sscanf_d num of
        None \<Rightarrow> Inl (Text (''scheduling interval prefix '' @ num @
          '' cannot be converted to an int value''))
      | Some n \<Rightarrow>
          if u \<in> set unit_chars
          then Inr (cron_line u (if u \<in> set ''dD'' \<and> n > 28 then ''28'' else num))
          else Inl (Text (''scheduling interval '' @ num @ [u] @
            '' is invalid. Unable to parse m/h/d'')))"
  by (auto simp: ConvertSchedulingIntervalToCronSpec_def SchedulingIntervalMinLength_def
      CronSpecMaxDayOfMonth_def rune_string_def lower_unit_def cron_line_def unit_chars_def Let_def
      split: option.splits)

lemma Sscanf_d_prefix:
  assumes ds: "list_all is_digit ds" "ds \<noteq> []" "decimal ds < 2 ^ 63"
    and junk: "junk = [] \<or> \<not> is_digit (hd junk)"
  shows "Sscanf_d (ds @ junk) = Some (int (decimal ds))"
proof -
  obtain c cs where s: "ds = c # cs" using ds(2) by (cases ds) auto
  have c: "is_digit c" using ds(1) s by simp
  then have nl: "c \<noteq> CHR 0x0A" by (auto simp: is_digit_def)
  have skip: "skip_space (ds @ junk) = Some (ds @ junk)"
    using c nl s by (simp add: skip_space.simps [of "c # cs @ junk"] leading_space_digit)
  have sign: "split_sign (ds @ junk) = (False, ds @ junk)"
    using is_digit_not_sign [OF c] s by (simp add: split_sign_def)
  have "takeWhile is_digit (ds @ junk) = ds"
    using ds(1) junk by (cases junk) (auto simp: list_all_iff takeWhile_append2)
  with ds skip sign show ?thesis
    by (simp add: Sscanf_d_def scan_int_def signed_def int64_range_def)
qed

text \<open>
  C38: a well-formed interval (a decimal number below 2^63 and one of m, h, d in either case)
  becomes the cron line of its unit with that number as the step, days above 28 capped at 28.
\<close>

theorem convert_well_formed:
  assumes "list_all is_digit ds" and "ds \<noteq> []" and "decimal ds < 2 ^ 63"
    and "u \<in> set unit_chars"
  shows "ConvertSchedulingIntervalToCronSpec (ds @ [u]) =
     Inr (cron_line u (if u \<in> set ''dD'' \<and> decimal ds > 28 then ''28'' else ds))"
  using assms Sscanf_d_prefix [of ds "[]"] by (simp add: convert_snoc)

theorem convert_well_formed_witness:
  "ConvertSchedulingIntervalToCronSpec ''45D'' = Inr ''0 0 */28 * *''"
proof -
  have "list_all is_digit ''45''" "decimal ''45'' < 2 ^ 63" "CHR ''D'' \<in> set unit_chars"
    by (simp_all add: is_digit_def decimal_def digit_value_def unit_chars_def)
  from convert_well_formed [OF this(1) _ this(2,3)] show ?thesis
    by (simp add: cron_line_def decimal_def digit_value_def)
qed

text \<open>
  C2: the conversion fails exactly when the interval is shorter than two bytes, its prefix is no
  number for \<open>Sscanf\<close>, or its last byte is none of m, h, d in either case.
\<close>

theorem convert_error_iff:
  "(\<exists>e. ConvertSchedulingIntervalToCronSpec s = Inl e) \<longleftrightarrow>
     length s < 2 \<or> Sscanf_d (butlast s) = None \<or> last s \<notin> set unit_chars"
proof (cases s rule: rev_cases)
  case Nil
  then show ?thesis
    by (simp add: ConvertSchedulingIntervalToCronSpec_def SchedulingIntervalMinLength_def)
next
  case (snoc num u)
  then show ?thesis by (auto simp: convert_snoc split: option.splits)
qed

theorem convert_error_iff_witness:
  "(\<exists>e. ConvertSchedulingIntervalToCronSpec ''5x'' = Inl e) \<and>
   \<not> (\<exists>e. ConvertSchedulingIntervalToCronSpec ''5m'' = Inl e)"
proof -
  have "Sscanf_d ''5'' = Some 5"
    using Sscanf_d_prefix [of "''5''" "[]"] by (simp add: is_digit_def decimal_def digit_value_def)
  then show ?thesis
    unfolding convert_error_iff by (simp add: unit_chars_def)
qed

text \<open>
  C3: \<open>Sscanf\<close> stops at the first byte that is no digit and does not object to what follows, so
  text after the number is accepted and copied into the cron line: the result need not be a
  cron specification.
\<close>

lemma convert_accepts_trailing_text:
  assumes "list_all is_digit ds" and "ds \<noteq> []" and "decimal ds < 2 ^ 63"
    and "\<not> is_digit (hd junk)" and "junk \<noteq> []"
  shows "ConvertSchedulingIntervalToCronSpec (ds @ junk @ ''m'') =
     Inr (''*/'' @ ds @ junk @ '' * * * *'')"
  using convert_snoc [of "ds @ junk" "CHR ''m''"] Sscanf_d_prefix [of ds junk] assms
  by (simp add: unit_chars_def cron_line_def)

section \<open>Schedule windows\<close>

text \<open>
  The messages' quoted argument (\<open>%q\<close> of the interval) is left out: callers only log them.
\<close>

definition ParseSchedulingInterval :: "string \<Rightarrow> duration reply" where
  "ParseSchedulingInterval s0 =
     (let s = TrimSpace s0
      in if \<not> HasSuffix s ''m''
         then Inl (Text ''invalid schedulingInterval: must be in the form \"5m\", \"10m\", \"15m\"'')
         else case Atoi (TrimSuffix s ''m'') of
                None \<Rightarrow> Inl (Text ''invalid schedulingInterval: minute value must be a positive integer'')
              | Some minutes \<Rightarrow>
                  if minutes \<le> 0 then Inl (Text ''invalid schedulingInterval: minute value must be a positive integer'')
                  else Inr (word_of_int minutes * Minute))"

definition isWithinScheduleWindow :: "time \<Rightarrow> string \<Rightarrow> bool" where
  "isWithinScheduleWindow now schedulingInterval =
     (case ParseSchedulingInterval schedulingInterval of
        Inl _ \<Rightarrow> False
      | Inr interval \<Rightarrow>
          let minInterval = 5 * Minute; maxInterval = 15 * Minute; margin = Minute
          in if interval <s minInterval \<or> maxInterval <s interval then True
             else
               let lastTickNs = int64_div (UnixNano now) interval * interval;
                   lastTick = time_of_nanos lastTickNs;
                   nextTick = time_add lastTick interval;
                   windowStart = time_add lastTick margin;
                   windowEnd = time_add nextTick (- margin)
               in \<not> now < windowStart \<and> now < windowEnd)"

lemma TrimSpace_digits_unit:
  assumes "list_all is_digit ds" and "ds \<noteq> []"
  shows "TrimSpace (ds @ ''m'') = ds @ ''m''"
proof (rule TrimSpace_id)
  obtain c cs where "ds = c # cs" using assms(2) by (cases ds) auto
  then show "leading_space (ds @ ''m'') = 0"
    using assms(1) by (simp add: leading_space_digit)
  have "\<not> HasSuffix (ds @ ''m'') e" if "e \<in> set wide_spaces" for e
  proof
    assume "HasSuffix (ds @ ''m'') e"
    then have "last e = CHR ''m'' \<or> e = []"
      unfolding HasSuffix_suffix suffix_def by (metis last_append last_snoc)
    with that show False by (auto simp: wide_spaces_def)
  qed
  then have "find (HasSuffix (ds @ ''m'')) wide_spaces = None"
    by (auto simp: find_None_iff)
  then show "trailing_space (ds @ ''m'') = 0"
    by (simp add: trailing_space_def ascii_spaces_def)
qed

lemma parse_minutes:
  assumes "list_all is_digit ds" and "ds \<noteq> []" and "0 < decimal ds" and "decimal ds < 2 ^ 63"
  shows "ParseSchedulingInterval (ds @ ''m'') = Inr (of_nat (decimal ds) * Minute)"
  using assms
  by (simp add: ParseSchedulingInterval_def TrimSpace_digits_unit Atoi_def split_sign_digits
      signed_def int64_range_def Let_def)

lemma sint_minutes:
  assumes "n \<le> 153722867"
  shows "sint (of_nat n * Minute) = int n * 60000000000"
proof -
  have "(of_nat n * Minute :: int64) = word_of_int (int n * 60000000000)"
    by (simp add: Minute_def)
  moreover have "sint (word_of_int (int n * 60000000000) :: int64) = int n * 60000000000"
    using assms by (intro sint_word_of_int_range) (simp add: int64_range_def)
  ultimately show ?thesis by metis
qed

text \<open>
  Parsing what prints as \<open>n\<close> minutes gives exactly \<open>n\<close> minutes for every \<open>n\<close> from 1 to
  153722867, the largest number of minutes whose nanoseconds fit \<open>int64\<close>.
\<close>

lemma parse_minutes_exact:
  assumes "0 < n" and "n \<le> 153722867"
  shows "\<exists>d. ParseSchedulingInterval (show_nat n @ ''m'') = Inr d \<and> sint d = int n * 60000000000"
  using assms parse_minutes [of "show_nat n"] sint_minutes [of n] show_nat_digits [of n] by simp


lemma last_tick:
  fixes now :: int
  assumes "0 \<le> now" and "now < 2 ^ 63" and d: "sint d = D" "0 < D"
  shows "sint (int64_div (UnixNano now) d * d) = now div D * D"
proof -
  have n: "sint (UnixNano now) = now"
    using assms by (simp add: UnixNano_def sint_word_of_int_range int64_range_def)
  have q: "now sdiv D = now div D"
    using assms by (cases "now = 0") (simp_all add: signed_divide_int_def)
  have "d = word_of_int D" using d by auto
  then have "int64_div (UnixNano now) d * d = word_of_int (now div D * D)"
    using n q d by (simp add: int64_div_def)
  moreover have "int64_range (now div D * D)"
  proof -
    have "now div D * D \<le> now"
      using assms minus_mod_eq_div_mult [of now D] pos_mod_sign [of D now] by linarith
    moreover have "0 \<le> now div D * D"
      using assms by (simp add: pos_imp_zdiv_nonneg_iff)
    ultimately have "0 \<le> now div D * D" "now div D * D \<le> now" by simp_all
    with assms show ?thesis by (simp add: int64_range_def)
  qed
  ultimately show ?thesis by (metis sint_word_of_int_range)
qed

text \<open>
  C32: for an interval of 5 to 15 minutes and an instant from the epoch on (and below 2^63
  nanoseconds), the check holds exactly when the time since the last multiple of the interval
  is at least one minute and more than one minute short of the next.
\<close>

theorem schedule_window_exact:
  assumes "5 \<le> n" and "n \<le> 15" and "0 \<le> now" and "now < 2 ^ 63"
  shows "isWithinScheduleWindow now (show_nat n @ ''m'') \<longleftrightarrow>
     60000000000 \<le> now mod (int n * 60000000000) \<and>
     now mod (int n * 60000000000) < (int n - 1) * 60000000000"
proof -
  define D :: int where "D = int n * 60000000000"
  define d :: int64 where "d = of_nat n * Minute"
  have p: "ParseSchedulingInterval (show_nat n @ ''m'') = Inr d"
    using assms parse_minutes [of "show_nat n"] show_nat_digits [of n] by (simp add: d_def)
  have d: "sint d = D" using assms sint_minutes [of n] by (simp add: d_def D_def)
  have D: "0 < D" using assms by (simp add: D_def)
  have tick: "sint (int64_div (UnixNano now) d * d) = now div D * D"
    using assms(3,4) d D by (rule last_tick)
  have m5: "sint (5 * Minute) = 300000000000" and m15: "sint (15 * Minute) = 900000000000"
    and m: "sint Minute = 60000000000" and m': "sint (- Minute) = - 60000000000"
    by (simp_all add: Minute_def)
  have range: "\<not> d <s 5 * Minute" "\<not> 15 * Minute <s d"
    using assms by (simp_all add: word_sless_alt d m5 m15 D_def)
  have split: "now = now div D * D + now mod D" by simp
  show ?thesis
    unfolding isWithinScheduleWindow_def p
    using range
    by (simp add: Let_def time_of_nanos_def time_add_def tick d m m' flip: D_def)
      (use split in \<open>auto simp: D_def algebra_simps\<close>)
qed

theorem schedule_window_exact_witness:
  "isWithinScheduleWindow 120000000000 (show_nat 5 @ ''m'') \<and>
   \<not> isWithinScheduleWindow 280000000000 (show_nat 5 @ ''m'')"
  using schedule_window_exact [of 5 120000000000] schedule_window_exact [of 5 280000000000] by simp

end
