(* ===== verification/Ref_Cluster.thy ===== *)
theory Ref_Cluster
  imports Kube
begin

text \<open>
  An executable reference instance of the client parameter: an in-memory API server that holds
  each kind of object as a list, answers NotFound and AlreadyExists as the API does, keeps an
  object with finalizers as terminating when it is deleted and drops it when its last finalizer
  goes, and matches label selectors. It is not a model of code of this repository: the witnesses
  run the operator's operations on it, and the laws other theories assume of the client are
  discharged for it, which shows that they can hold together.
\<close>

section \<open>Stores\<close>

definition not_found :: gerr where
  "not_found = ApiError NotFound ''not found''"

definition already_exists :: gerr where
  "already_exists = ApiError AlreadyExists ''already exists''"

lemma not_found_simps [simp]:
  "IsNotFound not_found" "\<not> IsNotFound already_exists"
  "IsAlreadyExists already_exists" "\<not> IsAlreadyExists not_found"
  by (simp_all add: not_found_def already_exists_def IsNotFound_def IsAlreadyExists_def)

fun lookup_by :: "('o \<Rightarrow> 'k) \<Rightarrow> 'k \<Rightarrow> 'o list \<Rightarrow> 'o option" where
  "lookup_by f k [] = None"
| "lookup_by f k (x # xs) = (if f x = k then Some x else lookup_by f k xs)"

fun replace_by :: "('o \<Rightarrow> 'k) \<Rightarrow> 'o \<Rightarrow> 'o list \<Rightarrow> 'o list" where
  "replace_by f y [] = []"
| "replace_by f y (x # xs) = (if f x = f y then y else x) # replace_by f y xs"

fun remove_by :: "('o \<Rightarrow> 'k) \<Rightarrow> 'k \<Rightarrow> 'o list \<Rightarrow> 'o list" where
  "remove_by f k [] = []"
| "remove_by f k (x # xs) = (if f x = k then remove_by f k xs else x # remove_by f k xs)"

definition get_by :: "('o \<Rightarrow> 'k) \<Rightarrow> 'k \<Rightarrow> 'o list \<Rightarrow> 'o reply" where
  "get_by f k xs = (case lookup_by f k xs of None \<Rightarrow> Inl not_found | Some x \<Rightarrow> Inr x)"

lemma lookup_by_remove [simp]:
  "lookup_by f k' (remove_by f k xs) = (if k' = k then None else lookup_by f k' xs)"
  by (induction xs) auto

lemma lookup_by_replace [simp]:
  "lookup_by f k (replace_by f y xs) =
     (if k = f y then (case lookup_by f k xs of None \<Rightarrow> None | Some _ \<Rightarrow> Some y) else lookup_by f k xs)"
  by (induction xs) auto

text \<open>The first object of each key: what a listing shows of the server's list.\<close>

fun firsts_by :: "('o \<Rightarrow> 'k) \<Rightarrow> 'o list \<Rightarrow> 'o list" where
  "firsts_by f [] = []"
| "firsts_by f (x # xs) = x # filter (\<lambda>y. f y \<noteq> f x) (firsts_by f xs)"

lemma set_firsts_by: "set (firsts_by f xs) = {x. lookup_by f (f x) xs = Some x}"
  by (induction xs) auto

lemma lookup_by_key: "lookup_by f k xs = Some x \<Longrightarrow> f x = k"
  by (induction xs) (auto split: if_splits)

section \<open>The server's state\<close>

record cluster =
  c_vgrs :: "vgr list"
  c_classes :: "(string \<times> vgr_class) list"
  c_vrgs :: "vrg list"
  c_pvcs :: "pvc list"
  c_pvs :: "pv list"
  c_secrets :: "secret list"
  c_rss :: "rs list"
  c_rds :: "rd list"
  c_exports :: "service_export list"
  c_pods :: "pod list"
  c_jobs :: "key list"
  c_clock :: time

definition empty_cluster :: cluster where
  "empty_cluster =
     \<lparr>c_vgrs = [], c_classes = [], c_vrgs = [], c_pvcs = [], c_pvs = [], c_secrets = [], c_rss = [],
      c_rds = [], c_exports = [], c_pods = [], c_jobs = [], c_clock = 0\<rparr>"

section \<open>Selection\<close>

definition meets :: "labels \<Rightarrow> requirement \<Rightarrow> bool" where
  "meets ls q =
     (case ls (req_key q) of
        None \<Rightarrow> req_operator q = ''!'' \<or> req_operator q = ''notin'' \<or> req_operator q = ''!=''
      | Some v \<Rightarrow>
          if req_operator q = ''='' \<or> req_operator q = ''in'' then v \<in> set (req_values q)
          else if req_operator q = ''!='' \<or> req_operator q = ''notin'' then v \<notin> set (req_values q)
          else req_operator q = ''exists'')"

definition selected :: "list_options \<Rightarrow> string \<Rightarrow> labels \<Rightarrow> bool" where
  "selected opts ns ls \<longleftrightarrow>
     (case inNamespace opts of None \<Rightarrow> True | Some n \<Rightarrow> n = ns) \<and>
     list_all (\<lambda>(k, v). ls k = Some v) (matchingLabels opts) \<and>
     list_all (meets ls) (matchingSelector opts)"

section \<open>Operations\<close>

definition update_pvc :: "pvc \<Rightarrow> cluster \<Rightarrow> pvc reply \<times> cluster" where
  "update_pvc p c =
     (case lookup_by pvc_key (pvc_key p) (c_pvcs c) of
        None \<Rightarrow> (Inl not_found, c)
      | Some _ \<Rightarrow>
          if pvc_deletionTimestamp p \<noteq> None \<and> pvc_finalizers p = []
          then (Inr p, c\<lparr>c_pvcs := remove_by pvc_key (pvc_key p) (c_pvcs c)\<rparr>)
          else (Inr p, c\<lparr>c_pvcs := replace_by pvc_key p (c_pvcs c)\<rparr>))"

definition create_pvc :: "pvc \<Rightarrow> cluster \<Rightarrow> pvc reply \<times> cluster" where
  "create_pvc p c =
     (case lookup_by pvc_key (pvc_key p) (c_pvcs c) of
        Some _ \<Rightarrow> (Inl already_exists, c)
      | None \<Rightarrow> (Inr p, c\<lparr>c_pvcs := c_pvcs c @ [p]\<rparr>))"

definition delete_pvc :: "key \<Rightarrow> cluster \<Rightarrow> error \<times> cluster" where
  "delete_pvc k c =
     (case lookup_by pvc_key k (c_pvcs c) of
        None \<Rightarrow> (Some not_found, c)
      | Some p \<Rightarrow>
          if pvc_finalizers p = [] then (None, c\<lparr>c_pvcs := remove_by pvc_key k (c_pvcs c)\<rparr>)
          else (None, c\<lparr>c_pvcs := replace_by pvc_key
            (p\<lparr>pvc_deletionTimestamp := Some (c_clock c)\<rparr>) (c_pvcs c)\<rparr>))"

definition update_pv :: "pv \<Rightarrow> cluster \<Rightarrow> pv reply \<times> cluster" where
  "update_pv p c =
     (case lookup_by pv_name (pv_name p) (c_pvs c) of
        None \<Rightarrow> (Inl not_found, c)
      | Some _ \<Rightarrow> (Inr p, c\<lparr>c_pvs := replace_by pv_name p (c_pvs c)\<rparr>))"

definition update_vgr :: "vgr \<Rightarrow> cluster \<Rightarrow> vgr reply \<times> cluster" where
  "update_vgr v c =
     (case lookup_by vgr_key (vgr_key v) (c_vgrs c) of
        None \<Rightarrow> (Inl not_found, c)
      | Some _ \<Rightarrow>
          if vgr_deletionTimestamp v \<noteq> None \<and> vgr_finalizers v = []
          then (Inr v, c\<lparr>c_vgrs := remove_by vgr_key (vgr_key v) (c_vgrs c)\<rparr>)
          else (Inr v, c\<lparr>c_vgrs := replace_by vgr_key v (c_vgrs c)\<rparr>))"

definition status_vgr :: "vgr \<Rightarrow> cluster \<Rightarrow> vgr reply \<times> cluster" where
  "status_vgr v c =
     (case lookup_by vgr_key (vgr_key v) (c_vgrs c) of
        None \<Rightarrow> (Inl not_found, c)
      | Some u \<Rightarrow>
          let v' = u\<lparr>vgr_state := vgr_state v, vgr_pvcRefs := vgr_pvcRefs v,
            vgr_lastSyncTime := vgr_lastSyncTime v,
            vgr_observedGeneration := vgr_observedGeneration v, vgr_conditions := vgr_conditions v\<rparr>
          in (Inr v', c\<lparr>c_vgrs := replace_by vgr_key v' (c_vgrs c)\<rparr>))"

definition update_rs :: "rs \<Rightarrow> cluster \<Rightarrow> rs reply \<times> cluster" where
  "update_rs s c =
     (case lookup_by rs_key (rs_key s) (c_rss c) of
        None \<Rightarrow> (Inl not_found, c)
      | Some _ \<Rightarrow> (Inr s, c\<lparr>c_rss := replace_by rs_key s (c_rss c)\<rparr>))"

definition delete_rs :: "key \<Rightarrow> cluster \<Rightarrow> error \<times> cluster" where
  "delete_rs k c =
     (case lookup_by rs_key k (c_rss c) of
        None \<Rightarrow> (Some not_found, c)
      | Some _ \<Rightarrow> (None, c\<lparr>c_rss := remove_by rs_key k (c_rss c)\<rparr>))"

definition blank_rs :: "key \<Rightarrow> rs" where
  "blank_rs k = \<lparr>rs_name = snd k, rs_namespace = fst k, rs_labels = Map.empty, rs_sourcePVC = '''',
     rs_trigger = None, rs_paused = False, rs_rsyncTLS = None, rs_stat = None\<rparr>"

definition apply_rs :: "key \<Rightarrow> (rs \<Rightarrow> rs reply) \<Rightarrow> cluster \<Rightarrow> rs reply \<times> cluster" where
  "apply_rs k f c =
     (case lookup_by rs_key k (c_rss c) of
        None \<Rightarrow> (case f (blank_rs k) of
            Inl e \<Rightarrow> (Inl e, c)
          | Inr s \<Rightarrow> (Inr s, c\<lparr>c_rss := c_rss c @ [s]\<rparr>))
      | Some s0 \<Rightarrow> (case f s0 of
            Inl e \<Rightarrow> (Inl e, c)
          | Inr s \<Rightarrow> (Inr s, c\<lparr>c_rss := replace_by rs_key s (c_rss c)\<rparr>)))"

definition delete_rd :: "key \<Rightarrow> cluster \<Rightarrow> error \<times> cluster" where
  "delete_rd k c =
     (case lookup_by rd_key k (c_rds c) of
        None \<Rightarrow> (Some not_found, c)
      | Some _ \<Rightarrow> (None, c\<lparr>c_rds := remove_by rd_key k (c_rds c)\<rparr>))"

definition blank_rd :: "key \<Rightarrow> rd" where
  "blank_rd k = \<lparr>rd_name = snd k, rd_namespace = fst k, rd_labels = Map.empty, rd_rsyncTLS = None,
     rd_stat = None\<rparr>"

definition apply_rd :: "key \<Rightarrow> (rd \<Rightarrow> rd reply) \<Rightarrow> cluster \<Rightarrow> rd reply \<times> cluster" where
  "apply_rd k f c =
     (case lookup_by rd_key k (c_rds c) of
        None \<Rightarrow> (case f (blank_rd k) of
            Inl e \<Rightarrow> (Inl e, c)
          | Inr s \<Rightarrow> (Inr s, c\<lparr>c_rds := c_rds c @ [s]\<rparr>))
      | Some s0 \<Rightarrow> (case f s0 of
            Inl e \<Rightarrow> (Inl e, c)
          | Inr s \<Rightarrow> (Inr s, c\<lparr>c_rds := replace_by rd_key s (c_rds c)\<rparr>)))"

definition export_key :: "service_export \<Rightarrow> key" where
  "export_key e = (se_namespace e, se_name e)"

definition apply_export :: "service_export \<Rightarrow> (service_export \<Rightarrow> service_export reply) \<Rightarrow> cluster \<Rightarrow>
    service_export reply \<times> cluster" where
  "apply_export e f c =
     (case lookup_by export_key (export_key e) (c_exports c) of
        None \<Rightarrow> (case f e of
            Inl err \<Rightarrow> (Inl err, c)
          | Inr x \<Rightarrow> (Inr x, c\<lparr>c_exports := c_exports c @ [x]\<rparr>))
      | Some e0 \<Rightarrow> (case f e0 of
            Inl err \<Rightarrow> (Inl err, c)
          | Inr x \<Rightarrow> (Inr x, c\<lparr>c_exports := replace_by export_key x (c_exports c)\<rparr>)))"

definition delete_pod :: "key \<Rightarrow> cluster \<Rightarrow> error \<times> cluster" where
  "delete_pod k c =
     (case lookup_by pod_key k (c_pods c) of
        None \<Rightarrow> (Some not_found, c)
      | Some _ \<Rightarrow> (None, c\<lparr>c_pods := remove_by pod_key k (c_pods c)\<rparr>))"

definition delete_job :: "key \<Rightarrow> cluster \<Rightarrow> error \<times> cluster" where
  "delete_job k c =
     (if k \<in> set (c_jobs c) then (None, c\<lparr>c_jobs := removeAll k (c_jobs c)\<rparr>)
      else (Some not_found, c))"

definition match_labels_selector :: "label_selector \<Rightarrow> selector reply" where
  "match_labels_selector ls =
     Inr (map (\<lambda>(k, v). \<lparr>req_key = k, req_operator = ''='', req_values = [v]\<rparr>) (matchLabels ls) @
       matchExpressions ls)"

definition ref_kube :: "cluster kube" where
  "ref_kube =
     \<lparr>k_get_vgr = (\<lambda>k c. (get_by vgr_key k (c_vgrs c), c)),
      k_list_vgr = (\<lambda>opts c. (Inr (filter (\<lambda>v. selected opts (vgr_namespace v) (vgr_labels v)) (c_vgrs c)), c)),
      k_update_vgr = update_vgr,
      k_status_vgr = status_vgr,
      k_get_class = (\<lambda>n c. (map_sum id snd (get_by fst n (c_classes c)), c)),
      k_get_vrg = (\<lambda>k c. (get_by (\<lambda>g. (vrg_namespace g, vrg_name g)) k (c_vrgs c), c)),
      k_list_vrg = (\<lambda>opts c. (Inr (filter (\<lambda>g. selected opts (vrg_namespace g) Map.empty) (c_vrgs c)), c)),
      k_get_pvc = (\<lambda>k c. (get_by pvc_key k (c_pvcs c), c)),
      k_list_pvc = (\<lambda>opts c. (Inr (filter (\<lambda>p. selected opts (pvc_namespace p) (pvc_labels p)) (firsts_by pvc_key (c_pvcs c))), c)),
      k_create_pvc = create_pvc,
      k_update_pvc = update_pvc,
      k_delete_pvc = delete_pvc,
      k_get_pv = (\<lambda>n c. (get_by pv_name n (c_pvs c), c)),
      k_update_pv = update_pv,
      k_get_secret = (\<lambda>k c. (get_by (\<lambda>s. (secret_namespace s, secret_name s)) k (c_secrets c), c)),
      k_get_rs = (\<lambda>k c. (get_by rs_key k (c_rss c), c)),
      k_list_rs = (\<lambda>opts c. (Inr (filter (\<lambda>s. selected opts (rs_namespace s) (rs_labels s)) (firsts_by rs_key (c_rss c))), c)),
      k_update_rs = update_rs,
      k_delete_rs = delete_rs,
      k_apply_rs = apply_rs,
      k_get_rd = (\<lambda>k c. (get_by rd_key k (c_rds c), c)),
      k_list_rd = (\<lambda>opts c. (Inr (filter (\<lambda>d. selected opts (rd_namespace d) (rd_labels d)) (firsts_by rd_key (c_rds c))), c)),
      k_delete_rd = delete_rd,
      k_apply_rd = apply_rd,
      k_apply_export = apply_export,
      k_list_pod = (\<lambda>opts c. (Inr (filter (\<lambda>p. selected opts (pod_namespace p) (pod_labels p)) (c_pods c)), c)),
      k_delete_pod = delete_pod,
      k_delete_job = delete_job,
      k_now = (\<lambda>c. (c_clock c, c\<lparr>c_clock := c_clock c + 1\<rparr>)),
      k_rand = (\<lambda>n c. (Inr (map of_nat [0..<n]), c)),
      k_contains_finalizer = (\<lambda>fs f. f \<in> set fs),
      k_add_finalizer = (\<lambda>fs f. if f \<in> set fs then fs else fs @ [f]),
      k_remove_finalizer = (\<lambda>fs f. removeAll f fs),
      k_set_owner = (\<lambda>k refs. let r = OwnerRef ''volsync.backube/v1alpha1'' ''ReplicationDestination'' (snd k) ''''
         in Inr (if r \<in> set refs then refs else refs @ [r])),
      k_selector = match_labels_selector,
      k_requirement = (\<lambda>k op vs. (Some \<lparr>req_key = k, req_operator = op, req_values = vs\<rparr>, None))\<rparr>"

lemma ref_finalizer_functions: "finalizer_functions ref_kube"
  by (simp add: finalizer_functions_def ref_kube_def)

lemmas ref_defs =
  ref_kube_def get_by_def selected_def meets_def update_pvc_def create_pvc_def delete_pvc_def
  update_pv_def update_vgr_def status_vgr_def update_rs_def delete_rs_def blank_rs_def apply_rs_def
  delete_rd_def blank_rd_def apply_rd_def export_key_def apply_export_def delete_pod_def
  delete_job_def match_labels_selector_def empty_cluster_def

section \<open>A start of a run\<close>

definition world_of :: "cluster \<Rightarrow> (cluster, event) world" where
  "world_of c = \<lparr>outside = c, history = []\<rparr>"

lemma world_of_simps [simp]: "outside (world_of c) = c" "history (world_of c) = []"
  by (simp_all add: world_of_def)

text \<open>A run on the reference server is a run in some environment.\<close>

lemma runs_refI:
  "run_state m (world_of c) = (r, w') \<Longrightarrow> tr = history w' \<Longrightarrow> runs m tr r"
  unfolding runs_def by (rule exI [of _ "world_of c"]) auto

section \<open>Samples\<close>

definition sample_pvc :: "string \<Rightarrow> string \<Rightarrow> pvc" where
  "sample_pvc ns name =
     \<lparr>pvc_name = name, pvc_namespace = ns, pvc_labels = Map.empty, pvc_annotations = Map.empty,
      pvc_finalizers = [], pvc_deletionTimestamp = None, pvc_accessModes = [''ReadWriteOnce''],
      pvc_resources = \<lparr>limits = Map.empty, requests = [''storage'' \<mapsto> Quantity ''1Gi'']\<rparr>,
      pvc_storageClassName = Some ''standard'', pvc_volumeMode = None, pvc_volumeName = ''pv-'' @ name,
      pvc_phase = ''Bound''\<rparr>"

definition sample_pv :: "string \<Rightarrow> pv" where
  "sample_pv name = \<lparr>pv_name = name, pv_claimRef = None, pv_reclaimPolicy = ''Retain''\<rparr>"

definition sample_secret :: "string \<Rightarrow> secret" where
  "sample_secret ns =
     \<lparr>secret_name = ''psk'', secret_namespace = ns, secret_stringData = Map.empty\<rparr>"

definition sample_vgr :: "string \<Rightarrow> string \<Rightarrow> vgr" where
  "sample_vgr ns name =
     \<lparr>vgr_name = name, vgr_namespace = ns, vgr_labels = Map.empty, vgr_finalizers = [],
      vgr_generation = 1, vgr_deletionTimestamp = None, vgr_className = ''class'',
      vgr_replicationState = ''primary'', vgr_selector = Some \<lparr>matchLabels = [], matchExpressions = []\<rparr>,
      vgr_state = '''', vgr_pvcRefs = [], vgr_lastSyncTime = None, vgr_observedGeneration = 0,
      vgr_conditions = []\<rparr>"

definition sample_class :: vgr_class where
  "sample_class = \<lparr>class_labels = Map.empty, class_provisioner = ''mock'',
     class_parameters = [''pskSecretName'' \<mapsto> ''psk'']\<rparr>"

lemmas sample_defs = sample_pvc_def sample_pv_def sample_secret_def sample_vgr_def sample_class_def
section \<open>A server that never changes\<close>

text \<open>
  For witnesses of long runs: a client without state. It lists the VRGs and PVCs it is given, has
  every secret and every PVC asked for, no VolSync object but what it is asked to write, and
  accepts every write.
\<close>

definition still_kube :: "vrg list \<Rightarrow> pvc list \<Rightarrow> 'c kube" where
  "still_kube vrgs pvcs =
     \<lparr>k_get_vgr = (\<lambda>k u. (Inl not_found, u)),
      k_list_vgr = (\<lambda>opts u. (Inr [], u)),
      k_update_vgr = (\<lambda>v u. (Inr v, u)),
      k_status_vgr = (\<lambda>v u. (Inr v, u)),
      k_get_class = (\<lambda>n u. (Inr sample_class, u)),
      k_get_vrg = (\<lambda>k u. ((case vrgs of [] \<Rightarrow> Inl not_found | g # _ \<Rightarrow> Inr g), u)),
      k_list_vrg = (\<lambda>opts u. (Inr vrgs, u)),
      k_get_pvc = (\<lambda>k u. (Inr (sample_pvc (fst k) (snd k)), u)),
      k_list_pvc = (\<lambda>opts u. (Inr pvcs, u)),
      k_create_pvc = (\<lambda>p u. (Inr p, u)),
      k_update_pvc = (\<lambda>p u. (Inr p, u)),
      k_delete_pvc = (\<lambda>k u. (None, u)),
      k_get_pv = (\<lambda>n u. (Inr (sample_pv n), u)),
      k_update_pv = (\<lambda>p u. (Inr p, u)),
      k_get_secret = (\<lambda>k u. (Inr (sample_secret (fst k)), u)),
      k_get_rs = (\<lambda>k u. (Inl not_found, u)),
      k_list_rs = (\<lambda>opts u. (Inr [], u)),
      k_update_rs = (\<lambda>s u. (Inr s, u)),
      k_delete_rs = (\<lambda>k u. (None, u)),
      k_apply_rs = (\<lambda>k f u. (f (blank_rs k), u)),
      k_get_rd = (\<lambda>k u. (Inl not_found, u)),
      k_list_rd = (\<lambda>opts u. (Inr [], u)),
      k_delete_rd = (\<lambda>k u. (None, u)),
      k_apply_rd = (\<lambda>k f u. (f ((blank_rd k)
        \<lparr>rd_stat := Some (Some \<lparr>rds_address = Some ''10.0.0.1'', rds_keySecret = None\<rparr>)\<rparr>), u)),
      k_apply_export = (\<lambda>e f u. (f e, u)),
      k_list_pod = (\<lambda>opts u. (Inr [], u)),
      k_delete_pod = (\<lambda>k u. (None, u)),
      k_delete_job = (\<lambda>k u. (None, u)),
      k_now = (\<lambda>u. (0, u)),
      k_rand = (\<lambda>n u. (Inr (map of_nat [0..<n]), u)),
      k_contains_finalizer = (\<lambda>fs f. f \<in> set fs),
      k_add_finalizer = (\<lambda>fs f. if f \<in> set fs then fs else fs @ [f]),
      k_remove_finalizer = (\<lambda>fs f. removeAll f fs),
      k_set_owner = (\<lambda>k refs. Inr refs),
      k_selector = (\<lambda>ls. Inr []),
      k_requirement = (\<lambda>k op vs. (Some \<lparr>req_key = k, req_operator = op, req_values = vs\<rparr>, None))\<rparr>"

abbreviation steady_kube :: "vrg list \<Rightarrow> pvc list \<Rightarrow> unit kube" where
  "steady_kube \<equiv> still_kube"

lemmas steady_kube_def = still_kube_def

definition steady_world :: "(unit, event) world" where
  "steady_world = \<lparr>outside = (), history = []\<rparr>"

lemma steady_finalizer_functions: "finalizer_functions (steady_kube vrgs pvcs)"
  by (simp add: finalizer_functions_def steady_kube_def)

lemma steady_runs:
  "run_state m steady_world = (r, w') \<Longrightarrow> runs m (history w') r"
  unfolding runs_def steady_world_def by (intro exI) auto

end
