(* ===== verification/Stores.thy ===== *)
theory Stores
  imports Ref_Cluster
begin

text \<open>
  What the operator relies on of the API server, as contracts over an abstract view of the
  server's collection of one kind of object, a map from keys to objects: reading, deleting,
  updating and listing. The properties take these contracts as hypotheses on the client
  parameter; each is shown of the reference server here.
\<close>

section \<open>Contracts\<close>

text \<open>Reads find what the map holds and change nothing.\<close>

locale readable_store =
  fixes get :: "key \<Rightarrow> 'c \<Rightarrow> 'o reply \<times> 'c"
    and okey :: "'o \<Rightarrow> key"
    and view :: "'c \<Rightarrow> key \<rightharpoonup> 'o"
  assumes get_frame: "view (snd (get k c)) = view c"
    and get_found: "fst (get k c) = Inr x \<Longrightarrow> view c k = Some x"
    and get_missing: "fst (get k c) = Inl e \<Longrightarrow> IsNotFound e \<Longrightarrow> view c k = None"
    and view_key: "view c k = Some x \<Longrightarrow> okey x = k"

text \<open>Deleting: on success the key is gone; a key that is not found was not there.\<close>

locale deletable_store = readable_store get okey view
  for get :: "key \<Rightarrow> 'c \<Rightarrow> 'o reply \<times> 'c"
    and okey :: "'o \<Rightarrow> key"
    and view :: "'c \<Rightarrow> key \<rightharpoonup> 'o" +
  fixes del :: "key \<Rightarrow> 'c \<Rightarrow> error \<times> 'c"
  assumes del_gone: "fst (del k c) = None \<Longrightarrow> view (snd (del k c)) = (view c)(k := None)"
    and del_missing: "fst (del k c) = Some e \<Longrightarrow> IsNotFound e \<Longrightarrow>
      view c k = None \<and> view (snd (del k c)) = view c"
begin

text \<open>Read, give up on what is missing, delete what was found: the key is gone either way.\<close>

lemma get_then_delete:
  assumes g: "get k c = (r, c1)"
    and found: "\<And>x. r = Inr x \<Longrightarrow> \<exists>d. del (okey x) c1 = (d, c2) \<and> d = None"
    and missing: "\<And>e. r = Inl e \<Longrightarrow> IsNotFound e \<and> c2 = c1"
  shows "view c2 = (view c)(k := None)"
proof (cases r)
  case (Inl e)
  with g missing get_missing [of k c e] get_frame [of k c] show ?thesis by auto
next
  case (Inr x)
  with g get_found [of k c x] get_frame [of k c] view_key [of c k x]
  have "okey x = k" "view c1 = view c" by auto
  moreover from found [OF Inr] have "del (okey x) c1 = (None, c2)" by auto
  ultimately show ?thesis using del_gone [of k c1] by simp
qed

lemma del_ignoring_missing:
  assumes "del k c = (d, c')" and "IgnoreNotFound d = None"
  shows "view c' = (view c)(k := None)"
  using assms del_gone [of k c] del_missing [of k c] by (cases d) auto

end

text \<open>The entry of a key after an edit that leaves \<open>fine\<close> objects alone.\<close>

definition edited :: "('o \<Rightarrow> 'o option) \<Rightarrow> ('o \<Rightarrow> bool) \<Rightarrow> ('o \<Rightarrow> 'o) \<Rightarrow> 'o option \<Rightarrow> 'o option" where
  "edited kept fine f x = (case x of None \<Rightarrow> None
     | Some p \<Rightarrow> if fine p then Some p else kept (f p))"

lemma edited_twice:
  assumes "\<And>p q. kept p = Some q \<Longrightarrow> q = p" and "\<And>p. fine (f p)"
  shows "edited kept fine f (edited kept fine f x) = edited kept fine f x"
  using assms by (auto simp: edited_def split: option.splits)

text \<open>
  Updating: on success the key holds what the server keeps of the object, which may be nothing
  (an object marked for deletion whose last finalizer is gone).
\<close>

locale updatable_store = readable_store get okey view
  for get :: "key \<Rightarrow> 'c \<Rightarrow> 'o reply \<times> 'c"
    and okey :: "'o \<Rightarrow> key"
    and view :: "'c \<Rightarrow> key \<rightharpoonup> 'o" +
  fixes put :: "'o \<Rightarrow> 'c \<Rightarrow> 'o reply \<times> 'c"
    and kept :: "'o \<Rightarrow> 'o option"
  assumes put_stored: "fst (put x c) = Inr y \<Longrightarrow> view (snd (put x c)) = (view c)(okey x := kept x)"
    and kept_same: "kept x = Some y \<Longrightarrow> y = x"
begin

text \<open>Read, change, write: the key holds what is kept of the change, and nothing else changed.\<close>

lemma get_then_put:
  assumes g: "get k c = (Inr x, c1)" and p: "put (f x) c1 = (Inr y, c2)" and f: "okey (f x) = okey x"
  shows "view c2 = (view c)(k := kept (f x))"
proof -
  from g get_found [of k c x] get_frame [of k c] view_key [of c k x]
  have "okey x = k" "view c1 = view c" by auto
  then show ?thesis using put_stored [of "f x" c1 y] p f by simp
qed

text \<open>Read, leave what is missing or already fine, else write a change: the entry is edited.\<close>

lemma get_then_edit:
  assumes g: "get k c = (r, c1)"
    and missing: "\<And>e. r = Inl e \<Longrightarrow> IsNotFound e \<and> c2 = c1"
    and found: "\<And>x. r = Inr x \<Longrightarrow> if fine x then c2 = c1
      else okey (f x) = okey x \<and> (\<exists>y. put (f x) c1 = (Inr y, c2))"
  shows "view c2 = (view c)(k := edited kept fine f (view c k))"
proof (cases r)
  case (Inl e)
  with g missing get_missing [of k c e] get_frame [of k c] show ?thesis
    by (auto simp: edited_def fun_eq_iff)
next
  case (Inr x)
  with g get_found [of k c x] get_frame [of k c] have x: "view c k = Some x" "view c1 = view c" by auto
  show ?thesis
  proof (cases "fine x")
    case True
    then show ?thesis using x found [OF Inr] by (auto simp: edited_def fun_eq_iff)
  next
    case False
    with found [OF Inr] obtain y where "okey (f x) = okey x" "put (f x) c1 = (Inr y, c2)" by auto
    then show ?thesis using get_then_put [of k c x c1 f] g Inr x False by (auto simp: edited_def)
  qed
qed

end

text \<open>Listing: exactly the objects of the view that the options select, and nothing changes.\<close>

locale listable_store = readable_store get okey view
  for get :: "key \<Rightarrow> 'c \<Rightarrow> 'o reply \<times> 'c"
    and okey :: "'o \<Rightarrow> key"
    and view :: "'c \<Rightarrow> key \<rightharpoonup> 'o" +
  fixes list :: "list_options \<Rightarrow> 'c \<Rightarrow> 'o list reply \<times> 'c"
    and labels_of :: "'o \<Rightarrow> labels"
  assumes list_frame: "view (snd (list opts c)) = view c"
    and list_exact: "fst (list opts c) = Inr xs \<Longrightarrow>
      set xs = {x. view c (okey x) = Some x \<and> selected opts (fst (okey x)) (labels_of x)}"
begin

text \<open>The view after an idempotent change of every listed entry.\<close>

definition changed :: "list_options \<Rightarrow> ('o option \<Rightarrow> 'o option) \<Rightarrow> (key \<rightharpoonup> 'o) \<Rightarrow> (key \<rightharpoonup> 'o)" where
  "changed opts g m =
     (\<lambda>k. case m k of None \<Rightarrow> None
        | Some x \<Rightarrow> if selected opts (fst k) (labels_of x) then g (Some x) else Some x)"

lemma fold_listed:
  assumes l: "list opts c = (Inr xs, c1)" and g: "\<And>x. g (g x) = g x"
  shows "fold (\<lambda>x m. m(okey x := g (m (okey x)))) xs (view c1) = changed opts g (view c)"
proof -
  have xs: "set xs = {x. view c (okey x) = Some x \<and> selected opts (fst (okey x)) (labels_of x)}"
    and v: "view c1 = view c"
    using l list_exact [of opts c xs] list_frame [of opts c] by auto
  have "k \<in> okey ` set xs \<longleftrightarrow> (\<exists>x. view c k = Some x \<and> selected opts (fst k) (labels_of x))" for k
    using xs view_key [of c k] by (auto simp: image_iff)
  then show ?thesis
    unfolding fold_entries [OF g] v by (auto simp: changed_def fun_eq_iff split: option.splits)
qed

text \<open>List, then change each listed entry: the whole selection is changed.\<close>

lemma for_each_listed:
  assumes l: "list opts c = (Inr xs, outside w)" and g: "\<And>x. g (g x) = g x"
    and step: "\<And>x w w'. run_state (f x) w = (None, w') \<Longrightarrow>
      view (outside w') = (view (outside w))(okey x := g (view (outside w) (okey x)))"
    and run: "run_state (for_each f xs) w = (None, w')"
  shows "view (outside w') = changed opts g (view c)"
  using for_each_view [where V = view and g = "\<lambda>x m. m(okey x := g (m (okey x)))", OF step run]
    fold_listed [OF l g] by simp

end

section \<open>The reference server\<close>

definition rs_view :: "cluster \<Rightarrow> key \<rightharpoonup> rs" where
  "rs_view c = (\<lambda>k. lookup_by rs_key k (c_rss c))"

definition rd_view :: "cluster \<Rightarrow> key \<rightharpoonup> rd" where
  "rd_view c = (\<lambda>k. lookup_by rd_key k (c_rds c))"

definition pvc_view :: "cluster \<Rightarrow> key \<rightharpoonup> pvc" where
  "pvc_view c = (\<lambda>k. lookup_by pvc_key k (c_pvcs c))"

definition pvc_kept :: "pvc \<Rightarrow> pvc option" where
  "pvc_kept p = (if pvc_deletionTimestamp p \<noteq> None \<and> pvc_finalizers p = [] then None else Some p)"

definition secret_key :: "secret \<Rightarrow> key" where
  "secret_key s = (secret_namespace s, secret_name s)"

definition secret_view :: "cluster \<Rightarrow> key \<rightharpoonup> secret" where
  "secret_view c = (\<lambda>k. lookup_by secret_key k (c_secrets c))"

interpretation ref_secret: readable_store "k_get_secret ref_kube" secret_key secret_view
  by unfold_locales
    (auto simp: ref_defs secret_view_def secret_key_def [abs_def] split: option.splits
      dest!: lookup_by_key)

interpretation ref_rs: deletable_store "k_get_rs ref_kube" rs_key rs_view "k_delete_rs ref_kube"
  by unfold_locales
    (auto simp: ref_defs rs_view_def fun_eq_iff split: option.splits dest!: lookup_by_key)

interpretation ref_rd: deletable_store "k_get_rd ref_kube" rd_key rd_view "k_delete_rd ref_kube"
  by unfold_locales
    (auto simp: ref_defs rd_view_def fun_eq_iff split: option.splits dest!: lookup_by_key)

interpretation ref_pvc: updatable_store "k_get_pvc ref_kube" pvc_key pvc_view
    "k_update_pvc ref_kube" pvc_kept
  by unfold_locales
    (auto simp: ref_defs pvc_view_def pvc_kept_def not_found_def fun_eq_iff
      split: option.splits if_splits dest!: lookup_by_key)

interpretation ref_rs_list: listable_store "k_get_rs ref_kube" rs_key rs_view
    "k_list_rs ref_kube" rs_labels
  by unfold_locales (auto simp: ref_kube_def rs_view_def set_firsts_by)

interpretation ref_rd_list: listable_store "k_get_rd ref_kube" rd_key rd_view
    "k_list_rd ref_kube" rd_labels
  by unfold_locales (auto simp: ref_kube_def rd_view_def set_firsts_by)

interpretation ref_pvc_list: listable_store "k_get_pvc ref_kube" pvc_key pvc_view
    "k_list_pvc ref_kube" pvc_labels
  by unfold_locales (auto simp: ref_kube_def pvc_view_def set_firsts_by)

end
