(* ===== verification/VS_Handler.thy ===== *)
theory VS_Handler
  imports Schedule Stores
begin

text \<open>
  internal/volsync/handler.go, the parts every other operation of the handler uses: the handler's
  own state, the names and labels of the objects it manages, PVC finalizers, PVC state, secrets,
  and the deletion of ReplicationSources and ReplicationDestinations by name and by owner.
\<close>

section \<open>Constants and state\<close>

definition VGROwnerLabel :: string where
  "VGROwnerLabel = ''volumegroupreplication-owner''"

definition VGROwnerNamespaceLabel :: string where
  "VGROwnerNamespaceLabel = ''volumegroupreplication-owner-namespace''"

definition PVCFinalizerName :: string where
  "PVCFinalizerName = ''mock.storage.io/pvc-protection''"

definition TemporaryPVCAnnotation :: string where
  "TemporaryPVCAnnotation = ''volumegroupreplication.ramendr.openshift.io/temporary-pvc''"

definition tlsPSKDataSize :: nat where
  "tlsPSKDataSize = 64"

definition CopyMethodDirect :: string where
  "CopyMethodDirect = ''Direct''"

definition ReadWriteOnce :: string where
  "ReadWriteOnce = ''ReadWriteOnce''"

definition DefaultRsyncServiceType :: string where
  "DefaultRsyncServiceType = ''ClusterIP''"

text \<open>The receiver: of its owner the code reads the name and the namespace only.\<close>

record vs_handler =
  owner_name :: string
  owner_namespace :: string
  schedulingInterval :: string

definition NewVSHandler :: "vgr \<Rightarrow> string \<Rightarrow> vs_handler" where
  "NewVSHandler owner interval =
     \<lparr>owner_name = vgr_name owner, owner_namespace = vgr_namespace owner,
      schedulingInterval = interval\<rparr>"

section \<open>Names and labels\<close>

definition getReplicationDestinationName :: "string \<Rightarrow> string" where
  "getReplicationDestinationName pvcName = pvcName"

definition GetReplicationSourceName :: "string \<Rightarrow> string" where
  "GetReplicationSourceName pvcName = pvcName"

definition getLocalServiceNameForRD :: "string \<Rightarrow> string" where
  "getLocalServiceNameForRD rdName = ''volsync-rsync-tls-dst-'' @ rdName"

definition GetRemoteServiceNameForRDFromPVCName :: "string \<Rightarrow> string \<Rightarrow> string" where
  "GetRemoteServiceNameForRDFromPVCName pvcName rdNamespace =
     (let rdName = getReplicationDestinationName pvcName
      in getLocalServiceNameForRD rdName @ ''.'' @ rdNamespace @ ''.svc.clusterset.local'')"

definition addVGROwnerLabel :: "vs_handler \<Rightarrow> labels \<Rightarrow> labels" where
  "addVGROwnerLabel v ls =
     ls(VGROwnerLabel \<mapsto> owner_name v, VGROwnerNamespaceLabel \<mapsto> owner_namespace v)"

lemma owner_labels_differ [simp]: "VGROwnerLabel \<noteq> VGROwnerNamespaceLabel"
  "VGROwnerNamespaceLabel \<noteq> VGROwnerLabel"
  by (simp_all add: VGROwnerLabel_def VGROwnerNamespaceLabel_def)

lemma addVGROwnerLabel_owner [simp]:
  "addVGROwnerLabel v ls VGROwnerLabel = Some (owner_name v)"
  "addVGROwnerLabel v ls VGROwnerNamespaceLabel = Some (owner_namespace v)"
  by (simp_all add: addVGROwnerLabel_def)

section \<open>PVC labels, finalizers and state\<close>

definition ensurePVCLabels :: "'c kube \<Rightarrow> vs_handler \<Rightarrow> string \<Rightarrow> string \<Rightarrow> ('c, error) kop" where
  "ensurePVCLabels K v pvcName pvcNamespace = do {
     r \<leftarrow> GetPVC K (pvcNamespace, pvcName);
     case r of
       Inl err \<Rightarrow>
         ret (if IsNotFound err then None else Some (Wrap ''failed to get PVC: '' err ''''))
     | Inr p \<Rightarrow> do {
         let addName = (label (pvc_labels p) VGROwnerLabel \<noteq> owner_name v);
         let ls1 = (if addName then (pvc_labels p)(VGROwnerLabel \<mapsto> owner_name v) else pvc_labels p);
         let addNs = (label ls1 VGROwnerNamespaceLabel \<noteq> owner_namespace v);
         let ls2 = (if addNs then ls1(VGROwnerNamespaceLabel \<mapsto> owner_namespace v) else ls1);
         if addName \<or> addNs then do {
           u \<leftarrow> UpdatePVC K (p\<lparr>pvc_labels := ls2\<rparr>);
           case u of
             Inl err \<Rightarrow> ret (Some (Wrap ''failed to update PVC labels/annotations: '' err ''''))
           | Inr _ \<Rightarrow> ret None
         } else ret None
       }
   }"

definition addFinalizerToPVC :: "'c kube \<Rightarrow> string \<Rightarrow> string \<Rightarrow> ('c, error) kop" where
  "addFinalizerToPVC K pvcName pvcNamespace = do {
     r \<leftarrow> GetPVC K (pvcNamespace, pvcName);
     case r of
       Inl err \<Rightarrow>
         ret (if IsNotFound err then None else Some (Wrap ''failed to get PVC: '' err ''''))
     | Inr p \<Rightarrow>
         if k_contains_finalizer K (pvc_finalizers p) PVCFinalizerName then ret None
         else do {
           u \<leftarrow> UpdatePVC K (p\<lparr>pvc_finalizers := k_add_finalizer K (pvc_finalizers p) PVCFinalizerName\<rparr>);
           case u of
             Inl err \<Rightarrow> ret (Some (Wrap ''failed to add finalizer to PVC: '' err ''''))
           | Inr _ \<Rightarrow> ret None
         }
   }"

definition removeFinalizerFromPVC :: "'c kube \<Rightarrow> string \<Rightarrow> string \<Rightarrow> ('c, error) kop" where
  "removeFinalizerFromPVC K pvcName pvcNamespace = do {
     r \<leftarrow> GetPVC K (pvcNamespace, pvcName);
     case r of
       Inl err \<Rightarrow>
         ret (if IsNotFound err then None else Some (Wrap ''failed to get PVC: '' err ''''))
     | Inr p \<Rightarrow>
         if \<not> k_contains_finalizer K (pvc_finalizers p) PVCFinalizerName then ret None
         else do {
           u \<leftarrow> UpdatePVC K (p\<lparr>pvc_finalizers := k_remove_finalizer K (pvc_finalizers p) PVCFinalizerName\<rparr>);
           case u of
             Inl err \<Rightarrow> ret (Some (Wrap ''failed to remove finalizer from PVC: '' err ''''))
           | Inr _ \<Rightarrow> ret None
         }
   }"

definition IsPVCTerminating :: "'c kube \<Rightarrow> string \<Rightarrow> string \<Rightarrow> ('c, bool reply) kop" where
  "IsPVCTerminating K pvcName pvcNamespace = do {
     r \<leftarrow> GetPVC K (pvcNamespace, pvcName);
     case r of
       Inl err \<Rightarrow>
         ret (if IsNotFound err then Inr False else Inl (Wrap ''failed to get PVC: '' err ''''))
     | Inr p \<Rightarrow> ret (Inr (\<not> IsZero (pvc_deletionTimestamp p)))
   }"

definition getPVFromPVC :: "'c kube \<Rightarrow> string \<Rightarrow> string \<Rightarrow> ('c, pv reply) kop" where
  "getPVFromPVC K pvcName pvcNamespace = do {
     r \<leftarrow> GetPVC K (pvcNamespace, pvcName);
     case r of
       Inl err \<Rightarrow> ret (Inl (Wrap ''failed to get PVC: '' err ''''))
     | Inr p \<Rightarrow>
         if pvc_volumeName p = '''' then
           ret (Inl (Text (''PVC '' @ pvcNamespace @ ''/'' @ pvcName @ '' is not bound to a PV'')))
         else do {
           q \<leftarrow> GetPV K (pvc_volumeName p);
           case q of
             Inl err \<Rightarrow> ret (Inl (Wrap (''failed to get PV '' @ pvc_volumeName p @ '': '') err ''''))
           | Inr pv \<Rightarrow> ret (Inr pv)
         }
   }"

section \<open>Secrets\<close>

definition validateSecretAndAddOwnerRef ::
    "'c kube \<Rightarrow> string \<Rightarrow> string \<Rightarrow> ('c, bool reply) kop" where
  "validateSecretAndAddOwnerRef K secretName secretNamespace = do {
     r \<leftarrow> GetSecret K (secretNamespace, secretName);
     case r of
       Inl err \<Rightarrow>
         ret (Inl (if IsNotFound err
           then Text (''secret '' @ secretName @ '' not found in namespace '' @ secretNamespace @
             '' - must be created before replication'')
           else Wrap ''error getting secret ('' err '')''))
     | Inr _ \<Rightarrow> ret (Inr True)
   }"

definition genTLSPreSharedKey :: "'c kube \<Rightarrow> ('c, string reply) kop" where
  "genTLSPreSharedKey K = do {
     r \<leftarrow> RandRead K tlsPSKDataSize;
     case r of
       Inl err \<Rightarrow> ret (Inl err)
     | Inr pskData \<Rightarrow> ret (Inr (EncodeToString pskData))
   }"

definition generateVolSyncReplicationSecret ::
    "'c kube \<Rightarrow> vs_handler \<Rightarrow> string \<Rightarrow> ('c, secret reply) kop" where
  "generateVolSyncReplicationSecret K v secretName = do {
     r \<leftarrow> genTLSPreSharedKey K;
     case r of
       Inl err \<Rightarrow> ret (Inl err)
     | Inr tlsKey \<Rightarrow> ret (Inr
         \<lparr>secret_name = secretName, secret_namespace = owner_namespace v,
          secret_stringData = [''psk.txt'' \<mapsto> ''volsyncmock:'' @ tlsKey]\<rparr>)
   }"

section \<open>Deletion by name\<close>

definition DeleteRS :: "'c kube \<Rightarrow> string \<Rightarrow> string \<Rightarrow> ('c, error) kop" where
  "DeleteRS K pvcName pvcNamespace = do {
     let rsName = GetReplicationSourceName pvcName;
     r \<leftarrow> GetRS K (pvcNamespace, rsName);
     case r of
       Inl err \<Rightarrow>
         ret (if IsNotFound err then None
              else Some (Wrap ''failed to get ReplicationSource: '' err ''''))
     | Inr s \<Rightarrow> DeleteRSObject K (rs_key s)
   }"

definition DeleteRD :: "'c kube \<Rightarrow> string \<Rightarrow> string \<Rightarrow> ('c, error) kop" where
  "DeleteRD K pvcName pvcNamespace = do {
     let rdName = getReplicationDestinationName pvcName;
     r \<leftarrow> GetRD K (pvcNamespace, rdName);
     case r of
       Inl err \<Rightarrow>
         ret (if IsNotFound err then None
              else Some (Wrap ''failed to get ReplicationDestination: '' err ''''))
     | Inr d \<Rightarrow> DeleteRDObject K (rd_key d)
   }"

text \<open>
  The contract of a deletion by name, for a kind of object with the events \<open>got\<close> (a read) and
  \<open>deleted\<close>: one read; a missing object is success; any other read error is returned; an object
  that was read is deleted, and the deletion's own outcome is returned.
\<close>

locale deletion_by_name =
  fixes del :: "string \<Rightarrow> string \<Rightarrow> ('c, error) kop"
    and got :: "key \<Rightarrow> 'o reply \<Rightarrow> event"
    and deleted :: "key \<Rightarrow> error \<Rightarrow> event"
    and okey :: "'o \<Rightarrow> key"
  assumes del_trace: "post (del name ns) (\<lambda>tr r.
      (\<exists>e. tr = [got (ns, name) (Inl e)] \<and> (r = None \<longleftrightarrow> IsNotFound e)) \<or>
      (\<exists>x d. tr = [got (ns, name) (Inr x), deleted (okey x) d] \<and> r = d))"
begin

definition gone :: "string \<Rightarrow> string \<Rightarrow> event list \<Rightarrow> bool" where
  "gone name ns tr \<longleftrightarrow>
     (\<exists>e. tr = [got (ns, name) (Inl e)] \<and> IsNotFound e) \<or>
     (\<exists>x. tr = [got (ns, name) (Inr x), deleted (okey x) None])"

lemma del_success: "runs (del name ns) tr None \<Longrightarrow> gone name ns tr"
  using post_runs [OF del_trace, of name ns tr None] by (auto simp: gone_def)

definition mine :: "event \<Rightarrow> bool" where
  "mine e \<longleftrightarrow> (\<exists>k x. e = got k x) \<or> (\<exists>k d. e = deleted k d)"

lemma mine_intros [simp]: "mine (got k x)" "mine (deleted k d)"
  unfolding mine_def by blast+

lemma post_del: "post (del name ns) (\<lambda>tr r. (r = None \<longrightarrow> gone name ns tr) \<and> list_all mine tr)"
  by (rule post_weaken [OF del_trace]) (auto simp: gone_def)

end

interpretation rs_deletion: deletion_by_name "DeleteRS K" E_get_rs E_delete_rs rs_key
  for K :: "'c kube"
  by unfold_locales
    (auto simp: DeleteRS_def GetReplicationSourceName_def intro!: vcg)

interpretation rd_deletion: deletion_by_name "DeleteRD K" E_get_rd E_delete_rd rd_key
  for K :: "'c kube"
  by unfold_locales
    (auto simp: DeleteRD_def getReplicationDestinationName_def intro!: vcg)

section \<open>Listing and deletion by owner\<close>

definition owner_options :: "vs_handler \<Rightarrow> list_options" where
  "owner_options v =
     \<lparr>inNamespace = Some (owner_namespace v),
      matchingLabels = [(VGROwnerLabel, owner_name v)], matchingSelector = []\<rparr>"

text \<open>\<open>listByOwner\<close> fills the list it is given; here the list's kind is the client call.\<close>

definition listByOwner ::
    "(list_options \<Rightarrow> ('c, 'o list reply) kop) \<Rightarrow> vs_handler \<Rightarrow> ('c, 'o list reply) kop" where
  "listByOwner list v = do {
     r \<leftarrow> list (owner_options v);
     case r of
       Inl err \<Rightarrow> ret (Inl (Wrap ''error listing by label ('' err '')''))
     | Inr items \<Rightarrow> ret (Inr items)
   }"

definition listRSByOwner :: "'c kube \<Rightarrow> vs_handler \<Rightarrow> ('c, rs list reply) kop" where
  "listRSByOwner K v = do {
     r \<leftarrow> listByOwner (ListRS K) v;
     case r of
       Inl err \<Rightarrow> ret (Inl err)
     | Inr items \<Rightarrow> ret (Inr items)
   }"

definition listRDByOwner :: "'c kube \<Rightarrow> vs_handler \<Rightarrow> ('c, rd list reply) kop" where
  "listRDByOwner K v = do {
     r \<leftarrow> listByOwner (ListRD K) v;
     case r of
       Inl err \<Rightarrow> ret (Inl err)
     | Inr items \<Rightarrow> ret (Inr items)
   }"

definition DeleteRSByLabel :: "'c kube \<Rightarrow> vs_handler \<Rightarrow> ('c, error) kop" where
  "DeleteRSByLabel K v = do {
     r \<leftarrow> listByOwner (ListRS K) v;
     case r of
       Inl err \<Rightarrow> ret (Some err)
     | Inr items \<Rightarrow> for_each (\<lambda>s. do {
         d \<leftarrow> DeleteRSObject K (rs_key s);
         case IgnoreNotFound d of
           None \<Rightarrow> ret None
         | Some err \<Rightarrow> ret (Some (Wrap (''failed to delete ReplicationSource '' @
             rs_namespace s @ ''/'' @ rs_name s @ '': '') err ''''))
       }) items
   }"

definition DeleteRDByLabel :: "'c kube \<Rightarrow> vs_handler \<Rightarrow> ('c, error) kop" where
  "DeleteRDByLabel K v = do {
     r \<leftarrow> listByOwner (ListRD K) v;
     case r of
       Inl err \<Rightarrow> ret (Some err)
     | Inr items \<Rightarrow> for_each (\<lambda>d. do {
         x \<leftarrow> DeleteRDObject K (rd_key d);
         case IgnoreNotFound x of
           None \<Rightarrow> ret None
         | Some err \<Rightarrow> ret (Some (Wrap (''failed to delete ReplicationDestination '' @
             rd_namespace d @ ''/'' @ rd_name d @ '': '') err ''''))
       }) items
   }"

text \<open>
  The contract of a clean-up by owner: one listing; on success every listed object has been
  asked to be deleted, and each of those deletions succeeded or found nothing; nothing but the
  listing and deletions of listed objects is issued.
\<close>

locale owner_cleanup =
  fixes cleanup :: "('c, error) kop"
    and listed :: "'o list reply \<Rightarrow> event"
    and deleted :: "key \<Rightarrow> error \<Rightarrow> event"
    and okey :: "'o \<Rightarrow> key"
  assumes cleanup_trace: "post cleanup (\<lambda>tr r.
      (\<exists>e. tr = [listed (Inl e)] \<and> r \<noteq> None) \<or>
      (\<exists>items t. tr = listed (Inr items) # t \<and>
         loop_trace (\<lambda>x t' r'. \<exists>d. t' = [deleted (okey x) d] \<and>
           (r' = None \<longleftrightarrow> IgnoreNotFound d = None)) items t r))"
begin

definition cleaned :: "event list \<Rightarrow> bool" where
  "cleaned tr \<longleftrightarrow> (\<exists>items. listed (Inr items) \<in> set tr \<and>
     (\<forall>x \<in> set items. \<exists>d. deleted (okey x) d \<in> set tr \<and> IgnoreNotFound d = None))"

definition mine :: "event \<Rightarrow> bool" where
  "mine e \<longleftrightarrow> (\<exists>x. e = listed x) \<or> (\<exists>k d. e = deleted k d)"

lemma mine_intros [simp]: "mine (listed x)" "mine (deleted k d)"
  unfolding mine_def by blast+

lemma post_cleanup: "post cleanup (\<lambda>tr r. (r = None \<longrightarrow> cleaned tr) \<and> list_all mine tr)"
proof (rule post_weaken [OF cleanup_trace])
  fix tr r
  assume "(\<exists>e. tr = [listed (Inl e)] \<and> r \<noteq> None) \<or>
      (\<exists>items t. tr = listed (Inr items) # t \<and>
         loop_trace (\<lambda>x t' r'. \<exists>d. t' = [deleted (okey x) d] \<and>
           (r' = None \<longleftrightarrow> IgnoreNotFound d = None)) items t r)"
  then show "(r = None \<longrightarrow> cleaned tr) \<and> list_all mine tr"
  proof (elim disjE exE conjE)
    fix items t
    assume tr: "tr = listed (Inr items) # t"
      and loop: "loop_trace (\<lambda>x t' r'. \<exists>d. t' = [deleted (okey x) d] \<and>
           (r' = None \<longleftrightarrow> IgnoreNotFound d = None)) items t r"
    have "cleaned tr" if "r = None"
      unfolding cleaned_def
      using tr loop that by (intro exI [of _ items]) (fastforce dest: loop_trace_mem)
    moreover have "mine e" if "e \<in> set t" for e
      using loop_trace_event [OF loop that] by auto
    ultimately show ?thesis
      using tr by (auto simp: list_all_iff)
  qed auto
qed

end

interpretation rs_cleanup: owner_cleanup "DeleteRSByLabel K v" "E_list_rs (owner_options v)"
    E_delete_rs rs_key
  for K :: "'c kube" and v
proof unfold_locales
  let ?P = "\<lambda>x t r. \<exists>d. t = [E_delete_rs (rs_key x) d] \<and> (r = None \<longleftrightarrow> IgnoreNotFound d = None)"
  show "post (DeleteRSByLabel K v) (\<lambda>tr r.
      (\<exists>e. tr = [E_list_rs (owner_options v) (Inl e)] \<and> r \<noteq> None) \<or>
      (\<exists>items t. tr = E_list_rs (owner_options v) (Inr items) # t \<and> loop_trace ?P items t r))"
    unfolding DeleteRSByLabel_def listByOwner_def
    by (intro vcg post_for_eachI [where P = ?P]) auto
qed

interpretation rd_cleanup: owner_cleanup "DeleteRDByLabel K v" "E_list_rd (owner_options v)"
    E_delete_rd rd_key
  for K :: "'c kube" and v
proof unfold_locales
  let ?P = "\<lambda>x t r. \<exists>d. t = [E_delete_rd (rd_key x) d] \<and> (r = None \<longleftrightarrow> IgnoreNotFound d = None)"
  show "post (DeleteRDByLabel K v) (\<lambda>tr r.
      (\<exists>e. tr = [E_list_rd (owner_options v) (Inl e)] \<and> r \<noteq> None) \<or>
      (\<exists>items t. tr = E_list_rd (owner_options v) (Inr items) # t \<and> loop_trace ?P items t r))"
    unfolding DeleteRDByLabel_def listByOwner_def
    by (intro vcg post_for_eachI [where P = ?P]) auto
qed

section \<open>PVCs by owner\<close>

text \<open>The listing has no namespace option: it ranges over the whole cluster.\<close>

definition pvc_owner_options :: "vs_handler \<Rightarrow> list_options" where
  "pvc_owner_options v =
     \<lparr>inNamespace = None, matchingLabels = [(VGROwnerLabel, owner_name v)], matchingSelector = []\<rparr>"

definition ReclaimRetain :: string where
  "ReclaimRetain = ''Retain''"

definition ReclaimDelete :: string where
  "ReclaimDelete = ''Delete''"

text \<open>First part of the loop body: a bound volume that would be retained is set to be deleted.\<close>

definition release_volume :: "'c kube \<Rightarrow> pvc \<Rightarrow> ('c, error) kop" where
  "release_volume K p =
     (if pvc_volumeName p = '''' then ret None
      else do {
        r \<leftarrow> GetPV K (pvc_volumeName p);
        case r of
          Inl err \<Rightarrow>
            ret (if IsNotFound err then None
                 else Some (Wrap (''failed to get PV '' @ pvc_volumeName p @ '' for PVC '' @
                   pvc_namespace p @ ''/'' @ pvc_name p @ '': '') err ''''))
        | Inr pv \<Rightarrow>
            if pv_reclaimPolicy pv = ReclaimRetain then do {
              u \<leftarrow> UpdatePV K (pv\<lparr>pv_reclaimPolicy := ReclaimDelete\<rparr>);
              case u of
                Inl err \<Rightarrow> ret (Some (Wrap (''failed to update PV '' @ pv_name pv @
                  '' reclaim policy for PVC '' @ pvc_namespace p @ ''/'' @ pvc_name p @ '': '') err ''''))
              | Inr _ \<Rightarrow> ret None
            } else ret None
      })"

text \<open>The loop body. A finalizer that could not be removed is logged and no obstacle.\<close>

definition delete_owned_pvc :: "'c kube \<Rightarrow> pvc \<Rightarrow> ('c, error) kop" where
  "delete_owned_pvc K p = do {
     e \<leftarrow> release_volume K p;
     case e of
       Some err \<Rightarrow> ret (Some err)
     | None \<Rightarrow> do {
         _ \<leftarrow> removeFinalizerFromPVC K (pvc_name p) (pvc_namespace p);
         d \<leftarrow> DeletePVC K (pvc_key p);
         case IgnoreNotFound d of
           None \<Rightarrow> ret None
         | Some err \<Rightarrow> ret (Some (Wrap (''failed to delete PVC '' @ pvc_namespace p @ ''/'' @
             pvc_name p @ '': '') err ''''))
       }
   }"

definition DeletePVCsByLabel :: "'c kube \<Rightarrow> vs_handler \<Rightarrow> ('c, error) kop" where
  "DeletePVCsByLabel K v = do {
     r \<leftarrow> ListPVC K (pvc_owner_options v);
     case r of
       Inl err \<Rightarrow> ret (Some (Wrap ''failed to list PVCs by label: '' err ''''))
     | Inr items \<Rightarrow> for_each (delete_owned_pvc K) items
   }"

definition RemoveFinalizersFromPVCsByLabel :: "'c kube \<Rightarrow> vs_handler \<Rightarrow> ('c, error) kop" where
  "RemoveFinalizersFromPVCsByLabel K v = do {
     r \<leftarrow> ListPVC K (pvc_owner_options v);
     case r of
       Inl err \<Rightarrow> ret (Some (Wrap ''failed to list PVCs by label: '' err ''''))
     | Inr items \<Rightarrow> for_each (\<lambda>p. do {
         e \<leftarrow> removeFinalizerFromPVC K (pvc_name p) (pvc_namespace p);
         case e of
           None \<Rightarrow> ret None
         | Some err \<Rightarrow> ret (Some (Wrap (''failed to remove finalizer from PVC '' @
             pvc_namespace p @ ''/'' @ pvc_name p @ '': '') err ''''))
       }) items
   }"

section \<open>Properties: deletion by name\<close>

text \<open>
  When \<open>DeleteRS\<close> succeeds on a server whose ReplicationSources obey the store laws, the
  ReplicationSource of the PVC is gone, whether it existed or not, and every other one is as before.
\<close>

lemma DeleteRS_removes:
  assumes "deletable_store (k_get_rs K) rs_key view (k_delete_rs K)"
    and "run_state (DeleteRS K name ns) w = (None, w')"
  shows "view (outside w') = (view (outside w))((ns, name) := None)"
proof -
  obtain r c1 where g: "k_get_rs K (ns, name) (outside w) = (r, c1)" by fastforce
  show ?thesis
    by (rule deletable_store.get_then_delete [OF assms(1) g])
      (use assms(2) g in \<open>auto simp: DeleteRS_def GetReplicationSourceName_def client_defs
         split: prod.splits if_splits\<close>)
qed

text \<open>
  The same for \<open>DeleteRD\<close> and ReplicationDestinations.
\<close>

lemma DeleteRD_removes:
  assumes "deletable_store (k_get_rd K) rd_key view (k_delete_rd K)"
    and "run_state (DeleteRD K name ns) w = (None, w')"
  shows "view (outside w') = (view (outside w))((ns, name) := None)"
proof -
  obtain r c1 where g: "k_get_rd K (ns, name) (outside w) = (r, c1)" by fastforce
  show ?thesis
    by (rule deletable_store.get_then_delete [OF assms(1) g])
      (use assms(2) g in \<open>auto simp: DeleteRD_def getReplicationDestinationName_def client_defs
         split: prod.splits if_splits\<close>)
qed

section \<open>Properties: clean-up by owner\<close>

text \<open>
  When \<open>DeleteRSByLabel\<close> succeeds, on a server whose ReplicationSources obey the store laws,
  exactly the ReplicationSources in the owner's namespace with the owner's label are gone; every
  other one is as before.
\<close>

lemma DeleteRSByLabel_removes:
  assumes "deletable_store (k_get_rs K) rs_key view (k_delete_rs K)"
    and "listable_store (k_get_rs K) rs_key view (k_list_rs K) rs_labels"
    and "run_state (DeleteRSByLabel K v) w = (None, w')"
  shows "view (outside w') k = (case view (outside w) k of None \<Rightarrow> None
     | Some s \<Rightarrow> if fst k = owner_namespace v \<and> rs_labels s VGROwnerLabel = Some (owner_name v)
         then None else Some s)"
proof -
  obtain xs c1 where l: "k_list_rs K (owner_options v) (outside w) = (Inr xs, c1)"
    using assms(3) by (auto simp: DeleteRSByLabel_def listByOwner_def client_defs
        split: prod.splits sum.splits)
  then have "view (outside w') = listable_store.changed rs_labels (owner_options v) (\<lambda>_. None) (view (outside w))"
    using assms(3)
    by (intro listable_store.for_each_listed [OF assms(2), where w = "w\<lparr>outside := c1,
            history := history w @ [E_list_rs (owner_options v) (Inr xs)]\<rparr>"])
      (auto simp: DeleteRSByLabel_def listByOwner_def client_defs
        intro!: deletable_store.del_ignoring_missing [OF assms(1)]
        split: prod.splits option.splits)
  then show ?thesis
    by (auto simp: listable_store.changed_def [OF assms(2)] selected_def owner_options_def
        split: option.splits)
qed

text \<open>
  The same for \<open>DeleteRDByLabel\<close> and ReplicationDestinations.
\<close>

lemma DeleteRDByLabel_removes:
  assumes "deletable_store (k_get_rd K) rd_key view (k_delete_rd K)"
    and "listable_store (k_get_rd K) rd_key view (k_list_rd K) rd_labels"
    and "run_state (DeleteRDByLabel K v) w = (None, w')"
  shows "view (outside w') k = (case view (outside w) k of None \<Rightarrow> None
     | Some d \<Rightarrow> if fst k = owner_namespace v \<and> rd_labels d VGROwnerLabel = Some (owner_name v)
         then None else Some d)"
proof -
  obtain xs c1 where l: "k_list_rd K (owner_options v) (outside w) = (Inr xs, c1)"
    using assms(3) by (auto simp: DeleteRDByLabel_def listByOwner_def client_defs
        split: prod.splits sum.splits)
  then have "view (outside w') = listable_store.changed rd_labels (owner_options v) (\<lambda>_. None) (view (outside w))"
    using assms(3)
    by (intro listable_store.for_each_listed [OF assms(2), where w = "w\<lparr>outside := c1,
            history := history w @ [E_list_rd (owner_options v) (Inr xs)]\<rparr>"])
      (auto simp: DeleteRDByLabel_def listByOwner_def client_defs
        intro!: deletable_store.del_ignoring_missing [OF assms(1)]
        split: prod.splits option.splits)
  then show ?thesis
    by (auto simp: listable_store.changed_def [OF assms(2)] selected_def owner_options_def
        split: option.splits)
qed

text \<open>What removing the finalizer does: a read, and a write when the finalizer is there.\<close>

definition finalizer_removal :: "'c kube \<Rightarrow> string \<Rightarrow> string \<Rightarrow> event list \<Rightarrow> error \<Rightarrow> bool" where
  "finalizer_removal K name ns tr r \<longleftrightarrow>
     (\<exists>e. tr = [E_get_pvc (ns, name) (Inl e)] \<and> (r = None \<longleftrightarrow> IsNotFound e)) \<or>
     (\<exists>p. tr = [E_get_pvc (ns, name) (Inr p)] \<and> r = None \<and>
        \<not> k_contains_finalizer K (pvc_finalizers p) PVCFinalizerName) \<or>
     (\<exists>p u. tr = [E_get_pvc (ns, name) (Inr p), E_update_pvc
          (p\<lparr>pvc_finalizers := k_remove_finalizer K (pvc_finalizers p) PVCFinalizerName\<rparr>) u] \<and>
        k_contains_finalizer K (pvc_finalizers p) PVCFinalizerName \<and> (r = None \<longleftrightarrow> (\<exists>q. u = Inr q)))"

lemma post_removeFinalizer:
  "post (removeFinalizerFromPVC K name ns) (finalizer_removal K name ns)"
  unfolding removeFinalizerFromPVC_def finalizer_removal_def by (intro vcg) auto

text \<open>
  What \<open>DeletePVCsByLabel\<close> has done to a PVC: its volume will be deleted with it (there is none,
  or it was read with another policy than Retain, or its policy was changed to Delete), and after
  that the PVC was deleted or was no longer there.
\<close>

definition volume_released :: "pvc \<Rightarrow> event list \<Rightarrow> bool" where
  "volume_released p tr \<longleftrightarrow>
     pvc_volumeName p = '''' \<or>
     (\<exists>e. E_get_pv (pvc_volumeName p) (Inl e) \<in> set tr \<and> IsNotFound e) \<or>
     (\<exists>pv. E_get_pv (pvc_volumeName p) (Inr pv) \<in> set tr \<and>
        (pv_reclaimPolicy pv \<noteq> ReclaimRetain \<or>
         (\<exists>pv'. E_update_pv (pv\<lparr>pv_reclaimPolicy := ReclaimDelete\<rparr>) (Inr pv') \<in> set tr)))"

definition pvc_deleted :: "pvc \<Rightarrow> event list \<Rightarrow> bool" where
  "pvc_deleted p tr \<longleftrightarrow>
     (\<exists>before d after. tr = before @ E_delete_pvc (pvc_key p) d # after \<and>
        IgnoreNotFound d = None \<and> volume_released p before)"

lemma pvc_deletedI:
  "IgnoreNotFound d = None \<Longrightarrow> volume_released p a \<Longrightarrow> pvc_deleted p (a @ E_delete_pvc (pvc_key p) d # b)"
  unfolding pvc_deleted_def by blast

lemma volume_released_mono: "volume_released p tr \<Longrightarrow> set tr \<subseteq> set tr' \<Longrightarrow> volume_released p tr'"
  unfolding volume_released_def by blast

lemma pvc_deleted_segment: "pvc_deleted p t \<Longrightarrow> pvc_deleted p (a @ t @ b)"
proof -
  assume "pvc_deleted p t"
  then obtain before d after where t: "t = before @ E_delete_pvc (pvc_key p) d # after"
    and d: "IgnoreNotFound d = None" and v: "volume_released p before"
    unfolding pvc_deleted_def by blast
  have "volume_released p (a @ before)" by (rule volume_released_mono [OF v]) simp
  from pvc_deletedI [OF d this, of "after @ b"] show ?thesis by (simp add: t)
qed

lemma post_release_volume:
  "post (release_volume K p) (\<lambda>tr r. r = None \<longrightarrow> volume_released p tr)"
  unfolding release_volume_def by (intro vcg) (auto simp: volume_released_def)

lemma post_delete_owned_pvc:
  "post (delete_owned_pvc K p) (\<lambda>tr r. r = None \<longrightarrow> pvc_deleted p tr)"
  unfolding delete_owned_pvc_def
proof (rule post_bind, rule post_weaken [OF post_release_volume])
  fix tr and r :: error
  assume v: "r = None \<longrightarrow> volume_released p tr"
  have d: "pvc_deleted p (tr @ t @ [E_delete_pvc (pvc_key p) x])"
    if "IgnoreNotFound x = None" "r = None" for t x
    using that v pvc_deletedI [of x p "tr @ t" "[]"] volume_released_mono [of p tr "tr @ t"] by simp
  show "post (case r of None \<Rightarrow> do {
         _ \<leftarrow> removeFinalizerFromPVC K (pvc_name p) (pvc_namespace p);
         x \<leftarrow> DeletePVC K (pvc_key p);
         case IgnoreNotFound x of
           None \<Rightarrow> ret None
         | Some err \<Rightarrow> ret (Some (Wrap (''failed to delete PVC '' @ pvc_namespace p @ ''/'' @
             pvc_name p @ '': '') err ''''))
       }
     | Some err \<Rightarrow> ret (Some err))
     (\<lambda>tr' r'. r' = None \<longrightarrow> pvc_deleted p (tr @ tr'))"
    by (intro vcg post_weaken [OF post_removeFinalizer]) (use d in \<open>auto simp del: IgnoreNotFound_None_iff\<close>)
qed

lemma post_delete_owned_pvcs:
  "post (for_each (delete_owned_pvc K) items)
     (\<lambda>tr r. r = None \<longrightarrow> (\<forall>p \<in> set items. pvc_deleted p tr))"
proof (rule post_for_eachI [OF post_delete_owned_pvc])
  fix tr and r :: error
  assume "loop_trace (\<lambda>p tr r. r = None \<longrightarrow> pvc_deleted p tr) items tr r"
  then show "r = None \<longrightarrow> (\<forall>p \<in> set items. pvc_deleted p tr)"
    by (auto dest!: loop_trace_segment intro: pvc_deleted_segment)
qed

lemma post_DeletePVCsByLabel:
  "post (DeletePVCsByLabel K v) (\<lambda>tr r. r = None \<longrightarrow>
     (\<exists>items. E_list_pvc (pvc_owner_options v) (Inr items) \<in> set tr \<and>
        (\<forall>p \<in> set items. pvc_deleted p tr)))"
  unfolding DeletePVCsByLabel_def
  by (intro vcg post_weaken [OF post_delete_owned_pvcs])
    (auto intro: exI pvc_deleted_segment [of _ _ "[e]" "[]" for e, simplified])

text \<open>
  C11: a \<open>DeletePVCsByLabel\<close> that succeeded has listed the PVCs with the owner's label, in every
  namespace, and for each one listed the volume was released before the PVC was deleted.
\<close>

theorem DeletePVCsByLabel_complete:
  assumes "runs (DeletePVCsByLabel K v) tr None"
  shows "\<exists>items. E_list_pvc (pvc_owner_options v) (Inr items) \<in> set tr \<and>
     (\<forall>p \<in> set items. pvc_deleted p tr)"
  using post_runs [OF post_DeletePVCsByLabel assms] by simp

theorem DeletePVCsByLabel_complete_witness:
  "\<exists>tr. runs (DeletePVCsByLabel ref_kube \<lparr>owner_name = ''group'', owner_namespace = ''app'', schedulingInterval = ''''\<rparr>) tr None \<and>
     pvc_deleted ((sample_pvc ''app'' ''data'')\<lparr>pvc_labels := [VGROwnerLabel \<mapsto> ''group'']\<rparr>) tr"
proof -
  let ?v = "\<lparr>owner_name = ''group'', owner_namespace = ''app'', schedulingInterval = ''''\<rparr>"
  let ?p = "(sample_pvc ''app'' ''data'')\<lparr>pvc_labels := [VGROwnerLabel \<mapsto> ''group'']\<rparr>"
  let ?run = "run_state (DeletePVCsByLabel ref_kube ?v)
    (world_of (empty_cluster\<lparr>c_pvcs := [?p], c_pvs := [sample_pv ''pv-data'']\<rparr>))"
  have "fst ?run = None \<and> E_list_pvc (pvc_owner_options ?v) (Inr [?p]) \<in> set (history (snd ?run)) \<and>
      (\<forall>xs. E_list_pvc (pvc_owner_options ?v) (Inr xs) \<in> set (history (snd ?run)) \<longrightarrow> xs = [?p])"
    by (simp add: DeletePVCsByLabel_def delete_owned_pvc_def release_volume_def removeFinalizerFromPVC_def
        pvc_owner_options_def client_defs ref_defs sample_pvc_def sample_pv_def ReclaimRetain_def ReclaimDelete_def)
  then have r: "runs (DeletePVCsByLabel ref_kube ?v) (history (snd ?run)) None"
    and l: "\<And>xs. E_list_pvc (pvc_owner_options ?v) (Inr xs) \<in> set (history (snd ?run)) \<Longrightarrow> xs = [?p]"
    by (auto intro: runs_refI [of _ _ _ "snd ?run"] simp: prod_eq_iff)
  show ?thesis using r DeletePVCsByLabel_complete [OF r] l by fastforce
qed

section \<open>Properties: the protecting finalizer\<close>

text \<open>The entry of a PVC after adding, and after removing, the protecting finalizer.\<close>

definition protected_entry :: "(pvc \<Rightarrow> pvc option) \<Rightarrow> pvc option \<Rightarrow> pvc option" where
  "protected_entry kept = edited kept (\<lambda>p. PVCFinalizerName \<in> set (pvc_finalizers p))
     (\<lambda>p. p\<lparr>pvc_finalizers := pvc_finalizers p @ [PVCFinalizerName]\<rparr>)"

definition unprotected_entry :: "(pvc \<Rightarrow> pvc option) \<Rightarrow> pvc option \<Rightarrow> pvc option" where
  "unprotected_entry kept = edited kept (\<lambda>p. PVCFinalizerName \<notin> set (pvc_finalizers p))
     (\<lambda>p. p\<lparr>pvc_finalizers := removeAll PVCFinalizerName (pvc_finalizers p)\<rparr>)"

lemma add_view:
  assumes "updatable_store (k_get_pvc K) pvc_key view (k_update_pvc K) kept"
    and "finalizer_functions K"
    and "run_state (addFinalizerToPVC K name ns) w = (None, w')"
  shows "view (outside w') = (view (outside w))((ns, name) := protected_entry kept (view (outside w) (ns, name)))"
proof -
  obtain r c1 where g: "k_get_pvc K (ns, name) (outside w) = (r, c1)" by fastforce
  show ?thesis
    unfolding protected_entry_def
    by (rule updatable_store.get_then_edit [OF assms(1) g])
      (use assms(3) g in \<open>auto simp: addFinalizerToPVC_def client_defs finalizer_laws [OF assms(2)]
         split: prod.splits if_splits sum.splits\<close>)
qed

lemma remove_view:
  assumes "updatable_store (k_get_pvc K) pvc_key view (k_update_pvc K) kept"
    and "finalizer_functions K"
    and "run_state (removeFinalizerFromPVC K name ns) w = (None, w')"
  shows "view (outside w') = (view (outside w))((ns, name) := unprotected_entry kept (view (outside w) (ns, name)))"
proof -
  obtain r c1 where g: "k_get_pvc K (ns, name) (outside w) = (r, c1)" by fastforce
  show ?thesis
    unfolding unprotected_entry_def
    by (rule updatable_store.get_then_edit [OF assms(1) g])
      (use assms(3) g in \<open>auto simp: removeFinalizerFromPVC_def client_defs finalizer_laws [OF assms(2)]
         split: prod.splits if_splits sum.splits\<close>)
qed

text \<open>
  When \<open>addFinalizerToPVC\<close> succeeds, the PVC, if it is there afterwards, has the protecting
  finalizer, with the finalizers it had before in front; every other PVC is as before.
\<close>

lemma addFinalizerToPVC_protects:
  assumes "updatable_store (k_get_pvc K) pvc_key view (k_update_pvc K) kept"
    and "finalizer_functions K"
    and "run_state (addFinalizerToPVC K name ns) w = (None, w')"
  shows "(\<forall>p'. view (outside w') (ns, name) = Some p' \<longrightarrow>
       (\<exists>p. view (outside w) (ns, name) = Some p \<and>
          p' = p\<lparr>pvc_finalizers := pvc_finalizers p'\<rparr> \<and>
          prefix (pvc_finalizers p) (pvc_finalizers p') \<and>
          PVCFinalizerName \<in> set (pvc_finalizers p'))) \<and>
     (\<forall>k. k \<noteq> (ns, name) \<longrightarrow> view (outside w') k = view (outside w) k)"
  using add_view [OF assms]
  by (auto simp: protected_entry_def edited_def split: option.splits if_splits
      dest!: updatable_store.kept_same [OF assms(1)])

text \<open>
  Adding the finalizer to a PVC that does not have it and is not being deleted, and then
  removing it, with nothing in between, leaves every PVC as it was.
\<close>

lemma finalizer_roundtrip:
  assumes "updatable_store (k_get_pvc K) pvc_key view (k_update_pvc K) kept"
    and "finalizer_functions K"
    and "\<And>p. pvc_deletionTimestamp p = None \<Longrightarrow> kept p = Some p"
    and "view (outside w) (ns, name) = Some p" and "pvc_deletionTimestamp p = None"
    and "PVCFinalizerName \<notin> set (pvc_finalizers p)"
    and "run_state (addFinalizerToPVC K name ns) w = (None, w1)"
    and "run_state (removeFinalizerFromPVC K name ns) w1 = (None, w2)"
  shows "view (outside w2) = view (outside w)"
  using add_view [OF assms(1,2,7)] remove_view [OF assms(1,2,8)] assms(3-6)
  by (auto simp: protected_entry_def unprotected_entry_def edited_def fun_eq_iff)

text \<open>
  When \<open>RemoveFinalizersFromPVCsByLabel\<close> succeeds, exactly the PVCs with the owner's label,
  in every namespace, have lost the protecting finalizer (and are gone, where that was the last
  one of a PVC being deleted); every other PVC is as before.
\<close>

lemma RemoveFinalizersFromPVCsByLabel_view:
  assumes "updatable_store (k_get_pvc K) pvc_key view (k_update_pvc K) kept"
    and "listable_store (k_get_pvc K) pvc_key view (k_list_pvc K) pvc_labels"
    and "finalizer_functions K"
    and "run_state (RemoveFinalizersFromPVCsByLabel K v) w = (None, w')"
  shows "view (outside w') k = (case view (outside w) k of None \<Rightarrow> None
     | Some p \<Rightarrow> if pvc_labels p VGROwnerLabel = Some (owner_name v)
         then unprotected_entry kept (Some p) else Some p)"
proof -
  obtain xs c1 where l: "k_list_pvc K (pvc_owner_options v) (outside w) = (Inr xs, c1)"
    using assms(4) by (auto simp: RemoveFinalizersFromPVCsByLabel_def client_defs
        split: prod.splits sum.splits)
  have twice: "unprotected_entry kept (unprotected_entry kept x) = unprotected_entry kept x" for x
    unfolding unprotected_entry_def
    by (rule edited_twice) (use updatable_store.kept_same [OF assms(1)] in auto)
  from l have "view (outside w') =
      listable_store.changed pvc_labels (pvc_owner_options v) (unprotected_entry kept) (view (outside w))"
    using assms(4)
    by (intro listable_store.for_each_listed [OF assms(2) _ twice, where w = "w\<lparr>outside := c1,
            history := history w @ [E_list_pvc (pvc_owner_options v) (Inr xs)]\<rparr>"])
      (auto simp: RemoveFinalizersFromPVCsByLabel_def client_defs
        intro!: remove_view [OF assms(1,3)]
        split: prod.splits option.splits)
  then show ?thesis
    by (auto simp: listable_store.changed_def [OF assms(2)] selected_def pvc_owner_options_def
        split: option.splits)
qed

section \<open>Properties: secrets\<close>

text \<open>
  A generated secret holds one entry, \<open>psk.txt\<close>, with the key's identity and, when the random
  source gave the 64 bytes asked for, 128 lower-case hexadecimal digits; the only request is that
  one read.
\<close>

lemma replication_secret_format:
  assumes "runs (generateVolSyncReplicationSecret K v name) tr (Inr s)"
  shows "\<exists>bytes. tr = [E_rand 64 (Inr bytes)] \<and> secret_name s = name \<and>
     secret_namespace s = owner_namespace v \<and>
     secret_stringData s = [''psk.txt'' \<mapsto> ''volsyncmock:'' @ EncodeToString bytes] \<and>
     length (EncodeToString bytes) = 2 * length bytes \<and>
     list_all (\<lambda>c. \<exists>n < 16. c = hex_digit n) (EncodeToString bytes)"
proof -
  have "post (generateVolSyncReplicationSecret K v name) (\<lambda>tr r. \<forall>s. r = Inr s \<longrightarrow>
      (\<exists>bytes. tr = [E_rand 64 (Inr bytes)] \<and> s = \<lparr>secret_name = name,
         secret_namespace = owner_namespace v,
         secret_stringData = [''psk.txt'' \<mapsto> ''volsyncmock:'' @ EncodeToString bytes]\<rparr>))"
    unfolding generateVolSyncReplicationSecret_def genTLSPreSharedKey_def tlsPSKDataSize_def
    by (intro vcg) auto
  from post_runs [OF this assms] show ?thesis
    by (auto simp: EncodeToString_digits)
qed

end
