(* ===== verification/VS_TempPVC.thy ===== *)
theory VS_TempPVC
  imports VS_Handler
begin

text \<open>
  internal/volsync/handler.go: temporary PVCs. While an application moves, its PVC is deleted;
  \<open>CreateTemporaryPVCFromTerminating\<close> makes a second PVC that holds the volume and what is needed
  to recreate the first, and \<open>RestorePVCFromTemporary\<close> recreates it. Both move the volume's claim
  reference, so the order of their writes is what keeps the volume claimed.
\<close>

definition tmp_suffix :: string where
  "tmp_suffix = ''-tmp''"

section \<open>Making a temporary PVC\<close>

definition keep_on_temporary :: "string \<Rightarrow> bool" where
  "keep_on_temporary k \<longleftrightarrow>
     k = ''volumereplicationgroups.ramendr.openshift.io/ramen-restore'' \<or>
     HasPrefix k ''apps.open-cluster-management.io''"

definition temporary_note :: string where
  "temporary_note = ''not reconcilable; used only to hold the main PVC info for restore''"

text \<open>The claim reference both temporary-PVC operations write: no UID, no resource version.\<close>

definition claim_to :: "string \<Rightarrow> string \<Rightarrow> object_reference" where
  "claim_to ns name =
     \<lparr>ref_kind = ''PersistentVolumeClaim'', ref_namespace = ns, ref_name = name, ref_uid = '''',
      ref_apiVersion = ''v1'', ref_resourceVersion = ''''\<rparr>"

definition temporary_pvc :: "pvc \<Rightarrow> string \<Rightarrow> string \<Rightarrow> pv \<Rightarrow> pvc" where
  "temporary_pvc p name ns pv =
     \<lparr>pvc_name = name, pvc_namespace = ns, pvc_labels = pvc_labels p,
      pvc_annotations =
        (restrict_keys keep_on_temporary (pvc_annotations p))(TemporaryPVCAnnotation \<mapsto> temporary_note),
      pvc_finalizers = [], pvc_deletionTimestamp = None,
      pvc_accessModes = pvc_accessModes p, pvc_resources = pvc_resources p,
      pvc_storageClassName = pvc_storageClassName p, pvc_volumeMode = pvc_volumeMode p,
      pvc_volumeName = pv_name pv, pvc_phase = ''''\<rparr>"

definition claims :: "pv \<Rightarrow> string \<Rightarrow> string \<Rightarrow> bool" where
  "claims pv ns name \<longleftrightarrow>
     (case pv_claimRef pv of None \<Rightarrow> False
      | Some c \<Rightarrow> ref_name c = name \<and> ref_namespace c = ns)"

definition CreateTemporaryPVCFromTerminating ::
    "'c kube \<Rightarrow> string \<Rightarrow> string \<Rightarrow> bool \<Rightarrow> ('c, error) kop" where
  "CreateTemporaryPVCFromTerminating K pvcName pvcNamespace rmFinalizer = do {
     r \<leftarrow> GetPVC K (pvcNamespace, pvcName);
     case r of
       Inl err \<Rightarrow> ret (Some (Wrap ''failed to get terminating PVC: '' err ''''))
     | Inr p \<Rightarrow> do {
     q \<leftarrow> getPVFromPVC K pvcName pvcNamespace;
     case q of
       Inl err \<Rightarrow> ret (Some (Wrap ''failed to get PV for terminating PVC: '' err ''''))
     | Inr pv \<Rightarrow> do {
     let tmpPVCName = pvcName @ tmp_suffix;
     let tmpPVC = temporary_pvc p tmpPVCName pvcNamespace pv;
     x \<leftarrow> GetPVC K (pvcNamespace, tmpPVCName);
     created \<leftarrow> (case x of
         Inr _ \<Rightarrow> ret None
       | Inl err \<Rightarrow>
           if IsNotFound err then do {
             c \<leftarrow> CreatePVC K tmpPVC;
             case c of
               Inl err' \<Rightarrow> ret (Some (Wrap ''failed to create temporary PVC: '' err' ''''))
             | Inr _ \<Rightarrow> ret None
           } else ret (Some (Wrap ''failed to check for existing temporary PVC: '' err '''')));
     case created of
       Some err \<Rightarrow> ret (Some err)
     | None \<Rightarrow> do {
     updated \<leftarrow> (if claims pv pvcNamespace tmpPVCName then ret None
       else do {
         u \<leftarrow> UpdatePV K (pv\<lparr>pv_claimRef := Some (claim_to pvcNamespace tmpPVCName)\<rparr>);
         case u of
           Inl err \<Rightarrow> ret (Some (Wrap ''failed to update PV claimRef: '' err ''''))
         | Inr _ \<Rightarrow> ret None
       });
     case updated of
       Some err \<Rightarrow> ret (Some err)
     | None \<Rightarrow>
         if \<not> rmFinalizer then ret None
         else do {
           f \<leftarrow> removeFinalizerFromPVC K pvcName pvcNamespace;
           case f of
             Some err \<Rightarrow> ret (Some (Wrap ''failed to remove finalizer from terminating PVC: '' err ''''))
           | None \<Rightarrow> ret None
         }
     }}}
   }"

section \<open>Restoring the main PVC\<close>

definition HasTemporaryPVC :: "'c kube \<Rightarrow> string \<Rightarrow> string \<Rightarrow> ('c, bool reply) kop" where
  "HasTemporaryPVC K pvcName pvcNamespace =
     (if HasSuffix pvcName tmp_suffix then ret (Inr True)
      else do {
        r \<leftarrow> GetPVC K (pvcNamespace, pvcName @ tmp_suffix);
        case r of
          Inl err \<Rightarrow>
            ret (if IsNotFound err then Inr False
                 else Inl (Wrap ''failed to check for temporary PVC: '' err ''''))
        | Inr _ \<Rightarrow> ret (Inr True)
      })"

definition drop_on_restore :: "string \<Rightarrow> bool" where
  "drop_on_restore k \<longleftrightarrow> k = TemporaryPVCAnnotation \<or> k = ''pv.kubernetes.io/bind-completed''"

definition consistency_group_label :: string where
  "consistency_group_label = ''ramendr.openshift.io/consistency-group''"

definition keep_label_on_restore :: "string \<Rightarrow> bool" where
  "keep_label_on_restore k \<longleftrightarrow>
     k = VGROwnerLabel \<or> k = VGROwnerNamespaceLabel \<or> k = consistency_group_label"

definition restored_pvc :: "pvc \<Rightarrow> string \<Rightarrow> string \<Rightarrow> pv \<Rightarrow> pvc" where
  "restored_pvc tmpPVC name ns pv =
     \<lparr>pvc_name = name, pvc_namespace = ns,
      pvc_labels = restrict_keys keep_label_on_restore (pvc_labels tmpPVC),
      pvc_annotations = restrict_keys (\<lambda>k. \<not> drop_on_restore k) (pvc_annotations tmpPVC),
      pvc_finalizers = [], pvc_deletionTimestamp = None,
      pvc_accessModes = pvc_accessModes tmpPVC, pvc_resources = pvc_resources tmpPVC,
      pvc_storageClassName = pvc_storageClassName tmpPVC, pvc_volumeMode = pvc_volumeMode tmpPVC,
      pvc_volumeName = pv_name pv, pvc_phase = ''''\<rparr>"

text \<open>
  The names \<open>RestorePVCFromTemporary\<close> works with: for a name that ends in \<open>-tmp\<close> the temporary
  PVC is that one and the main PVC the name without the suffix.
\<close>

definition restore_names :: "string \<Rightarrow> string \<times> string" where
  "restore_names pvcName =
     (if HasSuffix pvcName tmp_suffix then (pvcName, TrimSuffix pvcName tmp_suffix)
      else (pvcName @ tmp_suffix, pvcName))"

text \<open>
  The branch for a main PVC that still exists and is being deleted: its labels are saved on the
  temporary PVC, its finalizers dropped, and an error returned in every case.
\<close>

definition release_terminating :: "'c kube \<Rightarrow> pvc \<Rightarrow> pvc \<Rightarrow> string \<Rightarrow> ('c, error) kop" where
  "release_terminating K tmpPVC existingPVC pvcName = do {
     u \<leftarrow> UpdatePVC K (tmpPVC\<lparr>pvc_labels := pvc_labels existingPVC\<rparr>);
     case u of
       Inl err \<Rightarrow> ret (Some (Wrap
         ''failed to update temporary PVC labels from App PVC before letting it go: '' err ''''))
     | Inr _ \<Rightarrow>
         if pvc_finalizers existingPVC \<noteq> [] then do {
           x \<leftarrow> UpdatePVC K (existingPVC\<lparr>pvc_finalizers := []\<rparr>);
           case x of
             Inl err \<Rightarrow> ret (Some (Wrap ''failed to remove finalizers from terminating PVC: '' err ''''))
           | Inr _ \<Rightarrow> ret (Some (Text (''waiting for the PVC to go away: '' @ pvcName)))
         } else ret (Some (Text
           (''no Finalizers. But PVC still exists. Waiting for the PVC to go away: '' @ pvcName)))
   }"

text \<open>The rest of the operation: recreate, move the claim, drop the temporary PVC.\<close>

definition restore_from :: "'c kube \<Rightarrow> pvc \<Rightarrow> pv \<Rightarrow> string \<Rightarrow> string \<Rightarrow> ('c, error) kop" where
  "restore_from K tmpPVC pv pvcName pvcNamespace = do {
     c \<leftarrow> CreatePVC K (restored_pvc tmpPVC pvcName pvcNamespace pv);
     case (case c of Inl err \<Rightarrow> if IsAlreadyExists err then None else Some err | Inr _ \<Rightarrow> None) of
       Some err \<Rightarrow> ret (Some (Wrap ''failed to create restored PVC: '' err ''''))
     | None \<Rightarrow> do {
     u \<leftarrow> UpdatePV K (pv\<lparr>pv_claimRef := Some (claim_to pvcNamespace pvcName)\<rparr>);
     case u of
       Inl err \<Rightarrow> ret (Some (Wrap ''failed to update PV claimRef to restored PVC: '' err ''''))
     | Inr _ \<Rightarrow> do {
     d \<leftarrow> DeletePVC K (pvc_key tmpPVC);
     case IgnoreNotFound d of
       Some err \<Rightarrow> ret (Some (Wrap ''failed to delete temporary PVC: '' err ''''))
     | None \<Rightarrow> do {
         f \<leftarrow> removeFinalizerFromPVC K (pvc_name tmpPVC) (pvc_namespace tmpPVC);
         case f of
           Some err \<Rightarrow> ret (Some (Wrap ''failed to remove finalizer from terminating PVC: '' err ''''))
         | None \<Rightarrow> ret None
       }
     }}
   }"

definition RestorePVCFromTemporary :: "'c kube \<Rightarrow> string \<Rightarrow> string \<Rightarrow> ('c, error) kop" where
  "RestorePVCFromTemporary K pvcName0 pvcNamespace = do {
     let (tmpPVCName, pvcName) = restore_names pvcName0;
     r \<leftarrow> GetPVC K (pvcNamespace, tmpPVCName);
     case r of
       Inl err \<Rightarrow>
         ret (if IsNotFound err then None
              else Some (Wrap ''failed to get temporary PVC: '' err ''''))
     | Inr tmpPVC \<Rightarrow> do {
     q \<leftarrow> getPVFromPVC K tmpPVCName pvcNamespace;
     case q of
       Inl err \<Rightarrow> ret (Some (Wrap ''failed to get PV for temporary PVC: '' err ''''))
     | Inr pv \<Rightarrow> do {
     x \<leftarrow> GetPVC K (pvcNamespace, pvcName);
     case x of
       Inr existingPVC \<Rightarrow>
         if pvc_deletionTimestamp existingPVC \<noteq> None
         then release_terminating K tmpPVC existingPVC pvcName
         else restore_from K tmpPVC pv pvcName pvcNamespace
     | Inl err \<Rightarrow>
         if \<not> IsNotFound err
         then ret (Some (Wrap ''failed to check existing PVC before restore: '' err ''''))
         else restore_from K tmpPVC pv pvcName pvcNamespace
     }}
   }"

section \<open>Properties: making a temporary PVC\<close>

fun is_create_pvc :: "event \<Rightarrow> bool" where
  "is_create_pvc (E_create_pvc _ _) = True"
| "is_create_pvc _ = False"

fun is_update_pvc :: "event \<Rightarrow> bool" where
  "is_update_pvc (E_update_pvc _ _) = True"
| "is_update_pvc _ = False"

fun is_delete_pvc :: "event \<Rightarrow> bool" where
  "is_delete_pvc (E_delete_pvc _ _) = True"
| "is_delete_pvc _ = False"

fun is_update_pv :: "event \<Rightarrow> bool" where
  "is_update_pv (E_update_pv _ _) = True"
| "is_update_pv _ = False"

text \<open>Evidence in the history: a PVC of this key is there; the volume's claim names it.\<close>

fun shows_pvc :: "key \<Rightarrow> event \<Rightarrow> bool" where
  "shows_pvc k (E_get_pvc k' (Inr _)) = (k' = k)"
| "shows_pvc k (E_create_pvc p (Inr _)) = (pvc_key p = k)"
| "shows_pvc k (E_create_pvc p (Inl e)) = (pvc_key p = k \<and> IsAlreadyExists e)"
| "shows_pvc k _ = False"

fun shows_claim :: "key \<Rightarrow> event \<Rightarrow> bool" where
  "shows_claim k (E_get_pv _ (Inr v)) = claims v (fst k) (snd k)"
| "shows_claim k (E_update_pv v (Inr _)) = claims v (fst k) (snd k)"
| "shows_claim k _ = False"

lemma claims_claim_to [simp]: "claims (pv\<lparr>pv_claimRef := Some (claim_to ns name)\<rparr>) ns name"
  by (simp add: claims_def claim_to_def)

lemma tmp_suffix_nonempty [simp]: "tmp_suffix \<noteq> []" "pvcName @ tmp_suffix \<noteq> pvcName"
  by (simp_all add: tmp_suffix_def)

lemma temporary_pvc_key [simp]: "pvc_name (temporary_pvc p name ns pv) = name"
  "pvc_namespace (temporary_pvc p name ns pv) = ns"
  by (simp_all add: temporary_pvc_def)

text \<open>
  C16: \<open>CreateTemporaryPVCFromTerminating\<close>, on every path, errors included: the volume's claim is
  written only after the temporary PVC is known to be there, the main PVC's finalizer is touched
  only after the claim is known to name the temporary PVC, and not at all without \<open>rmFinalizer\<close>;
  no PVC is deleted; and success means that both are known.
\<close>

theorem temporary_pvc_order:
  assumes "runs (CreateTemporaryPVCFromTerminating K name ns rmFinalizer) tr r"
  shows "guarded (shows_pvc (ns, name @ tmp_suffix)) is_update_pv tr \<and>
     guarded (shows_claim (ns, name @ tmp_suffix)) is_update_pvc tr \<and>
     (\<not> rmFinalizer \<longrightarrow> \<not> list_ex is_update_pvc tr) \<and>
     \<not> list_ex is_delete_pvc tr \<and>
     (r = None \<longrightarrow> list_ex (shows_pvc (ns, name @ tmp_suffix)) tr \<and>
        list_ex (shows_claim (ns, name @ tmp_suffix)) tr)"
proof -
  have "post (CreateTemporaryPVCFromTerminating K name ns rmFinalizer) (\<lambda>tr r.
     guarded (shows_pvc (ns, name @ tmp_suffix)) is_update_pv tr \<and>
     guarded (shows_claim (ns, name @ tmp_suffix)) is_update_pvc tr \<and>
     (\<not> rmFinalizer \<longrightarrow> \<not> list_ex is_update_pvc tr) \<and>
     \<not> list_ex is_delete_pvc tr \<and>
     (r = None \<longrightarrow> list_ex (shows_pvc (ns, name @ tmp_suffix)) tr \<and>
        list_ex (shows_claim (ns, name @ tmp_suffix)) tr))"
    unfolding CreateTemporaryPVCFromTerminating_def getPVFromPVC_def removeFinalizerFromPVC_def
    by (intro vcg) (auto split: if_splits)
  from post_runs [OF this assms] show ?thesis .
qed

theorem temporary_pvc_order_witness:
  "\<exists>tr. runs (CreateTemporaryPVCFromTerminating ref_kube ''data'' ''app'' True) tr None \<and>
     list_ex is_update_pvc tr \<and> list_ex (shows_claim (''app'', ''data-tmp'')) tr"
proof -
  let ?p = "(sample_pvc ''app'' ''data'')\<lparr>pvc_finalizers := [PVCFinalizerName], pvc_deletionTimestamp := Some 1\<rparr>"
  let ?run = "run_state (CreateTemporaryPVCFromTerminating ref_kube ''data'' ''app'' True)
    (world_of (empty_cluster\<lparr>c_pvcs := [?p], c_pvs := [sample_pv ''pv-data'']\<rparr>))"
  have "fst ?run = None \<and> list_ex is_update_pvc (history (snd ?run))"
    by (simp add: CreateTemporaryPVCFromTerminating_def getPVFromPVC_def removeFinalizerFromPVC_def
        client_defs ref_defs sample_pvc_def sample_pv_def claims_def tmp_suffix_def temporary_pvc_def Let_def
        not_found_def IsNotFound_def)
  then have r: "runs (CreateTemporaryPVCFromTerminating ref_kube ''data'' ''app'' True) (history (snd ?run)) None"
    and u: "list_ex is_update_pvc (history (snd ?run))"
    by (auto intro: runs_refI [of _ _ _ "snd ?run"] simp: prod_eq_iff)
  from temporary_pvc_order [OF r] have "list_ex (shows_claim (''app'', ''data-tmp'')) (history (snd ?run))"
    by (simp add: tmp_suffix_def)
  with r u show ?thesis by blast
qed

section \<open>Properties: restoring the main PVC\<close>

lemma restore_names_differ: "restore_names n = (t, m) \<Longrightarrow> t \<noteq> m \<and> t = m @ tmp_suffix"
  by (auto simp: restore_names_def HasSuffix_suffix TrimSuffix_def suffix_def split: if_splits)

lemma restored_pvc_key [simp]: "pvc_name (restored_pvc t name ns pv) = name"
  "pvc_namespace (restored_pvc t name ns pv) = ns"
  by (simp_all add: restored_pvc_def)

text \<open>
  C17: \<open>RestorePVCFromTemporary\<close>, on every path, errors included: the volume's claim is written only
  after the main PVC is known to be there, a PVC is deleted only after the claim is known to name
  the main PVC, and the only PVC deleted is the one that was read as the temporary PVC.
\<close>

theorem restore_order:
  assumes "restore_names name = (tmpName, mainName)"
    and "runs (RestorePVCFromTemporary K name ns) tr r"
  shows "guarded (shows_pvc (ns, mainName)) is_update_pv tr \<and>
     guarded (shows_claim (ns, mainName)) is_delete_pvc tr \<and>
     (\<forall>k d. E_delete_pvc k d \<in> set tr \<longrightarrow>
        (\<exists>t. E_get_pvc (ns, tmpName) (Inr t) \<in> set tr \<and> k = pvc_key t))"
proof -
  have "post (RestorePVCFromTemporary K name ns) (\<lambda>tr r.
     guarded (shows_pvc (ns, mainName)) is_update_pv tr \<and>
     guarded (shows_claim (ns, mainName)) is_delete_pvc tr \<and>
     (\<forall>k d. E_delete_pvc k d \<in> set tr \<longrightarrow>
        (\<exists>t. E_get_pvc (ns, tmpName) (Inr t) \<in> set tr \<and> k = pvc_key t)))"
    unfolding RestorePVCFromTemporary_def restore_from_def release_terminating_def getPVFromPVC_def
      removeFinalizerFromPVC_def
    by (intro vcg) (use assms(1) in \<open>auto split: if_splits sum.splits dest: restore_names_differ\<close>)
  from post_runs [OF this assms(2)] show ?thesis .
qed

lemma restore_names_data: "restore_names ''data'' = (''data-tmp'', ''data'')"
  by (simp add: restore_names_def HasSuffix_def tmp_suffix_def)

theorem restore_order_witness:
  "\<exists>tr. runs (RestorePVCFromTemporary ref_kube ''data'' ''app'') tr None \<and>
     list_ex is_delete_pvc tr \<and> guarded (shows_claim (''app'', ''data'')) is_delete_pvc tr"
proof -
  let ?run = "run_state (RestorePVCFromTemporary ref_kube ''data'' ''app'')
    (world_of (empty_cluster\<lparr>c_pvcs := [(sample_pvc ''app'' ''data-tmp'')\<lparr>pvc_volumeName := ''pv-data''\<rparr>],
       c_pvs := [sample_pv ''pv-data'']\<rparr>))"
  have "fst ?run = None \<and> list_ex is_delete_pvc (history (snd ?run))"
    by (simp add: RestorePVCFromTemporary_def restore_names_data getPVFromPVC_def restore_from_def
        removeFinalizerFromPVC_def restored_pvc_def client_defs ref_defs sample_pvc_def sample_pv_def
        Let_def not_found_def IsNotFound_def)
  then have r: "runs (RestorePVCFromTemporary ref_kube ''data'' ''app'') (history (snd ?run)) None"
    and d: "list_ex is_delete_pvc (history (snd ?run))"
    by (auto intro: runs_refI [of _ _ _ "snd ?run"] simp: prod_eq_iff)
  show ?thesis using r d restore_order [OF restore_names_data r] by blast
qed

text \<open>
  When the main PVC is found being deleted, \<open>RestorePVCFromTemporary\<close> never reports success
  and neither creates nor deletes a PVC nor writes the volume: it waits.
\<close>

lemma restore_waits_for_terminating:
  assumes "restore_names name = (tmpName, mainName)"
    and "runs (RestorePVCFromTemporary K name ns) tr r" and "keyed tr"
    and "E_get_pvc (ns, mainName) (Inr p) \<in> set tr" and "pvc_deletionTimestamp p \<noteq> None"
  shows "r \<noteq> None \<and> \<not> list_ex (\<lambda>e. is_create_pvc e \<or> is_delete_pvc e \<or> is_update_pv e) tr"
proof -
  have "post (RestorePVCFromTemporary K name ns) (\<lambda>tr r.
     keyed tr \<and> (\<exists>p. E_get_pvc (ns, mainName) (Inr p) \<in> set tr \<and> pvc_deletionTimestamp p \<noteq> None) \<longrightarrow>
     r \<noteq> None \<and> \<not> list_ex (\<lambda>e. is_create_pvc e \<or> is_delete_pvc e \<or> is_update_pv e) tr)"
    unfolding RestorePVCFromTemporary_def release_terminating_def restore_from_def getPVFromPVC_def
      removeFinalizerFromPVC_def
    by (intro vcg) (use assms(1) in \<open>auto split: if_splits sum.splits dest: restore_names_differ\<close>)
  from post_runs [OF this assms(2)] assms(3-) show ?thesis by blast
qed


section \<open>Requests\<close>

text \<open>What the two operations, and a deletion by name, may ask the server.\<close>

fun temporary_event :: "event \<Rightarrow> bool" where
  "temporary_event (E_get_pvc _ _) = True"
| "temporary_event (E_get_pv _ _) = True"
| "temporary_event (E_create_pvc _ _) = True"
| "temporary_event (E_update_pvc _ _) = True"
| "temporary_event (E_update_pv _ _) = True"
| "temporary_event _ = False"

lemma emits_removeFinalizer [emits_intros]:
  "(\<And>k r. A (E_get_pvc k r)) \<Longrightarrow> (\<And>p r. A (E_update_pvc p r)) \<Longrightarrow> emits A (removeFinalizerFromPVC K name ns)"
  unfolding removeFinalizerFromPVC_def by (intro emits_intros)

lemma emits_getPVFromPVC [emits_intros]:
  "(\<And>k r. A (E_get_pvc k r)) \<Longrightarrow> (\<And>n r. A (E_get_pv n r)) \<Longrightarrow> emits A (getPVFromPVC K name ns)"
  unfolding getPVFromPVC_def by (intro emits_intros)

lemma emits_CreateTemporary:
  "emits temporary_event (CreateTemporaryPVCFromTerminating K name ns rmFinalizer)"
  unfolding CreateTemporaryPVCFromTerminating_def
  by (intro emits_intros) simp_all

lemma emits_Restore:
  "emits (\<lambda>e. temporary_event e \<or> is_delete_pvc e) (RestorePVCFromTemporary K name ns)"
  unfolding RestorePVCFromTemporary_def restore_from_def release_terminating_def
  by (intro emits_intros) simp_all

end
