(* ===== verification/VS_Replication.thy ===== *)
theory VS_Replication
  imports VS_TempPVC
begin

text \<open>
  internal/volsync/handler.go: creating and updating ReplicationDestinations and
  ReplicationSources for one PVC (\<open>ReconcileRD\<close>, \<open>ReconcileRS\<close> and what only they call).
  \<open>ctrlutil.CreateOrUpdate\<close> is an operation of the client parameter; the function it is given to
  mutate the object is a definition of its own here.
\<close>

section \<open>ReplicationDestination\<close>

definition rdStatusReady :: "rd \<Rightarrow> bool" where
  "rdStatusReady d =
     (case rd_stat d of
        None \<Rightarrow> False
      | Some st \<Rightarrow>
          (case st of
             None \<Rightarrow> False
           | Some t \<Rightarrow> rds_address t \<noteq> None))"

text \<open>The arguments that go into the specification of an RD.\<close>

record rd_args =
  a_capacity :: "quantity option"
  a_storageClassName :: "string option"
  a_accessModes :: "string list"
  a_pskSecretName :: string
  a_serviceType :: "string option"

definition mutate_rd :: "vs_handler \<Rightarrow> string \<Rightarrow> rd_args \<Rightarrow> rd \<Rightarrow> rd reply" where
  "mutate_rd v pvcName a d =
     (let accessModes = (if a_accessModes a = [] then [ReadWriteOnce] else a_accessModes a)
      in Inr (d\<lparr>rd_labels := addVGROwnerLabel v (rd_labels d),
           rd_rsyncTLS := Some
             \<lparr>rdt_serviceType = a_serviceType a, rdt_keySecret = Some (a_pskSecretName a),
              rdt_copyMethod = CopyMethodDirect, rdt_capacity = a_capacity a,
              rdt_storageClassName = a_storageClassName a, rdt_accessModes = accessModes,
              rdt_destinationPVC = Some pvcName\<rparr>\<rparr>))"

definition createOrUpdateRD ::
    "'c kube \<Rightarrow> vs_handler \<Rightarrow> string \<Rightarrow> string \<Rightarrow> rd_args \<Rightarrow> ('c, rd reply) kop" where
  "createOrUpdateRD K v pvcName pvcNamespace a = do {
     r \<leftarrow> CreateOrUpdateRD K (pvcNamespace, getReplicationDestinationName pvcName) (mutate_rd v pvcName a);
     case r of
       Inl err \<Rightarrow> ret (Inl (Wrap '''' err ''''))
     | Inr d \<Rightarrow> ret (Inr d)
   }"

definition service_export_for :: "rd \<Rightarrow> service_export" where
  "service_export_for d =
     \<lparr>se_name = getLocalServiceNameForRD (rd_name d), se_namespace = rd_namespace d,
      se_group = ''multicluster.x-k8s.io'', se_kind = ''ServiceExport'', se_version = ''v1alpha1'',
      se_ownerRefs = []\<rparr>"

definition mutate_export :: "'c kube \<Rightarrow> rd \<Rightarrow> service_export \<Rightarrow> service_export reply" where
  "mutate_export K d e =
     (case k_set_owner K (rd_key d) (se_ownerRefs e) of
        Inl err \<Rightarrow> Inl (Wrap '''' err '''')
      | Inr refs \<Rightarrow> Inr (e\<lparr>se_ownerRefs := refs\<rparr>))"

definition reconcileServiceExportForRD :: "'c kube \<Rightarrow> rd \<Rightarrow> ('c, error) kop" where
  "reconcileServiceExportForRD K d = do {
     r \<leftarrow> CreateOrUpdateExport K (service_export_for d) (mutate_export K d);
     case r of
       Inl err \<Rightarrow> ret (Some (Wrap ''error creating or updating ServiceExport ('' err '')''))
     | Inr _ \<Rightarrow> ret None
   }"

text \<open>
  \<open>ReconcileRD\<close>: \<open>Inr None\<close> is the source's \<open>nil, nil\<close> (nothing to do, or not ready yet). Its last
  parameter, the consistency group, is not used by the source and is left out.
\<close>

definition ReconcileRD ::
    "'c kube \<Rightarrow> vs_handler \<Rightarrow> string \<Rightarrow> string \<Rightarrow> rd_args \<Rightarrow> ('c, rd option reply) kop" where
  "ReconcileRD K v pvcName pvcNamespace a =
     (if HasSuffix pvcName tmp_suffix then do {
        e \<leftarrow> DeleteRS K pvcName pvcNamespace;
        case e of
          Some err \<Rightarrow> ret (Inl err)
        | None \<Rightarrow> ret (Inr None)
      } else do {
     t \<leftarrow> IsPVCTerminating K pvcName pvcNamespace;
     case t of
       Inl err \<Rightarrow> ret (Inl err)
     | Inr isTerminating \<Rightarrow>
     if isTerminating then do {
       e \<leftarrow> CreateTemporaryPVCFromTerminating K pvcName pvcNamespace True;
       case e of
         Some err \<Rightarrow> ret (Inl err)
       | None \<Rightarrow> ret (Inr None)
     } else do {
     g \<leftarrow> GetPVC K (pvcNamespace, pvcName);
     case g of
       Inl err \<Rightarrow> ret (Inl (Wrap ''failed to get PVC for ReplicationDestination reconcile: '' err ''''))
     | Inr p \<Rightarrow>
     if pvc_annotations p TemporaryPVCAnnotation \<noteq> None then ret (Inr None)
     else do {
     s \<leftarrow> validateSecretAndAddOwnerRef K (a_pskSecretName a) pvcNamespace;
     case s of
       Inl err \<Rightarrow> ret (Inl err)
     | Inr secretExists \<Rightarrow>
     if \<not> secretExists then ret (Inr None)
     else do {
     e \<leftarrow> DeleteRS K pvcName pvcNamespace;
     case e of
       Some err \<Rightarrow> ret (Inl err)
     | None \<Rightarrow> do {
     r \<leftarrow> createOrUpdateRD K v pvcName pvcNamespace a;
     case r of
       Inl err \<Rightarrow> ret (Inl err)
     | Inr d \<Rightarrow> do {
     f \<leftarrow> addFinalizerToPVC K pvcName pvcNamespace;
     case f of
       Some err \<Rightarrow> ret (Inl err)
     | None \<Rightarrow> do {
     x \<leftarrow> reconcileServiceExportForRD K d;
     case x of
       Some err \<Rightarrow> ret (Inl err)
     | None \<Rightarrow> ret (Inr (if rdStatusReady d then Some d else None))
     }}}}}}})"

section \<open>ReplicationSource\<close>

record rs_args =
  b_remoteAddress :: string
  b_pskSecretName :: string
  b_storageClassName :: "string option"
  b_accessModes :: "string list"

text \<open>
  The owner labels and the source PVC are set before the schedule is computed; an error there
  ends the mutation.
\<close>

definition mutate_rs :: "vs_handler \<Rightarrow> string \<Rightarrow> rs_args \<Rightarrow> rs \<Rightarrow> rs reply" where
  "mutate_rs v pvcName b s =
     (let s1 = s\<lparr>rs_labels := addVGROwnerLabel v (rs_labels s), rs_sourcePVC := pvcName\<rparr>
      in case getScheduleCronSpec (schedulingInterval v) of
           Inl err \<Rightarrow> Inl err
         | Inr cron \<Rightarrow> Inr (s1\<lparr>rs_trigger := Some \<lparr>schedule = Some cron, manual = ''''\<rparr>,
             rs_rsyncTLS := Some
               \<lparr>rst_keySecret = Some (b_pskSecretName b), rst_address = Some (b_remoteAddress b),
                rst_copyMethod = CopyMethodDirect, rst_storageClassName = b_storageClassName b,
                rst_accessModes = b_accessModes b\<rparr>\<rparr>))"

definition createOrUpdateRS ::
    "'c kube \<Rightarrow> vs_handler \<Rightarrow> string \<Rightarrow> string \<Rightarrow> rs_args \<Rightarrow> ('c, rs reply) kop" where
  "createOrUpdateRS K v pvcName pvcNamespace b = do {
     r \<leftarrow> CreateOrUpdateRS K (pvcNamespace, GetReplicationSourceName pvcName) (mutate_rs v pvcName b);
     case r of
       Inl err \<Rightarrow> ret (Inl (Wrap '''' err ''''))
     | Inr s \<Rightarrow> ret (Inr s)
   }"

text \<open>
  \<open>ReconcileRS\<close>. The volume snapshot class, its last parameter, reaches no specification in the
  source and is left out.
\<close>

definition ReconcileRS ::
    "'c kube \<Rightarrow> vs_handler \<Rightarrow> string \<Rightarrow> string \<Rightarrow> rs_args \<Rightarrow> ('c, rs option reply) kop" where
  "ReconcileRS K v pvcName pvcNamespace b =
     (if HasSuffix pvcName tmp_suffix then ret (Inr None)
      else do {
     t \<leftarrow> IsPVCTerminating K pvcName pvcNamespace;
     case t of
       Inl err \<Rightarrow> ret (Inl err)
     | Inr isTerminating \<Rightarrow>
     if isTerminating then ret (Inr None)
     else do {
     s \<leftarrow> validateSecretAndAddOwnerRef K (b_pskSecretName b) pvcNamespace;
     case s of
       Inl err \<Rightarrow> ret (Inl err)
     | Inr secretExists \<Rightarrow>
     if \<not> secretExists then ret (Inr None)
     else do {
     e \<leftarrow> DeleteRD K pvcName pvcNamespace;
     case e of
       Some err \<Rightarrow> ret (Inl err)
     | None \<Rightarrow> do {
     l \<leftarrow> ensurePVCLabels K v pvcName pvcNamespace;
     case l of
       Some err \<Rightarrow> ret (Inl err)
     | None \<Rightarrow> do {
     r \<leftarrow> createOrUpdateRS K v pvcName pvcNamespace b;
     case r of
       Inl err \<Rightarrow> ret (Inl err)
     | Inr replicationSource \<Rightarrow> do {
     f \<leftarrow> addFinalizerToPVC K pvcName pvcNamespace;
     case f of
       Some err \<Rightarrow> ret (Inl err)
     | None \<Rightarrow> ret (Inr (Some replicationSource))
     }}}}}})"

section \<open>Evidence in the history\<close>

text \<open>
  Events that show: no ReplicationDestination (ReplicationSource) of this key is left; the secret
  is there; the PVC, if it is there, has the protecting finalizer; a server-side write of an RS (RD).
\<close>

fun shows_no_rd :: "key \<Rightarrow> event \<Rightarrow> bool" where
  "shows_no_rd k (E_get_rd k' (Inl e)) = (k' = k \<and> IsNotFound e)"
| "shows_no_rd k (E_delete_rd k' None) = (k' = k)"
| "shows_no_rd k _ = False"

fun shows_no_rs :: "key \<Rightarrow> event \<Rightarrow> bool" where
  "shows_no_rs k (E_get_rs k' (Inl e)) = (k' = k \<and> IsNotFound e)"
| "shows_no_rs k (E_delete_rs k' None) = (k' = k)"
| "shows_no_rs k _ = False"

fun shows_secret :: "key \<Rightarrow> event \<Rightarrow> bool" where
  "shows_secret k (E_get_secret k' (Inr _)) = (k' = k)"
| "shows_secret k _ = False"

fun shows_finalizer :: "key \<Rightarrow> event \<Rightarrow> bool" where
  "shows_finalizer k (E_get_pvc k' (Inl e)) = (k' = k \<and> IsNotFound e)"
| "shows_finalizer k (E_get_pvc k' (Inr p)) = (k' = k \<and> PVCFinalizerName \<in> set (pvc_finalizers p))"
| "shows_finalizer k (E_update_pvc p (Inr _)) = (pvc_key p = k \<and> PVCFinalizerName \<in> set (pvc_finalizers p))"
| "shows_finalizer k _ = False"

fun applies_rs :: "key \<Rightarrow> event \<Rightarrow> bool" where
  "applies_rs k (E_apply_rs k' _ _) = (k' = k)"
| "applies_rs k _ = False"

fun applies_rd :: "key \<Rightarrow> event \<Rightarrow> bool" where
  "applies_rd k (E_apply_rd k' _ _) = (k' = k)"
| "applies_rd k _ = False"

lemma applies_rsD: "applies_rs k e \<Longrightarrow> \<exists>f x. e = E_apply_rs k f x"
  by (cases e) simp_all

lemma applies_rdD: "applies_rd k e \<Longrightarrow> \<exists>f x. e = E_apply_rd k f x"
  by (cases e) simp_all

lemma shows_no_rsD: "shows_no_rs k e \<Longrightarrow> (\<exists>x. e = E_get_rs k (Inl x) \<and> IsNotFound x) \<or> e = E_delete_rs k None"
  by (cases "(k, e)" rule: shows_no_rs.cases) simp_all

lemma shows_no_rdD: "shows_no_rd k e \<Longrightarrow> (\<exists>x. e = E_get_rd k (Inl x) \<and> IsNotFound x) \<or> e = E_delete_rd k None"
  by (cases "(k, e)" rule: shows_no_rd.cases) simp_all

fun exports_service :: "event \<Rightarrow> bool" where
  "exports_service (E_apply_export _ _ _) = True"
| "exports_service _ = False"

fun deletes_rd :: "event \<Rightarrow> bool" where
  "deletes_rd (E_delete_rd _ _) = True"
| "deletes_rd _ = False"

text \<open>The requests of the two reconciliations that are not the ones their order is about.\<close>

fun side_event :: "event \<Rightarrow> bool" where
  "side_event (E_apply_rs _ _ _) = False"
| "side_event (E_apply_rd _ _ _) = False"
| "side_event (E_apply_export _ _ _) = False"
| "side_event (E_delete_rs _ _) = False"
| "side_event (E_delete_rd _ _) = False"
| "side_event _ = True"

definition quiet :: "event list \<Rightarrow> bool" where
  "quiet tr \<longleftrightarrow> (\<forall>e \<in> set tr. side_event e)"

lemma quiet_simps [simp]: "quiet []" "quiet (e # tr) \<longleftrightarrow> side_event e \<and> quiet tr"
  by (simp_all add: quiet_def)

lemma quiet_guarded [simp]:
  assumes "quiet tr"
  shows "guarded P (applies_rs k) tr" "guarded P (applies_rd k) tr" "guarded P exports_service tr"
    "guarded P (\<lambda>e. applies_rs k e \<or> deletes_rd e) tr"
proof -
  have "\<not> applies_rs k e \<and> \<not> applies_rd k e \<and> \<not> exports_service e \<and> \<not> deletes_rd e"
    if "e \<in> set tr" for e
    using assms that by (cases e) (auto simp: quiet_def)
  then show "guarded P (applies_rs k) tr" "guarded P (applies_rd k) tr" "guarded P exports_service tr"
    "guarded P (\<lambda>e. applies_rs k e \<or> deletes_rd e) tr"
    by (auto intro!: guarded_quiet)
qed

lemma post_DeleteRD:
  "post (DeleteRD K name ns) (\<lambda>tr r. (r = None \<longrightarrow> keyed tr \<longrightarrow> (\<exists>e \<in> set tr. shows_no_rd (ns, name) e)) \<and>
     (\<forall>e \<in> set tr. \<not> applies_rs k e))"
  by (rule post_weaken [OF rd_deletion.del_trace]) auto

lemma post_DeleteRS:
  "post (DeleteRS K name ns) (\<lambda>tr r. (r = None \<longrightarrow> keyed tr \<longrightarrow> (\<exists>e \<in> set tr. shows_no_rs (ns, name) e)) \<and>
     (\<forall>e \<in> set tr. \<not> applies_rd k e \<and> \<not> exports_service e))"
  by (rule post_weaken [OF rs_deletion.del_trace]) auto

lemma post_validate:
  "post (validateSecretAndAddOwnerRef K s ns) (\<lambda>tr r. 
     (\<exists>x. tr = [E_get_secret (ns, s) (Inr x)] \<and> r = Inr True) \<or>
     (\<exists>x e. tr = [E_get_secret (ns, s) (Inl x)] \<and> r = Inl e))"
  unfolding validateSecretAndAddOwnerRef_def by (intro vcg) auto

lemma post_ensurePVCLabels: "post (ensurePVCLabels K v name ns) (\<lambda>tr r. quiet tr)"
  unfolding ensurePVCLabels_def by (intro vcg) auto

lemma post_addFinalizer:
  assumes "finalizer_functions K"
  shows "post (addFinalizerToPVC K name ns) (\<lambda>tr r. quiet tr \<and>
     (r = None \<longrightarrow> keyed tr \<longrightarrow> (\<exists>e \<in> set tr. shows_finalizer (ns, name) e)))"
  unfolding addFinalizerToPVC_def by (intro vcg) (auto simp: finalizer_laws [OF assms])

lemma post_CreateTemporary_quiet:
  "post (CreateTemporaryPVCFromTerminating K name ns rmFinalizer) (\<lambda>tr r. quiet tr)"
proof (rule post_weaken [OF emits_CreateTemporary [unfolded emits_def]])
  have "side_event e" if "temporary_event e" for e
    using that by (cases e) auto
  then show "\<forall>e \<in> set tr. temporary_event e \<Longrightarrow> quiet tr" for tr
    by (simp add: quiet_def)
qed

section \<open>Samples\<close>

definition sample_handler :: vs_handler where
  "sample_handler = \<lparr>owner_name = ''group'', owner_namespace = ''app'', schedulingInterval = ''''\<rparr>"

definition sample_rs_args :: rs_args where
  "sample_rs_args = \<lparr>b_remoteAddress = ''remote'', b_pskSecretName = ''psk'',
     b_storageClassName = Some ''standard'', b_accessModes = [ReadWriteOnce]\<rparr>"

definition sample_rd_args :: rd_args where
  "sample_rd_args = \<lparr>a_capacity = None, a_storageClassName = None, a_accessModes = [],
     a_pskSecretName = ''psk'', a_serviceType = None\<rparr>"

section \<open>Properties\<close>

text \<open>
  C20: \<open>ReconcileRS\<close>, on every path, errors included: the ReplicationSource is written only after
  the key's secret was read and after the PVC's ReplicationDestination is known to be gone, and
  the latter is not deleted before the secret was read. An answer with a ReplicationSource is the
  server's answer to that write, after which the PVC, if it is still there, was given the
  protecting finalizer; an answer without one comes from a temporary or a terminating PVC and
  wrote nothing.
\<close>

theorem ReconcileRS_order:
  assumes "runs (ReconcileRS K v name ns b) tr r" and "keyed tr" and "finalizer_functions K"
  shows "guarded (shows_no_rd (ns, name)) (applies_rs (ns, name)) tr \<and>
     guarded (shows_secret (ns, b_pskSecretName b))
       (\<lambda>e. applies_rs (ns, name) e \<or> deletes_rd e) tr \<and>
     (\<forall>s. r = Inr (Some s) \<longrightarrow>
        followed_by (\<lambda>e. e = E_apply_rs (ns, name) (mutate_rs v name b) (Inr s))
          (list_ex (shows_finalizer (ns, name))) tr) \<and>
     (r = Inr None \<longrightarrow> (HasSuffix name tmp_suffix \<and> tr = []) \<or>
        (\<exists>p. tr = [E_get_pvc (ns, name) (Inr p)] \<and> \<not> IsZero (pvc_deletionTimestamp p)))"
proof -
  have "post (ReconcileRS K v name ns b) (\<lambda>tr r. keyed tr \<longrightarrow>
     guarded (shows_no_rd (ns, name)) (applies_rs (ns, name)) tr \<and>
     guarded (shows_secret (ns, b_pskSecretName b))
       (\<lambda>e. applies_rs (ns, name) e \<or> deletes_rd e) tr \<and>
     (\<forall>s. r = Inr (Some s) \<longrightarrow>
        followed_by (\<lambda>e. e = E_apply_rs (ns, name) (mutate_rs v name b) (Inr s))
          (list_ex (shows_finalizer (ns, name))) tr) \<and>
     (r = Inr None \<longrightarrow> (HasSuffix name tmp_suffix \<and> tr = []) \<or>
        (\<exists>p. tr = [E_get_pvc (ns, name) (Inr p)] \<and> \<not> IsZero (pvc_deletionTimestamp p))))"
    unfolding ReconcileRS_def IsPVCTerminating_def createOrUpdateRS_def GetReplicationSourceName_def Let_def
    by (intro vcg post_weaken [OF post_validate] post_weaken [OF post_DeleteRD [where k = "(ns, name)"]]
          post_weaken [OF post_ensurePVCLabels] post_weaken [OF post_addFinalizer [OF assms(3)]])
      (auto simp: guarded_append guarded_quiet list_ex_iff intro!: followed_by_append split: if_splits)
  from post_runs [OF this assms(1)] assms(2) show ?thesis by simp
qed

theorem ReconcileRS_order_witness:
  "\<exists>tr s. runs (ReconcileRS ref_kube sample_handler ''data'' ''app'' sample_rs_args) tr (Inr (Some s)) \<and>
     keyed tr \<and> list_ex deletes_rd tr \<and>
     followed_by (\<lambda>e. e = E_apply_rs (''app'', ''data'') (mutate_rs sample_handler ''data'' sample_rs_args) (Inr s))
       (list_ex (shows_finalizer (''app'', ''data''))) tr"
proof -
  let ?run = "run_state (ReconcileRS ref_kube sample_handler ''data'' ''app'' sample_rs_args)
    (world_of (empty_cluster\<lparr>c_pvcs := [sample_pvc ''app'' ''data''], c_secrets := [sample_secret ''app''],
       c_rds := [blank_rd (''app'', ''data'')]\<rparr>))"
  have h: "(\<exists>s. fst ?run = Inr (Some s)) \<and> keyed (history (snd ?run)) \<and> list_ex deletes_rd (history (snd ?run))"
    by (simp add: ReconcileRS_def IsPVCTerminating_def validateSecretAndAddOwnerRef_def DeleteRD_def
        getReplicationDestinationName_def ensurePVCLabels_def createOrUpdateRS_def
        GetReplicationSourceName_def addFinalizerToPVC_def mutate_rs_def getScheduleCronSpec_def
        DefaultScheduleCronSpec_def sample_handler_def sample_rs_args_def label_def IsZero_def
        HasSuffix_def tmp_suffix_def client_defs ref_defs sample_pvc_def sample_secret_def Let_def)
  then obtain s where "fst ?run = Inr (Some s)" by blast
  then have r: "runs (ReconcileRS ref_kube sample_handler ''data'' ''app'' sample_rs_args)
      (history (snd ?run)) (Inr (Some s))"
    by (auto intro: runs_refI [of _ _ _ "snd ?run"] simp: prod_eq_iff)
  from ReconcileRS_order [OF r _ ref_finalizer_functions] h r show ?thesis by blast
qed

text \<open>
  C21: \<open>ReconcileRD\<close>, on every path, errors included: the ReplicationDestination is written only
  after the key's secret was read and after the PVC's ReplicationSource is known to be gone, and
  its service is exported only after that write. An answer with a ReplicationDestination is the
  server's answer to that write, it has an address, and after it the PVC, if it is still there,
  was given the protecting finalizer and then the service exported.
\<close>

theorem ReconcileRD_order:
  assumes "runs (ReconcileRD K v name ns a) tr r" and "keyed tr" and "finalizer_functions K"
  shows "guarded (shows_no_rs (ns, name)) (applies_rd (ns, name)) tr \<and>
     guarded (shows_secret (ns, a_pskSecretName a)) (applies_rd (ns, name)) tr \<and>
     guarded (applies_rd (ns, name)) exports_service tr \<and>
     (\<forall>d. r = Inr (Some d) \<longrightarrow> rdStatusReady d \<and>
        followed_by (\<lambda>e. e = E_apply_rd (ns, name) (mutate_rd v name a) (Inr d))
          (followed_by (shows_finalizer (ns, name)) (list_ex exports_service)) tr)"
proof -
  let ?Q = "\<lambda>tr r. keyed tr \<longrightarrow>
     guarded (shows_no_rs (ns, name)) (applies_rd (ns, name)) tr \<and>
     guarded (shows_secret (ns, a_pskSecretName a)) (applies_rd (ns, name)) tr \<and>
     guarded (applies_rd (ns, name)) exports_service tr \<and>
     (\<forall>d. r = Inr (Some d) \<longrightarrow> rdStatusReady d \<and>
        followed_by (\<lambda>e. e = E_apply_rd (ns, name) (mutate_rd v name a) (Inr d))
          (followed_by (shows_finalizer (ns, name)) (list_ex exports_service)) tr)"
  have "post (ReconcileRD K v name ns a) ?Q"
    unfolding ReconcileRD_def IsPVCTerminating_def createOrUpdateRD_def
      getReplicationDestinationName_def reconcileServiceExportForRD_def Let_def
    by (intro vcg post_weaken [OF post_CreateTemporary_quiet] post_weaken [OF post_validate]
          post_weaken [OF post_DeleteRS [where k = "(ns, name)"]] post_weaken [OF post_addFinalizer [OF assms(3)]])
      (auto simp: guarded_append guarded_quiet list_ex_iff intro!: followed_by_append split: if_splits)
  from post_runs [OF this assms(1)] assms(2) show ?thesis by simp
qed

theorem ReconcileRD_order_witness:
  "\<exists>tr d. runs (ReconcileRD ref_kube sample_handler ''data'' ''app'' sample_rd_args) tr (Inr (Some d)) \<and>
     keyed tr \<and> rdStatusReady d \<and> guarded (shows_no_rs (''app'', ''data'')) (applies_rd (''app'', ''data'')) tr"
proof -
  let ?d = "(blank_rd (''app'', ''data''))\<lparr>rd_stat := Some (Some \<lparr>rds_address = Some ''10.0.0.1'', rds_keySecret = None\<rparr>)\<rparr>"
  let ?run = "run_state (ReconcileRD ref_kube sample_handler ''data'' ''app'' sample_rd_args)
    (world_of (empty_cluster\<lparr>c_pvcs := [sample_pvc ''app'' ''data''], c_secrets := [sample_secret ''app''],
       c_rss := [blank_rs (''app'', ''data'')], c_rds := [?d]\<rparr>))"
  have h: "(\<exists>d. fst ?run = Inr (Some d)) \<and> keyed (history (snd ?run))"
    by (simp add: ReconcileRD_def IsPVCTerminating_def validateSecretAndAddOwnerRef_def DeleteRS_def
        getReplicationDestinationName_def createOrUpdateRD_def reconcileServiceExportForRD_def
        service_export_for_def mutate_export_def rdStatusReady_def
        GetReplicationSourceName_def addFinalizerToPVC_def mutate_rd_def
        sample_handler_def sample_rd_args_def label_def IsZero_def
        HasSuffix_def tmp_suffix_def client_defs ref_defs sample_pvc_def sample_secret_def Let_def)
  then obtain d where "fst ?run = Inr (Some d)" by blast
  then have r: "runs (ReconcileRD ref_kube sample_handler ''data'' ''app'' sample_rd_args)
      (history (snd ?run)) (Inr (Some d))"
    by (auto intro: runs_refI [of _ _ _ "snd ?run"] simp: prod_eq_iff)
  from ReconcileRD_order [OF r _ ref_finalizer_functions] h r show ?thesis by blast
qed

text \<open>
  Writing a ReplicationSource is idempotent, and what it does not set it keeps: the status,
  the key and, even of a source paused for a failover, the pause.
\<close>

lemma mutate_rs_idempotent:
  assumes "mutate_rs v name b s = Inr s'"
  shows "mutate_rs v name b s' = Inr s' \<and> rs_key s' = rs_key s \<and> rs_stat s' = rs_stat s \<and>
     rs_paused s' = rs_paused s \<and> rs_sourcePVC s' = name \<and>
     (\<exists>cron. rs_trigger s' = Some \<lparr>schedule = Some cron, manual = ''''\<rparr> \<and>
        getScheduleCronSpec (schedulingInterval v) = Inr cron)"
  using assms
  by (auto simp: mutate_rs_def Let_def addVGROwnerLabel_def fun_upd_twist split: sum.splits)

end
