(* ===== verification/Common.thy ===== *)
theory Common
  imports VS_Replication
begin

text \<open>
  What the reconcilers of internal/controller share
  (volumegroupreplication_controller.go): results, status conditions, and tests on objects.
\<close>

section \<open>Results\<close>

record ctrl_result =
  Requeue :: bool
  RequeueAfter :: duration

definition no_requeue :: ctrl_result where
  "no_requeue = \<lparr>Requeue = False, RequeueAfter = 0\<rparr>"

definition requeue_after :: "duration \<Rightarrow> ctrl_result" where
  "requeue_after d = \<lparr>Requeue = False, RequeueAfter = d\<rparr>"

definition requeueInterval :: duration where
  "requeueInterval = 30 * Second"

text \<open>A reconciler returns a result and an error; where its code can dereference nil, it may panic.\<close>

datatype 'a outcome = Returned 'a | Panicked

lemma post_outcome [vcg]:
  "(x = Panicked \<Longrightarrow> post m Q) \<Longrightarrow> (\<And>y. x = Returned y \<Longrightarrow> post (g y) Q) \<Longrightarrow>
   post (case x of Returned y \<Rightarrow> g y | Panicked \<Rightarrow> m) Q"
  by (cases x) auto

definition vgrFinalizer :: string where
  "vgrFinalizer = ''mock.storage.io/volumegroupreplication''"

text \<open>API constants: \<open>spec.replicationState\<close> and \<open>status.state\<close> of a VGR.\<close>

definition Primary :: string where "Primary = ''primary''"

definition Secondary :: string where "Secondary = ''secondary''"

definition PrimaryState :: string where "PrimaryState = ''Primary''"

definition SecondaryState :: string where "SecondaryState = ''Secondary''"

definition ClaimLost :: string where "ClaimLost = ''Lost''"

definition created_by_label :: string where
  "created_by_label = ''app.kubernetes.io/created-by''"

definition bind_completed :: string where
  "bind_completed = ''pv.kubernetes.io/bind-completed''"

section \<open>Conditions\<close>

definition ConditionTrue :: string where "ConditionTrue = ''True''"

definition ConditionFalse :: string where "ConditionFalse = ''False''"

text \<open>The loop of \<open>setCondition\<close>: the first condition of the type is overwritten in place, or one is appended.\<close>

fun put_condition :: "condition \<Rightarrow> condition list \<Rightarrow> condition list" where
  "put_condition c [] = [c]"
| "put_condition c (d # ds) =
     (if cond_type d = cond_type c
      then d\<lparr>cond_status := cond_status c, cond_reason := cond_reason c,
             cond_message := cond_message c, cond_lastTransitionTime := cond_lastTransitionTime c,
             cond_observedGeneration := cond_observedGeneration c\<rparr> # ds
      else d # put_condition c ds)"

definition setCondition :: "'c kube \<Rightarrow> condition list \<Rightarrow> string \<Rightarrow> bool \<Rightarrow> string \<Rightarrow> string \<Rightarrow> int \<Rightarrow>
    ('c, condition list) kop" where
  "setCondition K conditions condType status reason message observedGeneration = do {
     now \<leftarrow> Now K;
     ret (put_condition
       \<lparr>cond_type = condType, cond_status = (if status then ConditionTrue else ConditionFalse),
        cond_reason = reason, cond_message = message, cond_lastTransitionTime = now,
        cond_observedGeneration = observedGeneration\<rparr> conditions)
   }"

text \<open>The conditions as a map from types: what a reader of the status sees.\<close>

fun condition_of :: "condition list \<Rightarrow> string \<Rightarrow> condition option" where
  "condition_of [] t = None"
| "condition_of (c # cs) t = (if cond_type c = t then Some c else condition_of cs t)"

definition condition_types :: "condition list \<Rightarrow> string list" where
  "condition_types cs = map cond_type cs"

lemma condition_eq_fields:
  "cond_type d = cond_type c \<Longrightarrow>
   d\<lparr>cond_status := cond_status c, cond_reason := cond_reason c,
     cond_message := cond_message c, cond_lastTransitionTime := cond_lastTransitionTime c,
     cond_observedGeneration := cond_observedGeneration (c :: condition)\<rparr> = (c :: condition)"
  by (cases c; cases d) simp

lemma condition_of_put [simp]:
  "condition_of (put_condition c cs) t =
     (if t = cond_type c then Some c else condition_of cs t)"
  by (induction cs) (auto simp: condition_eq_fields)

lemma types_put [simp]:
  "condition_types (put_condition c cs) =
     (if cond_type c \<in> set (condition_types cs) then condition_types cs
      else condition_types cs @ [cond_type c])"
  by (induction cs) (auto simp: condition_types_def)

lemma distinct_put: "distinct (condition_types cs) \<Longrightarrow> distinct (condition_types (put_condition c cs))"
  by simp

lemma post_setCondition:
  "post (setCondition K cs t st rs msg g) (\<lambda>tr cs'. \<exists>now. tr = [E_now now] \<and>
     cs' = put_condition \<lparr>cond_type = t, cond_status = (if st then ConditionTrue else ConditionFalse),
       cond_reason = rs, cond_message = msg, cond_lastTransitionTime = now,
       cond_observedGeneration = g\<rparr> cs)"
  unfolding setCondition_def by (intro vcg) auto


text \<open>The status of a condition type of a VGR, as a reader of the object sees it.\<close>

definition status_of :: "vgr \<Rightarrow> string \<Rightarrow> string option" where
  "status_of v t = map_option cond_status (condition_of (vgr_conditions v) t)"

text \<open>The table that a status update means to write over the old statuses.\<close>

definition overridden :: "(string \<times> string) list \<Rightarrow> vgr \<Rightarrow> string \<Rightarrow> string option" where
  "overridden table v t = (case map_of table t of Some s \<Rightarrow> Some s | None \<Rightarrow> status_of v t)"

lemma status_of_frame [simp]:
  "status_of (v\<lparr>vgr_state := a\<rparr>) = status_of v"
  "status_of (v\<lparr>vgr_pvcRefs := b\<rparr>) = status_of v"
  "status_of (v\<lparr>vgr_lastSyncTime := c\<rparr>) = status_of v"
  "status_of (v\<lparr>vgr_observedGeneration := g\<rparr>) = status_of v"
  by (simp_all add: status_of_def fun_eq_iff)

lemma overridden_simps [simp]:
  "overridden [] v = status_of v"
  "overridden ((t, s) # table) v = (overridden table v)(t \<mapsto> s)"
  by (auto simp: overridden_def fun_eq_iff)

section \<open>Tests on objects\<close>

definition final_sync_tag :: string where
  "final_sync_tag = ''vgr-final-sync''"

definition isFinalSyncComplete :: "rs \<Rightarrow> bool" where
  "isFinalSyncComplete s =
     (case rs_stat s of None \<Rightarrow> False | Some st \<Rightarrow> lastManualSync st = final_sync_tag)"

definition isVolSyncOwned :: "pvc \<Rightarrow> bool" where
  "isVolSyncOwned p =
     (case pvc_labels p created_by_label of None \<Rightarrow> False | Some c \<Rightarrow> c = ''volsync'')"

definition in_namespace :: "string \<Rightarrow> list_options" where
  "in_namespace ns = \<lparr>inNamespace = Some ns, matchingLabels = [], matchingSelector = []\<rparr>"

definition job_name :: "string \<Rightarrow> string" where
  "job_name rsName = ''volsync-rsync-tls-src-'' @ rsName"

end
