(* ===== verification/Primary.thy ===== *)
theory Primary
  imports Common
begin

text \<open>
  internal/controller/primary_reconciler.go: the reconciliation of a VolumeGroupReplication that
  is to be primary. The reconciler's in-memory VGR is an argument, and the operations that write
  to it give it back.
\<close>

section \<open>Configuration\<close>

record primary_config =
  pc_SchedulingInterval :: string
  pc_StorageClassName :: string
  pc_PSKSecretName :: string
  pc_VolumeSnapshotClassName :: "string option"

definition primary_getConfiguration :: "vgr_class \<Rightarrow> primary_config" where
  "primary_getConfiguration cls =
     (let ps = class_parameters cls;
          interval = label ps ''schedulingInterval'';
          scName = label ps ''storageClassName'';
          pskSecret = label ps ''pskSecretName'';
          vscName = label ps ''volumeSnapshotClassName''
      in \<lparr>pc_SchedulingInterval = (if interval \<noteq> '''' \<and> interval \<noteq> ''0m'' then interval else ''5m''),
          pc_StorageClassName = (if scName \<noteq> '''' then scName else ''standard''),
          pc_PSKSecretName = (if pskSecret \<noteq> '''' then pskSecret else ''volsync-rsync-tls-secret''),
          pc_VolumeSnapshotClassName = (if vscName \<noteq> '''' then Some vscName else None)\<rparr>)"

section \<open>Conflicts with the VolumeReplicationGroup\<close>

definition VRGActionFailover :: string where "VRGActionFailover = ''Failover''"

definition VRGSecondary :: string where "VRGSecondary = ''secondary''"

definition VRGPrimaryState :: string where "VRGPrimaryState = ''Primary''"

text \<open>The body of the loop over ReplicationSources: pause one that runs, and delete its job.\<close>

definition pause_and_stop :: "'c kube \<Rightarrow> string \<Rightarrow> rs \<Rightarrow> ('c, error) kop" where
  "pause_and_stop K jobNamespace s =
     (if rs_paused s then ret None
      else do {
        u \<leftarrow> UpdateRS K (s\<lparr>rs_paused := True\<rparr>);
        case u of
          Inl err \<Rightarrow> ret (Some err)
        | Inr s' \<Rightarrow> do {
            d \<leftarrow> DeleteJob K (jobNamespace, job_name (rs_name s'));
            ret (IgnoreNotFound d)
          }
      })"

definition delete_volsync_pod :: "'c kube \<Rightarrow> pod \<Rightarrow> ('c, error) kop" where
  "delete_volsync_pod K p =
     (if label (pod_labels p) created_by_label = ''volsync'' then do {
        d \<leftarrow> DeletePod K (pod_key p);
        case d of
          Some err \<Rightarrow> ret (Some (Wrap (''deleting pod '' @ pod_namespace p @ ''/'' @ pod_name p @ '': '') err ''''))
        | None \<Rightarrow> ret None
      } else ret None)"

definition pauseAllReplicationSources :: "'c kube \<Rightarrow> vgr \<Rightarrow> ('c, error) kop" where
  "pauseAllReplicationSources K vgr = do {
     r \<leftarrow> ListRS K (in_namespace (vgr_namespace vgr));
     case r of
       Inl err \<Rightarrow> ret (Some err)
     | Inr items \<Rightarrow> do {
     e \<leftarrow> for_each (pause_and_stop K (vgr_namespace vgr)) items;
     case e of
       Some err \<Rightarrow> ret (Some err)
     | None \<Rightarrow> do {
     q \<leftarrow> ListPod K (in_namespace (vgr_namespace vgr));
     case q of
       Inl err \<Rightarrow> ret (Some err)
     | Inr pods \<Rightarrow> for_each (delete_volsync_pod K) pods
     }}}"

text \<open>
  \<open>checkVRGConflict\<close> returns a possibly nil result and an error. The first secondary VRG of the
  namespace ends its loop.
\<close>

definition checkVRGConflict :: "'c kube \<Rightarrow> vgr \<Rightarrow> ('c, ctrl_result option \<times> error) kop" where
  "checkVRGConflict K vgr = do {
     r \<leftarrow> ListVRG K (in_namespace (vgr_namespace vgr));
     case r of
       Inl _ \<Rightarrow> ret (None, None)
     | Inr items \<Rightarrow>
         if list_ex (\<lambda>g. vrg_replicationState g = VRGSecondary) items then do {
           e \<leftarrow> pauseAllReplicationSources K vgr;
           case e of
             Some err \<Rightarrow> ret (None, Some err)
           | None \<Rightarrow> ret (Some no_requeue, None)
         } else ret (None, None)
   }"

text \<open>\<open>checkFailoverSafety\<close> is complete in the source, but its call is commented out.\<close>

definition owner_vrg_key :: "vgr \<Rightarrow> key" where
  "owner_vrg_key vgr =
     (label (vgr_labels vgr) ''ramendr.openshift.io/owner-namespace-name'',
      label (vgr_labels vgr) ''ramendr.openshift.io/owner-name'')"

definition checkFailoverSafety ::
    "'c kube \<Rightarrow> vgr \<Rightarrow> vgr_class \<Rightarrow> ('c, ctrl_result option \<times> error) kop" where
  "checkFailoverSafety K vgr cls =
     (let (vrgNamespace, vrgName) = owner_vrg_key vgr
      in if vrgName = '''' \<or> vrgNamespace = '''' then ret (None, None)
         else do {
           r \<leftarrow> GetVRG K (vrgNamespace, vrgName);
           case r of
             Inl _ \<Rightarrow> ret (None, None)
           | Inr g \<Rightarrow>
               if vrg_action g \<noteq> VRGActionFailover then ret (None, None)
               else if vrg_state g = VRGPrimaryState then ret (None, None)
               else do {
                 let config = primary_getConfiguration cls;
                 now \<leftarrow> Now K;
                 if \<not> isWithinScheduleWindow now (pc_SchedulingInterval config)
                 then ret (Some (requeue_after (30 * Second)), None)
                 else ret (None, None)
               }
         })"

section \<open>ReplicationSources\<close>

definition reconcilePVCReplicationSource ::
    "'c kube \<Rightarrow> vs_handler \<Rightarrow> primary_config \<Rightarrow> pvc \<Rightarrow> ('c, rs option reply) kop" where
  "reconcilePVCReplicationSource K v config p = do {
     let remoteAddress = GetRemoteServiceNameForRDFromPVCName (pvc_name p) (pvc_namespace p);
     r \<leftarrow> ReconcileRS K v (pvc_name p) (pvc_namespace p)
       \<lparr>b_remoteAddress = remoteAddress, b_pskSecretName = pc_PSKSecretName config,
        b_storageClassName = pvc_storageClassName p, b_accessModes = pvc_accessModes p\<rparr>;
     ret r
   }"

definition sync_time :: "rs \<Rightarrow> time option" where
  "sync_time s = (case rs_stat s of None \<Rightarrow> None | Some st \<Rightarrow> lastSyncTime st)"

text \<open>One pass of the loop: the protected PVCs so far and the last sync time seen.\<close>

definition protect_pvc :: "'c kube \<Rightarrow> vs_handler \<Rightarrow> primary_config \<Rightarrow>
    string list \<times> time option \<Rightarrow> pvc \<Rightarrow> ('c, (string list \<times> time option) reply) kop" where
  "protect_pvc K v config acc p =
     (let (protectedPVCs, latestSync) = acc
      in if isVolSyncOwned p then ret (Inr acc)
         else do {
           r \<leftarrow> reconcilePVCReplicationSource K v config p;
           case r of
             Inl err \<Rightarrow> ret (Inl err)
           | Inr None \<Rightarrow> ret (Inr acc)
           | Inr (Some s) \<Rightarrow> ret (Inr (protectedPVCs @ [pvc_name p],
               (case sync_time s of None \<Rightarrow> latestSync | Some t \<Rightarrow> Some t)))
         })"

definition reconcileReplicationSources ::
    "'c kube \<Rightarrow> vs_handler \<Rightarrow> primary_config \<Rightarrow> pvc list \<Rightarrow> ('c, (string list \<times> time option) reply) kop" where
  "reconcileReplicationSources K v config pvcs = fold_each (protect_pvc K v config) ([], None) pvcs"

section \<open>Status\<close>

text \<open>A status condition of the in-memory VGR.\<close>

definition set_vgr_condition :: "'c kube \<Rightarrow> string \<Rightarrow> bool \<Rightarrow> string \<Rightarrow> string \<Rightarrow> vgr \<Rightarrow> ('c, vgr) kop" where
  "set_vgr_condition K condType status reason message vgr = do {
     cs \<leftarrow> setCondition K (vgr_conditions vgr) condType status reason message (vgr_generation vgr);
     ret (vgr\<lparr>vgr_conditions := cs\<rparr>)
   }"

definition status_update :: "'c kube \<Rightarrow> vgr \<Rightarrow> ('c, vgr \<times> error) kop" where
  "status_update K vgr = do {
     u \<leftarrow> StatusUpdateVGR K vgr;
     case u of
       Inl err \<Rightarrow> ret (vgr, Some err)
     | Inr vgr' \<Rightarrow> ret (vgr', None)
   }"

definition primary_updateStatus ::
    "'c kube \<Rightarrow> vgr \<Rightarrow> string list \<Rightarrow> time option \<Rightarrow> ('c, vgr \<times> error) kop" where
  "primary_updateStatus K vgr protectedPVCs latestSync = do {
     let v0 = vgr\<lparr>vgr_state := PrimaryState, vgr_pvcRefs := protectedPVCs,
       vgr_lastSyncTime := latestSync, vgr_observedGeneration := vgr_generation vgr\<rparr>;
     v1 \<leftarrow> set_vgr_condition K ''Completed'' True ''Promoted''
       ''volume group is promoted to primary and replicating to secondary'' v0;
     v2 \<leftarrow> set_vgr_condition K ''Validated'' True ''PrerequisiteMet''
       ''volume group is validated and met all prerequisites'' v1;
     v3 \<leftarrow> set_vgr_condition K ''Degraded'' False ''Healthy'' ''volume group is healthy'' v2;
     v4 \<leftarrow> set_vgr_condition K ''Resyncing'' False ''NotResyncing'' ''volume group is not resyncing'' v3;
     v5 \<leftarrow> set_vgr_condition K ''Replicating'' True ''Replicating''
       ''volume group is replicating: local group is primary'' v4;
     status_update K v5
   }"

section \<open>Reconcile\<close>

text \<open>
  The selector the PVCs are listed with: the requirements of the VGR's own, then the owner label's.
  The namespace requirement is commented out in the source.
\<close>

definition primary_list_options :: "selector \<Rightarrow> requirement \<Rightarrow> list_options" where
  "primary_list_options sel ownerReq =
     \<lparr>inNamespace = None, matchingLabels = [], matchingSelector = sel @ [ownerReq]\<rparr>"

text \<open>
  \<open>return *result, err\<close> after \<open>checkVRGConflict\<close> dereferences a nil result when there was an
  error; \<open>*ownerReq\<close> dereferences what \<open>NewRequirement\<close> returned, whose error is dropped.
\<close>

definition Primary_Reconcile ::
    "'c kube \<Rightarrow> vgr \<Rightarrow> vgr_class \<Rightarrow> ('c, (vgr \<times> ctrl_result \<times> error) outcome) kop" where
  "Primary_Reconcile K vgr cls =
     (case vgr_selector vgr of
        None \<Rightarrow> ret (Returned (vgr, requeue_after requeueInterval, None))
      | Some ls \<Rightarrow>
     (case k_selector K ls of
        Inl err \<Rightarrow> ret (Returned (vgr, no_requeue, Some (Wrap ''invalid pvcSelector: '' err '''')))
      | Inr sel \<Rightarrow> do {
     c \<leftarrow> checkVRGConflict K vgr;
     let (result, err) = c;
     if err \<noteq> None \<or> result \<noteq> None then
       (case result of
          None \<Rightarrow> ret Panicked
        | Some x \<Rightarrow> ret (Returned (vgr, x, err)))
     else
     (case fst (k_requirement K VGROwnerLabel ''='' [vgr_name vgr]) of
        None \<Rightarrow> ret Panicked
      | Some ownerReq \<Rightarrow> do {
     l \<leftarrow> ListPVC K (primary_list_options sel ownerReq);
     case l of
       Inl e \<Rightarrow> ret (Returned (vgr, no_requeue, Some e))
     | Inr pvcs \<Rightarrow>
     if pvcs = [] then ret (Returned (vgr, requeue_after requeueInterval, None))
     else do {
     let config = primary_getConfiguration cls;
     let vsHandler = NewVSHandler vgr (pc_SchedulingInterval config);
     r \<leftarrow> reconcileReplicationSources K vsHandler config pvcs;
     case r of
       Inl e \<Rightarrow> ret (Returned (vgr, no_requeue, Some e))
     | Inr acc \<Rightarrow> do {
         s \<leftarrow> primary_updateStatus K vgr (fst acc) (snd acc);
         case s of
           (vgr', Some e) \<Rightarrow> ret (Returned (vgr', no_requeue, Some e))
         | (vgr', None) \<Rightarrow> ret (Returned (vgr', requeue_after requeueInterval, None))
       }
     }})}))"

section \<open>Samples\<close>

definition sample_secondary_vrg :: vrg where
  "sample_secondary_vrg = \<lparr>vrg_name = ''vrg'', vrg_namespace = ''app'', vrg_action = '''',
     vrg_replicationState = VRGSecondary, vrg_state = ''''\<rparr>"

section \<open>Properties: what a primary may ask\<close>

text \<open>
  The requests of a primary: reads, its status, pausing ReplicationSources, deleting jobs, pods
  and ReplicationDestinations, writing ReplicationSources and PVC metadata.
\<close>

fun read_event :: "event \<Rightarrow> bool" where
  "read_event (E_get_vgr _ _) = True"
| "read_event (E_list_vgr _ _) = True"
| "read_event (E_get_class _ _) = True"
| "read_event (E_get_vrg _ _) = True"
| "read_event (E_list_vrg _ _) = True"
| "read_event (E_get_pvc _ _) = True"
| "read_event (E_list_pvc _ _) = True"
| "read_event (E_get_pv _ _) = True"
| "read_event (E_get_secret _ _) = True"
| "read_event (E_get_rs _ _) = True"
| "read_event (E_list_rs _ _) = True"
| "read_event (E_get_rd _ _) = True"
| "read_event (E_list_rd _ _) = True"
| "read_event (E_list_pod _ _) = True"
| "read_event (E_now _) = True"
| "read_event (E_rand _ _) = True"
| "read_event _ = False"

fun primary_write :: "event \<Rightarrow> bool" where
  "primary_write (E_status_vgr _ _) = True"
| "primary_write (E_update_rs s _) = rs_paused s"
| "primary_write (E_delete_job _ _) = True"
| "primary_write (E_delete_pod _ _) = True"
| "primary_write (E_delete_rd _ _) = True"
| "primary_write (E_apply_rs _ _ _) = True"
| "primary_write (E_update_pvc _ _) = True"
| "primary_write _ = False"

lemma emits_pauseAll:
  "emits (\<lambda>e. read_event e \<or> primary_write e) (pauseAllReplicationSources K vgr)"
  unfolding pauseAllReplicationSources_def pause_and_stop_def delete_volsync_pod_def
  by (intro emits_intros) simp_all

lemma emits_ReconcileRS:
  "emits (\<lambda>e. read_event e \<or> primary_write e) (ReconcileRS K v name ns b)"
  unfolding ReconcileRS_def IsPVCTerminating_def validateSecretAndAddOwnerRef_def DeleteRD_def
    ensurePVCLabels_def createOrUpdateRS_def addFinalizerToPVC_def Let_def
  by (intro emits_intros) simp_all

lemma emits_set_vgr_condition [emits_intros]:
  "(\<And>t. A (E_now t)) \<Longrightarrow> emits A (set_vgr_condition K t st rs msg vgr)"
  unfolding set_vgr_condition_def setCondition_def by (intro emits_intros)

lemma emits_status_update [emits_intros]:
  "(\<And>v r. A (E_status_vgr v r)) \<Longrightarrow> emits A (status_update K vgr)"
  unfolding status_update_def by (intro emits_intros)

lemma emits_Primary:
  "emits (\<lambda>e. read_event e \<or> primary_write e) (Primary_Reconcile K vgr cls)"
  unfolding Primary_Reconcile_def checkVRGConflict_def reconcileReplicationSources_def protect_pvc_def
    reconcilePVCReplicationSource_def primary_updateStatus_def Let_def
  by (intro emits_intros emits_pauseAll emits_ReconcileRS) simp_all

section \<open>Properties: panics\<close>



section \<open>Properties: conflicts with the VRG\<close>

fun writes_rs :: "event \<Rightarrow> bool" where
  "writes_rs (E_apply_rs _ _ _) = True"
| "writes_rs _ = False"

lemma post_pause_and_stop:
  "post (pause_and_stop K ns s) (\<lambda>tr r. r = None \<longrightarrow> rs_paused s \<or>
     (\<exists>s'. E_update_rs (s\<lparr>rs_paused := True\<rparr>) (Inr s') \<in> set tr))"
  unfolding pause_and_stop_def by (intro vcg) auto

lemma post_pause_all_rs:
  "post (for_each (pause_and_stop K ns) items) (\<lambda>tr r. r = None \<longrightarrow> (\<forall>s \<in> set items. rs_paused s \<or>
     (\<exists>s'. E_update_rs (s\<lparr>rs_paused := True\<rparr>) (Inr s') \<in> set tr)))"
  by (rule post_for_eachI [OF post_pause_and_stop]) (fastforce dest: loop_trace_mem)

lemma post_delete_volsync_pod:
  "post (delete_volsync_pod K p) (\<lambda>tr r. r = None \<longrightarrow>
     label (pod_labels p) created_by_label = ''volsync'' \<longrightarrow> E_delete_pod (pod_key p) None \<in> set tr)"
  unfolding delete_volsync_pod_def by (intro vcg) auto

lemma post_delete_volsync_pods:
  "post (for_each (delete_volsync_pod K) pods) (\<lambda>tr r. r = None \<longrightarrow> (\<forall>p \<in> set pods.
     label (pod_labels p) created_by_label = ''volsync'' \<longrightarrow> E_delete_pod (pod_key p) None \<in> set tr))"
  by (rule post_for_eachI [OF post_delete_volsync_pod]) (fastforce dest: loop_trace_mem)

text \<open>What a pause of everything has done: each listed RS is paused, each VolSync pod deleted.\<close>

definition all_paused :: "string \<Rightarrow> event list \<Rightarrow> bool" where
  "all_paused ns tr \<longleftrightarrow> (\<exists>items pods.
     E_list_rs (in_namespace ns) (Inr items) \<in> set tr \<and>
     (\<forall>s \<in> set items. rs_paused s \<or> (\<exists>s'. E_update_rs (s\<lparr>rs_paused := True\<rparr>) (Inr s') \<in> set tr)) \<and>
     E_list_pod (in_namespace ns) (Inr pods) \<in> set tr \<and>
     (\<forall>p \<in> set pods. label (pod_labels p) created_by_label = ''volsync'' \<longrightarrow>
        E_delete_pod (pod_key p) None \<in> set tr))"

lemma post_pauseAll:
  "post (pauseAllReplicationSources K vgr) (\<lambda>tr r. r = None \<longrightarrow> all_paused (vgr_namespace vgr) tr)"
  unfolding pauseAllReplicationSources_def all_paused_def
  by (intro vcg post_weaken [OF post_pause_all_rs] post_weaken [OF post_delete_volsync_pods]) fastforce+

lemma emits_pauseAll_no_apply:
  "emits (\<lambda>e. \<not> writes_rs e \<and> (\<forall>opts r. e \<noteq> E_list_vrg opts r)) (pauseAllReplicationSources K vgr)"
  unfolding pauseAllReplicationSources_def pause_and_stop_def delete_volsync_pod_def
  by (intro emits_intros) simp_all

lemma list_ex_VRGSecondary:
  "list_ex (\<lambda>g. vrg_replicationState g = VRGSecondary) items \<longleftrightarrow>
     (\<exists>g \<in> set items. vrg_replicationState g = VRGSecondary)"
  by (simp add: list_ex_iff)

text \<open>The outcome of the check: one listing, and with a secondary VRG in it a pause of everything.\<close>

definition conflict_checked :: "string \<Rightarrow> event list \<Rightarrow> ctrl_result option \<times> error \<Rightarrow> bool" where
  "conflict_checked ns tr r \<longleftrightarrow> (\<exists>x t. tr = E_list_vrg (in_namespace ns) x # t \<and>
     (\<forall>e \<in> set t. \<not> writes_rs e \<and> (\<forall>opts y. e \<noteq> E_list_vrg opts y)) \<and>
     (if \<exists>items. x = Inr items \<and> (\<exists>g \<in> set items. vrg_replicationState g = VRGSecondary)
      then r = (Some no_requeue, None) \<and> all_paused ns t \<or> (\<exists>e. r = (None, Some e))
      else t = [] \<and> r = (None, None)))"

lemma post_checkVRGConflict:
  "post (checkVRGConflict K vgr) (conflict_checked (vgr_namespace vgr))"
  unfolding checkVRGConflict_def conflict_checked_def
  by (intro vcg post_weaken [OF post_conj [OF post_pauseAll emits_pauseAll_no_apply [unfolded emits_def]]])
    (auto simp: list_ex_VRGSecondary)

lemma emits_no_vrg_listing:
  "emits (\<lambda>e. \<forall>opts y. e \<noteq> E_list_vrg opts y) (reconcileReplicationSources K v config pvcs)"
  "emits (\<lambda>e. \<forall>opts y. e \<noteq> E_list_vrg opts y) (primary_updateStatus K vgr names sync)"
  unfolding reconcileReplicationSources_def protect_pvc_def reconcilePVCReplicationSource_def
    ReconcileRS_def IsPVCTerminating_def validateSecretAndAddOwnerRef_def DeleteRD_def
    ensurePVCLabels_def createOrUpdateRS_def addFinalizerToPVC_def primary_updateStatus_def Let_def
  by (intro emits_intros; simp)+

lemma all_paused_mono: "all_paused ns t \<Longrightarrow> all_paused ns (e # t)"
  unfolding all_paused_def by (elim exE) (intro exI, auto)

text \<open>
  C19: when the VRGs of the namespace were listed and one is to be secondary, the reconciliation as
  primary writes no ReplicationSource but pauses: if it returns, every ReplicationSource of the
  namespace was paused, every VolSync pod deleted, and the result is an empty one without error.
\<close>

theorem primary_conflict_pauses:
  assumes "runs (Primary_Reconcile K vgr cls) tr r"
    and "E_list_vrg (in_namespace (vgr_namespace vgr)) (Inr items) \<in> set tr"
    and "g \<in> set items" and "vrg_replicationState g = VRGSecondary"
  shows "\<not> list_ex writes_rs tr \<and>
     (r = Panicked \<or> r = Returned (vgr, no_requeue, None) \<and> all_paused (vgr_namespace vgr) tr)"
proof -
  let ?Q = "\<lambda>tr r. \<forall>items g. E_list_vrg (in_namespace (vgr_namespace vgr)) (Inr items) \<in> set tr \<longrightarrow>
     g \<in> set items \<longrightarrow> vrg_replicationState g = VRGSecondary \<longrightarrow> (\<forall>e \<in> set tr. \<not> writes_rs e) \<and>
     (r = Panicked \<or> r = Returned (vgr, no_requeue, None) \<and> all_paused (vgr_namespace vgr) tr)"
  have "post (Primary_Reconcile K vgr cls) ?Q"
    unfolding Primary_Reconcile_def Let_def
    by (intro vcg post_weaken [OF post_checkVRGConflict]
          post_weaken [OF emits_no_vrg_listing(1) [unfolded emits_def]]
          post_weaken [OF emits_no_vrg_listing(2) [unfolded emits_def]])
      (auto simp: conflict_checked_def all_paused_mono split: if_splits)
  from post_runs [OF this assms(1)] assms(2-) show ?thesis by (auto simp: list_ex_iff)
qed

theorem primary_conflict_pauses_witness:
  "\<exists>tr. runs (Primary_Reconcile ref_kube (sample_vgr ''app'' ''group'') sample_class) tr
       (Returned (sample_vgr ''app'' ''group'', no_requeue, None)) \<and>
     \<not> list_ex writes_rs tr \<and> all_paused ''app'' tr \<and>
     list_ex (\<lambda>e. case e of E_update_rs s _ \<Rightarrow> rs_paused s | _ \<Rightarrow> False) tr"
proof -
  let ?m = "Primary_Reconcile ref_kube (sample_vgr ''app'' ''group'') sample_class"
  let ?run = "run_state ?m (world_of (empty_cluster
    \<lparr>c_vrgs := [sample_secondary_vrg], c_rss := [blank_rs (''app'', ''data'')]\<rparr>))"
  have h: "fst ?run = Returned (sample_vgr ''app'' ''group'', no_requeue, None) \<and>
      E_list_vrg (in_namespace ''app'') (Inr [sample_secondary_vrg]) \<in> set (history (snd ?run)) \<and>
      list_ex (\<lambda>e. case e of E_update_rs s _ \<Rightarrow> rs_paused s | _ \<Rightarrow> False) (history (snd ?run))"
    by (simp add: Primary_Reconcile_def checkVRGConflict_def pauseAllReplicationSources_def pause_and_stop_def
        in_namespace_def VRGSecondary_def no_requeue_def IgnoreNotFound_def client_defs ref_defs sample_vgr_def
        sample_secondary_vrg_def Let_def)
  then have r: "runs ?m (history (snd ?run)) (Returned (sample_vgr ''app'' ''group'', no_requeue, None))"
    by (auto intro: runs_refI [of _ _ _ "snd ?run"] simp: prod_eq_iff)
  have "vgr_namespace (sample_vgr ''app'' ''group'') = ''app''" by (simp add: sample_vgr_def)
  with primary_conflict_pauses [OF r, of "[sample_secondary_vrg]" sample_secondary_vrg] h r show ?thesis
    by (auto simp: sample_secondary_vrg_def)
qed

section \<open>Properties: the protected PVCs\<close>

text \<open>The answers to the writes of ReplicationSources in a history, in order, with the PVC's name.\<close>

fun applied_rs :: "event list \<Rightarrow> (string \<times> rs) list" where
  "applied_rs [] = []"
| "applied_rs (e # tr) = (case e of E_apply_rs k _ (Inr s) \<Rightarrow> (snd k, s) # applied_rs tr | _ \<Rightarrow> applied_rs tr)"

lemma applied_rs_append [simp]: "applied_rs (xs @ ys) = applied_rs xs @ applied_rs ys"
  by (induction xs) (auto split: event.splits sum.splits)

text \<open>The sync time the loop keeps: that of the last answer that has one.\<close>

definition last_sync :: "rs list \<Rightarrow> time option" where
  "last_sync ss = fold (\<lambda>s t. case sync_time s of None \<Rightarrow> t | Some t' \<Rightarrow> Some t') ss None"

lemma applied_rs_none: "\<forall>e \<in> set tr. \<not> writes_rs e \<Longrightarrow> applied_rs tr = []"
  by (induction tr) (auto split: event.splits)

lemma post_ReconcileRS_applied:
  "post (ReconcileRS K v name ns b) (\<lambda>tr r. case r of Inl _ \<Rightarrow> True
     | Inr None \<Rightarrow> applied_rs tr = [] | Inr (Some s) \<Rightarrow> applied_rs tr = [(name, s)])"
  unfolding ReconcileRS_def IsPVCTerminating_def validateSecretAndAddOwnerRef_def DeleteRD_def
    ensurePVCLabels_def createOrUpdateRS_def addFinalizerToPVC_def GetReplicationSourceName_def Let_def
  by (intro vcg) (auto split: if_splits)

lemma post_protect_pvc:
  assumes "fst acc = map fst (applied_rs tr)" and "snd acc = last_sync (map snd (applied_rs tr))"
  shows "post (protect_pvc K v config acc p) (\<lambda>t r. case r of Inl _ \<Rightarrow> True
     | Inr acc' \<Rightarrow> fst acc' = map fst (applied_rs (tr @ t)) \<and>
         snd acc' = last_sync (map snd (applied_rs (tr @ t))))"
  unfolding protect_pvc_def reconcilePVCReplicationSource_def Let_def
  by (intro vcg post_weaken [OF post_ReconcileRS_applied])
    (use assms in \<open>auto simp: last_sync_def split: sum.splits option.splits\<close>)

text \<open>
  C30: the list of protected PVCs and the sync time that the loop over the PVCs returns are exactly
  the names, and the last sync time present, of the ReplicationSources the server answered with,
  in the order of the loop: the sync time is the last one in list order, not the latest.
\<close>

theorem protected_pvcs_exact:
  assumes "runs (reconcileReplicationSources K v config pvcs) tr (Inr (names, sync))"
  shows "names = map fst (applied_rs tr) \<and> sync = last_sync (map snd (applied_rs tr))"
proof -
  have "post (reconcileReplicationSources K v config pvcs) (\<lambda>t r. case r of Inl _ \<Rightarrow> True
     | Inr acc \<Rightarrow> fst acc = map fst (applied_rs ([] @ t)) \<and>
         snd acc = last_sync (map snd (applied_rs ([] @ t))))"
    unfolding reconcileReplicationSources_def
    by (rule post_fold_each [where E = "\<lambda>_ _. True"]) (simp_all add: post_protect_pvc last_sync_def)
  from post_runs [OF this assms] show ?thesis by simp
qed

theorem protected_pvcs_exact_witness:
  "\<exists>tr sync. runs (reconcileReplicationSources ref_kube sample_handler (primary_getConfiguration sample_class)
       [sample_pvc ''app'' ''data'', sample_pvc ''app'' ''data-tmp'']) tr (Inr ([''data''], sync)) \<and>
     map fst (applied_rs tr) = [''data'']"
proof -
  let ?m = "reconcileReplicationSources ref_kube sample_handler (primary_getConfiguration sample_class)
       [sample_pvc ''app'' ''data'', sample_pvc ''app'' ''data-tmp'']"
  let ?run = "run_state ?m (world_of (empty_cluster
    \<lparr>c_pvcs := [sample_pvc ''app'' ''data''], c_secrets := [sample_secret ''app'']\<rparr>))"
  have "\<exists>sync. fst ?run = Inr ([''data''], sync)"
    by (simp add: reconcileReplicationSources_def protect_pvc_def reconcilePVCReplicationSource_def
        ReconcileRS_def IsPVCTerminating_def validateSecretAndAddOwnerRef_def DeleteRD_def
        ensurePVCLabels_def createOrUpdateRS_def addFinalizerToPVC_def mutate_rs_def getScheduleCronSpec_def
        primary_getConfiguration_def sample_class_def sample_handler_def label_def IsZero_def
        isVolSyncOwned_def HasSuffix_def tmp_suffix_def GetReplicationSourceName_def
        getReplicationDestinationName_def GetRemoteServiceNameForRDFromPVCName_def
        client_defs ref_defs sample_pvc_def sample_secret_def Let_def)
  then obtain sync where "fst ?run = Inr ([''data''], sync)" by blast
  then have r: "runs ?m (history (snd ?run)) (Inr ([''data''], sync))"
    by (auto intro: runs_refI [of _ _ _ "snd ?run"] simp: prod_eq_iff)
  from protected_pvcs_exact [OF r] r show ?thesis by metis
qed

section \<open>Properties: the status\<close>

text \<open>No condition type occurs twice if none did at the start.\<close>

definition types_kept :: "vgr \<Rightarrow> vgr \<Rightarrow> bool" where
  "types_kept vgr v \<longleftrightarrow>
     (distinct (condition_types (vgr_conditions vgr)) \<longrightarrow> distinct (condition_types (vgr_conditions v)))"

text \<open>One condition: only the conditions change, by the status of one type.\<close>

lemma post_set_vgr_condition:
  assumes "types_kept orig vgr"
  shows "post (set_vgr_condition K t st rs msg vgr) (\<lambda>tr v. (\<exists>now. tr = [E_now now]) \<and>
     (\<exists>cs. v = vgr\<lparr>vgr_conditions := cs\<rparr>) \<and>
     status_of v = (status_of vgr)(t \<mapsto> (if st then ConditionTrue else ConditionFalse)) \<and>
     types_kept orig v)"
  unfolding set_vgr_condition_def
  by (intro vcg post_weaken [OF post_setCondition])
    (use assms in \<open>auto simp: status_of_def types_kept_def fun_eq_iff\<close>)

lemma types_kept_frame [simp]:
  "types_kept v v" "types_kept v (w\<lparr>vgr_state := a\<rparr>) = types_kept v w"
  "types_kept v (w\<lparr>vgr_pvcRefs := b\<rparr>) = types_kept v w"
  "types_kept v (w\<lparr>vgr_lastSyncTime := c\<rparr>) = types_kept v w"
  "types_kept v (w\<lparr>vgr_observedGeneration := g\<rparr>) = types_kept v w"
  by (simp_all add: types_kept_def)

text \<open>The status updates of a history, with their answers.\<close>

fun sent_status :: "event list \<Rightarrow> (vgr \<times> vgr reply) list" where
  "sent_status [] = []"
| "sent_status (e # tr) = (case e of E_status_vgr v x \<Rightarrow> (v, x) # sent_status tr | _ \<Rightarrow> sent_status tr)"

lemma sent_status_append [simp]: "sent_status (xs @ ys) = sent_status xs @ sent_status ys"
  by (induction xs) (auto split: event.splits)

definition primary_table :: "(string \<times> string) list" where
  "primary_table = [(''Completed'', ConditionTrue), (''Validated'', ConditionTrue),
     (''Degraded'', ConditionFalse), (''Resyncing'', ConditionFalse), (''Replicating'', ConditionTrue)]"

text \<open>
  C27: the status update of a primary: one object is sent; it has state Primary, the protected PVCs, the
  sync time and the generation, its conditions are the old ones with the five of the table
  written over, and no condition type occurs twice if none did before.
\<close>

theorem primary_status_refines:
  assumes "runs (primary_updateStatus K vgr names sync) tr r"
  shows "\<exists>v x. sent_status tr = [(v, x)] \<and> vgr_state v = PrimaryState \<and> vgr_pvcRefs v = names \<and>
     vgr_lastSyncTime v = sync \<and> vgr_observedGeneration v = vgr_generation vgr \<and> vgr_key v = vgr_key vgr \<and>
     status_of v = overridden primary_table vgr \<and>
     types_kept vgr v \<and>
     (case x of Inl e \<Rightarrow> r = (v, Some e) | Inr v' \<Rightarrow> r = (v', None))"
proof -
  have "post (primary_updateStatus K vgr names sync) (\<lambda>tr r.
     \<exists>v x. sent_status tr = [(v, x)] \<and> vgr_state v = PrimaryState \<and> vgr_pvcRefs v = names \<and>
     vgr_lastSyncTime v = sync \<and> vgr_observedGeneration v = vgr_generation vgr \<and> vgr_key v = vgr_key vgr \<and>
     status_of v = overridden primary_table vgr \<and>
     types_kept vgr v \<and>
     (case x of Inl e \<Rightarrow> r = (v, Some e) | Inr v' \<Rightarrow> r = (v', None)))"
    unfolding primary_updateStatus_def status_update_def Let_def
    by (intro vcg post_weaken [OF post_set_vgr_condition [where orig = vgr]])
      (auto simp: primary_table_def fun_upd_twist split: sum.splits)
  from post_runs [OF this assms] show ?thesis .
qed

theorem primary_status_refines_witness:
  "\<exists>tr r v x. runs (primary_updateStatus ref_kube (sample_vgr ''app'' ''group'') [''data''] (Some 7)) tr r \<and>
     sent_status tr = [(v, x)] \<and> vgr_state v = PrimaryState \<and> status_of v ''Completed'' = Some ConditionTrue"
proof -
  let ?m = "primary_updateStatus ref_kube (sample_vgr ''app'' ''group'') [''data''] (Some 7)"
  have r: "runs ?m (history (snd (run_state ?m (world_of empty_cluster)))) (fst (run_state ?m (world_of empty_cluster)))"
    by (auto intro: runs_refI [of _ _ _ "snd (run_state ?m (world_of empty_cluster))"])
  from primary_status_refines [OF r] obtain v x
    where "sent_status (history (snd (run_state ?m (world_of empty_cluster)))) = [(v, x)]"
      "vgr_state v = PrimaryState" "status_of v = overridden primary_table (sample_vgr ''app'' ''group'')"
    by blast
  moreover from this have "status_of v ''Completed'' = Some ConditionTrue" by (simp add: primary_table_def)
  ultimately show ?thesis using r by blast
qed

section \<open>Failover safety\<close>

text \<open>
  Nothing calls the check: its call in \<open>Reconcile\<close> is commented out. It
  never fails, and it asks to wait exactly when the owner VRG was read, its
  action is Failover, it is not yet in state Primary, and the clock is outside the schedule
  window; the wait is 30 seconds. The clock is read only when the first three hold.
\<close>

lemma failover_waits_iff:
  assumes "runs (checkFailoverSafety K vgr cls) tr (result, err)"
  shows "err = None \<and> (result = None \<or> result = Some (requeue_after (30 * Second))) \<and>
     (result \<noteq> None \<longleftrightarrow> (\<exists>g now. tr = [E_get_vrg (owner_vrg_key vgr) (Inr g), E_now now] \<and>
        vrg_action g = VRGActionFailover \<and> vrg_state g \<noteq> VRGPrimaryState \<and>
        \<not> isWithinScheduleWindow now (pc_SchedulingInterval (primary_getConfiguration cls))))"
proof -
  obtain ns n where k: "owner_vrg_key vgr = (ns, n)" by fastforce
  have "post (checkFailoverSafety K vgr cls) (\<lambda>tr r. snd r = None \<and>
     (fst r = None \<or> fst r = Some (requeue_after (30 * Second))) \<and>
     (fst r \<noteq> None \<longleftrightarrow> (\<exists>g now. tr = [E_get_vrg (owner_vrg_key vgr) (Inr g), E_now now] \<and>
        vrg_action g = VRGActionFailover \<and> vrg_state g \<noteq> VRGPrimaryState \<and>
        \<not> isWithinScheduleWindow now (pc_SchedulingInterval (primary_getConfiguration cls)))))"
    unfolding checkFailoverSafety_def Let_def k prod.case by (intro vcg) auto
  from post_runs [OF this assms] show ?thesis by simp
qed

section \<open>Properties: never a source beside a destination\<close>

text \<open>
  In a history whose reads are keyed, a ReplicationSource of a key is written only after the
  ReplicationDestination of that key was seen to be gone.
\<close>

definition rs_exclusive :: "event list \<Rightarrow> bool" where
  "rs_exclusive tr \<longleftrightarrow> (keyed tr \<longrightarrow> (\<forall>k. guarded (shows_no_rd k) (applies_rs k) tr))"

interpretation rs_excl: trace_property rs_exclusive
  by unfold_locales (auto simp: rs_exclusive_def guarded_append)

lemma rs_excl_quiet: "emits (\<lambda>e. \<not> writes_rs e) m \<Longrightarrow> rs_excl.keeps m"
proof -
  have a: "\<not> applies_rs k e" if "\<not> writes_rs e" for k e
    using that by (cases e) auto
  assume "emits (\<lambda>e. \<not> writes_rs e) m"
  then show ?thesis
    unfolding emits_def rs_excl.keeps_def rs_exclusive_def
    by (elim post_weaken) (auto intro!: guarded_quiet simp: a)
qed

lemma rs_excl_ReconcileRS: "rs_excl.keeps (ReconcileRS K v name ns b)"
proof -
  have "post (ReconcileRS K v name ns b) (\<lambda>tr r. keyed tr \<longrightarrow>
     (\<forall>k. guarded (shows_no_rd k) (applies_rs k) tr))"
    unfolding ReconcileRS_def IsPVCTerminating_def createOrUpdateRS_def GetReplicationSourceName_def Let_def
      ensurePVCLabels_def validateSecretAndAddOwnerRef_def addFinalizerToPVC_def DeleteRD_def
      getReplicationDestinationName_def
    by (intro vcg) (auto split: if_splits)
  then show ?thesis by (simp add: rs_excl.keeps_def rs_exclusive_def)
qed

lemma rs_excl_checkVRGConflict: "rs_excl.keeps (checkVRGConflict K vgr)"
  unfolding checkVRGConflict_def pauseAllReplicationSources_def pause_and_stop_def delete_volsync_pod_def
  by (rule rs_excl_quiet, intro emits_intros) simp_all

lemma rs_excl_updateStatus: "rs_excl.keeps (primary_updateStatus K vgr names sync)"
  unfolding primary_updateStatus_def Let_def
  by (rule rs_excl_quiet, intro emits_intros) simp_all

lemma rs_excl_Primary: "rs_excl.keeps (Primary_Reconcile K vgr cls)"
  unfolding Primary_Reconcile_def reconcileReplicationSources_def protect_pvc_def
    reconcilePVCReplicationSource_def Let_def
  by (intro rs_excl.keeps_intros rs_excl_checkVRGConflict rs_excl_updateStatus rs_excl_ReconcileRS)
    (auto intro!: rs_excl_quiet emits_intros)

text \<open>
  C6: in any reconciliation as primary, over all its PVCs and on every path, whenever the
  ReplicationSource of a key is written, the ReplicationDestination of the same key was seen to
  be gone before, so the operator never runs both for one PVC.
\<close>

theorem primary_never_beside_rd:
  assumes "runs (Primary_Reconcile K vgr cls) tr r" and "keyed tr"
    and "tr = before @ E_apply_rs k f x # after"
  shows "\<exists>e \<in> set before. shows_no_rd k e"
proof -
  have "guarded (shows_no_rd k) (applies_rs k) tr"
    using rs_excl.keeps_runs [OF rs_excl_Primary assms(1)] assms(2)
    by (cases k) (simp add: rs_exclusive_def)
  then show ?thesis using assms(3) by (auto simp: guarded_iff)
qed

lemmas handler_run_defs =
  ReconcileRS_def IsPVCTerminating_def validateSecretAndAddOwnerRef_def DeleteRD_def
  ensurePVCLabels_def createOrUpdateRS_def addFinalizerToPVC_def mutate_rs_def getScheduleCronSpec_def
  GetReplicationSourceName_def getReplicationDestinationName_def GetRemoteServiceNameForRDFromPVCName_def
  addVGROwnerLabel_def VGROwnerLabel_def VGROwnerNamespaceLabel_def HasSuffix_def tmp_suffix_def
  label_def IsZero_def client_defs ref_defs Let_def

lemmas primary_run_defs =
  Primary_Reconcile_def checkVRGConflict_def in_namespace_def primary_list_options_def
  reconcileReplicationSources_def protect_pvc_def reconcilePVCReplicationSource_def
  primary_updateStatus_def set_vgr_condition_def setCondition_def status_update_def
  primary_getConfiguration_def NewVSHandler_def isVolSyncOwned_def handler_run_defs
lemma cron_5m: "ConvertSchedulingIntervalToCronSpec ''5m'' = Inr ''*/5 * * * *''"
  using convert_snoc [of "''5''" "CHR ''m''"] Sscanf_d_prefix [of "''5''" "[]"]
  by (simp add: is_digit_def decimal_def digit_value_def unit_chars_def cron_line_def)

theorem primary_never_beside_rd_witness:
  "\<exists>tr r. runs (Primary_Reconcile (steady_kube [] [sample_pvc ''app'' ''data'']) (sample_vgr ''app'' ''group'') sample_class) tr r \<and>
     list_ex (applies_rs (''app'', ''data'')) tr \<and> (\<exists>e \<in> set tr. shows_no_rd (''app'', ''data'') e)"
proof -
  let ?m = "Primary_Reconcile (steady_kube [] [sample_pvc ''app'' ''data'']) (sample_vgr ''app'' ''group'') sample_class"
  let ?run = "run_state ?m steady_world"
  have h: "keyed (history (snd ?run))" "list_ex (applies_rs (''app'', ''data'')) (history (snd ?run))"
    by (simp_all add: primary_run_defs sample_defs steady_kube_def steady_world_def cron_5m cong: bind_eval_cong)
  have r: "runs ?m (history (snd ?run)) (fst ?run)" by (rule steady_runs) simp
  from h(2) obtain e where e: "e \<in> set (history (snd ?run))" "applies_rs (''app'', ''data'') e"
    by (auto simp: list_ex_iff)
  from applies_rsD [OF e(2)] obtain f x where "e = E_apply_rs (''app'', ''data'') f x" by blast
  with e obtain before after
    where tr: "history (snd ?run) = before @ E_apply_rs (''app'', ''data'') f x # after"
    by (metis split_list)
  from primary_never_beside_rd [OF r h(1) tr] h(2) r tr show ?thesis by (metis UnCI set_append)
qed

end
