(* ===== verification/FinalSync.thy ===== *)
theory FinalSync
  imports Primary
begin

text \<open>
  internal/controller/finalsync_handler.go: the last synchronisation before a relocated volume
  group becomes secondary. Each terminating PVC gets a temporary PVC, and once no pod uses it, its
  ReplicationSource is pointed to the temporary PVC and triggered by hand.
\<close>

definition VRGActionRelocate :: string where "VRGActionRelocate = ''Relocate''"

definition ShouldRunFinalSync :: "'c kube \<Rightarrow> vgr \<Rightarrow> ('c, bool) kop" where
  "ShouldRunFinalSync K vgr =
     (let (vrgNamespace, vrgName) = owner_vrg_key vgr
      in if vrgName = '''' \<or> vrgNamespace = '''' then ret False
         else do {
           r \<leftarrow> GetVRG K (vrgNamespace, vrgName);
           case r of
             Inl _ \<Rightarrow> ret False
           | Inr g \<Rightarrow> ret (vrg_action g = VRGActionRelocate \<and>
               vrg_replicationState g = VRGSecondary \<and> vgr_state vgr \<noteq> SecondaryState)
         })"

definition AreAllRSFinalSyncsComplete :: "'c kube \<Rightarrow> vgr \<Rightarrow> ('c, bool reply) kop" where
  "AreAllRSFinalSyncsComplete K vgr = do {
     r \<leftarrow> ListRS K (in_namespace (vgr_namespace vgr));
     case r of
       Inl err \<Rightarrow> ret (Inl err)
     | Inr items \<Rightarrow> ret (Inr (list_all isFinalSyncComplete items))
   }"

record final_sync_result =
  AllComplete :: bool
  PVCsInSync :: "string list"
  TotalPVCs :: nat

definition isTemporaryPVC :: "pvc \<Rightarrow> bool" where
  "isTemporaryPVC p \<longleftrightarrow> HasSuffix (pvc_name p) tmp_suffix"

text \<open>
  \<open>handleLostTemporaryPVC\<close> deletes an annotation in the PVC's map, which the loop's copy shares
  with the list it ranges over: the PVC it gives back is the list's.
\<close>

definition handleLostTemporaryPVC :: "'c kube \<Rightarrow> pvc \<Rightarrow> ('c, pvc reply) kop" where
  "handleLostTemporaryPVC K p =
     (if pvc_phase p \<noteq> ClaimLost then ret (Inr p)
      else if pvc_annotations p bind_completed = None then ret (Inr p)
      else do {
        let p' = p\<lparr>pvc_annotations := (pvc_annotations p)(bind_completed := None)\<rparr>;
        u \<leftarrow> UpdatePVC K p';
        case u of
          Inl err \<Rightarrow> ret (Inl (Wrap ''failed to update lost temporary PVC: '' err ''''))
        | Inr _ \<Rightarrow> ret (Inr p')
      })"

definition handleTerminatingPVC :: "'c kube \<Rightarrow> pvc \<Rightarrow> ('c, error) kop" where
  "handleTerminatingPVC K p =
     CreateTemporaryPVCFromTerminating K (pvc_name p) (pvc_namespace p) False"

definition pauseReplicationSource :: "'c kube \<Rightarrow> string \<Rightarrow> string \<Rightarrow> ('c, error) kop" where
  "pauseReplicationSource K pvcName namespace = do {
     r \<leftarrow> GetRS K (namespace, pvcName);
     case r of
       Inl err \<Rightarrow> ret (Some err)
     | Inr s \<Rightarrow>
         if \<not> rs_paused s then do {
           u \<leftarrow> UpdateRS K (s\<lparr>rs_paused := True\<rparr>);
           case u of
             Inl err \<Rightarrow> ret (Some err)
           | Inr _ \<Rightarrow> do {
               d \<leftarrow> DeleteJob K (namespace, job_name pvcName);
               ret (IgnoreNotFound d)
             }
         } else ret None
   }"

definition triggered_rs :: "string \<Rightarrow> rs \<Rightarrow> rs" where
  "triggered_rs pvcName s =
     s\<lparr>rs_paused := False, rs_sourcePVC := pvcName @ tmp_suffix,
       rs_trigger := Some \<lparr>schedule = None, manual = final_sync_tag\<rparr>\<rparr>"

definition triggerFinalSyncForPVC :: "'c kube \<Rightarrow> pvc \<Rightarrow> ('c, bool reply) kop" where
  "triggerFinalSyncForPVC K p = do {
     r \<leftarrow> GetRS K (pvc_key p);
     case r of
       Inl err \<Rightarrow> ret (Inl err)
     | Inr s \<Rightarrow> do {
         u \<leftarrow> UpdateRS K (triggered_rs (pvc_name p) s);
         case u of
           Inl err \<Rightarrow> ret (Inl err)
         | Inr s' \<Rightarrow> ret (Inr (isFinalSyncComplete s'))
       }
   }"

definition uses_claim :: "string \<Rightarrow> pod \<Rightarrow> bool" where
  "uses_claim pvcName p \<longleftrightarrow> Some pvcName \<in> set (pod_volumes p)"

text \<open>The first pod, in list order, with a volume on the claim ends the source's two loops.\<close>

definition isPVCInUse :: "'c kube \<Rightarrow> string \<Rightarrow> string \<Rightarrow> ('c, bool reply) kop" where
  "isPVCInUse K namespace pvcName = do {
     r \<leftarrow> ListPod K (in_namespace namespace);
     case r of
       Inl err \<Rightarrow> ret (Inl (Wrap ''listing pods: '' err ''''))
     | Inr pods \<Rightarrow>
         (case find (uses_claim pvcName) pods of
            None \<Rightarrow> ret (Inr False)
          | Some p \<Rightarrow>
              if label (pod_labels p) created_by_label = ''volsync'' then do {
                d \<leftarrow> DeletePod K (pod_key p);
                case d of
                  Some err \<Rightarrow> ret (Inl (Wrap (''deleting pod '' @ pod_namespace p @ ''/'' @ pod_name p @ '': '') err ''''))
                | None \<Rightarrow> ret (Inr True)
              } else ret (Inr True))
   }"

section \<open>Processing\<close>

text \<open>
  One pass of the first loop. The accumulator: the list as it is after the pass, the names of the
  terminating PVCs, the number of PVCs that are not temporary.
\<close>

definition prepare_pvc :: "'c kube \<Rightarrow> pvc list \<times> string list \<times> nat \<Rightarrow> pvc \<Rightarrow>
    ('c, (pvc list \<times> string list \<times> nat) reply) kop" where
  "prepare_pvc K acc p =
     (let (seen, terminating, totalPVCs) = acc
      in if isTemporaryPVC p then do {
           r \<leftarrow> handleLostTemporaryPVC K p;
           case r of
             Inl err \<Rightarrow> ret (Inl err)
           | Inr p' \<Rightarrow> ret (Inr (seen @ [p'], terminating, totalPVCs))
         } else do {
           t \<leftarrow> IsPVCTerminating K (pvc_name p) (pvc_namespace p);
           case t of
             Inl err \<Rightarrow> ret (Inl err)
           | Inr isTerminating \<Rightarrow>
               if isTerminating then do {
                 e \<leftarrow> handleTerminatingPVC K p;
                 case e of
                   Some err \<Rightarrow> ret (Inl err)
                 | None \<Rightarrow> ret (Inr (seen @ [p], terminating @ [pvc_name p], Suc totalPVCs))
               } else ret (Inr (seen @ [p], terminating, Suc totalPVCs))
         })"

text \<open>One pass of the second loop: the count of completed syncs and the names still syncing.\<close>

definition sync_pvc :: "'c kube \<Rightarrow> nat \<times> string list \<Rightarrow> pvc \<Rightarrow> ('c, (nat \<times> string list) reply) kop" where
  "sync_pvc K acc p =
     (let (completedCount, finalSyncPVCs) = acc
      in if isTemporaryPVC p then ret (Inr acc)
         else do {
     h \<leftarrow> HasTemporaryPVC K (pvc_name p) (pvc_namespace p);
     case h of
       Inl err \<Rightarrow> ret (Inl err)
     | Inr hasTempPVC \<Rightarrow>
     if \<not> hasTempPVC then ret (Inr acc)
     else do {
     i \<leftarrow> isPVCInUse K (pvc_namespace p) (pvc_name p);
     case i of
       Inl err \<Rightarrow> ret (Inl err)
     | Inr inUse \<Rightarrow>
     if inUse then do {
       e \<leftarrow> pauseReplicationSource K (pvc_name p) (pvc_namespace p);
       case e of
         Some err \<Rightarrow> ret (Inl err)
       | None \<Rightarrow> ret (Inl (Text (''PVC '' @ pvc_name p @ '' still in use'')))
     } else do {
     t \<leftarrow> triggerFinalSyncForPVC K p;
     case t of
       Inl err \<Rightarrow> ret (Inl err)
     | Inr complete \<Rightarrow>
         ret (Inr (if complete then (Suc completedCount, finalSyncPVCs)
                   else (completedCount, finalSyncPVCs @ [pvc_name p])))
     }}})"

definition waiting_text :: string where
  "waiting_text = ''waiting for PVCs to terminate''"

text \<open>
  \<open>ProcessFinalSync\<close> gives the in-memory VGR (its conditions change before any error), and the
  result with the PVC list as the first loop left it.
\<close>

definition ProcessFinalSync :: "'c kube \<Rightarrow> vgr \<Rightarrow> pvc list \<Rightarrow>
    ('c, vgr \<times> (final_sync_result \<times> pvc list) reply) kop" where
  "ProcessFinalSync K vgr pvcs = do {
     s \<leftarrow> ShouldRunFinalSync K vgr;
     if \<not> s \<or> vgr_state vgr = SecondaryState
     then ret (vgr, Inr (\<lparr>AllComplete = True, PVCsInSync = [], TotalPVCs = 0\<rparr>, pvcs))
     else do {
     vgr' \<leftarrow> set_vgr_condition K ''Completed'' False ''FinalSync'' ''RunningFinalSync'' vgr;
     a \<leftarrow> fold_each (prepare_pvc K) ([], [], 0) pvcs;
     case a of
       Inl err \<Rightarrow> ret (vgr', Inl err)
     | Inr (pvcs', terminating, totalPVCs) \<Rightarrow>
     if length terminating \<noteq> totalPVCs then ret (vgr', Inl (Text waiting_text))
     else do {
     b \<leftarrow> fold_each (sync_pvc K) (0, []) pvcs';
     case b of
       Inl err \<Rightarrow> ret (vgr', Inl err)
     | Inr (completedCount, finalSyncPVCs) \<Rightarrow>
         ret (vgr', Inr (\<lparr>AllComplete = (completedCount = totalPVCs), PVCsInSync = finalSyncPVCs,
           TotalPVCs = totalPVCs\<rparr>, pvcs'))
     }}}"

definition in_progress_text :: string where
  "in_progress_text = ''final sync in progress''"

definition UpdateFinalSyncStatus :: "'c kube \<Rightarrow> vgr \<Rightarrow> final_sync_result \<Rightarrow> ('c, vgr \<times> error) kop" where
  "UpdateFinalSyncStatus K vgr result =
     (if AllComplete result then do {
        vgr' \<leftarrow> set_vgr_condition K ''Resyncing'' False ''NotResyncing'' ''volume group is not resyncing'' vgr;
        ret (vgr', None)
      } else do {
        vgr' \<leftarrow> set_vgr_condition K ''Resyncing'' True ''FinalSync''
          (''Waiting for final sync to complete. PVCs still running final sync '' @
            show_strings (PVCsInSync result)) vgr;
        ret (vgr', Some (Text in_progress_text))
      })"

definition GetRequeueDuration :: duration where
  "GetRequeueDuration = 10 * Second"

section \<open>Properties: when a final sync is triggered\<close>

text \<open>
  The events that point a ReplicationSource to a temporary PVC and resume it, and the evidence
  each needs: its object was just read, no pod of the namespace mounts the main PVC, and the
  temporary PVC exists.
\<close>

fun resumes_rs :: "event \<Rightarrow> bool" where
  "resumes_rs (E_update_rs s _) = (\<not> rs_paused s)"
| "resumes_rs _ = False"

definition sync_evidence :: "pvc \<Rightarrow> rs \<Rightarrow> event set \<Rightarrow> bool" where
  "sync_evidence p s A \<longleftrightarrow>
     (\<exists>s0. E_get_rs (pvc_key p) (Inr s0) \<in> A \<and> s = triggered_rs (pvc_name p) s0) \<and>
     (\<exists>pods. E_list_pod (in_namespace (pvc_namespace p)) (Inr pods) \<in> A \<and>
        \<not> list_ex (uses_claim (pvc_name p)) pods) \<and>
     (\<exists>q. E_get_pvc (pvc_namespace p, pvc_name p @ tmp_suffix) (Inr q) \<in> A)"

definition triggers_checked :: "pvc set \<Rightarrow> event \<Rightarrow> event set \<Rightarrow> bool" where
  "triggers_checked ps e A \<longleftrightarrow> (\<forall>s x. e = E_update_rs s x \<longrightarrow> \<not> rs_paused s \<longrightarrow>
     (\<exists>p \<in> ps. \<not> isTemporaryPVC p \<and> sync_evidence p s A))"

lemma sync_evidence_mono: "sync_evidence p s A \<Longrightarrow> A \<subseteq> B \<Longrightarrow> sync_evidence p s B"
  unfolding sync_evidence_def by blast

lemma triggers_checked_mono: "triggers_checked ps e A \<Longrightarrow> A \<subseteq> B \<Longrightarrow> triggers_checked ps e B"
  unfolding triggers_checked_def by (blast intro: sync_evidence_mono)

lemma triggers_checked_quiet [simp]: "\<not> resumes_rs e \<Longrightarrow> triggers_checked ps e A"
  by (auto simp: triggers_checked_def)

interpretation triggers: trace_property "preceded (triggers_checked ps) {}" for ps
  by (rule preceded_trace_property) (rule triggers_checked_mono)

text \<open>What the answers to these events were: the object sent, and the server's.\<close>

fun triggered :: "event list \<Rightarrow> (rs \<times> rs) list" where
  "triggered [] = []"
| "triggered (e # tr) = (case e of
     E_update_rs s (Inr s') \<Rightarrow> if rs_paused s then triggered tr else (s, s') # triggered tr
   | _ \<Rightarrow> triggered tr)"

lemma triggered_append [simp]: "triggered (xs @ ys) = triggered xs @ triggered ys"
  by (induction xs) (auto split: event.splits sum.splits)

lemma triggered_quiet: "\<forall>e \<in> set tr. \<not> resumes_rs e \<Longrightarrow> triggered tr = []"
  by (induction tr) (auto split: event.splits sum.splits)

definition seen_terminating :: "pvc \<Rightarrow> event set \<Rightarrow> bool" where
  "seen_terminating p A \<longleftrightarrow>
     (\<exists>q. E_get_pvc (pvc_key p) (Inr q) \<in> A \<and> \<not> IsZero (pvc_deletionTimestamp q))"

lemma seen_terminating_mono: "seen_terminating p A \<Longrightarrow> A \<subseteq> B \<Longrightarrow> seen_terminating p B"
  by (auto simp: seen_terminating_def)

abbreviation main_pvcs :: "pvc list \<Rightarrow> pvc list" where
  "main_pvcs pvcs \<equiv> filter (\<lambda>p. \<not> isTemporaryPVC p) pvcs"

text \<open>The first loop.\<close>

definition prepared :: "pvc list \<Rightarrow> pvc list \<times> string list \<times> nat \<Rightarrow> event list \<Rightarrow> bool" where
  "prepared done acc tr \<longleftrightarrow> (\<forall>e \<in> set tr. \<not> resumes_rs e) \<and>
     map pvc_key (fst acc) = map pvc_key done \<and> snd (snd acc) = length (main_pvcs done) \<and>
     length (fst (snd acc)) \<le> length (main_pvcs done) \<and>
     (length (fst (snd acc)) = length (main_pvcs done) \<longrightarrow>
        (\<forall>p \<in> set (main_pvcs done). seen_terminating p (set tr)))"

lemma emits_handleLost: "emits (\<lambda>e. \<not> resumes_rs e) (handleLostTemporaryPVC K p)"
  unfolding handleLostTemporaryPVC_def Let_def by (intro emits_intros) simp_all

lemma post_handleLost:
  "post (handleLostTemporaryPVC K p) (\<lambda>tr r. (\<forall>e \<in> set tr. \<not> resumes_rs e) \<and>
     (case r of Inl _ \<Rightarrow> True | Inr p' \<Rightarrow> pvc_key p' = pvc_key p))"
  unfolding handleLostTemporaryPVC_def Let_def by (intro vcg) auto

lemma post_handleTerminating:
  "post (handleTerminatingPVC K p) (\<lambda>tr r. \<forall>e \<in> set tr. \<not> resumes_rs e)"
proof -
  have "\<not> resumes_rs e" if "temporary_event e" for e using that by (cases e) auto
  then show ?thesis
    unfolding handleTerminatingPVC_def
    by (intro post_weaken [OF emits_CreateTemporary [unfolded emits_def]]) auto
qed

lemma post_IsPVCTerminating:
  "post (IsPVCTerminating K name ns) (\<lambda>tr r. (\<exists>x. tr = [E_get_pvc (ns, name) x]) \<and>
     (r = Inr True \<longrightarrow> (\<exists>q. tr = [E_get_pvc (ns, name) (Inr q)] \<and> \<not> IsZero (pvc_deletionTimestamp q))))"
  unfolding IsPVCTerminating_def by (intro vcg) (auto split: if_splits)

lemma post_prepare_pvc:
  assumes "prepared done acc tr"
  shows "post (prepare_pvc K acc p) (\<lambda>t r. case r of
       Inl _ \<Rightarrow> \<forall>e \<in> set (tr @ t). \<not> resumes_rs e
     | Inr acc' \<Rightarrow> prepared (done @ [p]) acc' (tr @ t))"
  using assms unfolding prepare_pvc_def Let_def
  by (intro vcg post_weaken [OF post_handleLost] post_weaken [OF post_handleTerminating]
        post_weaken [OF post_IsPVCTerminating])
    (auto simp: prepared_def seen_terminating_def Suc_le_eq split: sum.splits
      intro: seen_terminating_mono)

text \<open>The second loop.\<close>

definition counted :: "nat \<times> string list \<Rightarrow> event list \<Rightarrow> bool" where
  "counted acc tr \<longleftrightarrow>
     fst acc = length (filter (isFinalSyncComplete \<circ> snd) (triggered tr)) \<and>
     map (\<lambda>n. n @ tmp_suffix) (snd acc) =
       map (rs_sourcePVC \<circ> fst) (filter (Not \<circ> isFinalSyncComplete \<circ> snd) (triggered tr))"

lemma triggered_rs_fields [simp]:
  "rs_sourcePVC (triggered_rs name s) = name @ tmp_suffix" "\<not> rs_paused (triggered_rs name s)"
  by (simp_all add: triggered_rs_def)

lemma post_isPVCInUse:
  "post (isPVCInUse K ns name) (\<lambda>tr r. (\<forall>e \<in> set tr. \<not> resumes_rs e) \<and>
     (r = Inr False \<longrightarrow> (\<exists>pods. tr = [E_list_pod (in_namespace ns) (Inr pods)] \<and>
        \<not> list_ex (uses_claim name) pods)))"
  unfolding isPVCInUse_def by (intro vcg) (auto simp: find_None_iff list_ex_iff split: option.splits)

lemma post_pauseReplicationSource:
  "post (pauseReplicationSource K name ns) (\<lambda>tr r. \<forall>e \<in> set tr. \<not> resumes_rs e)"
  unfolding pauseReplicationSource_def by (intro vcg) auto

lemma post_HasTemporaryPVC:
  "post (HasTemporaryPVC K (pvc_name p) ns) (\<lambda>tr r. (\<forall>e \<in> set tr. \<not> resumes_rs e) \<and>
     (r = Inr True \<longrightarrow> isTemporaryPVC p \<or>
        (\<exists>q. E_get_pvc (ns, pvc_name p @ tmp_suffix) (Inr q) \<in> set tr)))"
  unfolding HasTemporaryPVC_def isTemporaryPVC_def by (intro vcg) auto

lemma triggers_quiet [simp]: "\<forall>e \<in> set tr. \<not> resumes_rs e \<Longrightarrow> preceded (triggers_checked ps) A tr"
  by (rule preceded_free) simp

lemma triggers_checkedI:
  "p \<in> ps \<Longrightarrow> \<not> isTemporaryPVC p \<Longrightarrow> sync_evidence p s A \<Longrightarrow> triggers_checked ps (E_update_rs s x) A"
  by (auto simp: triggers_checked_def)

lemma sync_pvc_checked:
  assumes "p \<in> ps"
  shows "triggers.keeps ps (sync_pvc K acc p)"
  unfolding triggers.keeps_def sync_pvc_def triggerFinalSyncForPVC_def Let_def
  by (intro vcg post_weaken [OF post_isPVCInUse] post_weaken [OF post_pauseReplicationSource]
        post_weaken [OF post_HasTemporaryPVC])
    (auto intro!: triggers_checkedI [OF assms] simp: sync_evidence_def)

lemma post_sync_pvc_counted:
  assumes "counted acc tr"
  shows "post (sync_pvc K acc p) (\<lambda>t r. case r of Inl _ \<Rightarrow> True | Inr acc' \<Rightarrow> counted acc' (tr @ t))"
  using assms unfolding sync_pvc_def triggerFinalSyncForPVC_def Let_def
  by (intro vcg post_weaken [OF post_isPVCInUse] post_weaken [OF post_pauseReplicationSource]
        post_weaken [OF post_HasTemporaryPVC])
    (auto simp: counted_def triggered_quiet)

section \<open>Properties: the whole final sync\<close>

lemma emits_ShouldRun: "emits (\<lambda>e. \<not> resumes_rs e) (ShouldRunFinalSync K vgr)"
  unfolding ShouldRunFinalSync_def Let_def by (intro emits_intros) simp_all

lemma sync_evidence_key: "pvc_key p = pvc_key q \<Longrightarrow> sync_evidence p s A = sync_evidence q s A"
  by (simp add: sync_evidence_def)

lemma triggers_checked_keys:
  assumes "map pvc_key xs = map pvc_key ys" and "triggers_checked (set xs) e A"
  shows "triggers_checked (set ys) e A"
  unfolding triggers_checked_def
proof (intro allI impI)
  fix s x
  assume "e = E_update_rs s x" "\<not> rs_paused s"
  then obtain p where p: "p \<in> set xs" "\<not> isTemporaryPVC p" "sync_evidence p s A"
    using assms(2) by (auto simp: triggers_checked_def)
  from p(1) have "pvc_key p \<in> set (map pvc_key ys)" unfolding assms(1) [symmetric] by auto
  then obtain q where q: "q \<in> set ys" "pvc_key p = pvc_key q" by auto
  then have "\<not> isTemporaryPVC q" "sync_evidence q s A"
    using p sync_evidence_key [OF q(2)] by (simp_all add: isTemporaryPVC_def)
  with q show "\<exists>q \<in> set ys. \<not> isTemporaryPVC q \<and> sync_evidence q s A" by blast
qed

lemma triggers_more: "preceded (triggers_checked ps) {} tr \<Longrightarrow> preceded (triggers_checked ps) A tr"
  by (rule preceded_more [of "triggers_checked ps" "{}"]) (auto intro: triggers_checked_mono)

definition all_terminating :: "pvc list \<Rightarrow> event \<Rightarrow> event set \<Rightarrow> bool" where
  "all_terminating pvcs e A \<longleftrightarrow> (resumes_rs e \<longrightarrow> (\<forall>p \<in> set (main_pvcs pvcs). seen_terminating p A))"

lemma post_prepare_loop:
  "post (fold_each (prepare_pvc K) ([], [], 0) pvcs) (\<lambda>t r. (\<forall>e \<in> set t. \<not> resumes_rs e) \<and>
     (\<forall>acc. r = Inr acc \<longrightarrow> prepared pvcs acc t))"
proof -
  have "post (fold_each (prepare_pvc K) ([], [], 0) pvcs) (\<lambda>t r. case r of
       Inl _ \<Rightarrow> \<forall>e \<in> set ([] @ t). \<not> resumes_rs e | Inr acc \<Rightarrow> prepared ([] @ pvcs) acc ([] @ t))"
    by (rule post_fold_each_prefix [where E = "\<lambda>_ t. \<forall>e \<in> set t. \<not> resumes_rs e"])
      (erule post_prepare_pvc, simp add: prepared_def)
  then show ?thesis
    by (rule post_weaken) (auto simp: prepared_def split: sum.splits)
qed

lemma post_sync_loop:
  "post (fold_each (sync_pvc K) (0, []) pvcs) (\<lambda>t r. preceded (triggers_checked (set pvcs)) {} t \<and>
     (\<forall>acc. r = Inr acc \<longrightarrow> counted acc t))"
proof -
  have "post (fold_each (sync_pvc K) (0, []) pvcs) (\<lambda>t r. case r of
       Inl _ \<Rightarrow> True | Inr acc \<Rightarrow> counted acc ([] @ t))"
    by (rule post_fold_each [where E = "\<lambda>_ _. True"]) (erule post_sync_pvc_counted, simp add: counted_def)
  moreover have "triggers.keeps (set pvcs) (fold_each (sync_pvc K) (0, []) pvcs)"
    by (rule triggers.keeps_fold_each) (rule sync_pvc_checked)
  ultimately show ?thesis
    unfolding triggers.keeps_def by (auto elim: post_weaken [OF post_conj] split: sum.splits)
qed

text \<open>The result against the history of the answers to the triggers.\<close>

definition sync_exact :: "pvc list \<Rightarrow> event list \<Rightarrow> final_sync_result \<Rightarrow> pvc list \<Rightarrow> bool" where
  "sync_exact pvcs tr res pvcs' \<longleftrightarrow> map pvc_key pvcs' = map pvc_key pvcs \<and>
     map (\<lambda>n. n @ tmp_suffix) (PVCsInSync res) =
       map (rs_sourcePVC \<circ> fst) (filter (Not \<circ> isFinalSyncComplete \<circ> snd) (triggered tr)) \<and>
     (AllComplete res \<longleftrightarrow> length (filter (isFinalSyncComplete \<circ> snd) (triggered tr)) = TotalPVCs res) \<and>
     (TotalPVCs res = length (main_pvcs pvcs) \<or> TotalPVCs res = 0 \<and> triggered tr = [])"

definition final_sync_run :: "vgr \<Rightarrow> pvc list \<Rightarrow> event list \<Rightarrow>
    vgr \<times> (final_sync_result \<times> pvc list) reply \<Rightarrow> bool" where
  "final_sync_run vgr pvcs tr r \<longleftrightarrow>
     preceded (triggers_checked (set pvcs)) {} tr \<and> preceded (all_terminating pvcs) {} tr \<and>
     (\<exists>cs. fst r = vgr\<lparr>vgr_conditions := cs\<rparr>) \<and>
     (\<forall>res pvcs'. snd r = Inr (res, pvcs') \<longrightarrow> sync_exact pvcs tr res pvcs')"

lemma all_terminating_quiet [simp]:
  "\<forall>e \<in> set tr. \<not> resumes_rs e \<Longrightarrow> preceded (all_terminating pvcs) A tr"
  by (rule preceded_free) (simp add: all_terminating_def)

lemma final_sync_quiet:
  assumes "\<forall>e \<in> set tr. \<not> resumes_rs e" and "\<exists>cs. v = vgr\<lparr>vgr_conditions := cs\<rparr>"
  shows "final_sync_run vgr pvcs tr (v, Inl err)"
  using assms by (simp add: final_sync_run_def)

lemma post_sync_rest:
  assumes t: "\<forall>e \<in> set t. \<not> resumes_rs e" and p: "prepared pvcs (seen, terminating, n_main) t0"
    and t0: "set t0 \<subseteq> set t" and l: "length terminating = n_main"
    and v: "\<exists>cs. v = vgr\<lparr>vgr_conditions := cs\<rparr>"
  shows "post (fold_each (sync_pvc K) (0, []) seen) (\<lambda>t' r. case r of
       Inl err \<Rightarrow> final_sync_run vgr pvcs (t @ t') (v, Inl err)
     | Inr (n, names) \<Rightarrow> final_sync_run vgr pvcs (t @ t') (v, Inr (\<lparr>AllComplete = (n = n_main),
         PVCsInSync = names, TotalPVCs = n_main\<rparr>, seen)))"
proof (rule post_weaken [OF post_sync_loop])
  fix t' and r :: "gerr + nat \<times> string list"
  assume h: "preceded (triggers_checked (set seen)) {} t' \<and> (\<forall>acc. r = Inr acc \<longrightarrow> counted acc t')"
  from p have keys: "map pvc_key seen = map pvc_key pvcs" and n_main: "n_main = length (main_pvcs pvcs)"
    and seen_term: "\<forall>p \<in> set (main_pvcs pvcs). seen_terminating p (set t0)"
    using l by (auto simp: prepared_def)
  from h have "preceded (triggers_checked (set seen)) (set t) t'" by (blast intro: triggers_more)
  then have "preceded (triggers_checked (set pvcs)) (set t) t'"
    by (rule preceded_weaken) (rule triggers_checked_keys [OF keys])
  moreover have "preceded (all_terminating pvcs) (set t) t'"
    using seen_term t0 by (intro preceded_free) (auto simp: all_terminating_def intro: seen_terminating_mono)
  ultimately have order: "preceded (triggers_checked (set pvcs)) {} (t @ t') \<and>
      preceded (all_terminating pvcs) {} (t @ t')"
    using t by (simp del: preceded.simps)
  show "case r of Inl err \<Rightarrow> final_sync_run vgr pvcs (t @ t') (v, Inl err)
     | Inr (n, names) \<Rightarrow> final_sync_run vgr pvcs (t @ t') (v, Inr (\<lparr>AllComplete = (n = n_main),
         PVCsInSync = names, TotalPVCs = n_main\<rparr>, seen))"
  proof (cases r)
    case (Inl err)
    then show ?thesis using order v by (simp add: final_sync_run_def)
  next
    case (Inr acc)
    then have "counted acc t'" using h by blast
    then have "sync_exact pvcs (t @ t') \<lparr>AllComplete = (fst acc = n_main), PVCsInSync = snd acc,
        TotalPVCs = n_main\<rparr> seen"
      using keys n_main t by (simp add: sync_exact_def counted_def triggered_quiet)
    then show ?thesis using order v Inr by (cases acc) (simp add: final_sync_run_def)
  qed
qed

lemma post_sync_tail:
  assumes "\<forall>e \<in> set t. \<not> resumes_rs e" and "prepared pvcs (seen, terminating, n_main) t0"
    and "set t0 \<subseteq> set t" and "length terminating = n_main"
    and "\<exists>cs. v = vgr\<lparr>vgr_conditions := cs\<rparr>"
  shows "post (do {
     b \<leftarrow> fold_each (sync_pvc K) (0, []) seen;
     case b of
       Inl err \<Rightarrow> ret (v, Inl err)
     | Inr (completedCount, finalSyncPVCs) \<Rightarrow>
         ret (v, Inr (\<lparr>AllComplete = (completedCount = n_main), PVCsInSync = finalSyncPVCs,
           TotalPVCs = n_main\<rparr>, seen))}) (\<lambda>t'. final_sync_run vgr pvcs (t @ t'))"
  by (rule post_bind, rule post_weaken [OF post_sync_rest [OF assms]])
    (auto intro!: post_ret split: sum.splits)

lemma post_ProcessFinalSync: "post (ProcessFinalSync K vgr pvcs) (final_sync_run vgr pvcs)"
  unfolding ProcessFinalSync_def
proof (rule post_bind, rule post_weaken [OF emits_ShouldRun [unfolded emits_def]], rule post_if, goal_cases)
  case (1 t s)
  have "\<exists>cs. vgr = vgr\<lparr>vgr_conditions := cs\<rparr>" by (rule exI [of _ "vgr_conditions vgr"]) simp
  with 1 show ?case
    by (intro post_ret) (simp add: final_sync_run_def sync_exact_def triggered_quiet)
next
  case (2 t s)
  show ?case
  proof (rule post_bind, rule post_weaken [OF post_set_vgr_condition [where orig = vgr]],
      simp add: types_kept_def, rule post_bind, rule post_weaken [OF post_prepare_loop], goal_cases)
    case (1 t1 v t2 a)
    then have v: "\<exists>cs. v = vgr\<lparr>vgr_conditions := cs\<rparr>" by blast
    have q: "\<forall>e \<in> set (t @ t1 @ t2). \<not> resumes_rs e" using 1 2 by auto
    show ?case
    proof (intro post_sum post_prod post_if post_ret)
      show "final_sync_run vgr pvcs (t @ t1 @ t2 @ []) (v, Inl err)" for err
        using final_sync_quiet [OF q v] by simp
      show "final_sync_run vgr pvcs (t @ t1 @ t2 @ []) (v, Inl (Text waiting_text))"
        using final_sync_quiet [OF q v] by simp
    next
      fix acc seen rest terminating n_main
      assume "a = Inr acc" "acc = (seen, rest)" "rest = (terminating, n_main)"
        "\<not> length terminating \<noteq> n_main"
      with 1 have p: "prepared pvcs (seen, terminating, n_main) t2" and l: "length terminating = n_main"
        by auto
      have "set t2 \<subseteq> set (t @ t1 @ t2)" by auto
      from post_sync_tail [OF q p this l v, of K] show "post (do {
     b \<leftarrow> fold_each (sync_pvc K) (0, []) seen;
     case b of
       Inl err \<Rightarrow> ret (v, Inl err)
     | Inr (completedCount, finalSyncPVCs) \<Rightarrow>
         ret (v, Inr (\<lparr>AllComplete = (completedCount = n_main), PVCsInSync = finalSyncPVCs,
           TotalPVCs = n_main\<rparr>, seen))}) (\<lambda>t'. final_sync_run vgr pvcs (t @ t1 @ t2 @ t'))"
        by (simp only: append_assoc)
    qed
  qed
qed

text \<open>
  C1: in any run of \<open>ProcessFinalSync\<close>, on every path, a ReplicationSource is resumed only for a
  main PVC of the list, and only to read from its temporary PVC with the manual trigger; before
  that, every main PVC of the list was seen terminating, the temporary PVC was seen to exist, and
  a listing of the namespace's pods showed none that mounts the main PVC.
\<close>

theorem final_sync_order:
  assumes "runs (ProcessFinalSync K vgr pvcs) tr r"
    and "tr = before @ E_update_rs s x # after" and "\<not> rs_paused s"
  shows "(\<exists>p \<in> set pvcs. \<not> isTemporaryPVC p \<and> sync_evidence p s (set before)) \<and>
     (\<forall>p \<in> set pvcs. \<not> isTemporaryPVC p \<longrightarrow> seen_terminating p (set before))"
proof -
  from post_runs [OF post_ProcessFinalSync assms(1)]
  have "preceded (triggers_checked (set pvcs)) {} tr" "preceded (all_terminating pvcs) {} tr"
    by (auto simp: final_sync_run_def)
  then have "triggers_checked (set pvcs) (E_update_rs s x) (set before)"
    "all_terminating pvcs (E_update_rs s x) (set before)"
    unfolding assms(2) by (auto dest!: preceded_at)
  with assms(3) show ?thesis by (simp add: triggers_checked_def all_terminating_def)
qed

text \<open>A relocation, seen from a client that answers that every PVC is being deleted.\<close>

definition sample_relocation :: vrg where
  "sample_relocation = \<lparr>vrg_name = ''vrg'', vrg_namespace = ''app'', vrg_action = VRGActionRelocate,
     vrg_replicationState = VRGSecondary, vrg_state = ''''\<rparr>"

definition sample_owned_vgr :: vgr where
  "sample_owned_vgr = (sample_vgr ''app'' ''group'')\<lparr>vgr_labels :=
     [''ramendr.openshift.io/owner-name'' \<mapsto> ''vrg'', ''ramendr.openshift.io/owner-namespace-name'' \<mapsto> ''app'']\<rparr>"

definition relocation_kube :: "pod list \<Rightarrow> unit kube" where
  "relocation_kube pods = (steady_kube [sample_relocation] [])
     \<lparr>k_get_pvc := (\<lambda>k u. (Inr ((sample_pvc (fst k) (snd k))\<lparr>pvc_deletionTimestamp := Some 1\<rparr>), u)),
      k_get_rs := (\<lambda>k u. (Inr (blank_rs k), u)),
      k_list_pod := (\<lambda>opts u. (Inr pods, u))\<rparr>"

lemmas final_sync_run_defs =
  ProcessFinalSync_def ShouldRunFinalSync_def set_vgr_condition_def setCondition_def prepare_pvc_def
  isTemporaryPVC_def handleLostTemporaryPVC_def handleTerminatingPVC_def
  CreateTemporaryPVCFromTerminating_def getPVFromPVC_def claims_def claim_to_def sync_pvc_def
  HasTemporaryPVC_def isPVCInUse_def uses_claim_def triggerFinalSyncForPVC_def triggered_rs_def
  isFinalSyncComplete_def owner_vrg_key_def SecondaryState_def VRGSecondary_def VRGActionRelocate_def
  pauseReplicationSource_def job_name_def IgnoreNotFound_def in_namespace_def
  zero_time_def sample_relocation_def sample_owned_vgr_def relocation_kube_def steady_kube_def steady_world_def
  sample_defs handler_run_defs

theorem final_sync_order_witness:
  "\<exists>tr r. runs (ProcessFinalSync (relocation_kube []) sample_owned_vgr [sample_pvc ''app'' ''data'']) tr r \<and>
     list_ex resumes_rs tr \<and> seen_terminating (sample_pvc ''app'' ''data'') (set tr)"
proof -
  let ?m = "ProcessFinalSync (relocation_kube []) sample_owned_vgr [sample_pvc ''app'' ''data'']"
  let ?run = "run_state ?m steady_world"
  have r: "runs ?m (history (snd ?run)) (fst ?run)" by (rule steady_runs) simp
  have ex: "list_ex resumes_rs (history (snd ?run))"
    by (simp add: final_sync_run_defs cong: bind_eval_cong)
  then obtain e where "e \<in> set (history (snd ?run))" and e: "resumes_rs e" by (auto simp: list_ex_iff)
  then obtain before after where tr: "history (snd ?run) = before @ e # after" by (meson split_list)
  from e obtain s x where "e = E_update_rs s x" "\<not> rs_paused s" by (cases e) auto
  note e = this
  have m: "sample_pvc ''app'' ''data'' \<in> set [sample_pvc ''app'' ''data'']"
    "\<not> isTemporaryPVC (sample_pvc ''app'' ''data'')"
    by (simp_all add: isTemporaryPVC_def sample_pvc_def HasSuffix_def tmp_suffix_def)
  from final_sync_order [OF r tr [unfolded e(1)] e(2)] m
  have "seen_terminating (sample_pvc ''app'' ''data'') (set before)" by blast
  then have "seen_terminating (sample_pvc ''app'' ''data'') (set (history (snd ?run)))"
    by (rule seen_terminating_mono) (auto simp: tr)
  with r ex show ?thesis by blast
qed

text \<open>
  C1: when \<open>ProcessFinalSync\<close> gives a result, its list of PVCs still syncing is exactly that of
  the triggers whose answer does not show the sync as complete, in order; it reports completion
  exactly when the triggers answered as complete are as many as the main PVCs of the list (none
  when no final sync is due). The in-memory VGR changed in its conditions only.
\<close>

theorem final_sync_result_exact:
  assumes "runs (ProcessFinalSync K vgr pvcs) tr (v, Inr (res, pvcs'))"
  shows "map (\<lambda>n. n @ tmp_suffix) (PVCsInSync res) =
       map (rs_sourcePVC \<circ> fst) (filter (Not \<circ> isFinalSyncComplete \<circ> snd) (triggered tr)) \<and>
     (AllComplete res \<longleftrightarrow> length (filter (isFinalSyncComplete \<circ> snd) (triggered tr)) = TotalPVCs res) \<and>
     (TotalPVCs res = length (main_pvcs pvcs) \<or> TotalPVCs res = 0 \<and> triggered tr = []) \<and>
     map pvc_key pvcs' = map pvc_key pvcs \<and> (\<exists>cs. v = vgr\<lparr>vgr_conditions := cs\<rparr>)"
  using post_runs [OF post_ProcessFinalSync assms] by (simp add: final_sync_run_def sync_exact_def)

theorem final_sync_result_exact_witness:
  "\<exists>tr v res pvcs'. runs (ProcessFinalSync (relocation_kube []) sample_owned_vgr [sample_pvc ''app'' ''data'']) tr
       (v, Inr (res, pvcs')) \<and>
     PVCsInSync res = [''data''] \<and> \<not> AllComplete res \<and>
     map (rs_sourcePVC \<circ> fst) (filter (Not \<circ> isFinalSyncComplete \<circ> snd) (triggered tr)) = [''data-tmp'']"
proof -
  let ?m = "ProcessFinalSync (relocation_kube []) sample_owned_vgr [sample_pvc ''app'' ''data'']"
  let ?run = "run_state ?m steady_world"
  have "\<exists>v res pvcs'. fst ?run = (v, Inr (res, pvcs')) \<and> PVCsInSync res = [''data''] \<and> \<not> AllComplete res"
    by (simp add: final_sync_run_defs cong: bind_eval_cong)
  then obtain v res pvcs' where h: "fst ?run = (v, Inr (res, pvcs'))"
    "PVCsInSync res = [''data'']" "\<not> AllComplete res" by blast
  have r: "runs ?m (history (snd ?run)) (v, Inr (res, pvcs'))"
    unfolding h(1) [symmetric] by (rule steady_runs) simp
  have w: "map (rs_sourcePVC \<circ> fst) (filter (Not \<circ> isFinalSyncComplete \<circ> snd) (triggered (history (snd ?run)))) = [''data-tmp'']"
    using conjunct1 [OF final_sync_result_exact [OF r], unfolded h(2)] by (simp add: tmp_suffix_def)
  show ?thesis by (intro exI conjI) (rule r h(2,3) w)+
qed

end
