(* ===== verification/Secondary_Rec.thy ===== *)
theory Secondary_Rec
  imports FinalSync
begin

text \<open>
  internal/controller/secondary_reconciler.go: the reconciliation of a VolumeGroupReplication that
  is to be secondary.
\<close>

section \<open>Configuration\<close>

record secondary_config =
  sc_SchedulingInterval :: string
  sc_StorageClassName :: string
  sc_Capacity :: string
  sc_PSKSecretName :: string
  sc_ServiceType :: string

definition secondary_getConfiguration :: "vgr_class \<Rightarrow> secondary_config" where
  "secondary_getConfiguration cls =
     (let ps = class_parameters cls;
          interval = label ps ''schedulingInterval'';
          sched = label ps ''schedule'';
          interval1 = (if interval \<noteq> '''' then interval else if sched \<noteq> '''' then sched else ''5m'');
          scName = label ps ''storageClassName'';
          capacity = label ps ''capacity'';
          pskSecret = label ps ''pskSecretName''
      in \<lparr>sc_SchedulingInterval = (if interval1 = ''0m'' then ''5m'' else interval1),
          sc_StorageClassName = (if scName \<noteq> '''' then scName else ''standard''),
          sc_Capacity = (if capacity \<noteq> '''' then capacity else ''1Gi''),
          sc_PSKSecretName = (if pskSecret \<noteq> '''' then pskSecret else ''volsync-rsync-tls-secret''),
          sc_ServiceType = DefaultRsyncServiceType\<rparr>)"

record pvc_config =
  vc_SchedulingInterval :: string
  vc_ConsistencyGroup :: string
  vc_Capacity :: "quantity option"
  vc_StorageClassName :: "string option"
  vc_AccessModes :: "string list"
  vc_PSKSecretName :: string
  vc_ServiceType :: string

definition getPVCConfiguration :: "pvc \<Rightarrow> secondary_config \<Rightarrow> pvc_config" where
  "getPVCConfiguration p config =
     (let interval = label (pvc_annotations p) ''replication.storage.openshift.io/scheduling-interval''
      in \<lparr>vc_SchedulingInterval = (if interval \<noteq> '''' then interval else sc_SchedulingInterval config),
          vc_ConsistencyGroup = label (pvc_labels p) consistency_group_label,
          vc_Capacity = Some (case requests (pvc_resources p) ''storage'' of
            None \<Rightarrow> zero_quantity | Some q \<Rightarrow> q),
          vc_StorageClassName = Some (case pvc_storageClassName p of None \<Rightarrow> '''' | Some n \<Rightarrow> n),
          vc_AccessModes = pvc_accessModes p,
          vc_PSKSecretName = sc_PSKSecretName config,
          vc_ServiceType = sc_ServiceType config\<rparr>)"

definition getPVCList :: "'c kube \<Rightarrow> vgr \<Rightarrow> ('c, pvc list reply) kop" where
  "getPVCList K vgr =
     (case vgr_selector vgr of
        None \<Rightarrow> ret (Inl (Text ''no PVC selector specified''))
      | Some ls \<Rightarrow>
          (case k_selector K ls of
             Inl err \<Rightarrow> ret (Inl (Wrap ''invalid pvcSelector: '' err ''''))
           | Inr sel \<Rightarrow> ListPVC K \<lparr>inNamespace = Some (vgr_namespace vgr), matchingLabels = [],
               matchingSelector = sel\<rparr>))"

section \<open>Final sync\<close>

text \<open>
  \<open>handleFinalSync\<close>: the in-memory VGR, the PVC list, whether a final sync was required (the
  \<open>runFinalSync\<close> the source writes through a pointer), and the possibly nil result with the
  error. The comparison with the text of a PVC in use has an empty name in it, as in the source.
\<close>

definition is_waiting_error :: "gerr \<Rightarrow> bool" where
  "is_waiting_error err \<longleftrightarrow>
     error_text err = ''waiting for PVCs to terminate'' \<or> error_text err = ''PVC '' @ '''' @ '' still in use''"

definition handleFinalSync :: "'c kube \<Rightarrow> vgr \<Rightarrow> pvc list \<Rightarrow>
    ('c, vgr \<times> pvc list \<times> bool \<times> ctrl_result option \<times> error) kop" where
  "handleFinalSync K vgr pvcs = do {
     s \<leftarrow> ShouldRunFinalSync K vgr;
     if \<not> s then ret (vgr, pvcs, False, None, None)
     else do {
     a \<leftarrow> AreAllRSFinalSyncsComplete K vgr;
     case a of
       Inl err \<Rightarrow> ret (vgr, pvcs, True, None, Some err)
     | Inr allComplete \<Rightarrow>
     if allComplete then ret (vgr, pvcs, True, None, None)
     else do {
     x \<leftarrow> ProcessFinalSync K vgr pvcs;
     case x of
       (vgr1, Inl err) \<Rightarrow>
         if is_waiting_error err
         then ret (vgr1, pvcs, True, Some (requeue_after GetRequeueDuration), None)
         else ret (vgr1, pvcs, True, None, Some err)
     | (vgr1, Inr (result, pvcs')) \<Rightarrow> do {
         y \<leftarrow> UpdateFinalSyncStatus K vgr1 result;
         case y of
           (vgr2, None) \<Rightarrow> ret (vgr2, pvcs', True, None, None)
         | (vgr2, Some err) \<Rightarrow>
             if error_text err = in_progress_text then do {
               z \<leftarrow> status_update K vgr2;
               case z of
                 (vgr3, Some e) \<Rightarrow> ret (vgr3, pvcs', True, None, Some e)
               | (vgr3, None) \<Rightarrow> ret (vgr3, pvcs', True, Some (requeue_after GetRequeueDuration), None)
             } else ret (vgr2, pvcs', True, None, Some err)
       }
     }}}"

text \<open>The reconciler's own method of this name; the test on one ReplicationSource is another.\<close>

definition secondary_isFinalSyncComplete :: "'c kube \<Rightarrow> vgr \<Rightarrow> ('c, bool reply) kop" where
  "secondary_isFinalSyncComplete K vgr = AreAllRSFinalSyncsComplete K vgr"

definition restoreTemporaryPVCs :: "'c kube \<Rightarrow> pvc list \<Rightarrow> ('c, error) kop" where
  "restoreTemporaryPVCs K pvcs = for_each (\<lambda>p. do {
     h \<leftarrow> HasTemporaryPVC K (pvc_name p) (pvc_namespace p);
     case h of
       Inl err \<Rightarrow> ret (Some err)
     | Inr hasTempPVC \<Rightarrow>
         if hasTempPVC then RestorePVCFromTemporary K (pvc_name p) (pvc_namespace p)
         else ret None
   }) pvcs"

section \<open>ReplicationDestinations\<close>

definition handleLostPVC :: "'c kube \<Rightarrow> pvc \<Rightarrow> ('c, error) kop" where
  "handleLostPVC K p =
     (if pvc_annotations p bind_completed = None then ret None
      else do {
        u \<leftarrow> UpdatePVC K (p\<lparr>pvc_annotations := (pvc_annotations p)(bind_completed := None)\<rparr>);
        case u of
          Inl err \<Rightarrow> ret (Some (Wrap ''failed to update lost PVC after removing bind-completed annotation: '' err ''''))
        | Inr _ \<Rightarrow> ret None
      })"

definition reconcilePVCReplicationDestination ::
    "'c kube \<Rightarrow> vgr \<Rightarrow> pvc \<Rightarrow> pvc_config \<Rightarrow> ('c, rd option reply) kop" where
  "reconcilePVCReplicationDestination K vgr p config = do {
     let vsHandler = NewVSHandler vgr (vc_SchedulingInterval config);
     r \<leftarrow> ReconcileRD K vsHandler (pvc_name p) (pvc_namespace p)
       \<lparr>a_capacity = vc_Capacity config, a_storageClassName = vc_StorageClassName config,
        a_accessModes = vc_AccessModes config, a_pskSecretName = vc_PSKSecretName config,
        a_serviceType = Some (vc_ServiceType config)\<rparr>;
     ret r
   }"

text \<open>One pass of the loop: the protected PVCs so far, and whether every RD was ready.\<close>

definition demote_pvc :: "'c kube \<Rightarrow> vgr \<Rightarrow> secondary_config \<Rightarrow> string list \<times> bool \<Rightarrow> pvc \<Rightarrow>
    ('c, (string list \<times> bool) reply) kop" where
  "demote_pvc K vgr config acc p =
     (let (protectedPVCs, allReady) = acc
      in if pvc_phase p = ClaimLost then do {
           e \<leftarrow> handleLostPVC K p;
           case e of
             Some err \<Rightarrow> ret (Inl err)
           | None \<Rightarrow> ret (Inl (Text ''PVC in lost phase. Remove annotation. Reconcile again''))
         } else do {
           r \<leftarrow> reconcilePVCReplicationDestination K vgr p (getPVCConfiguration p config);
           case r of
             Inl err \<Rightarrow> ret (Inl err)
           | Inr None \<Rightarrow> ret (Inr (protectedPVCs, False))
           | Inr (Some d) \<Rightarrow> ret (Inr (protectedPVCs @ [pvc_name p], allReady))
         })"

definition reconcileReplicationDestinations ::
    "'c kube \<Rightarrow> vgr \<Rightarrow> secondary_config \<Rightarrow> pvc list \<Rightarrow> ('c, (string list \<times> bool) reply) kop" where
  "reconcileReplicationDestinations K vgr config pvcs = fold_each (demote_pvc K vgr config) ([], True) pvcs"

section \<open>Status\<close>

definition secondary_updateStatus ::
    "'c kube \<Rightarrow> vgr \<Rightarrow> string list \<Rightarrow> bool \<Rightarrow> ('c, vgr \<times> error) kop" where
  "secondary_updateStatus K vgr protectedPVCs allReady =
     (if vgr_state vgr = SecondaryState
      then status_update K (vgr\<lparr>vgr_conditions := [], vgr_pvcRefs := protectedPVCs,
        vgr_observedGeneration := vgr_generation vgr\<rparr>)
      else do {
     let msg = (if allReady then show_nat (length protectedPVCs) @ '' destination(s) ready''
       else ''waiting for all RDs to be created'');
     let v0 = vgr\<lparr>vgr_state := (if allReady then SecondaryState else vgr_state vgr),
       vgr_pvcRefs := protectedPVCs, vgr_observedGeneration := vgr_generation vgr\<rparr>;
     v1 \<leftarrow> set_vgr_condition K ''Completed'' allReady ''Demoted''
       ''volume group is demoted to secondary and ready to be promoted'' v0;
     v2 \<leftarrow> set_vgr_condition K ''Validated'' True ''PrerequisiteMet''
       ''volume group is validated and met all prerequisites'' v1;
     v3 \<leftarrow> set_vgr_condition K ''Degraded'' False ''Healthy'' ''volume group is healthy'' v2;
     v4 \<leftarrow> set_vgr_condition K ''Resyncing'' False ''NotResyncing'' ''volume group is not resyncing'' v3;
     v5 \<leftarrow> (if allReady
       then set_vgr_condition K ''Replicating'' True ''Replicating''
         ''volume group is replicating: local group is secondary'' v4
       else set_vgr_condition K ''Replicating'' False ''NotReplicating'' msg v4);
     status_update K v5
   })"

section \<open>Reconcile\<close>

text \<open>Phases 5 and 6: the destinations, then the status.\<close>

definition reconcile_and_report ::
    "'c kube \<Rightarrow> secondary_config \<Rightarrow> vgr \<Rightarrow> pvc list \<Rightarrow> ('c, vgr \<times> ctrl_result \<times> error) kop" where
  "reconcile_and_report K config vgr pvcs = do {
     r \<leftarrow> reconcileReplicationDestinations K vgr config pvcs;
     case r of
       Inl err \<Rightarrow> ret (vgr, no_requeue, Some err)
     | Inr acc \<Rightarrow> do {
     u \<leftarrow> secondary_updateStatus K vgr (fst acc) (snd acc);
     case u of
       (vgr', Some err) \<Rightarrow> ret (vgr', no_requeue, Some err)
     | (vgr', None) \<Rightarrow>
         ret (vgr', (if snd acc then requeue_after requeueInterval else requeue_after (10 * Second)), None)
     }}"

definition Secondary_Reconcile ::
    "'c kube \<Rightarrow> vgr \<Rightarrow> vgr_class \<Rightarrow> ('c, vgr \<times> ctrl_result \<times> error) kop" where
  "Secondary_Reconcile K vgr cls = do {
     l \<leftarrow> getPVCList K vgr;
     case l of
       Inl err \<Rightarrow> ret (vgr, no_requeue, Some err)
     | Inr pvcs \<Rightarrow>
     if pvcs = [] then ret (vgr, requeue_after requeueInterval, None)
     else do {
     let config = secondary_getConfiguration cls;
     f \<leftarrow> handleFinalSync K vgr pvcs;
     let (vgr1, pvcs1, runFinalSync, result, err) = f;
     case result of
       Some x \<Rightarrow> ret (vgr1, x, err)
     | None \<Rightarrow>
     if err \<noteq> None then ret (vgr1, no_requeue, err)
     else do {
     e \<leftarrow> restoreTemporaryPVCs K pvcs1;
     case e of
       Some err' \<Rightarrow> ret (vgr1, no_requeue, Some err')
     | None \<Rightarrow> do {
     c \<leftarrow> (if runFinalSync then secondary_isFinalSyncComplete K vgr1 else ret (Inr True));
     case c of
       Inl err' \<Rightarrow> ret (vgr1, no_requeue, Some err')
     | Inr allComplete \<Rightarrow>
     if \<not> allComplete then ret (vgr1, no_requeue, None)
     else reconcile_and_report K config vgr1 pvcs1
     }}}}"

end
