(* ===== verification/Secondary_Props.thy ===== *)
theory Secondary_Props
  imports Secondary_Rec
begin

text \<open>
  The properties of the reconciliation as secondary: what it may ask, in which order a
  ReplicationDestination follows the final sync and the end of the ReplicationSource, when a VGR
  is reported as secondary, which PVCs are deleted, and what a PVC in use leads to.
\<close>

section \<open>Properties: never a destination beside a source\<close>

fun writes_rd :: "event \<Rightarrow> bool" where
  "writes_rd (E_apply_rd _ _ _) = True"
| "writes_rd _ = False"

lemma applies_writes_rd: "applies_rd k e \<Longrightarrow> writes_rd e"
  by (cases e) simp_all

text \<open>
  In a history whose reads are keyed, a ReplicationDestination of a key is written only after the
  ReplicationSource of that key was seen to be gone.
\<close>

definition rd_exclusive :: "event list \<Rightarrow> bool" where
  "rd_exclusive tr \<longleftrightarrow> (keyed tr \<longrightarrow> (\<forall>k. guarded (shows_no_rs k) (applies_rd k) tr))"

interpretation rd_excl: trace_property rd_exclusive
  by unfold_locales (auto simp: rd_exclusive_def guarded_append)

lemma rd_excl_quiet: "emits (\<lambda>e. \<not> writes_rd e) m \<Longrightarrow> rd_excl.keeps m"
  unfolding emits_def rd_excl.keeps_def rd_exclusive_def
  by (elim post_weaken) (auto intro!: guarded_quiet dest: applies_writes_rd)

lemma temporary_no_rd: "temporary_event e \<or> is_delete_pvc e \<Longrightarrow> \<not> writes_rd e"
  by (cases e) simp_all

lemma no_rd_CreateTemporary [emits_intros]:
  "emits (\<lambda>e. \<not> writes_rd e) (CreateTemporaryPVCFromTerminating K name ns rmFinalizer)"
  by (rule emits_mono [OF emits_CreateTemporary]) (simp add: temporary_no_rd)

lemma no_rd_Restore [emits_intros]:
  "emits (\<lambda>e. \<not> writes_rd e) (RestorePVCFromTemporary K name ns)"
  by (rule emits_mono [OF emits_Restore]) (simp add: temporary_no_rd)

lemma no_rd_ProcessFinalSync [emits_intros]: "emits (\<lambda>e. \<not> writes_rd e) (ProcessFinalSync K vgr pvcs)"
  unfolding ProcessFinalSync_def ShouldRunFinalSync_def prepare_pvc_def handleLostTemporaryPVC_def
    IsPVCTerminating_def handleTerminatingPVC_def sync_pvc_def HasTemporaryPVC_def isPVCInUse_def
    pauseReplicationSource_def triggerFinalSyncForPVC_def Let_def
  by (intro emits_intros) simp_all

lemma no_rd_getPVCList [emits_intros]: "emits (\<lambda>e. \<not> writes_rd e) (getPVCList K vgr)"
  unfolding getPVCList_def by (intro emits_intros) simp_all

lemma no_rd_handleFinalSync [emits_intros]: "emits (\<lambda>e. \<not> writes_rd e) (handleFinalSync K vgr pvcs)"
  unfolding handleFinalSync_def ShouldRunFinalSync_def AreAllRSFinalSyncsComplete_def
    UpdateFinalSyncStatus_def Let_def
  by (intro emits_intros) simp_all

lemma no_rd_restoreTemporaryPVCs [emits_intros]: "emits (\<lambda>e. \<not> writes_rd e) (restoreTemporaryPVCs K pvcs)"
  unfolding restoreTemporaryPVCs_def HasTemporaryPVC_def by (intro emits_intros) simp_all

lemma no_rd_updateStatus [emits_intros]:
  "emits (\<lambda>e. \<not> writes_rd e) (secondary_updateStatus K vgr names ready)"
  unfolding secondary_updateStatus_def Let_def by (intro emits_intros) simp_all

lemma no_rd_isFinalSyncComplete [emits_intros]:
  "emits (\<lambda>e. \<not> writes_rd e) (secondary_isFinalSyncComplete K vgr)"
  unfolding secondary_isFinalSyncComplete_def AreAllRSFinalSyncsComplete_def
  by (intro emits_intros) simp_all

lemma rd_excl_ReconcileRD: "rd_excl.keeps (ReconcileRD K v name ns a)"
proof -
  have "quiet tr \<Longrightarrow> guarded (shows_no_rs k) (applies_rd k) tr" for k tr by simp
  then have "post (ReconcileRD K v name ns a) (\<lambda>tr r. keyed tr \<longrightarrow>
     (\<forall>k. guarded (shows_no_rs k) (applies_rd k) tr))"
    unfolding ReconcileRD_def IsPVCTerminating_def createOrUpdateRD_def DeleteRS_def
      GetReplicationSourceName_def Let_def validateSecretAndAddOwnerRef_def addFinalizerToPVC_def
      getReplicationDestinationName_def reconcileServiceExportForRD_def
    by (intro vcg post_weaken [OF post_CreateTemporary_quiet]) (auto split: if_splits)
  then show ?thesis by (simp add: rd_excl.keeps_def rd_exclusive_def)
qed

lemma rd_excl_Secondary: "rd_excl.keeps (Secondary_Reconcile K vgr cls)"
  unfolding Secondary_Reconcile_def reconcile_and_report_def reconcileReplicationDestinations_def demote_pvc_def
    reconcilePVCReplicationDestination_def handleLostPVC_def Let_def
  by (intro rd_excl.keeps_intros rd_excl_ReconcileRD) (auto intro!: rd_excl_quiet emits_intros)

text \<open>
  C7: in any reconciliation as secondary, over all its PVCs and on every path, whenever the
  ReplicationDestination of a key is written, the ReplicationSource of the same key was seen to
  be gone before, so the operator never runs both for one PVC.
\<close>

theorem secondary_never_beside_rs:
  assumes "runs (Secondary_Reconcile K vgr cls) tr r" and "keyed tr"
    and "tr = before @ E_apply_rd k f x # after"
  shows "\<exists>e \<in> set before. shows_no_rs k e"
proof -
  have "guarded (shows_no_rs k) (applies_rd k) tr"
    using rd_excl.keeps_runs [OF rd_excl_Secondary assms(1)] assms(2)
    by (cases k) (simp add: rd_exclusive_def)
  then show ?thesis using assms(3) by (auto simp: guarded_iff)
qed

text \<open>What an uneventful reconciliation as secondary is run on: nothing but one PVC.\<close>

lemmas secondary_run_defs =
  Secondary_Reconcile_def reconcile_and_report_def getPVCList_def handleFinalSync_def restoreTemporaryPVCs_def
  reconcileReplicationDestinations_def demote_pvc_def reconcilePVCReplicationDestination_def
  secondary_updateStatus_def status_update_def secondary_getConfiguration_def getPVCConfiguration_def
  ReconcileRD_def createOrUpdateRD_def mutate_rd_def DeleteRS_def reconcileServiceExportForRD_def
  service_export_for_def mutate_export_def rdStatusReady_def NewVSHandler_def
  final_sync_run_defs

definition quiet_kube :: "unit kube" where
  "quiet_kube = (steady_kube [] [sample_pvc ''app'' ''data''])
     \<lparr>k_get_pvc := (\<lambda>k u. (if snd k = ''data'' then Inr (sample_pvc (fst k) (snd k)) else Inl not_found, u))\<rparr>"

definition sample_secondary :: "(unit, vgr \<times> ctrl_result \<times> error) kop" where
  "sample_secondary = Secondary_Reconcile quiet_kube (sample_vgr ''app'' ''group'') sample_class"

lemma sample_secondary_run:
  "let (r, w) = run_state (sample_secondary) steady_world
   in keyed (history w) \<and> list_ex (applies_rd (''app'', ''data'')) (history w) \<and> snd (snd r) = None \<and>
     map (vgr_state \<circ> fst) (sent_status (history w)) = [SecondaryState]"
  by (simp add: sample_secondary_def secondary_run_defs quiet_kube_def ClaimLost_def
      IsNotFound_def not_found_def cong: bind_eval_cong)

lemma sample_secondary_runs:
  obtains tr r where "runs sample_secondary tr r" and "keyed tr" and "snd (snd r) = None"
    and "list_ex (applies_rd (''app'', ''data'')) tr"
    and "map (vgr_state \<circ> fst) (sent_status tr) = [SecondaryState]"
proof -
  obtain r w where run: "run_state sample_secondary steady_world = (r, w)" by fastforce
  from steady_runs [OF run] sample_secondary_run [unfolded run] show ?thesis
    by (intro that [of "history w" r]) simp_all
qed

theorem secondary_never_beside_rs_witness:
  "\<exists>tr r. runs sample_secondary tr r \<and> list_ex (applies_rd (''app'', ''data'')) tr \<and>
     list_ex (shows_no_rs (''app'', ''data'')) tr"
proof -
  obtain tr r where r: "runs sample_secondary tr r" and k: "keyed tr"
    and ex: "list_ex (applies_rd (''app'', ''data'')) tr"
    by (rule sample_secondary_runs)
  from ex obtain e where e: "e \<in> set tr" "applies_rd (''app'', ''data'') e" by (auto simp: list_ex_iff)
  from applies_rdD [OF e(2)] e(1) obtain f x before after
    where tr: "tr = before @ E_apply_rd (''app'', ''data'') f x # after" by (metis split_list)
  from secondary_never_beside_rs [OF r [unfolded sample_secondary_def] k tr]
  have "list_ex (shows_no_rs (''app'', ''data'')) before" by (auto simp: list_ex_iff)
  then have "list_ex (shows_no_rs (''app'', ''data'')) tr" by (simp add: tr)
  with r ex show ?thesis by blast
qed

section \<open>Properties: no destination before the final sync\<close>

definition relocating :: "vgr \<Rightarrow> vrg \<Rightarrow> bool" where
  "relocating vgr g \<longleftrightarrow> vrg_action g = VRGActionRelocate \<and> vrg_replicationState g = VRGSecondary \<and>
     vgr_state vgr \<noteq> SecondaryState"

text \<open>Some read of the owner's VRG says that a final sync is due.\<close>

fun shows_relocation :: "vgr \<Rightarrow> event \<Rightarrow> bool" where
  "shows_relocation vgr (E_get_vrg _ (Inr g)) = relocating vgr g"
| "shows_relocation vgr _ = False"

definition syncs_complete :: "vgr \<Rightarrow> event set \<Rightarrow> bool" where
  "syncs_complete vgr A \<longleftrightarrow> (\<exists>items. E_list_rs (in_namespace (vgr_namespace vgr)) (Inr items) \<in> A \<and>
     list_all isFinalSyncComplete items)"

lemma post_ShouldRun:
  "post (ShouldRunFinalSync K vgr) (\<lambda>tr r. (\<forall>e \<in> set tr. \<not> writes_rd e) \<and>
     sent_status tr = [] \<and> (list_ex (shows_relocation vgr) tr \<longrightarrow> r))"
  unfolding ShouldRunFinalSync_def Let_def by (intro vcg) (auto simp: relocating_def)

text \<open>
  What \<open>handleFinalSync\<close> leaves when it lets the reconciliation go on: the VGR with other conditions
  and the list with the same keys; and it says so when a final sync was due.
\<close>

definition final_sync_handled :: "vgr \<Rightarrow> pvc list \<Rightarrow> event list \<Rightarrow>
    vgr \<times> pvc list \<times> bool \<times> ctrl_result option \<times> error \<Rightarrow> bool" where
  "final_sync_handled vgr pvcs tr x \<longleftrightarrow> (\<forall>e \<in> set tr. \<not> writes_rd e) \<and>
     list_all (\<lambda>u. vgr_state (fst u) = vgr_state vgr) (sent_status tr) \<and>
     (case x of (v, pvcs', run, res, err) \<Rightarrow>
        (list_ex (shows_relocation vgr) tr \<longrightarrow> run) \<and>
        (res = None \<and> err = None \<longrightarrow>
           (\<exists>cs. v = vgr\<lparr>vgr_conditions := cs\<rparr>) \<and> map pvc_key pvcs' = map pvc_key pvcs \<and>
           sent_status tr = []))"

fun status_event :: "event \<Rightarrow> bool" where
  "status_event (E_status_vgr _ _) = True"
| "status_event _ = False"

lemma sent_status_quiet: "\<forall>e \<in> set tr. \<not> status_event e \<Longrightarrow> sent_status tr = []"
  by (induction tr) (auto split: event.splits)

lemma sent_status_mem: "(v, x) \<in> set (sent_status tr) \<longleftrightarrow> E_status_vgr v x \<in> set tr"
  by (induction tr) (auto split: event.splits)

lemma temporary_no_status: "temporary_event e \<or> is_delete_pvc e \<Longrightarrow> \<not> status_event e"
  by (cases e) simp_all

lemma no_status_CreateTemporary [emits_intros]:
  "emits (\<lambda>e. \<not> status_event e) (CreateTemporaryPVCFromTerminating K name ns rmFinalizer)"
  by (rule emits_mono [OF emits_CreateTemporary]) (simp add: temporary_no_status)

lemma no_status_Restore [emits_intros]:
  "emits (\<lambda>e. \<not> status_event e) (RestorePVCFromTemporary K name ns)"
  by (rule emits_mono [OF emits_Restore]) (simp add: temporary_no_status)

lemma no_status_ProcessFinalSync [emits_intros]: "emits (\<lambda>e. \<not> status_event e) (ProcessFinalSync K vgr pvcs)"
  unfolding ProcessFinalSync_def ShouldRunFinalSync_def prepare_pvc_def handleLostTemporaryPVC_def
    IsPVCTerminating_def handleTerminatingPVC_def sync_pvc_def HasTemporaryPVC_def isPVCInUse_def
    pauseReplicationSource_def triggerFinalSyncForPVC_def Let_def
  by (intro emits_intros) simp_all

lemma post_ProcessFinalSync_frame:
  "post (ProcessFinalSync K vgr pvcs) (\<lambda>tr r. (\<forall>e \<in> set tr. \<not> writes_rd e \<and> \<not> status_event e) \<and>
     (\<exists>cs. fst r = vgr\<lparr>vgr_conditions := cs\<rparr>) \<and>
     (\<forall>res pvcs'. snd r = Inr (res, pvcs') \<longrightarrow> map pvc_key pvcs' = map pvc_key pvcs))"
  by (rule post_weaken [OF post_conj [OF post_ProcessFinalSync
        post_conj [OF no_rd_ProcessFinalSync [unfolded emits_def] no_status_ProcessFinalSync [unfolded emits_def]]]])
    (auto simp: final_sync_run_def sync_exact_def)

lemma post_set_condition_frame:
  "post (set_vgr_condition K t st rs msg vgr) (\<lambda>tr v. (\<exists>now. tr = [E_now now]) \<and>
     (\<exists>cs. v = vgr\<lparr>vgr_conditions := cs\<rparr>))"
  unfolding set_vgr_condition_def setCondition_def by (intro vcg) auto

lemma vgr_conditions_same: "\<exists>cs. v = v\<lparr>vgr_conditions := cs\<rparr>"
  by (rule exI [of _ "vgr_conditions v"]) simp

lemma post_handleFinalSync: "post (handleFinalSync K vgr pvcs) (final_sync_handled vgr pvcs)"
  unfolding handleFinalSync_def AreAllRSFinalSyncsComplete_def UpdateFinalSyncStatus_def status_update_def
  by (intro vcg post_weaken [OF post_ShouldRun] post_weaken [OF post_ProcessFinalSync_frame]
        post_weaken [OF post_set_condition_frame])
    (auto simp: final_sync_handled_def vgr_conditions_same sent_status_quiet)

lemma restoring_frame:
  "post (restoreTemporaryPVCs K pvcs) (\<lambda>tr r. (\<forall>e \<in> set tr. \<not> writes_rd e \<and> \<not> status_event e \<and>
     \<not> shows_relocation vgr e))"
proof -
  have "\<not> writes_rd e \<and> \<not> status_event e \<and> \<not> shows_relocation vgr e"
    if "temporary_event e \<or> is_delete_pvc e" for e
    using that by (cases e) auto
  then show ?thesis
    unfolding restoreTemporaryPVCs_def HasTemporaryPVC_def emits_def [symmetric]
    by (intro emits_intros emits_mono [OF emits_Restore]) simp_all
qed

fun get_vrg_event :: "event \<Rightarrow> bool" where
  "get_vrg_event (E_get_vrg _ _) = True"
| "get_vrg_event _ = False"

lemma shows_relocation_get: "shows_relocation vgr e \<Longrightarrow> get_vrg_event e"
  by (cases e) simp_all

lemma no_vrg_destinations:
  "emits (\<lambda>e. \<not> get_vrg_event e \<and> \<not> status_event e) (reconcileReplicationDestinations K vgr config pvcs)"
proof -
  have "\<not> get_vrg_event e \<and> \<not> status_event e" if "temporary_event e" for e
    using that by (cases e) auto
  then show ?thesis
    unfolding reconcileReplicationDestinations_def demote_pvc_def reconcilePVCReplicationDestination_def
      handleLostPVC_def ReconcileRD_def DeleteRS_def IsPVCTerminating_def createOrUpdateRD_def Let_def
      validateSecretAndAddOwnerRef_def addFinalizerToPVC_def reconcileServiceExportForRD_def
    by (intro emits_intros emits_mono [OF emits_CreateTemporary]) simp_all
qed

lemma no_vrg_updateStatus:
  "emits (\<lambda>e. \<not> get_vrg_event e) (secondary_updateStatus K vgr names ready)"
  unfolding secondary_updateStatus_def Let_def by (intro emits_intros) simp_all

lemma no_vrg_getPVCList:
  "emits (\<lambda>e. \<not> get_vrg_event e \<and> \<not> status_event e \<and> \<not> writes_rd e) (getPVCList K vgr)"
  unfolding getPVCList_def by (intro emits_intros) simp_all

definition synced_first :: "vgr \<Rightarrow> event \<Rightarrow> event set \<Rightarrow> bool" where
  "synced_first vgr e A \<longleftrightarrow> (writes_rd e \<longrightarrow> syncs_complete vgr A)"

lemma synced_first_quiet [simp]:
  "\<forall>e \<in> set tr. \<not> writes_rd e \<Longrightarrow> preceded (synced_first vgr) A tr"
  by (rule preceded_free) (simp add: synced_first_def)

lemma synced_first_after [simp]: "syncs_complete vgr A \<Longrightarrow> preceded (synced_first vgr) A tr"
  by (rule preceded_free) (auto simp: synced_first_def syncs_complete_def)

lemma post_isFinalSyncComplete:
  "post (secondary_isFinalSyncComplete K vgr) (\<lambda>tr r. (\<forall>e \<in> set tr. \<not> writes_rd e \<and> \<not> get_vrg_event e) \<and>
     sent_status tr = [] \<and> (r = Inr True \<longrightarrow> syncs_complete vgr (set tr)))"
  unfolding secondary_isFinalSyncComplete_def AreAllRSFinalSyncsComplete_def
  by (intro vcg) (auto simp: syncs_complete_def)

lemma syncs_complete_mono [intro]: "syncs_complete vgr A \<Longrightarrow> A \<subseteq> B \<Longrightarrow> syncs_complete vgr B"
  by (auto simp: syncs_complete_def)

lemma syncs_complete_conditions [simp]: "syncs_complete (vgr\<lparr>vgr_conditions := cs\<rparr>) = syncs_complete vgr"
  by (simp add: syncs_complete_def fun_eq_iff)

section \<open>Properties: the state Secondary\<close>

text \<open>
  A PVC that can be synchronised to: its ReplicationDestination was written and answered with one
  that has an address, and the service of this one was exported.
\<close>

definition rd_ready :: "pvc \<Rightarrow> event set \<Rightarrow> bool" where
  "rd_ready p A \<longleftrightarrow> (\<exists>f d h z. E_apply_rd (pvc_key p) f (Inr d) \<in> A \<and> rdStatusReady d \<and>
     E_apply_export (service_export_for d) h (Inr z) \<in> A)"

lemma rd_readyI:
  "E_apply_rd (pvc_key p) f (Inr d) \<in> A \<Longrightarrow> rdStatusReady d \<Longrightarrow>
   E_apply_export (service_export_for d) h (Inr z) \<in> A \<Longrightarrow> rd_ready p A"
  by (auto simp: rd_ready_def)

lemma rd_ready_mono: "rd_ready p A \<Longrightarrow> A \<subseteq> B \<Longrightarrow> rd_ready p B"
  unfolding rd_ready_def by blast

definition demoted :: "pvc list \<Rightarrow> string list \<times> bool \<Rightarrow> event list \<Rightarrow> bool" where
  "demoted done acc tr \<longleftrightarrow> length (fst acc) \<le> length done \<and> (snd acc \<longleftrightarrow> length (fst acc) = length done) \<and>
     (snd acc \<longrightarrow> fst acc = map pvc_name done \<and>
        (\<forall>p \<in> set done. rd_ready p (set tr) \<and> pvc_phase p \<noteq> ClaimLost))"

lemma post_ReconcileRD_ready:
  "post (ReconcileRD K v name ns a) (\<lambda>tr r. \<forall>d. r = Inr (Some d) \<longrightarrow>
     (\<exists>f. E_apply_rd (ns, name) f (Inr d) \<in> set tr) \<and> rdStatusReady d \<and>
     (\<exists>h z. E_apply_export (service_export_for d) h (Inr z) \<in> set tr))"
  unfolding ReconcileRD_def IsPVCTerminating_def createOrUpdateRD_def DeleteRS_def
    GetReplicationSourceName_def Let_def validateSecretAndAddOwnerRef_def addFinalizerToPVC_def
    getReplicationDestinationName_def reconcileServiceExportForRD_def
  by (intro vcg post_weaken [OF post_CreateTemporary_quiet]) (auto split: if_splits)

lemma post_demote_pvc:
  assumes "demoted done acc tr"
  shows "post (demote_pvc K vgr config acc p) (\<lambda>t r. case r of
       Inl _ \<Rightarrow> True | Inr acc' \<Rightarrow> demoted (done @ [p]) acc' (tr @ t))"
  using assms
  unfolding demote_pvc_def handleLostPVC_def reconcilePVCReplicationDestination_def Let_def
  by (intro vcg post_weaken [OF post_ReconcileRD_ready])
    (auto simp: demoted_def intro: rd_readyI rd_ready_mono)

lemma post_demote_loop:
  "post (reconcileReplicationDestinations K vgr config pvcs) (\<lambda>t r.
     (\<forall>e \<in> set t. \<not> get_vrg_event e \<and> \<not> status_event e) \<and>
     (\<forall>acc. r = Inr acc \<longrightarrow> demoted pvcs acc t))"
proof (rule post_weaken [OF post_conj])
  show "post (reconcileReplicationDestinations K vgr config pvcs)
      (\<lambda>t _. \<forall>e \<in> set t. \<not> get_vrg_event e \<and> \<not> status_event e)"
    using no_vrg_destinations by (simp add: emits_def)
  show "post (reconcileReplicationDestinations K vgr config pvcs) (\<lambda>t r. case r of
       Inl _ \<Rightarrow> True | Inr acc \<Rightarrow> demoted ([] @ pvcs) acc ([] @ t))"
    unfolding reconcileReplicationDestinations_def
    by (rule post_fold_each_prefix [where E = "\<lambda>_ _. True"])
      (erule post_demote_pvc, simp add: demoted_def)
qed (auto split: sum.splits)

text \<open>The status update: which state is sent, and with which PVCs.\<close>

lemma post_secondary_updateStatus:
  "post (secondary_updateStatus K vgr names ready) (\<lambda>tr r. (\<forall>e \<in> set tr. \<not> get_vrg_event e) \<and>
     (\<exists>v x. sent_status tr = [(v, x)] \<and> vgr_pvcRefs v = names \<and>
        vgr_state v = (if ready then SecondaryState else vgr_state vgr)
        \<or> vgr_state vgr = SecondaryState))"
  unfolding secondary_updateStatus_def status_update_def Let_def
  by (intro vcg post_weaken [OF post_set_condition_frame]) auto

definition demotion_sound :: "vgr \<Rightarrow> pvc list \<Rightarrow> event list \<Rightarrow> bool" where
  "demotion_sound vgr pvcs tr \<longleftrightarrow> (\<forall>v x. (v, x) \<in> set (sent_status tr) \<longrightarrow>
     vgr_state v = SecondaryState \<longrightarrow> vgr_state vgr \<noteq> SecondaryState \<longrightarrow>
     vgr_pvcRefs v = map pvc_name pvcs \<and> (\<forall>p \<in> set pvcs. rd_ready p (set tr)))"

lemma post_reconcile_and_report:
  "post (reconcile_and_report K config vgr pvcs) (\<lambda>tr r.
     (\<forall>e \<in> set tr. \<not> get_vrg_event e) \<and> demotion_sound vgr pvcs tr)"
  unfolding reconcile_and_report_def
  by (intro vcg post_weaken [OF post_demote_loop] post_weaken [OF post_secondary_updateStatus])
    (auto simp: demotion_sound_def demoted_def sent_status_quiet intro: rd_ready_mono split: if_splits)

text \<open>The whole reconciliation: the two halves put together.\<close>

definition secondary_safe :: "vgr \<Rightarrow> event list \<Rightarrow> bool" where
  "secondary_safe vgr tr \<longleftrightarrow>
     (list_ex (shows_relocation vgr) tr \<longrightarrow> preceded (synced_first vgr) {} tr) \<and>
     (\<forall>v x. (v, x) \<in> set (sent_status tr) \<longrightarrow> vgr_state v = SecondaryState \<longrightarrow>
        vgr_state vgr \<noteq> SecondaryState \<longrightarrow>
        (\<exists>opts pvcs. E_list_pvc opts (Inr pvcs) \<in> set tr \<and> pvcs \<noteq> [] \<and>
           vgr_pvcRefs v = map pvc_name pvcs \<and> (\<forall>p \<in> set pvcs. rd_ready p (set tr))))"

lemma secondary_stopped:
  assumes "\<forall>e \<in> set tr. \<not> writes_rd e"
    and "list_all (\<lambda>u. vgr_state (fst u) = vgr_state vgr) (sent_status tr)"
  shows "secondary_safe vgr tr"
  using assms by (auto simp: secondary_safe_def list_all_iff)

lemma rd_ready_keys:
  assumes "map pvc_key xs = map pvc_key ys" and "\<forall>p \<in> set xs. rd_ready p A"
  shows "\<forall>p \<in> set ys. rd_ready p A"
proof
  fix q
  assume "q \<in> set ys"
  then have "pvc_key q \<in> set (map pvc_key xs)" unfolding assms(1) by auto
  then obtain p where p: "p \<in> set xs" "pvc_key p = pvc_key q" by auto
  from assms(2) p(1) have "rd_ready p A" by blast
  with p(2) show "rd_ready q A" by (simp add: rd_ready_def)
qed

lemma secondary_went_on:
  assumes quiet: "\<forall>e \<in> set t0. \<not> writes_rd e" "sent_status t0 = []"
    and listed: "E_list_pvc opts (Inr pvcs) \<in> set t0" "pvcs \<noteq> []"
    and synced: "list_ex (shows_relocation vgr) t0 \<longrightarrow> syncs_complete vgr (set t0)"
    and t: "\<forall>e \<in> set t. \<not> get_vrg_event e" "demotion_sound v pvcs' t"
    and v: "vgr_state v = vgr_state vgr" and keys: "map pvc_key pvcs' = map pvc_key pvcs"
  shows "secondary_safe vgr (t0 @ t)"
proof -
  have "\<not> list_ex (shows_relocation vgr) t"
    using t(1) shows_relocation_get by (auto simp: list_ex_iff)
  then have 1: "list_ex (shows_relocation vgr) (t0 @ t) \<longrightarrow> preceded (synced_first vgr) {} (t0 @ t)"
    using synced quiet(1) by simp
  have "map snd (map pvc_key pvcs') = map snd (map pvc_key pvcs)" by (simp only: keys)
  then have names: "map pvc_name pvcs' = map pvc_name pvcs" by (simp add: comp_def)
  have 2: "vgr_pvcRefs u = map pvc_name pvcs \<and> (\<forall>p \<in> set pvcs. rd_ready p (set (t0 @ t)))"
    if "(u, x) \<in> set (sent_status (t0 @ t))" "vgr_state u = SecondaryState" "vgr_state vgr \<noteq> SecondaryState"
    for u x
  proof -
    from that quiet(2) t(2) v have "vgr_pvcRefs u = map pvc_name pvcs'" "\<forall>p \<in> set pvcs'. rd_ready p (set t)"
      by (auto simp: demotion_sound_def)
    with names rd_ready_keys [OF keys] show ?thesis by (auto intro: rd_ready_mono)
  qed
  have "E_list_pvc opts (Inr pvcs) \<in> set (t0 @ t)" using listed by simp
  with 1 2 listed(2) show ?thesis unfolding secondary_safe_def by blast
qed

lemma post_getPVCList:
  "post (getPVCList K vgr) (\<lambda>tr r. (\<forall>e \<in> set tr. \<not> get_vrg_event e \<and> \<not> status_event e \<and> \<not> writes_rd e) \<and>
     (\<forall>pvcs. r = Inr pvcs \<longrightarrow> (\<exists>opts. E_list_pvc opts (Inr pvcs) \<in> set tr)))"
  unfolding getPVCList_def by (intro vcg) auto

text \<open>What is known when the destinations are reached, after the listing and the final sync.\<close>

lemma secondary_reached:
  assumes l: "\<forall>e \<in> set l. \<not> get_vrg_event e \<and> \<not> status_event e \<and> \<not> writes_rd e"
      "E_list_pvc opts (Inr pvcs) \<in> set l" "pvcs \<noteq> []"
    and f: "final_sync_handled vgr pvcs f (v, pvcs', run, None, None)"
    and m: "\<forall>e \<in> set m. \<not> writes_rd e \<and> \<not> status_event e \<and> \<not> shows_relocation vgr e"
    and c: "\<forall>e \<in> set c. \<not> writes_rd e \<and> \<not> get_vrg_event e" "sent_status c = []"
      "run \<longrightarrow> syncs_complete v (set c)"
    and t: "\<forall>e \<in> set t. \<not> get_vrg_event e" "demotion_sound v pvcs' t"
  shows "secondary_safe vgr (l @ f @ m @ c @ t)"
proof -
  from f obtain cs where v: "v = vgr\<lparr>vgr_conditions := cs\<rparr>" and keys: "map pvc_key pvcs' = map pvc_key pvcs"
    and f': "\<forall>e \<in> set f. \<not> writes_rd e" "sent_status f = []" "list_ex (shows_relocation vgr) f \<longrightarrow> run"
    by (auto simp: final_sync_handled_def)
  have "secondary_safe vgr ((l @ f @ m @ c) @ t)"
  proof (rule secondary_went_on [OF _ _ _ l(3) _ t])
    show "\<forall>e \<in> set (l @ f @ m @ c). \<not> writes_rd e" using l f' m c by auto
    show "sent_status (l @ f @ m @ c) = []" using l m c f' by (simp add: sent_status_quiet)
    show "E_list_pvc opts (Inr pvcs) \<in> set (l @ f @ m @ c)" using l by simp
    have "\<not> list_ex (shows_relocation vgr) l" "\<not> list_ex (shows_relocation vgr) m"
      "\<not> list_ex (shows_relocation vgr) c"
      using l(1) m c(1) shows_relocation_get by (auto simp: list_ex_iff)
    then show "list_ex (shows_relocation vgr) (l @ f @ m @ c) \<longrightarrow> syncs_complete vgr (set (l @ f @ m @ c))"
      using f'(3) c(3) v by (auto intro: syncs_complete_mono)
  qed (simp_all add: v keys)
  then show ?thesis by simp
qed

lemma handled_no_rd: "final_sync_handled vgr pvcs tr x \<Longrightarrow> e \<in> set tr \<Longrightarrow> \<not> writes_rd e"
  by (simp add: final_sync_handled_def)

lemma handled_states:
  "final_sync_handled vgr pvcs tr x \<Longrightarrow> list_all (\<lambda>u. vgr_state (fst u) = vgr_state vgr) (sent_status tr)"
  by (simp add: final_sync_handled_def)

lemma post_Secondary: "post (Secondary_Reconcile K vgr cls) (\<lambda>tr r. secondary_safe vgr tr)"
  unfolding Secondary_Reconcile_def Let_def
proof (intro vcg post_weaken [OF post_handleFinalSync] post_weaken [OF restoring_frame [where vgr = vgr]]
        post_weaken [OF post_isFinalSyncComplete] post_weaken [OF post_reconcile_and_report]
        post_weaken [OF post_getPVCList], goal_cases)
  case (6 l a pvcs f b v b1 pvcs' b2 run b3 res err m b4 c b5 complete t b6)
  then obtain opts where "E_list_pvc opts (Inr pvcs) \<in> set l" by blast
  from secondary_reached [OF _ this, of vgr f v pvcs' run m c t] 6 show ?case by simp
next
  case (9 l a pvcs f b v b1 pvcs' b2 run b3 res err m b4 complete t b5)
  then obtain opts where "E_list_pvc opts (Inr pvcs) \<in> set l" by blast
  from secondary_reached [OF _ this, of vgr f v pvcs' run m "[]" t] 9 show ?case by simp
qed (auto intro!: secondary_stopped intro: handled_states dest: handled_no_rd simp: sent_status_quiet)

text \<open>
  C8: when the owner's VRG, as it was read in a reconciliation as secondary, says that a final sync
  is due, a ReplicationDestination is written in that reconciliation only after a listing in which
  every ReplicationSource of the namespace had completed its final sync.
\<close>

theorem no_destination_before_final_sync:
  assumes "runs (Secondary_Reconcile K vgr cls) tr r" and "list_ex (shows_relocation vgr) tr"
    and "tr = before @ E_apply_rd k f x # after"
  shows "\<exists>items. E_list_rs (in_namespace (vgr_namespace vgr)) (Inr items) \<in> set before \<and>
     list_all isFinalSyncComplete items"
proof -
  have "preceded (synced_first vgr) {} tr"
    using post_runs [OF post_Secondary assms(1)] assms(2) by (simp add: secondary_safe_def)
  then have "synced_first vgr (E_apply_rd k f x) (set before)"
    unfolding assms(3) by (auto dest!: preceded_at)
  then show ?thesis by (simp add: synced_first_def syncs_complete_def)
qed

text \<open>
  C9: a VGR that was not secondary is reported as Secondary only with evidence: in the same
  reconciliation, every PVC of a non-empty listing had its ReplicationDestination written, the
  server answered with one that has an address, and the service of this one was exported; the PVCs
  reported are those of the listing.
\<close>

theorem secondary_state_sound:
  assumes "runs (Secondary_Reconcile K vgr cls) tr r" and "E_status_vgr v x \<in> set tr"
    and "vgr_state v = SecondaryState" and "vgr_state vgr \<noteq> SecondaryState"
  shows "\<exists>opts pvcs. E_list_pvc opts (Inr pvcs) \<in> set tr \<and> pvcs \<noteq> [] \<and>
     vgr_pvcRefs v = map pvc_name pvcs \<and> (\<forall>p \<in> set pvcs. rd_ready p (set tr))"
proof -
  have "(v, x) \<in> set (sent_status tr)" using assms(2) by (simp add: sent_status_mem)
  with post_runs [OF post_Secondary assms(1)] assms(3,4) show ?thesis by (auto simp: secondary_safe_def)
qed

definition secondary_table :: "bool \<Rightarrow> (string \<times> string) list" where
  "secondary_table ready =
     (let s = (if ready then ConditionTrue else ConditionFalse)
      in [(''Completed'', s), (''Validated'', ConditionTrue), (''Degraded'', ConditionFalse),
          (''Resyncing'', ConditionFalse), (''Replicating'', s)])"

text \<open>
  C28: the status update of a secondary. One object is sent, with the PVCs and the generation. If
  the VGR was Secondary already, its conditions are cleared and its state stays; if not, the state
  becomes Secondary exactly when all destinations are ready, the conditions are the old ones with
  the five of the table written over, and no condition type occurs twice if none did before.
\<close>

theorem secondary_status_refines:
  assumes "runs (secondary_updateStatus K vgr names ready) tr r"
  shows "\<exists>v x. sent_status tr = [(v, x)] \<and> vgr_pvcRefs v = names \<and>
     vgr_observedGeneration v = vgr_generation vgr \<and> vgr_key v = vgr_key vgr \<and>
     vgr_state v = (if ready then SecondaryState else vgr_state vgr) \<and>
     (if vgr_state vgr = SecondaryState then vgr_conditions v = []
      else status_of v = overridden (secondary_table ready) vgr \<and> types_kept vgr v) \<and>
     (case x of Inl e \<Rightarrow> r = (v, Some e) | Inr v' \<Rightarrow> r = (v', None))"
proof -
  have "post (secondary_updateStatus K vgr names ready) (\<lambda>tr r.
     \<exists>v x. sent_status tr = [(v, x)] \<and> vgr_pvcRefs v = names \<and>
     vgr_observedGeneration v = vgr_generation vgr \<and> vgr_key v = vgr_key vgr \<and>
     vgr_state v = (if ready then SecondaryState else vgr_state vgr) \<and>
     (if vgr_state vgr = SecondaryState then vgr_conditions v = []
      else status_of v = overridden (secondary_table ready) vgr \<and> types_kept vgr v) \<and>
     (case x of Inl e \<Rightarrow> r = (v, Some e) | Inr v' \<Rightarrow> r = (v', None)))"
    unfolding secondary_updateStatus_def status_update_def Let_def
    by (intro vcg post_weaken [OF post_set_vgr_condition [where orig = vgr]])
      (auto simp: secondary_table_def fun_upd_twist Let_def split: sum.splits)
  from post_runs [OF this assms] show ?thesis .
qed

text \<open>A relocation whose only ReplicationSource has completed its final sync.\<close>

definition synced_kube :: "unit kube" where
  "synced_kube = quiet_kube
     \<lparr>k_get_vrg := (\<lambda>k u. (Inr sample_relocation, u)),
      k_list_rs := (\<lambda>opts u. (Inr [(blank_rs (''app'', ''data''))
        \<lparr>rs_stat := Some \<lparr>lastManualSync = final_sync_tag, lastSyncTime = None\<rparr>\<rparr>], u))\<rparr>"

lemma synced_secondary_run:
  "let (r, w) = run_state (Secondary_Reconcile synced_kube sample_owned_vgr sample_class) steady_world
   in list_ex (shows_relocation sample_owned_vgr) (history w) \<and>
     list_ex (applies_rd (''app'', ''data'')) (history w)"
  by (simp add: secondary_run_defs synced_kube_def quiet_kube_def ClaimLost_def relocating_def
      secondary_isFinalSyncComplete_def AreAllRSFinalSyncsComplete_def final_sync_tag_def
      IsNotFound_def not_found_def cong: bind_eval_cong)

theorem no_destination_before_final_sync_witness:
  "\<exists>tr r items. runs (Secondary_Reconcile synced_kube sample_owned_vgr sample_class) tr r \<and>
     list_ex (applies_rd (''app'', ''data'')) tr \<and>
     E_list_rs (in_namespace ''app'') (Inr items) \<in> set tr \<and> list_all isFinalSyncComplete items"
proof -
  obtain r w where run: "run_state (Secondary_Reconcile synced_kube sample_owned_vgr sample_class) steady_world = (r, w)"
    by fastforce
  note rs = steady_runs [OF run]
  from synced_secondary_run [unfolded run]
  have h: "list_ex (shows_relocation sample_owned_vgr) (history w)"
    "list_ex (applies_rd (''app'', ''data'')) (history w)" by simp_all
  from h(2) obtain e where e: "e \<in> set (history w)" "applies_rd (''app'', ''data'') e" by (auto simp: list_ex_iff)
  from applies_rdD [OF e(2)] e(1) obtain f x before after
    where tr: "history w = before @ E_apply_rd (''app'', ''data'') f x # after" by (metis split_list)
  have ns: "vgr_namespace sample_owned_vgr = ''app''" by (simp add: sample_owned_vgr_def sample_vgr_def)
  from no_destination_before_final_sync [OF rs h(1) tr, unfolded ns] obtain items
    where "E_list_rs (in_namespace ''app'') (Inr items) \<in> set before" "list_all isFinalSyncComplete items" by blast
  then have "E_list_rs (in_namespace ''app'') (Inr items) \<in> set (history w)" by (simp add: tr)
  with rs h(2) \<open>list_all isFinalSyncComplete items\<close> show ?thesis by blast
qed

theorem secondary_state_sound_witness:
  "\<exists>tr r v x pvcs. runs sample_secondary tr r \<and> E_status_vgr v x \<in> set tr \<and>
     vgr_state v = SecondaryState \<and> pvcs \<noteq> [] \<and> vgr_pvcRefs v = map pvc_name pvcs \<and>
     (\<forall>p \<in> set pvcs. rd_ready p (set tr))"
proof -
  obtain tr r where r: "runs sample_secondary tr r"
    and s: "map (vgr_state \<circ> fst) (sent_status tr) = [SecondaryState]"
    by (rule sample_secondary_runs)
  from s obtain v x where "sent_status tr = [(v, x)]" and v: "vgr_state v = SecondaryState" by auto
  then have e: "E_status_vgr v x \<in> set tr" by (simp flip: sent_status_mem)
  have "vgr_state (sample_vgr ''app'' ''group'') \<noteq> SecondaryState"
    by (simp add: sample_vgr_def SecondaryState_def)
  from secondary_state_sound [OF r [unfolded sample_secondary_def] e v this] r e v show ?thesis by blast
qed

theorem secondary_status_refines_witness:
  "\<exists>tr r v x. runs (secondary_updateStatus ref_kube (sample_vgr ''app'' ''group'') [''data''] True) tr r \<and>
     sent_status tr = [(v, x)] \<and> vgr_state v = SecondaryState \<and> status_of v ''Degraded'' = Some ConditionFalse"
proof -
  let ?m = "secondary_updateStatus ref_kube (sample_vgr ''app'' ''group'') [''data''] True"
  obtain r w where run: "run_state ?m (world_of empty_cluster) = (r, w)" by fastforce
  from runs_refI [OF run refl] have rs: "runs ?m (history w) r" .
  have ns: "vgr_state (sample_vgr ''app'' ''group'') \<noteq> SecondaryState"
    by (simp add: sample_vgr_def SecondaryState_def)
  from secondary_status_refines [OF rs] ns obtain v x
    where h: "sent_status (history w) = [(v, x)]" "vgr_state v = SecondaryState"
      "status_of v = overridden (secondary_table True) (sample_vgr ''app'' ''group'')" by auto
  then have "status_of v ''Degraded'' = Some ConditionFalse" by (simp add: secondary_table_def)
  with rs h(1,2) show ?thesis by blast
qed

section \<open>Properties: what a secondary may ask\<close>

text \<open>
  The writes of a secondary. A ReplicationSource is updated only to pause it or to trigger its
  final sync.
\<close>

fun secondary_write :: "event \<Rightarrow> bool" where
  "secondary_write (E_status_vgr _ _) = True"
| "secondary_write (E_update_rs s _) = (rs_paused s \<or> (\<exists>s0 name. s = triggered_rs name s0))"
| "secondary_write (E_delete_job _ _) = True"
| "secondary_write (E_delete_pod _ _) = True"
| "secondary_write (E_delete_rs _ _) = True"
| "secondary_write (E_apply_rd _ _ _) = True"
| "secondary_write (E_apply_export _ _ _) = True"
| "secondary_write (E_create_pvc _ _) = True"
| "secondary_write (E_update_pvc _ _) = True"
| "secondary_write (E_delete_pvc _ _) = True"
| "secondary_write (E_update_pv _ _) = True"
| "secondary_write _ = False"

lemma temporary_secondary:
  "temporary_event e \<or> is_delete_pvc e \<Longrightarrow> read_event e \<or> secondary_write e"
  by (cases e) simp_all

lemma emits_Secondary:
  "emits (\<lambda>e. read_event e \<or> secondary_write e) (Secondary_Reconcile K vgr cls)"
proof -
  have t: "emits (\<lambda>e. read_event e \<or> secondary_write e) (CreateTemporaryPVCFromTerminating K name ns b)"
    "emits (\<lambda>e. read_event e \<or> secondary_write e) (RestorePVCFromTemporary K name ns)"
    for K :: "'a kube" and name ns b
    by (rule emits_mono [OF emits_CreateTemporary] emits_mono [OF emits_Restore], simp add: temporary_secondary)+
  have rd: "emits (\<lambda>e. read_event e \<or> secondary_write e) (ReconcileRD K v name ns a)"
    for K :: "'a kube" and v name ns a
    unfolding ReconcileRD_def IsPVCTerminating_def createOrUpdateRD_def DeleteRS_def Let_def
      validateSecretAndAddOwnerRef_def addFinalizerToPVC_def reconcileServiceExportForRD_def
    by (intro emits_intros t) simp_all
  have fs: "emits (\<lambda>e. read_event e \<or> secondary_write e) (ProcessFinalSync K vgr pvcs)"
    for K :: "'a kube" and vgr pvcs
    unfolding ProcessFinalSync_def ShouldRunFinalSync_def prepare_pvc_def handleLostTemporaryPVC_def
      IsPVCTerminating_def handleTerminatingPVC_def sync_pvc_def HasTemporaryPVC_def isPVCInUse_def
      pauseReplicationSource_def triggerFinalSyncForPVC_def Let_def
    by (intro emits_intros t) (simp_all, blast)
  show ?thesis
    unfolding Secondary_Reconcile_def getPVCList_def handleFinalSync_def ShouldRunFinalSync_def
      AreAllRSFinalSyncsComplete_def UpdateFinalSyncStatus_def restoreTemporaryPVCs_def HasTemporaryPVC_def
      secondary_isFinalSyncComplete_def reconcile_and_report_def reconcileReplicationDestinations_def
      demote_pvc_def handleLostPVC_def reconcilePVCReplicationDestination_def secondary_updateStatus_def
      Let_def
    by (intro emits_intros t rd fs) simp_all
qed

section \<open>Properties: which PVCs a secondary deletes\<close>

fun deletes_other :: "event \<Rightarrow> bool" where
  "deletes_other (E_delete_pvc k _) = (\<not> HasSuffix (snd k) tmp_suffix)"
| "deletes_other _ = False"

definition deletes_temporary_only :: "event list \<Rightarrow> bool" where
  "deletes_temporary_only tr \<longleftrightarrow> (keyed tr \<longrightarrow> \<not> list_ex deletes_other tr)"

interpretation tmp_only: trace_property deletes_temporary_only
  by unfold_locales (auto simp: deletes_temporary_only_def)

lemma tmp_only_quiet: "emits (\<lambda>e. \<not> is_delete_pvc e) m \<Longrightarrow> tmp_only.keeps m"
proof -
  have "\<not> deletes_other e" if "\<not> is_delete_pvc e" for e using that by (cases e) simp_all
  then show "emits (\<lambda>e. \<not> is_delete_pvc e) m \<Longrightarrow> tmp_only.keeps m"
    unfolding emits_def tmp_only.keeps_def deletes_temporary_only_def
    by (elim post_weaken) (auto simp: list_ex_iff)
qed

lemma tmp_only_Restore: "tmp_only.keeps (RestorePVCFromTemporary K name ns)"
proof -
  obtain t m where n: "restore_names name = (t, m)" by fastforce
  then have t: "HasSuffix t tmp_suffix" using restore_names_differ [OF n] by (simp add: HasSuffix_def)
  show ?thesis
    unfolding tmp_only.keeps_def deletes_temporary_only_def RestorePVCFromTemporary_def n prod.case
      restore_from_def release_terminating_def getPVFromPVC_def removeFinalizerFromPVC_def Let_def
    by (intro vcg) (simp_all add: t)
qed

lemma no_delete_CreateTemporary [emits_intros]:
  "emits (\<lambda>e. \<not> is_delete_pvc e) (CreateTemporaryPVCFromTerminating K name ns b)"
proof (rule emits_mono [OF emits_CreateTemporary])
  show "\<not> is_delete_pvc e" if "temporary_event e" for e using that by (cases e) simp_all
qed

lemma tmp_only_getPVCList: "tmp_only.keeps (getPVCList K vgr)"
  unfolding getPVCList_def by (rule tmp_only_quiet, intro emits_intros) simp_all

lemma no_delete_ProcessFinalSync [emits_intros]:
  "emits (\<lambda>e. \<not> is_delete_pvc e) (ProcessFinalSync K vgr pvcs)"
  unfolding ProcessFinalSync_def ShouldRunFinalSync_def prepare_pvc_def handleLostTemporaryPVC_def
    IsPVCTerminating_def handleTerminatingPVC_def sync_pvc_def HasTemporaryPVC_def isPVCInUse_def
    pauseReplicationSource_def triggerFinalSyncForPVC_def Let_def
  by (intro emits_intros) simp_all

lemma tmp_only_handleFinalSync: "tmp_only.keeps (handleFinalSync K vgr pvcs)"
  unfolding handleFinalSync_def ShouldRunFinalSync_def AreAllRSFinalSyncsComplete_def
    UpdateFinalSyncStatus_def Let_def
  by (rule tmp_only_quiet, intro emits_intros) simp_all

lemma tmp_only_restoring: "tmp_only.keeps (restoreTemporaryPVCs K pvcs)"
  unfolding restoreTemporaryPVCs_def
  by (intro tmp_only.keeps_intros tmp_only_Restore)
    (auto simp: HasTemporaryPVC_def intro!: tmp_only_quiet emits_intros)

lemma tmp_only_report: "tmp_only.keeps (reconcile_and_report K config vgr pvcs)"
  unfolding reconcile_and_report_def reconcileReplicationDestinations_def demote_pvc_def
    reconcilePVCReplicationDestination_def handleLostPVC_def secondary_updateStatus_def
    ReconcileRD_def IsPVCTerminating_def createOrUpdateRD_def DeleteRS_def Let_def
    validateSecretAndAddOwnerRef_def addFinalizerToPVC_def reconcileServiceExportForRD_def
  by (rule tmp_only_quiet, intro emits_intros) simp_all

lemma tmp_only_isFinalSyncComplete: "tmp_only.keeps (secondary_isFinalSyncComplete K vgr)"
  unfolding secondary_isFinalSyncComplete_def AreAllRSFinalSyncsComplete_def
  by (rule tmp_only_quiet, intro emits_intros) simp_all

lemma tmp_only_Secondary: "tmp_only.keeps (Secondary_Reconcile K vgr cls)"
  unfolding Secondary_Reconcile_def Let_def
  by (intro tmp_only.keeps_intros tmp_only_getPVCList tmp_only_handleFinalSync tmp_only_restoring
      tmp_only_report tmp_only_isFinalSyncComplete)

text \<open>
  C33: the only PVCs a reconciliation as secondary deletes, on any path, are temporary ones: their
  names end in the suffix of the temporary PVCs.
\<close>

theorem secondary_deletes_temporary_only:
  assumes "runs (Secondary_Reconcile K vgr cls) tr r" and "keyed tr" and "E_delete_pvc (ns, name) x \<in> set tr"
  shows "HasSuffix name tmp_suffix"
proof -
  have "\<not> list_ex deletes_other tr"
    using tmp_only.keeps_runs [OF tmp_only_Secondary assms(1)] assms(2)
    by (simp add: deletes_temporary_only_def)
  then have "\<not> deletes_other (E_delete_pvc (ns, name) x)" using assms(3) by (auto simp: list_ex_iff)
  then show ?thesis by simp
qed

text \<open>A demotion in which a temporary PVC is still there, and the main one is gone.\<close>

definition restoring_kube :: "unit kube" where
  "restoring_kube = (steady_kube [] [sample_pvc ''app'' ''data''])
     \<lparr>k_get_pvc := (\<lambda>k u. (if snd k = ''data-tmp'' then Inr (sample_pvc (fst k) (snd k)) else Inl not_found, u))\<rparr>"

lemma restoring_run:
  "let (r, w) = run_state (Secondary_Reconcile restoring_kube (sample_vgr ''app'' ''group'') sample_class) steady_world
   in keyed (history w) \<and> E_delete_pvc (''app'', ''data-tmp'') None \<in> set (history w)"
  by (simp add: secondary_run_defs restoring_kube_def ClaimLost_def RestorePVCFromTemporary_def restore_names_def
      restore_from_def restored_pvc_def removeFinalizerFromPVC_def
      IsNotFound_def not_found_def cong: bind_eval_cong)

theorem secondary_deletes_temporary_only_witness:
  "\<exists>tr r. runs (Secondary_Reconcile restoring_kube (sample_vgr ''app'' ''group'') sample_class) tr r \<and>
     E_delete_pvc (''app'', ''data-tmp'') None \<in> set tr \<and> HasSuffix ''data-tmp'' tmp_suffix"
proof -
  obtain r w where run: "run_state (Secondary_Reconcile restoring_kube (sample_vgr ''app'' ''group'') sample_class)
      steady_world = (r, w)" by fastforce
  note rs = steady_runs [OF run]
  from restoring_run [unfolded run]
  have h: "keyed (history w)" "E_delete_pvc (''app'', ''data-tmp'') None \<in> set (history w)" by simp_all
  from secondary_deletes_temporary_only [OF rs h] rs h(2) show ?thesis by blast
qed

section \<open>Properties: a PVC in use\<close>

fun pause_failed :: "event \<Rightarrow> bool" where
  "pause_failed (E_delete_pod _ (Some _)) = True"
| "pause_failed (E_delete_job _ (Some _)) = True"
| "pause_failed (E_get_rs _ (Inl _)) = True"
| "pause_failed (E_update_rs _ (Inl _)) = True"
| "pause_failed _ = False"

fun sees_use :: "string \<Rightarrow> event \<Rightarrow> bool" where
  "sees_use name (E_list_pod _ (Inr pods)) = list_ex (uses_claim name) pods"
| "sees_use name _ = False"

lemma find_used: "list_ex P xs \<Longrightarrow> \<exists>x. find P xs = Some x"
  by (induction xs) auto

lemma post_isPVCInUse_seen:
  "post (isPVCInUse K ns name) (\<lambda>tr r. \<not> list_ex resumes_rs tr \<and> (list_ex (sees_use name) tr \<longrightarrow>
     r = Inr True \<or> (\<exists>e. r = Inl e) \<and> list_ex pause_failed tr))"
  unfolding isPVCInUse_def by (intro vcg) (auto dest: find_used)

lemma post_pause_outcome:
  "post (pauseReplicationSource K name ns) (\<lambda>tr r. \<not> list_ex resumes_rs tr \<and> \<not> list_ex (sees_use n) tr \<and>
     (r = None \<or> list_ex pause_failed tr))"
  unfolding pauseReplicationSource_def
proof (intro vcg, goal_cases)
  case (3 r s u s' d)
  then show ?case by (cases d) auto
qed simp_all

lemma post_HasTemporary_unseen:
  "post (HasTemporaryPVC K name ns) (\<lambda>tr r. \<not> list_ex resumes_rs tr \<and> \<not> list_ex (sees_use n) tr)"
  unfolding HasTemporaryPVC_def by (intro vcg) simp_all

lemma post_trigger_unseen:
  "post (triggerFinalSyncForPVC K p) (\<lambda>tr r. \<not> list_ex (sees_use n) tr)"
  unfolding triggerFinalSyncForPVC_def by (intro vcg) simp_all

lemma post_sync_pvc_in_use:
  "post (sync_pvc K acc p) (\<lambda>tr r. list_ex (sees_use (pvc_name p)) tr \<longrightarrow>
     (\<exists>err. r = Inl err \<and> \<not> list_ex resumes_rs tr \<and>
       (list_ex pause_failed tr \<or> err = Text (''PVC '' @ pvc_name p @ '' still in use''))))"
  unfolding sync_pvc_def Let_def
  by (intro vcg post_weaken [OF post_HasTemporary_unseen [where n = "pvc_name p"]]
        post_weaken [OF post_isPVCInUse_seen] post_weaken [OF post_trigger_unseen [where n = "pvc_name p"]]
        post_weaken [OF post_pause_outcome [where n = "pvc_name p"]]) auto

text \<open>
  C1: when a pod mounts the PVC, the pass of the final sync over it triggers nothing and ends in an
  error, and unless a call failed this error is not one that \<open>handleFinalSync\<close> recognises as
  waiting: its comparison has an empty name in place of the PVC's, so the reconciliation fails
  with an error instead of being tried again after ten seconds.
\<close>

theorem in_use_is_not_waited_for:
  assumes "runs (sync_pvc K acc p) tr r" and "E_list_pod opts (Inr pods) \<in> set tr"
    and "list_ex (uses_claim (pvc_name p)) pods" and "pvc_name p \<noteq> ''''"
  shows "\<exists>err. r = Inl err \<and> \<not> list_ex resumes_rs tr \<and>
     (list_ex pause_failed tr \<or>
      err = Text (''PVC '' @ pvc_name p @ '' still in use'') \<and> \<not> is_waiting_error err)"
proof -
  have "list_ex (sees_use (pvc_name p)) tr" using assms(2,3) by (force simp: list_ex_iff)
  moreover have "\<not> is_waiting_error (Text (''PVC '' @ pvc_name p @ '' still in use''))"
    using assms(4) by (cases "pvc_name p") (auto simp: is_waiting_error_def)
  ultimately show ?thesis using post_runs [OF post_sync_pvc_in_use assms(1)] by blast
qed

definition sample_pod :: pod where
  "sample_pod = \<lparr>pod_name = ''writer'', pod_namespace = ''app'', pod_labels = Map.empty,
     pod_volumes = [Some ''data'']\<rparr>"

theorem in_use_is_not_waited_for_witness:
  "\<exists>tr err. runs (sync_pvc (relocation_kube [sample_pod]) (0, []) (sample_pvc ''app'' ''data'')) tr (Inl err) \<and>
     \<not> list_ex resumes_rs tr \<and> err = Text ''PVC data still in use'' \<and> \<not> is_waiting_error err"
proof -
  let ?m = "sync_pvc (relocation_kube [sample_pod]) (0, []) (sample_pvc ''app'' ''data'')"
  obtain r w where run: "run_state ?m steady_world = (r, w)" by fastforce
  note rs = steady_runs [OF run]
  have "let (r, w) = run_state ?m steady_world
    in E_list_pod (in_namespace ''app'') (Inr [sample_pod]) \<in> set (history w) \<and> \<not> list_ex pause_failed (history w)"
    by (simp add: final_sync_run_defs sample_pod_def cong: bind_eval_cong)
  with run have h: "E_list_pod (in_namespace ''app'') (Inr [sample_pod]) \<in> set (history w)"
    "\<not> list_ex pause_failed (history w)" by simp_all
  have "list_ex (uses_claim (pvc_name (sample_pvc ''app'' ''data''))) [sample_pod]"
    "pvc_name (sample_pvc ''app'' ''data'') \<noteq> ''''"
    by (simp_all add: uses_claim_def sample_pod_def sample_pvc_def)
  from in_use_is_not_waited_for [OF rs h(1) this] h(2) rs show ?thesis by (auto simp: sample_pvc_def)
qed

end
