(* ===== verification/Controller.thy ===== *)
theory Controller
  imports Secondary_Props
begin

text \<open>
  internal/controller/delete_reconciler.go and volumegroupreplication_controller.go: the deletion
  of a VolumeGroupReplication, the main reconciliation that chooses between deletion, primary and
  secondary, and the watch set-up; and the start-up configuration of cmd/main.go.
\<close>

section \<open>Deletion\<close>

definition deletePVCs :: "'c kube \<Rightarrow> vs_handler \<Rightarrow> ('c, error) kop" where
  "deletePVCs K v = do {
     e \<leftarrow> DeletePVCsByLabel K v;
     case e of
       Some err \<Rightarrow> ret (Some err)
     | None \<Rightarrow> ret None
   }"

definition removePVCFinalizers :: "'c kube \<Rightarrow> vs_handler \<Rightarrow> ('c, error) kop" where
  "removePVCFinalizers K v = do {
     e \<leftarrow> RemoveFinalizersFromPVCsByLabel K v;
     case e of
       Some err \<Rightarrow> ret (Some err)
     | None \<Rightarrow> ret None
   }"

definition handlePVCDeletion :: "'c kube \<Rightarrow> vgr \<Rightarrow> vs_handler \<Rightarrow> ('c, error) kop" where
  "handlePVCDeletion K vgr v =
     (if vgr_replicationState vgr = Secondary then deletePVCs K v
      else removePVCFinalizers K v)"

definition deleteReplicationSources :: "'c kube \<Rightarrow> vs_handler \<Rightarrow> ('c, error) kop" where
  "deleteReplicationSources K v = do {
     e \<leftarrow> DeleteRSByLabel K v;
     case e of
       Some err \<Rightarrow> ret (Some err)
     | None \<Rightarrow> ret None
   }"

definition deleteReplicationDestinations :: "'c kube \<Rightarrow> vs_handler \<Rightarrow> ('c, error) kop" where
  "deleteReplicationDestinations K v = do {
     e \<leftarrow> DeleteRDByLabel K v;
     case e of
       Some err \<Rightarrow> ret (Some err)
     | None \<Rightarrow> ret None
   }"

definition removeFinalizer :: "'c kube \<Rightarrow> vgr \<Rightarrow> ('c, error) kop" where
  "removeFinalizer K vgr = do {
     u \<leftarrow> UpdateVGR K (vgr\<lparr>vgr_finalizers := k_remove_finalizer K (vgr_finalizers vgr) vgrFinalizer\<rparr>);
     case u of
       Inl err \<Rightarrow> ret (if IsNotFound err then None else Some err)
     | Inr _ \<Rightarrow> ret None
   }"

definition Delete_Reconcile :: "'c kube \<Rightarrow> vgr \<Rightarrow> ('c, ctrl_result \<times> error) kop" where
  "Delete_Reconcile K vgr = do {
     let vsHandler = NewVSHandler vgr '''';
     e1 \<leftarrow> deleteReplicationSources K vsHandler;
     case e1 of
       Some err \<Rightarrow> ret (no_requeue, Some err)
     | None \<Rightarrow> do {
     e2 \<leftarrow> deleteReplicationDestinations K vsHandler;
     case e2 of
       Some err \<Rightarrow> ret (no_requeue, Some err)
     | None \<Rightarrow> do {
     e3 \<leftarrow> handlePVCDeletion K vgr vsHandler;
     case e3 of
       Some err \<Rightarrow> ret (no_requeue, Some err)
     | None \<Rightarrow> do {
     e4 \<leftarrow> removeFinalizer K vgr;
     case e4 of
       Some err \<Rightarrow> ret (no_requeue, Some err)
     | None \<Rightarrow> ret (no_requeue, None)
     }}}}"

section \<open>The main reconciliation\<close>

text \<open>The three delegations, each a new reconciler for the object and its \<open>Reconcile\<close>.\<close>

definition reconcilePrimary ::
    "'c kube \<Rightarrow> vgr \<Rightarrow> vgr_class \<Rightarrow> ('c, (vgr \<times> ctrl_result \<times> error) outcome) kop" where
  "reconcilePrimary K vgr cls = Primary_Reconcile K vgr cls"

definition reconcileSecondary ::
    "'c kube \<Rightarrow> vgr \<Rightarrow> vgr_class \<Rightarrow> ('c, vgr \<times> ctrl_result \<times> error) kop" where
  "reconcileSecondary K vgr cls = Secondary_Reconcile K vgr cls"

definition reconcileDelete :: "'c kube \<Rightarrow> vgr \<Rightarrow> ('c, ctrl_result \<times> error) kop" where
  "reconcileDelete K vgr = Delete_Reconcile K vgr"

text \<open>Both modes end in a status update with the VGR the mode's reconciler left in memory.\<close>

definition finish :: "'c kube \<Rightarrow> vgr \<Rightarrow> ctrl_result \<Rightarrow> error \<Rightarrow> ('c, (ctrl_result \<times> error) outcome) kop" where
  "finish K vgr result err = do {
     u \<leftarrow> StatusUpdateVGR K vgr;
     case u of
       Inl e \<Rightarrow> ret (Returned (no_requeue, Some e))
     | Inr _ \<Rightarrow> ret (Returned (result, err))
   }"

definition Reconcile :: "'c kube \<Rightarrow> string \<Rightarrow> key \<Rightarrow> ('c, (ctrl_result \<times> error) outcome) kop" where
  "Reconcile K provisionerName req = do {
     r \<leftarrow> GetVGR K req;
     case r of
       Inl err \<Rightarrow> ret (Returned (no_requeue, IgnoreNotFound (Some err)))
     | Inr vgr \<Rightarrow> do {
     c \<leftarrow> GetClass K (vgr_className vgr);
     case c of
       Inl err \<Rightarrow> ret (Returned (no_requeue, Some err))
     | Inr cls \<Rightarrow>
     if class_provisioner cls \<noteq> provisionerName then ret (Returned (no_requeue, None))
     else if \<not> IsZero (vgr_deletionTimestamp vgr) then do {
       d \<leftarrow> reconcileDelete K vgr;
       ret (Returned d)
     }
     else if \<not> k_contains_finalizer K (vgr_finalizers vgr) vgrFinalizer then do {
       u \<leftarrow> UpdateVGR K (vgr\<lparr>vgr_finalizers := k_add_finalizer K (vgr_finalizers vgr) vgrFinalizer\<rparr>);
       case u of
         Inl err \<Rightarrow> ret (Returned (no_requeue, Some err))
       | Inr _ \<Rightarrow> ret (Returned (\<lparr>Requeue = True, RequeueAfter = 0\<rparr>, None))
     }
     else if vgr_replicationState vgr = Primary then do {
       p \<leftarrow> reconcilePrimary K vgr cls;
       case p of
         Panicked \<Rightarrow> ret Panicked
       | Returned x \<Rightarrow> (case x of (vgr', result, err) \<Rightarrow> finish K vgr' result err)
     }
     else if vgr_replicationState vgr = Secondary then do {
       s \<leftarrow> reconcileSecondary K vgr cls;
       case s of (vgr', result, err) \<Rightarrow> finish K vgr' result err
     }
     else ret (Returned (no_requeue, None))
     }}"

section \<open>Watches\<close>

text \<open>An object of a watch event, as the type assertion of the predicate sees it.\<close>

datatype watched = VRG vrg | OtherObject

datatype watch_event = CreateEvent | UpdateEvent watched watched | DeleteEvent | GenericEvent

fun vrgPredicate :: "watch_event \<Rightarrow> bool" where
  "vrgPredicate CreateEvent = True"
| "vrgPredicate (UpdateEvent (VRG old) (VRG new)) = (vrg_replicationState old \<noteq> vrg_replicationState new)"
| "vrgPredicate (UpdateEvent _ _) = False"
| "vrgPredicate DeleteEvent = False"
| "vrgPredicate GenericEvent = False"

definition vrgToVGRRequests :: "'c kube \<Rightarrow> string \<Rightarrow> ('c, key list) kop" where
  "vrgToVGRRequests K namespace = do {
     r \<leftarrow> ListVGR K (in_namespace namespace);
     case r of
       Inl _ \<Rightarrow> ret []
     | Inr items \<Rightarrow> ret (map (\<lambda>v. (vgr_namespace v, vgr_name v)) items)
   }"

section \<open>Start-up configuration\<close>

text \<open>\<open>os.Getenv\<close> is the argument \<open>env\<close>: the empty string for a variable that is not set.\<close>

definition getEnvOrDefault :: "(string \<Rightarrow> string) \<Rightarrow> string \<Rightarrow> string \<Rightarrow> string" where
  "getEnvOrDefault env key defaultValue = (if env key \<noteq> '''' then env key else defaultValue)"

end
