(* ===== verification/Controller_Props.thy ===== *)
theory Controller_Props
  imports Controller
begin

text \<open>
  The properties of deletion and of the main reconciliation: how a reconciliation goes on after
  its first two reads, what has to be done before a VGR is let go, what a deletion leaves alone
  and cannot reach, whom a reconciliation concerns, and when it is tried again.
\<close>

section \<open>The course of a reconciliation\<close>

text \<open>
  How a reconciliation goes on after it has read the VGR and its class: with nothing, with one of
  the three reconcilers, whose run is part of the history, or with adding the finalizer.
\<close>

definition finished :: "vgr \<Rightarrow> ctrl_result \<Rightarrow> error \<Rightarrow> event list \<Rightarrow> (ctrl_result \<times> error) outcome \<Rightarrow> bool" where
  "finished v result err t r \<longleftrightarrow>
     (\<exists>x. t = [E_status_vgr v x] \<and>
        r = Returned (case x of Inl e \<Rightarrow> (no_requeue, Some e) | Inr _ \<Rightarrow> (result, err)))"

definition with_finalizer :: "'c kube \<Rightarrow> vgr \<Rightarrow> vgr" where
  "with_finalizer K v = v\<lparr>vgr_finalizers := k_add_finalizer K (vgr_finalizers v) vgrFinalizer\<rparr>"

inductive dispatched :: "'c kube \<Rightarrow> string \<Rightarrow> vgr \<Rightarrow> vgr_class \<Rightarrow> event list \<Rightarrow>
    (ctrl_result \<times> error) outcome \<Rightarrow> bool" for K prov v cls where
  foreign: "class_provisioner cls \<noteq> prov \<Longrightarrow> dispatched K prov v cls [] (Returned (no_requeue, None))"
| delete: "class_provisioner cls = prov \<Longrightarrow> \<not> IsZero (vgr_deletionTimestamp v) \<Longrightarrow>
    runs (Delete_Reconcile K v) t d \<Longrightarrow> dispatched K prov v cls t (Returned d)"
| protect: "class_provisioner cls = prov \<Longrightarrow> IsZero (vgr_deletionTimestamp v) \<Longrightarrow>
    \<not> k_contains_finalizer K (vgr_finalizers v) vgrFinalizer \<Longrightarrow>
    r = (case x of Inl e \<Rightarrow> Returned (no_requeue, Some e)
      | Inr _ \<Rightarrow> Returned (\<lparr>Requeue = True, RequeueAfter = 0\<rparr>, None)) \<Longrightarrow>
    dispatched K prov v cls [E_update_vgr (with_finalizer K v) x] r"
| primary_panics: "class_provisioner cls = prov \<Longrightarrow> IsZero (vgr_deletionTimestamp v) \<Longrightarrow>
    k_contains_finalizer K (vgr_finalizers v) vgrFinalizer \<Longrightarrow> vgr_replicationState v = Primary \<Longrightarrow>
    runs (Primary_Reconcile K v cls) t Panicked \<Longrightarrow> dispatched K prov v cls t Panicked"
| primary: "class_provisioner cls = prov \<Longrightarrow> IsZero (vgr_deletionTimestamp v) \<Longrightarrow>
    k_contains_finalizer K (vgr_finalizers v) vgrFinalizer \<Longrightarrow> vgr_replicationState v = Primary \<Longrightarrow>
    runs (Primary_Reconcile K v cls) t (Returned (v', result, err)) \<Longrightarrow> finished v' result err t' r \<Longrightarrow>
    dispatched K prov v cls (t @ t') r"
| secondary: "class_provisioner cls = prov \<Longrightarrow> IsZero (vgr_deletionTimestamp v) \<Longrightarrow>
    k_contains_finalizer K (vgr_finalizers v) vgrFinalizer \<Longrightarrow> vgr_replicationState v \<noteq> Primary \<Longrightarrow>
    vgr_replicationState v = Secondary \<Longrightarrow>
    runs (Secondary_Reconcile K v cls) t (v', result, err) \<Longrightarrow> finished v' result err t' r \<Longrightarrow>
    dispatched K prov v cls (t @ t') r"
| unknown: "class_provisioner cls = prov \<Longrightarrow> IsZero (vgr_deletionTimestamp v) \<Longrightarrow>
    k_contains_finalizer K (vgr_finalizers v) vgrFinalizer \<Longrightarrow> vgr_replicationState v \<noteq> Primary \<Longrightarrow>
    vgr_replicationState v \<noteq> Secondary \<Longrightarrow> dispatched K prov v cls [] (Returned (no_requeue, None))"

inductive reconciled :: "'c kube \<Rightarrow> string \<Rightarrow> key \<Rightarrow> event list \<Rightarrow> (ctrl_result \<times> error) outcome \<Rightarrow> bool"
  for K prov req where
  no_vgr: "reconciled K prov req [E_get_vgr req (Inl e)] (Returned (no_requeue, IgnoreNotFound (Some e)))"
| no_class: "reconciled K prov req [E_get_vgr req (Inr v), E_get_class (vgr_className v) (Inl e)]
    (Returned (no_requeue, Some e))"
| dispatch: "dispatched K prov v cls t r \<Longrightarrow>
    reconciled K prov req (E_get_vgr req (Inr v) # E_get_class (vgr_className v) (Inr cls) # t) r"

lemma post_finish: "post (finish K v result err) (finished v result err)"
  unfolding finish_def by (intro vcg) (auto simp: finished_def)

fun delete_write :: "event \<Rightarrow> bool" where
  "delete_write (E_delete_rs _ _) = True"
| "delete_write (E_delete_rd _ _) = True"
| "delete_write (E_update_pv _ _) = True"
| "delete_write (E_update_pvc _ _) = True"
| "delete_write (E_delete_pvc _ _) = True"
| "delete_write (E_update_vgr _ _) = True"
| "delete_write _ = False"

lemma emits_Delete: "emits (\<lambda>e. read_event e \<or> delete_write e) (Delete_Reconcile K v)"
  unfolding Delete_Reconcile_def deleteReplicationSources_def deleteReplicationDestinations_def
    handlePVCDeletion_def deletePVCs_def removePVCFinalizers_def removeFinalizer_def
    RemoveFinalizersFromPVCsByLabel_def DeletePVCsByLabel_def delete_owned_pvc_def release_volume_def
    DeleteRSByLabel_def DeleteRDByLabel_def listByOwner_def Let_def
  by (intro emits_intros) simp_all

lemma post_Reconcile: "post (Reconcile K prov req) (reconciled K prov req)"
  unfolding Reconcile_def reconcilePrimary_def reconcileSecondary_def reconcileDelete_def
  by (intro vcg post_weaken [OF post_self [OF emits_Delete [unfolded emits_def]]]
        post_weaken [OF post_self [OF emits_Primary [unfolded emits_def]]]
        post_weaken [OF post_self [OF post_Secondary]] post_weaken [OF post_finish])
    (auto intro!: reconciled.intros intro: dispatched.intros simp: with_finalizer_def [symmetric])

section \<open>Properties: deletion\<close>

fun updates_vgr :: "event \<Rightarrow> bool" where
  "updates_vgr (E_update_vgr _ _) = True"
| "updates_vgr _ = False"

definition pvc_unprotected :: "'c kube \<Rightarrow> pvc \<Rightarrow> event list \<Rightarrow> bool" where
  "pvc_unprotected K p tr \<longleftrightarrow>
     (\<exists>a t b. tr = a @ t @ b \<and> finalizer_removal K (pvc_name p) (pvc_namespace p) t None)"

lemma pvc_unprotected_segment: "pvc_unprotected K p t \<Longrightarrow> pvc_unprotected K p (a @ t @ b)"
  unfolding pvc_unprotected_def by (metis append_assoc)

lemma pvc_unprotected_Cons: "pvc_unprotected K p t \<Longrightarrow> pvc_unprotected K p (e # t)"
  using pvc_unprotected_segment [of K p t "[e]" "[]"] by simp

lemma post_RemoveFinalizersFromPVCsByLabel:
  "post (RemoveFinalizersFromPVCsByLabel K v) (\<lambda>tr r. r = None \<longrightarrow>
     (\<exists>items. E_list_pvc (pvc_owner_options v) (Inr items) \<in> set tr \<and>
        (\<forall>p \<in> set items. pvc_unprotected K p tr)))"
proof -
  have loop: "post (for_each (\<lambda>p. do {
         e \<leftarrow> removeFinalizerFromPVC K (pvc_name p) (pvc_namespace p);
         case e of
           None \<Rightarrow> ret None
         | Some err \<Rightarrow> ret (Some (Wrap (''failed to remove finalizer from PVC '' @
             pvc_namespace p @ ''/'' @ pvc_name p @ '': '') err ''''))
       }) items) (\<lambda>tr r. r = None \<longrightarrow> (\<forall>p \<in> set items. pvc_unprotected K p tr))" for items
  proof (rule post_for_eachI [where P = "\<lambda>p t r. r = None \<longrightarrow> finalizer_removal K (pvc_name p) (pvc_namespace p) t None"])
    fix tr and r :: error
    assume "loop_trace (\<lambda>p t r. r = None \<longrightarrow> finalizer_removal K (pvc_name p) (pvc_namespace p) t None) items tr r"
    then show "r = None \<longrightarrow> (\<forall>p \<in> set items. pvc_unprotected K p tr)"
      unfolding pvc_unprotected_def by (auto dest!: loop_trace_segment)
  qed (intro vcg post_weaken [OF post_removeFinalizer], auto)
  show ?thesis
    unfolding RemoveFinalizersFromPVCsByLabel_def
    by (intro vcg post_weaken [OF loop]) (auto intro: pvc_unprotected_Cons)
qed

text \<open>All that has to be done before the finalizer of a VGR goes.\<close>

definition sources_deleted :: "vs_handler \<Rightarrow> event list \<Rightarrow> bool" where
  "sources_deleted h tr \<longleftrightarrow> (\<exists>items. E_list_rs (owner_options h) (Inr items) \<in> set tr \<and>
     (\<forall>s \<in> set items. \<exists>d. E_delete_rs (rs_key s) d \<in> set tr \<and> IgnoreNotFound d = None))"

definition destinations_deleted :: "vs_handler \<Rightarrow> event list \<Rightarrow> bool" where
  "destinations_deleted h tr \<longleftrightarrow> (\<exists>items. E_list_rd (owner_options h) (Inr items) \<in> set tr \<and>
     (\<forall>s \<in> set items. \<exists>d. E_delete_rd (rd_key s) d \<in> set tr \<and> IgnoreNotFound d = None))"

definition pvcs_released :: "'c kube \<Rightarrow> vgr \<Rightarrow> vs_handler \<Rightarrow> event list \<Rightarrow> bool" where
  "pvcs_released K vgr h tr \<longleftrightarrow> (\<exists>items. E_list_pvc (pvc_owner_options h) (Inr items) \<in> set tr \<and>
     (\<forall>p \<in> set items. if vgr_replicationState vgr = Secondary then pvc_deleted p tr
        else pvc_unprotected K p tr))"

lemma released_more:
  "sources_deleted h t \<Longrightarrow> sources_deleted h (a @ t @ b)"
  "destinations_deleted h t \<Longrightarrow> destinations_deleted h (a @ t @ b)"
  "pvcs_released K vgr h t \<Longrightarrow> pvcs_released K vgr h (a @ t @ b)"
proof -
  show "sources_deleted h t \<Longrightarrow> sources_deleted h (a @ t @ b)"
    "destinations_deleted h t \<Longrightarrow> destinations_deleted h (a @ t @ b)"
    unfolding sources_deleted_def destinations_deleted_def by (fastforce)+
  assume "pvcs_released K vgr h t"
  then obtain items where i: "E_list_pvc (pvc_owner_options h) (Inr items) \<in> set t"
    and p: "\<forall>p \<in> set items. if vgr_replicationState vgr = Secondary then pvc_deleted p t
      else pvc_unprotected K p t"
    unfolding pvcs_released_def by blast
  have "\<forall>p \<in> set items. if vgr_replicationState vgr = Secondary then pvc_deleted p (a @ t @ b)
      else pvc_unprotected K p (a @ t @ b)"
    using p pvc_deleted_segment pvc_unprotected_segment by (simp split: if_splits) blast
  with i show "pvcs_released K vgr h (a @ t @ b)" unfolding pvcs_released_def by auto
qed

lemma no_vgr_cleanup:
  "emits (\<lambda>e. \<not> updates_vgr e) (DeleteRSByLabel K v)" "emits (\<lambda>e. \<not> updates_vgr e) (DeleteRDByLabel K v)"
  unfolding DeleteRSByLabel_def DeleteRDByLabel_def listByOwner_def by (intro emits_intros; simp)+

lemma no_vgr_handlePVCDeletion: "emits (\<lambda>e. \<not> updates_vgr e) (handlePVCDeletion K vgr v)"
  unfolding handlePVCDeletion_def deletePVCs_def removePVCFinalizers_def
    RemoveFinalizersFromPVCsByLabel_def DeletePVCsByLabel_def delete_owned_pvc_def release_volume_def
  by (intro emits_intros) simp_all

lemma post_delete_steps:
  "post (DeleteRSByLabel K h) (\<lambda>tr r. (\<forall>e \<in> set tr. \<not> updates_vgr e) \<and> (r = None \<longrightarrow> sources_deleted h tr))"
  "post (DeleteRDByLabel K h) (\<lambda>tr r. (\<forall>e \<in> set tr. \<not> updates_vgr e) \<and> (r = None \<longrightarrow> destinations_deleted h tr))"
  "post (handlePVCDeletion K vgr h) (\<lambda>tr r. (\<forall>e \<in> set tr. \<not> updates_vgr e) \<and>
     (r = None \<longrightarrow> pvcs_released K vgr h tr))"
proof -
  show "post (DeleteRSByLabel K h) (\<lambda>tr r. (\<forall>e \<in> set tr. \<not> updates_vgr e) \<and> (r = None \<longrightarrow> sources_deleted h tr))"
    by (rule post_weaken [OF post_conj [OF no_vgr_cleanup(1) [unfolded emits_def] rs_cleanup.post_cleanup]])
      (auto simp: sources_deleted_def rs_cleanup.cleaned_def)
  show "post (DeleteRDByLabel K h) (\<lambda>tr r. (\<forall>e \<in> set tr. \<not> updates_vgr e) \<and> (r = None \<longrightarrow> destinations_deleted h tr))"
    by (rule post_weaken [OF post_conj [OF no_vgr_cleanup(2) [unfolded emits_def] rd_cleanup.post_cleanup]])
      (auto simp: destinations_deleted_def rd_cleanup.cleaned_def)
  have "post (handlePVCDeletion K vgr h) (\<lambda>tr r. r = None \<longrightarrow> pvcs_released K vgr h tr)"
    unfolding handlePVCDeletion_def deletePVCs_def removePVCFinalizers_def
    by (intro vcg post_weaken [OF post_DeletePVCsByLabel] post_weaken [OF post_RemoveFinalizersFromPVCsByLabel])
      (auto simp: pvcs_released_def)
  from post_conj [OF no_vgr_handlePVCDeletion [unfolded emits_def] this]
  show "post (handlePVCDeletion K vgr h) (\<lambda>tr r. (\<forall>e \<in> set tr. \<not> updates_vgr e) \<and>
     (r = None \<longrightarrow> pvcs_released K vgr h tr))" .
qed

definition released_in :: "'c kube \<Rightarrow> vgr \<Rightarrow> event list \<Rightarrow> bool" where
  "released_in K vgr tr \<longleftrightarrow> (let h = NewVSHandler vgr '''' in
     sources_deleted h tr \<and> destinations_deleted h tr \<and> pvcs_released K vgr h tr)"

definition unprotected_vgr :: "'c kube \<Rightarrow> vgr \<Rightarrow> vgr" where
  "unprotected_vgr K vgr = vgr\<lparr>vgr_finalizers := k_remove_finalizer K (vgr_finalizers vgr) vgrFinalizer\<rparr>"

definition delete_order :: "'c kube \<Rightarrow> vgr \<Rightarrow> event list \<Rightarrow> bool" where
  "delete_order K vgr tr \<longleftrightarrow> (\<forall>e \<in> set tr. \<not> updates_vgr e) \<or>
     (\<exists>before x. tr = before @ [E_update_vgr (unprotected_vgr K vgr) x] \<and>
        (\<forall>e \<in> set before. \<not> updates_vgr e) \<and> released_in K vgr before)"

lemma delete_order_quiet: "\<forall>e \<in> set tr. \<not> updates_vgr e \<Longrightarrow> delete_order K vgr tr"
  by (simp add: delete_order_def)

lemma delete_order_quiet_append:
  assumes "\<forall>e \<in> set a. \<not> updates_vgr e" "\<forall>e \<in> set b. \<not> updates_vgr e"
  shows "delete_order K vgr (a @ b)"
    "\<forall>e \<in> set c. \<not> updates_vgr e \<Longrightarrow> delete_order K vgr (a @ b @ c)"
  using assms by (auto intro!: delete_order_quiet)

lemma delete_order_done:
  assumes "sources_deleted (NewVSHandler vgr '''') a" and "destinations_deleted (NewVSHandler vgr '''') b"
    and "pvcs_released K vgr (NewVSHandler vgr '''') c"
    and "\<forall>e \<in> set a. \<not> updates_vgr e" "\<forall>e \<in> set b. \<not> updates_vgr e" "\<forall>e \<in> set c. \<not> updates_vgr e"
  shows "delete_order K vgr (a @ b @ c @ [E_update_vgr (unprotected_vgr K vgr) x])"
proof -
  have "released_in K vgr (a @ b @ c)"
    using released_more(1) [OF assms(1), of "[]" "b @ c"] released_more(2) [OF assms(2), of a c]
      released_more(3) [OF assms(3), of "a @ b" "[]"] by (simp add: released_in_def Let_def)
  with assms(4-6) show ?thesis
    unfolding delete_order_def by (intro disjI2 exI [of _ "a @ b @ c"] exI [of _ x]) auto
qed

lemma post_Delete_order: "post (Delete_Reconcile K vgr) (\<lambda>tr r. delete_order K vgr tr)"
  unfolding Delete_Reconcile_def deleteReplicationSources_def deleteReplicationDestinations_def
    removeFinalizer_def Let_def unprotected_vgr_def [symmetric]
  by (intro vcg post_weaken [OF post_delete_steps(1)] post_weaken [OF post_delete_steps(2)]
      post_weaken [OF post_delete_steps(3)])
    (auto intro: delete_order_quiet delete_order_quiet_append delete_order_done)

text \<open>
  C5: the deletion of a VGR writes the VGR at most once, as its last request, and only to drop its
  own finalizer; before that, the ReplicationSources and ReplicationDestinations with the owner's
  label were listed and each one listed was deleted or found gone, and the PVCs with the label
  were listed and each one was deleted with its volume, on a secondary, or lost the protecting
  finalizer, on a primary.
\<close>

theorem delete_releases_last:
  assumes "runs (Delete_Reconcile K vgr) tr r" and "tr = before @ E_update_vgr u x # after"
  shows "after = [] \<and> u = vgr\<lparr>vgr_finalizers := k_remove_finalizer K (vgr_finalizers vgr) vgrFinalizer\<rparr> \<and>
     sources_deleted (NewVSHandler vgr '''') before \<and> destinations_deleted (NewVSHandler vgr '''') before \<and>
     pvcs_released K vgr (NewVSHandler vgr '''') before"
proof -
  have "delete_order K vgr tr" using post_runs [OF post_Delete_order assms(1)] .
  moreover have "updates_vgr (E_update_vgr u x)" by simp
  ultimately obtain b y where b: "tr = b @ [E_update_vgr (unprotected_vgr K vgr) y]"
    "\<forall>e \<in> set b. \<not> updates_vgr e" "released_in K vgr b"
    unfolding delete_order_def assms(2) by auto
  from b(1) assms(2) have eq: "before @ E_update_vgr u x # after = b @ [E_update_vgr (unprotected_vgr K vgr) y]"
    by simp
  have "after = []"
  proof (rule ccontr)
    assume "after \<noteq> []"
    with eq have "before @ E_update_vgr u x # butlast after = b"
      by (metis butlast_append butlast_snoc list.distinct(1) butlast.simps(2))
    with b(2) show False by auto
  qed
  with eq b(3) show ?thesis
    by (auto simp: released_in_def Let_def unprotected_vgr_def)
qed

text \<open>A deletion with one ReplicationSource left.\<close>

definition leaving_kube :: "unit kube" where
  "leaving_kube = (steady_kube [] [sample_pvc ''app'' ''data''])
     \<lparr>k_list_rs := (\<lambda>opts u. (Inr [blank_rs (''app'', ''data'')], u))\<rparr>"

lemmas delete_run_defs =
  Delete_Reconcile_def deleteReplicationSources_def deleteReplicationDestinations_def handlePVCDeletion_def
  deletePVCs_def removePVCFinalizers_def removeFinalizer_def RemoveFinalizersFromPVCsByLabel_def
  DeletePVCsByLabel_def delete_owned_pvc_def release_volume_def DeleteRSByLabel_def DeleteRDByLabel_def
  listByOwner_def removeFinalizerFromPVC_def NewVSHandler_def PVCFinalizerName_def IgnoreNotFound_def
  steady_kube_def steady_world_def sample_defs handler_run_defs

lemma leaving_run:
  obtains tr r before x where "runs (Delete_Reconcile leaving_kube (sample_vgr ''app'' ''group'')) tr r"
    and "tr = before @ [E_update_vgr (sample_vgr ''app'' ''group'') x]"
    and "E_delete_rs (''app'', ''data'') None \<in> set before"
proof -
  let ?m = "Delete_Reconcile leaving_kube (sample_vgr ''app'' ''group'')"
  obtain r w where run: "run_state ?m steady_world = (r, w)" by fastforce
  have "let h = history (snd (run_state ?m steady_world))
    in (\<exists>x. last h = E_update_vgr (sample_vgr ''app'' ''group'') x) \<and> h \<noteq> [] \<and>
      E_delete_rs (''app'', ''data'') None \<in> set (butlast h)"
    by (simp add: delete_run_defs leaving_kube_def Secondary_def cong: bind_eval_cong)
  with run obtain x where "last (history w) = E_update_vgr (sample_vgr ''app'' ''group'') x"
    "history w \<noteq> []" "E_delete_rs (''app'', ''data'') None \<in> set (butlast (history w))" by (auto simp: Let_def)
  then show ?thesis
    using that [OF steady_runs [OF run], of "butlast (history w)" x] append_butlast_last_id by metis
qed

theorem delete_releases_last_witness:
  "\<exists>tr r before x. runs (Delete_Reconcile leaving_kube (sample_vgr ''app'' ''group'')) tr r \<and>
     tr = before @ [E_update_vgr (sample_vgr ''app'' ''group'') x] \<and>
     E_delete_rs (''app'', ''data'') None \<in> set before \<and>
     sources_deleted (NewVSHandler (sample_vgr ''app'' ''group'') '''') before"
proof -
  obtain tr r before x where r: "runs (Delete_Reconcile leaving_kube (sample_vgr ''app'' ''group'')) tr r"
    "tr = before @ [E_update_vgr (sample_vgr ''app'' ''group'') x]"
    "E_delete_rs (''app'', ''data'') None \<in> set before"
    by (rule leaving_run)
  from delete_releases_last [OF r(1,2)] r show ?thesis by blast
qed

text \<open>
  C34: the deletion of a VGR that is not secondary deletes no PVC and changes no volume, on any
  path: the data of a primary stays.
\<close>

theorem delete_keeps_primary_data:
  assumes "runs (Delete_Reconcile K vgr) tr r" and "vgr_replicationState vgr \<noteq> Secondary" and "e \<in> set tr"
  shows "\<not> is_create_pvc e \<and> \<not> is_delete_pvc e \<and> \<not> is_update_pv e"
proof -
  have "emits (\<lambda>e. \<not> is_create_pvc e \<and> \<not> is_delete_pvc e \<and> \<not> is_update_pv e) (Delete_Reconcile K vgr)"
    unfolding Delete_Reconcile_def deleteReplicationSources_def deleteReplicationDestinations_def
      handlePVCDeletion_def if_not_P [OF assms(2)] removePVCFinalizers_def removeFinalizer_def
      RemoveFinalizersFromPVCsByLabel_def DeleteRSByLabel_def DeleteRDByLabel_def listByOwner_def Let_def
    by (intro emits_intros) simp_all
  from emits_runs [OF this assms(1,3)] show ?thesis .
qed

theorem delete_keeps_primary_data_witness:
  "\<exists>tr r. runs (Delete_Reconcile leaving_kube (sample_vgr ''app'' ''group'')) tr r \<and> tr \<noteq> [] \<and>
     \<not> list_ex is_delete_pvc tr"
proof -
  obtain tr r before x where r: "runs (Delete_Reconcile leaving_kube (sample_vgr ''app'' ''group'')) tr r"
    "tr = before @ [E_update_vgr (sample_vgr ''app'' ''group'') x]"
    by (rule leaving_run)
  have "vgr_replicationState (sample_vgr ''app'' ''group'') \<noteq> Secondary"
    by (simp add: sample_vgr_def Secondary_def)
  from delete_keeps_primary_data [OF r(1) this] have "\<not> list_ex is_delete_pvc tr" by (auto simp: list_ex_iff)
  moreover have "tr \<noteq> []" by (simp add: r(2))
  ultimately show ?thesis using r(1) by blast
qed

section \<open>Properties: whom a reconciliation concerns\<close>

text \<open>
  A VGR whose class names another provisioner is not touched: after the two reads nothing else
  is asked, and the result is empty and without error.
\<close>

lemma foreign_vgr_untouched:
  assumes "runs (Reconcile K prov req) (E_get_vgr req (Inr v) # E_get_class n (Inr cls) # t) r"
    and "class_provisioner cls \<noteq> prov"
  shows "t = [] \<and> r = Returned (no_requeue, None)"
  using post_runs [OF post_Reconcile assms(1)] assms(2)
  by (auto elim!: reconciled.cases dispatched.cases)

text \<open>
  C26: everything but reads that a reconciliation asks concerns a VGR that is being deleted or has
  the operator's finalizer, but for the one update that adds this finalizer, after which the
  reconciliation ends.
\<close>

theorem writes_only_when_protected:
  assumes "runs (Reconcile K prov req) tr r" and "finalizer_functions K" and "e \<in> set tr" and "\<not> read_event e"
  shows "\<exists>v. E_get_vgr req (Inr v) = hd tr \<and>
     (\<not> IsZero (vgr_deletionTimestamp v) \<or> vgrFinalizer \<in> set (vgr_finalizers v) \<or>
      (\<exists>x. e = E_update_vgr (v\<lparr>vgr_finalizers := vgr_finalizers v @ [vgrFinalizer]\<rparr>) x \<and> e = last tr))"
  using post_runs [OF post_Reconcile assms(1)] assms(3,4)
  by (auto elim!: reconciled.cases dispatched.cases simp: finalizer_laws [OF assms(2)] with_finalizer_def)

text \<open>The VGR as it is stored.\<close>

definition stored_kube :: "vgr \<Rightarrow> unit kube" where
  "stored_kube v = (steady_kube [] [sample_pvc ''app'' ''data''])
     \<lparr>k_get_vgr := (\<lambda>k u. (Inr v, u))\<rparr>"

theorem writes_only_when_protected_witness:
  "\<exists>tr r x. runs (Reconcile (stored_kube (sample_vgr ''app'' ''group'')) ''mock'' (''app'', ''group'')) tr r \<and>
     last tr = E_update_vgr ((sample_vgr ''app'' ''group'')\<lparr>vgr_finalizers := [vgrFinalizer]\<rparr>) x"
proof -
  let ?v = "sample_vgr ''app'' ''group''"
  let ?m = "Reconcile (stored_kube ?v) ''mock'' (''app'', ''group'')"
  obtain r w where run: "run_state ?m steady_world = (r, w)" by fastforce
  have "list_ex (\<lambda>e. \<not> read_event e) (history (snd (run_state ?m steady_world))) \<and>
      hd (history (snd (run_state ?m steady_world))) = E_get_vgr (''app'', ''group'') (Inr ?v)"
    by (simp add: Reconcile_def stored_kube_def steady_kube_def steady_world_def client_defs sample_vgr_def
        sample_class_def IsZero_def cong: bind_eval_cong)
  with run obtain e where e: "e \<in> set (history w)" "\<not> read_event e"
    and hd: "hd (history w) = E_get_vgr (''app'', ''group'') (Inr ?v)" by (auto simp: list_ex_iff)
  have "finalizer_functions (stored_kube ?v)"
    using steady_finalizer_functions [of "[]" "[sample_pvc ''app'' ''data'']"]
    by (simp add: stored_kube_def finalizer_functions_def)
  from writes_only_when_protected [OF steady_runs [OF run] this e] hd
  obtain x where "last (history w) = E_update_vgr (?v\<lparr>vgr_finalizers := [vgrFinalizer]\<rparr>) x"
    by (auto simp: sample_vgr_def IsZero_def)
  with steady_runs [OF run] show ?thesis by blast
qed

section \<open>Properties: progress\<close>

definition conflict_seen :: "vgr \<Rightarrow> event list \<Rightarrow> bool" where
  "conflict_seen v tr \<longleftrightarrow> (\<exists>items. E_list_vrg (in_namespace (vgr_namespace v)) (Inr items) \<in> set tr \<and>
     list_ex (\<lambda>g. vrg_replicationState g = VRGSecondary) items)"

definition incomplete_sync_seen :: "event list \<Rightarrow> bool" where
  "incomplete_sync_seen tr \<longleftrightarrow> (\<exists>opts items. E_list_rs opts (Inr items) \<in> set tr \<and>
     \<not> list_all isFinalSyncComplete items)"

lemma positive_intervals [simp]:
  "0 < RequeueAfter (requeue_after requeueInterval)" "0 < RequeueAfter (requeue_after GetRequeueDuration)"
  "0 < RequeueAfter (requeue_after (10 * Second))"
  by (simp_all add: requeue_after_def requeueInterval_def GetRequeueDuration_def Second_def)

lemma post_conflict_seen:
  "post (checkVRGConflict K vgr) (\<lambda>tr x. fst x \<noteq> None \<longrightarrow> conflict_seen vgr tr)"
  by (rule post_weaken [OF post_checkVRGConflict])
    (auto simp: conflict_checked_def conflict_seen_def list_ex_iff split: if_splits)

lemma seen_append:
  "conflict_seen v t \<Longrightarrow> conflict_seen v (a @ t @ b)"
  "incomplete_sync_seen t \<Longrightarrow> incomplete_sync_seen (a @ t @ b)"
  unfolding conflict_seen_def incomplete_sync_seen_def by (fastforce)+

lemma post_Primary_progress:
  "post (Primary_Reconcile K vgr cls) (\<lambda>tr r. \<forall>v res. r = Returned (v, res, None) \<longrightarrow>
     0 < RequeueAfter res \<or> conflict_seen vgr tr)"
  unfolding Primary_Reconcile_def Let_def
  by (intro vcg post_weaken [OF post_conflict_seen]
        post_weaken [OF emits_no_vrg_listing(1) [unfolded emits_def]]
        post_weaken [OF emits_no_vrg_listing(2) [unfolded emits_def]])
    (auto dest: seen_append(1) [of _ _ "[]" "[]", simplified])

lemma post_handleFinalSync_progress:
  "post (handleFinalSync K vgr pvcs) (\<lambda>tr x. case x of (v, pvcs', run, res, err) \<Rightarrow>
     \<forall>y. res = Some y \<longrightarrow> 0 < RequeueAfter y)"
  unfolding handleFinalSync_def AreAllRSFinalSyncsComplete_def UpdateFinalSyncStatus_def status_update_def
  by (intro vcg post_weaken [OF post_ShouldRun] post_weaken [OF post_ProcessFinalSync_frame]
        post_weaken [OF post_set_condition_frame]) simp_all

lemma post_isFinalSyncComplete_progress:
  "post (secondary_isFinalSyncComplete K vgr) (\<lambda>tr r. r = Inr False \<longrightarrow> incomplete_sync_seen tr)"
  unfolding secondary_isFinalSyncComplete_def AreAllRSFinalSyncsComplete_def
  by (intro vcg) (auto simp: incomplete_sync_seen_def)

lemma post_report_progress:
  "post (reconcile_and_report K config vgr pvcs) (\<lambda>tr r. \<forall>v res. r = (v, res, None) \<longrightarrow> 0 < RequeueAfter res)"
  unfolding reconcile_and_report_def
  by (intro vcg post_weaken [OF post_demote_loop] post_weaken [OF post_secondary_updateStatus]) auto

lemma post_Secondary_progress:
  "post (Secondary_Reconcile K vgr cls) (\<lambda>tr r. \<forall>v res. r = (v, res, None) \<longrightarrow>
     0 < RequeueAfter res \<or> incomplete_sync_seen tr)"
  unfolding Secondary_Reconcile_def Let_def
  by (intro vcg post_weaken [OF post_getPVCList] post_weaken [OF post_handleFinalSync_progress]
        post_weaken [OF restoring_frame [where vgr = vgr]] post_weaken [OF post_isFinalSyncComplete_progress]
        post_weaken [OF post_report_progress])
    (auto simp del: append_assoc simp flip: append_assoc dest: seen_append(2) [of _ "a" "[]" for a, simplified])

lemma finishedD:
  assumes "finished v result err t (Returned (res, None))"
  shows "err = None \<and> result = res"
proof -
  from assms obtain x :: "vgr reply" where
    "Returned (res, None) = Returned (case x of Inl e \<Rightarrow> (no_requeue, Some e) | Inr _ \<Rightarrow> (result, err))"
    unfolding finished_def by blast
  then show ?thesis by (cases x) simp_all
qed

text \<open>
  C14: a reconciliation that ends without error and does not ask to be called again has a reason:
  the VGR is gone, belongs to another provisioner, is being deleted, asks for a state that is
  neither primary nor secondary, is a primary beside a secondary VRG, or is a secondary that has
  seen a ReplicationSource without its final sync. In every other case it is tried again.
\<close>

theorem reconcile_progress:
  assumes "runs (Reconcile K prov req) tr (Returned (res, None))"
    and "\<not> Requeue res" and "RequeueAfter res \<le> 0"
  shows "(\<exists>e. tr = [E_get_vgr req (Inl e)] \<and> IsNotFound e) \<or>
     (\<exists>v cls t. tr = E_get_vgr req (Inr v) # E_get_class (vgr_className v) (Inr cls) # t \<and>
        (class_provisioner cls \<noteq> prov \<or> \<not> IsZero (vgr_deletionTimestamp v) \<or>
         vgr_replicationState v \<notin> {Primary, Secondary} \<or>
         vgr_replicationState v = Primary \<and> conflict_seen v t \<or>
         vgr_replicationState v = Secondary \<and> incomplete_sync_seen t))"
  using post_runs [OF post_Reconcile assms(1)]
proof cases
  case (dispatch v cls t)
  from dispatch(2) have "class_provisioner cls \<noteq> prov \<or> \<not> IsZero (vgr_deletionTimestamp v) \<or>
         vgr_replicationState v \<notin> {Primary, Secondary} \<or>
         vgr_replicationState v = Primary \<and> conflict_seen v t \<or>
         vgr_replicationState v = Secondary \<and> incomplete_sync_seen t"
  proof cases
    case (primary t1 v' result err t')
    then have "err = None" "result = res" using finishedD by blast+
    then show ?thesis
      using post_runs [OF post_Primary_progress primary(6)] primary(1,5) assms(3)
        seen_append(1) [of v t1 "[]" t'] by auto
  next
    case (secondary t1 v' result err t')
    then have "err = None" "result = res" using finishedD by blast+
    then show ?thesis
      using post_runs [OF post_Secondary_progress secondary(7)] secondary(1,6) assms(3)
        seen_append(2) [of t1 "[]" t'] by auto
  qed (use assms(2) in \<open>auto split: sum.splits\<close>)
  with dispatch(1) show ?thesis by blast
qed (simp_all add: eq_commute [of None])

text \<open>A primary with the finalizer, beside a secondary VRG.\<close>

definition protected_vgr :: vgr where
  "protected_vgr = (sample_vgr ''app'' ''group'')\<lparr>vgr_finalizers := [vgrFinalizer]\<rparr>"

definition conflict_kube :: "unit kube" where
  "conflict_kube = (steady_kube [sample_secondary_vrg] [])\<lparr>k_get_vgr := (\<lambda>k u. (Inr protected_vgr, u))\<rparr>"

lemmas reconcile_run_defs =
  Reconcile_def reconcilePrimary_def finish_def pauseAllReplicationSources_def primary_run_defs
  steady_kube_def steady_world_def sample_defs

theorem reconcile_progress_witness:
  "\<exists>tr t. runs (Reconcile conflict_kube ''mock'' (''app'', ''group'')) tr (Returned (no_requeue, None)) \<and>
     tr = E_get_vgr (''app'', ''group'') (Inr protected_vgr) # E_get_class ''class'' (Inr sample_class) # t \<and>
     conflict_seen protected_vgr t"
proof -
  let ?m = "Reconcile conflict_kube ''mock'' (''app'', ''group'')"
  obtain r w where run: "run_state ?m steady_world = (r, w)" by fastforce
  have "fst (run_state ?m steady_world) = Returned (no_requeue, None) \<and>
      take 2 (history (snd (run_state ?m steady_world))) =
        [E_get_vgr (''app'', ''group'') (Inr protected_vgr), E_get_class ''class'' (Inr sample_class)]"
    by (simp add: reconcile_run_defs conflict_kube_def protected_vgr_def Primary_def
        sample_secondary_vrg_def VRGSecondary_def no_requeue_def cong: bind_eval_cong)
  with run have r: "r = Returned (no_requeue, None)"
    and h: "take 2 (history w) =
      [E_get_vgr (''app'', ''group'') (Inr protected_vgr), E_get_class ''class'' (Inr sample_class)]" by auto
  then obtain t where t: "history w = E_get_vgr (''app'', ''group'') (Inr protected_vgr) #
      E_get_class ''class'' (Inr sample_class) # t"
    by (metis append_Cons append_Nil append_take_drop_id)
  note rs = steady_runs [OF run, unfolded r t]
  have live: "class_provisioner sample_class = ''mock''" "IsZero (vgr_deletionTimestamp protected_vgr)"
    "vgr_replicationState protected_vgr = Primary" "Primary \<noteq> Secondary"
    "\<not> Requeue no_requeue" "RequeueAfter no_requeue \<le> 0"
    by (simp_all add: sample_class_def protected_vgr_def sample_vgr_def IsZero_def Primary_def Secondary_def
        no_requeue_def)
  from reconcile_progress [OF rs live(5,6)] live have "conflict_seen protected_vgr t" by auto
  with rs show ?thesis by blast
qed

section \<open>Properties: what a deletion cannot reach\<close>

text \<open>The server lists only objects of the namespace it is asked for.\<close>

definition namespaced_lists :: "event list \<Rightarrow> bool" where
  "namespaced_lists tr \<longleftrightarrow> (\<forall>opts items s. E_list_rs opts (Inr items) \<in> set tr \<longrightarrow> s \<in> set items \<longrightarrow>
     inNamespace opts = None \<or> inNamespace opts = Some (rs_namespace s))"

fun deletes_rs :: "event \<Rightarrow> bool" where
  "deletes_rs (E_delete_rs _ _) = True"
| "deletes_rs _ = False"

lemma post_deleted_listed:
  "post (DeleteRSByLabel K h) (\<lambda>tr r. \<forall>k d. E_delete_rs k d \<in> set tr \<longrightarrow>
     (\<exists>items s. E_list_rs (owner_options h) (Inr items) \<in> set tr \<and> s \<in> set items \<and> k = rs_key s))"
proof (rule post_weaken [OF rs_cleanup.cleanup_trace])
  fix tr and r :: error
  assume "(\<exists>e. tr = [E_list_rs (owner_options h) (Inl e)] \<and> r \<noteq> None) \<or>
      (\<exists>items t. tr = E_list_rs (owner_options h) (Inr items) # t \<and>
         loop_trace (\<lambda>x t' r'. \<exists>d. t' = [E_delete_rs (rs_key x) d] \<and>
           (r' = None \<longleftrightarrow> IgnoreNotFound d = None)) items t r)"
  then show "\<forall>k d. E_delete_rs k d \<in> set tr \<longrightarrow>
     (\<exists>items s. E_list_rs (owner_options h) (Inr items) \<in> set tr \<and> s \<in> set items \<and> k = rs_key s)"
  proof (elim disjE exE conjE)
    fix items t
    assume tr: "tr = E_list_rs (owner_options h) (Inr items) # t"
      and loop: "loop_trace (\<lambda>x t' r'. \<exists>d. t' = [E_delete_rs (rs_key x) d] \<and>
           (r' = None \<longleftrightarrow> IgnoreNotFound d = None)) items t r"
    show ?thesis
    proof (intro allI impI)
      fix k d
      assume "E_delete_rs k d \<in> set tr"
      then have "E_delete_rs k d \<in> set t" by (simp add: tr)
      from loop_trace_event [OF loop this] obtain s t' d' where s: "s \<in> set items"
        and t': "t' = [E_delete_rs (rs_key s) d']" "E_delete_rs k d \<in> set t'" by blast
      then have "k = rs_key s" by simp
      with s show "\<exists>items s. E_list_rs (owner_options h) (Inr items) \<in> set tr \<and> s \<in> set items \<and> k = rs_key s"
        by (auto simp: tr)
    qed
  qed simp
qed

lemma no_rs_rest:
  "emits (\<lambda>e. \<not> deletes_rs e) (DeleteRDByLabel K h)" "emits (\<lambda>e. \<not> deletes_rs e) (removeFinalizer K vgr)"
  unfolding DeleteRDByLabel_def listByOwner_def removeFinalizer_def by (intro emits_intros; simp)+

lemma no_rs_handlePVCDeletion: "emits (\<lambda>e. \<not> deletes_rs e) (handlePVCDeletion K vgr h)"
  unfolding handlePVCDeletion_def deletePVCs_def removePVCFinalizers_def
    RemoveFinalizersFromPVCsByLabel_def DeletePVCsByLabel_def delete_owned_pvc_def release_volume_def
  by (intro emits_intros) simp_all

text \<open>
  C35: the deletion of a VGR deletes ReplicationSources of its own namespace only. A primary lists
  its PVCs in every namespace and writes a ReplicationSource beside each of them, so those of
  other namespaces are never cleaned up.
\<close>

theorem cleanup_stays_in_namespace:
  assumes "runs (Delete_Reconcile K vgr) tr r" and "namespaced_lists tr" and "E_delete_rs k d \<in> set tr"
  shows "fst k = vgr_namespace vgr"
proof -
  have "post (Delete_Reconcile K vgr) (\<lambda>tr r. \<forall>k d. E_delete_rs k d \<in> set tr \<longrightarrow>
     (\<exists>items s. E_list_rs (owner_options (NewVSHandler vgr '''')) (Inr items) \<in> set tr \<and>
        s \<in> set items \<and> k = rs_key s))"
    unfolding Delete_Reconcile_def deleteReplicationSources_def deleteReplicationDestinations_def Let_def
    by (intro vcg post_weaken [OF post_deleted_listed] post_weaken [OF no_rs_rest(1) [unfolded emits_def]]
          post_weaken [OF no_rs_rest(2) [unfolded emits_def]]
          post_weaken [OF no_rs_handlePVCDeletion [unfolded emits_def]])
      (fastforce)+
  from post_runs [OF this assms(1)] assms(3) obtain items s
    where "E_list_rs (owner_options (NewVSHandler vgr '''')) (Inr items) \<in> set tr" "s \<in> set items" "k = rs_key s"
    by blast
  with assms(2) show ?thesis
    by (force simp: namespaced_lists_def owner_options_def NewVSHandler_def)
qed

text \<open>A primary in the namespace app that finds a PVC of another one, and the deletion of the same VGR.\<close>

lemma other_namespace_run:
  "list_ex (applies_rs (''other'', ''data'')) (history (snd (run_state
     (Primary_Reconcile (steady_kube [] [sample_pvc ''other'' ''data'']) (sample_vgr ''app'' ''group'') sample_class)
     steady_world)))"
  by (simp add: primary_run_defs sample_defs steady_kube_def steady_world_def cron_5m cong: bind_eval_cong)

theorem cleanup_stays_in_namespace_witness:
  "(\<exists>tr r. runs (Primary_Reconcile (steady_kube [] [sample_pvc ''other'' ''data'']) (sample_vgr ''app'' ''group'')
      sample_class) tr r \<and> list_ex (applies_rs (''other'', ''data'')) tr) \<and>
   (\<exists>tr r. runs (Delete_Reconcile leaving_kube (sample_vgr ''app'' ''group'')) tr r \<and>
      (\<forall>k d. E_delete_rs k d \<in> set tr \<longrightarrow> fst k = ''app''))"
proof
  let ?m = "Primary_Reconcile (steady_kube [] [sample_pvc ''other'' ''data'']) (sample_vgr ''app'' ''group'') sample_class"
  obtain r w where "run_state ?m steady_world = (r, w)" by fastforce
  with steady_runs [OF this] other_namespace_run
  show "\<exists>tr r. runs ?m tr r \<and> list_ex (applies_rs (''other'', ''data'')) tr" by fastforce
  let ?d = "Delete_Reconcile leaving_kube (sample_vgr ''app'' ''group'')"
  obtain r w where run: "run_state ?d steady_world = (r, w)" by fastforce
  have "list_all (\<lambda>e. \<forall>opts items. e = E_list_rs opts (Inr items) \<longrightarrow> items = [blank_rs (''app'', ''data'')] \<and>
      inNamespace opts = Some ''app'') (history (snd (run_state ?d steady_world)))"
    by (simp add: delete_run_defs leaving_kube_def owner_options_def Secondary_def cong: bind_eval_cong)
  with run have "namespaced_lists (history w)"
    by (fastforce simp: namespaced_lists_def list_all_iff blank_rs_def)
  moreover have "vgr_namespace (sample_vgr ''app'' ''group'') = ''app''" by (simp add: sample_vgr_def)
  ultimately have "\<forall>k d. E_delete_rs k d \<in> set (history w) \<longrightarrow> fst k = ''app''"
    using cleanup_stays_in_namespace [OF steady_runs [OF run]] by metis
  with steady_runs [OF run]
  show "\<exists>tr r. runs ?d tr r \<and> (\<forall>k d. E_delete_rs k d \<in> set tr \<longrightarrow> fst k = ''app'')" by blast
qed

end
