(* ===== verification/Lifecycle.thy ===== *)
theory Lifecycle
  imports Controller_Props
begin

text \<open>
  The life of one VolumeGroupReplication as a state machine, the composition of all parts: any
  number of reconciliations of \<open>Controller\<close>, one after the other, among the steps of other clients.
  Its state is what the VGR's finalizer is there for: whether the stored VGR carries it, and which
  ReplicationSources and ReplicationDestinations of its namespace carry the VGR's owner label. The
  history of a reconciliation is replayed on that state.
\<close>

section \<open>The abstract state\<close>

record life =
  l_protected :: bool
  l_sources :: "key set"
  l_destinations :: "key set"

definition owner_of :: "key \<Rightarrow> vs_handler" where
  "owner_of req = \<lparr>owner_name = snd req, owner_namespace = fst req, schedulingInterval = ''''\<rparr>"

text \<open>
  Truthful answers: a read of the VGR shows whether it carries the finalizer, a listing by owner
  shows every object with the label, and what a read by key does not find is not there. Reads are
  up to date: a lagging cache is outside this model.
\<close>

fun truthful :: "key \<Rightarrow> event \<Rightarrow> life \<Rightarrow> bool" where
  "truthful req (E_get_vgr k (Inr v)) L =
     (k = req \<longrightarrow> vgr_key v = req \<and> (vgrFinalizer \<in> set (vgr_finalizers v)) = l_protected L)"
| "truthful req (E_list_rs opts (Inr items)) L =
     (opts = owner_options (owner_of req) \<longrightarrow> l_sources L \<subseteq> rs_key ` set items)"
| "truthful req (E_list_rd opts (Inr items)) L =
     (opts = owner_options (owner_of req) \<longrightarrow> l_destinations L \<subseteq> rd_key ` set items)"
| "truthful req (E_get_rs k (Inl e)) L = (IsNotFound e \<longrightarrow> k \<notin> l_sources L)"
| "truthful req (E_get_rd k (Inl e)) L = (IsNotFound e \<longrightarrow> k \<notin> l_destinations L)"
| "truthful req _ L = True"

text \<open>The state after an answer, when no other client interferes.\<close>

fun next_life :: "key \<Rightarrow> event \<Rightarrow> life \<Rightarrow> life" where
  "next_life req (E_update_vgr v (Inr _)) L =
     (if vgr_key v = req then L\<lparr>l_protected := vgrFinalizer \<in> set (vgr_finalizers v)\<rparr> else L)"
| "next_life req (E_apply_rs k _ _) L =
     (if fst k = fst req then L\<lparr>l_sources := insert k (l_sources L)\<rparr> else L)"
| "next_life req (E_delete_rs k d) L =
     (if IgnoreNotFound d = None then L\<lparr>l_sources := l_sources L - {k}\<rparr> else L)"
| "next_life req (E_apply_rd k _ _) L =
     (if fst k = fst req then L\<lparr>l_destinations := insert k (l_destinations L)\<rparr> else L)"
| "next_life req (E_delete_rd k d) L =
     (if IgnoreNotFound d = None then L\<lparr>l_destinations := l_destinations L - {k}\<rparr> else L)"
| "next_life req _ L = L"

text \<open>
  One request, with what others do meanwhile: objects may disappear or lose the label, and an
  update of the VGR that was answered with an error may have had its effect all the same.
\<close>

definition answered :: "key \<Rightarrow> event \<Rightarrow> life \<Rightarrow> life \<Rightarrow> bool" where
  "answered req e L L' \<longleftrightarrow> truthful req e L \<and> answer_keyed e \<and>
     l_sources L' \<subseteq> l_sources (next_life req e L) \<and>
     l_destinations L' \<subseteq> l_destinations (next_life req e L) \<and>
     (l_protected L' = l_protected (next_life req e L) \<or>
      (\<exists>v x. e = E_update_vgr v x \<and> l_protected L' = (vgrFinalizer \<in> set (vgr_finalizers v))))"

inductive replay :: "key \<Rightarrow> event list \<Rightarrow> life \<Rightarrow> life \<Rightarrow> bool" for req where
  replay_Nil: "replay req [] L L"
| replay_Cons: "answered req e L M \<Longrightarrow> replay req es M L' \<Longrightarrow> replay req (e # es) L L'"

inductive_simps replay_Nil_iff [simp]: "replay req [] L L'"




section \<open>Replaying histories\<close>



lemma next_life_update [simp]:
  "l_sources (next_life req (E_update_vgr v x) L) = l_sources L"
  "l_destinations (next_life req (E_update_vgr v x) L) = l_destinations L"
  by (cases x; simp)+






section \<open>No reconciliation leaves orphans\<close>



















section \<open>Never both for one PVC, over a whole life\<close>















section \<open>A deletion comes to its end\<close>

text \<open>Answers that stop a deletion: a request that failed, not counting what was already gone.\<close>

fun obstacle :: "event \<Rightarrow> bool" where
  "obstacle (E_list_rs _ (Inl _)) = True"
| "obstacle (E_list_rd _ (Inl _)) = True"
| "obstacle (E_list_pvc _ (Inl _)) = True"
| "obstacle (E_get_pvc _ (Inl e)) = (\<not> IsNotFound e)"
| "obstacle (E_get_pv _ (Inl e)) = (\<not> IsNotFound e)"
| "obstacle (E_update_pvc _ (Inl _)) = True"
| "obstacle (E_update_pv _ (Inl _)) = True"
| "obstacle (E_update_vgr _ (Inl _)) = True"
| "obstacle (E_delete_rs _ d) = (IgnoreNotFound d \<noteq> None)"
| "obstacle (E_delete_rd _ d) = (IgnoreNotFound d \<noteq> None)"
| "obstacle (E_delete_pvc _ d) = (IgnoreNotFound d \<noteq> None)"
| "obstacle _ = False"

definition blamed :: "event list \<Rightarrow> error \<Rightarrow> bool" where
  "blamed tr r \<longleftrightarrow> r \<noteq> None \<longrightarrow> list_ex obstacle tr"

lemma blamed_simps [simp]: "blamed tr None" "blamed tr (Some e) \<longleftrightarrow> list_ex obstacle tr"
  by (simp_all add: blamed_def)














end
