(* ===== verification/Status_Type.thy ===== *)
theory Status_Type
  imports Controller_Props
begin

text \<open>
  The type of the status conditions, as the API declares it: a list with at most one condition of
  each type, each with a type, a reason, and one of three statuses. Every status that a
  reconciliation sends is of this type if what it was given is.
\<close>

section \<open>The type\<close>

definition valid_condition :: "condition \<Rightarrow> bool" where
  "valid_condition c \<longleftrightarrow> cond_type c \<noteq> '''' \<and> cond_reason c \<noteq> '''' \<and>
     cond_status c \<in> {ConditionTrue, ConditionFalse, ''Unknown''}"

definition valid_status :: "vgr \<Rightarrow> bool" where
  "valid_status v \<longleftrightarrow> distinct (condition_types (vgr_conditions v)) \<and> list_all valid_condition (vgr_conditions v)"

lemma valid_status_frame [simp]:
  "valid_status (v\<lparr>vgr_state := a\<rparr>) = valid_status v"
  "valid_status (v\<lparr>vgr_pvcRefs := b\<rparr>) = valid_status v"
  "valid_status (v\<lparr>vgr_lastSyncTime := c\<rparr>) = valid_status v"
  "valid_status (v\<lparr>vgr_observedGeneration := g\<rparr>) = valid_status v"
  "valid_status (v\<lparr>vgr_conditions := []\<rparr>)"
  by (simp_all add: valid_status_def condition_types_def)

lemma valid_put:
  "list_all valid_condition cs \<Longrightarrow> valid_condition c \<Longrightarrow> list_all valid_condition (put_condition c cs)"
  by (induction cs) (auto simp: condition_eq_fields)

text \<open>A part of a run that starts with one in-memory VGR and ends with another.\<close>

definition typed :: "vgr \<Rightarrow> event list \<Rightarrow> vgr \<Rightarrow> bool" where
  "typed v tr v' \<longleftrightarrow> valid_status v \<longrightarrow> (\<forall>u w. (u, Inr w) \<in> set (sent_status tr) \<longrightarrow> valid_status w) \<longrightarrow>
     (\<forall>u x. (u, x) \<in> set (sent_status tr) \<longrightarrow> valid_status u) \<and> valid_status v'"

lemma typed_frame [simp]:
  "typed (v\<lparr>vgr_state := a\<rparr>) tr u = typed v tr u"
  "typed (v\<lparr>vgr_pvcRefs := b\<rparr>) tr u = typed v tr u"
  "typed (v\<lparr>vgr_lastSyncTime := c\<rparr>) tr u = typed v tr u"
  "typed (v\<lparr>vgr_observedGeneration := g\<rparr>) tr u = typed v tr u"
  by (simp_all add: typed_def)

lemma typed_append:
  assumes "typed v s u" and "typed u t v'"
  shows "typed v (s @ t) v'"
proof -
  have "(\<forall>a x. (a, x) \<in> set (sent_status (s @ t)) \<longrightarrow> valid_status a) \<and> valid_status v'"
    if v: "valid_status v" and a: "\<forall>a w. (a, Inr w) \<in> set (sent_status (s @ t)) \<longrightarrow> valid_status w"
  proof -
    have "\<forall>a w. (a, Inr w) \<in> set (sent_status s) \<longrightarrow> valid_status w"
      "\<forall>a w. (a, Inr w) \<in> set (sent_status t) \<longrightarrow> valid_status w" using a by simp_all
    with assms v show ?thesis unfolding typed_def by simp blast
  qed
  then show ?thesis unfolding typed_def by blast
qed

lemma typed_silent: "sent_status s = [] \<Longrightarrow> valid_status v \<longrightarrow> valid_status u \<Longrightarrow> typed v s u"
  by (simp add: typed_def)

text \<open>Rules that go along the program text: a step that returns the VGR, one that sends no status.\<close>

lemma typed_bind:
  assumes "post m (\<lambda>tr r. typed v tr (h r))" and "\<And>r. post (f r) (\<lambda>tr x. typed (h r) tr (g x))"
  shows "post (m \<bind> f) (\<lambda>tr x. typed v tr (g x))"
proof (rule post_bind, rule post_weaken [OF assms(1)])
  fix tr r
  assume "typed v tr (h r)"
  then show "post (f r) (\<lambda>tr' x. typed v (tr @ tr') (g x))"
    by (intro post_weaken [OF assms(2)]) (rule typed_append)
qed

lemma typed_bind_pair:
  assumes "post m (\<lambda>tr r. typed v tr (fst r))" and "\<And>u y. post (f u y) (\<lambda>tr x. typed u tr (g x))"
  shows "post (m \<bind> case_prod f) (\<lambda>tr x. typed v tr (g x))"
  by (rule typed_bind [OF assms(1)]) (use assms(2) in \<open>simp split: prod.split\<close>)

lemma typed_skip:
  assumes "emits (\<lambda>e. \<not> status_event e) m" and "\<And>r. post (f r) (\<lambda>tr x. typed v tr (g x))"
  shows "post (m \<bind> f) (\<lambda>tr x. typed v tr (g x))"
proof (rule typed_bind [where h = "\<lambda>_. v"])
  show "post m (\<lambda>tr r. typed v tr v)"
    using assms(1) unfolding emits_def
    by (elim post_weaken) (simp add: typed_silent sent_status_quiet)
qed (rule assms(2))

lemma typed_ret: "valid_status v \<longrightarrow> valid_status (g r) \<Longrightarrow> post (ret r) (\<lambda>tr x. typed v tr (g x))"
  by (intro vcg) (simp add: typed_silent)

section \<open>The parts of a reconciliation\<close>

lemma typed_set_condition:
  assumes "t \<noteq> ''''" and "rs \<noteq> ''''"
  shows "post (set_vgr_condition K t st rs msg vgr) (\<lambda>tr v. typed vgr tr v)"
  unfolding set_vgr_condition_def
  by (intro vcg post_weaken [OF post_setCondition])
    (use assms in \<open>auto intro!: typed_silent simp: valid_status_def valid_put valid_condition_def\<close>)

lemma typed_status_update: "post (status_update K vgr) (\<lambda>tr r. typed vgr tr (fst r))"
  unfolding status_update_def by (intro vcg) (auto simp: typed_def)

lemma typed_primary_update: "post (primary_updateStatus K vgr names sync) (\<lambda>tr r. typed vgr tr (fst r))"
proof -
  let ?v = "vgr\<lparr>vgr_state := PrimaryState, vgr_pvcRefs := names, vgr_lastSyncTime := sync,
    vgr_observedGeneration := vgr_generation vgr\<rparr>"
  have "post (primary_updateStatus K vgr names sync) (\<lambda>tr r. typed ?v tr (fst r))"
    unfolding primary_updateStatus_def Let_def
    by (intro typed_bind [where h = "\<lambda>v. v"] typed_set_condition typed_status_update) simp_all
  then show ?thesis by simp
qed

lemma typed_secondary_update: "post (secondary_updateStatus K vgr names ready) (\<lambda>tr r. typed vgr tr (fst r))"
proof (cases "vgr_state vgr = SecondaryState")
  case True
  let ?v = "vgr\<lparr>vgr_conditions := [], vgr_pvcRefs := names, vgr_observedGeneration := vgr_generation vgr\<rparr>"
  have "post (secondary_updateStatus K vgr names ready) (\<lambda>tr r. typed ?v tr (fst r))"
    using True typed_status_update [of K ?v] by (simp add: secondary_updateStatus_def)
  then show ?thesis by (rule post_weaken) (simp add: typed_def)
next
  case False
  let ?v = "vgr\<lparr>vgr_state := (if ready then SecondaryState else vgr_state vgr), vgr_pvcRefs := names,
    vgr_observedGeneration := vgr_generation vgr\<rparr>"
  have "post (secondary_updateStatus K vgr names ready) (\<lambda>tr r. typed ?v tr (fst r))"
    unfolding secondary_updateStatus_def Let_def if_not_P [OF False]
    by (intro post_if typed_bind [where h = "\<lambda>v. v"] typed_set_condition typed_status_update) simp_all
  then show ?thesis by simp
qed

lemma silent_parts:
  "emits (\<lambda>e. \<not> status_event e) (ShouldRunFinalSync K vgr)"
  "emits (\<lambda>e. \<not> status_event e) (AreAllRSFinalSyncsComplete K vgr)"
  "emits (\<lambda>e. \<not> status_event e) (fold_each (prepare_pvc K) acc pvcs)"
  "emits (\<lambda>e. \<not> status_event e) (fold_each (sync_pvc K) acc' pvcs)"
  "emits (\<lambda>e. \<not> status_event e) (getPVCList K vgr)"
  "emits (\<lambda>e. \<not> status_event e) (checkVRGConflict K vgr)"
  "emits (\<lambda>e. \<not> status_event e) (ListPVC K opts)"
  unfolding ShouldRunFinalSync_def AreAllRSFinalSyncsComplete_def prepare_pvc_def handleLostTemporaryPVC_def
    IsPVCTerminating_def handleTerminatingPVC_def sync_pvc_def HasTemporaryPVC_def isPVCInUse_def
    pauseReplicationSource_def triggerFinalSyncForPVC_def getPVCList_def checkVRGConflict_def
    pauseAllReplicationSources_def pause_and_stop_def delete_volsync_pod_def Let_def
  by (intro emits_intros; simp)+

lemma silent_restore: "emits (\<lambda>e. \<not> status_event e) (restoreTemporaryPVCs K pvcs)"
  unfolding restoreTemporaryPVCs_def HasTemporaryPVC_def by (intro emits_intros) simp_all

lemma silent_destinations:
  "emits (\<lambda>e. \<not> status_event e) (reconcileReplicationDestinations K vgr config pvcs)"
  by (rule emits_mono [OF no_vrg_destinations]) simp

lemma silent_sources: "emits (\<lambda>e. \<not> status_event e) (reconcileReplicationSources K v config pvcs)"
proof -
  have "emits (\<lambda>e. \<not> status_event e) (ReconcileRS K v name ns b)" for name ns b
    unfolding ReconcileRS_def IsPVCTerminating_def validateSecretAndAddOwnerRef_def DeleteRD_def
      getReplicationDestinationName_def ensurePVCLabels_def createOrUpdateRS_def addFinalizerToPVC_def
      GetReplicationSourceName_def Let_def
    by (intro emits_intros) simp_all
  then show ?thesis
    unfolding reconcileReplicationSources_def protect_pvc_def reconcilePVCReplicationSource_def Let_def
    by (intro emits_intros) simp_all
qed

lemma typed_ProcessFinalSync: "post (ProcessFinalSync K vgr pvcs) (\<lambda>tr r. typed vgr tr (fst r))"
  unfolding ProcessFinalSync_def
  by (intro typed_skip [OF silent_parts(1)] post_if typed_ret
        typed_bind [OF typed_set_condition] typed_skip [OF silent_parts(3)]
        typed_skip [OF silent_parts(4)] post_sum post_prod) simp_all

lemma typed_UpdateFinalSyncStatus: "post (UpdateFinalSyncStatus K vgr res) (\<lambda>tr r. typed vgr tr (fst r))"
  unfolding UpdateFinalSyncStatus_def
  by (intro post_if typed_bind [OF typed_set_condition] typed_ret) simp_all

lemma typed_handleFinalSync: "post (handleFinalSync K vgr pvcs) (\<lambda>tr r. typed vgr tr (fst r))"
  unfolding handleFinalSync_def
  by (intro typed_skip [OF silent_parts(1)] typed_skip [OF silent_parts(2)] post_if typed_ret post_sum
        post_prod typed_bind_pair [OF typed_ProcessFinalSync] typed_bind_pair [OF typed_UpdateFinalSyncStatus]
        typed_bind_pair [OF typed_status_update] post_option) simp_all

lemma typed_reconcile_and_report:
  "post (reconcile_and_report K config vgr pvcs) (\<lambda>tr r. typed vgr tr (fst r))"
  unfolding reconcile_and_report_def
  by (intro typed_skip [OF silent_destinations] post_sum typed_ret
        typed_bind_pair [OF typed_secondary_update] post_prod post_option) simp_all

lemma typed_Secondary: "post (Secondary_Reconcile K vgr cls) (\<lambda>tr r. typed vgr tr (fst r))"
  unfolding Secondary_Reconcile_def secondary_isFinalSyncComplete_def Let_def
  by (intro typed_skip [OF silent_parts(5)] post_sum typed_ret post_if
        typed_bind_pair [OF typed_handleFinalSync] post_prod post_option typed_skip [OF silent_restore]
        typed_skip [OF emits_if [OF silent_parts(2) emits_ret]] typed_reconcile_and_report) simp_all

text \<open>A primary may panic; the in-memory VGR is then lost, and no status was sent.\<close>

fun left_in_memory :: "vgr \<Rightarrow> (vgr \<times> ctrl_result \<times> error) outcome \<Rightarrow> vgr" where
  "left_in_memory vgr (Returned x) = fst x"
| "left_in_memory vgr Panicked = vgr"

lemma typed_Primary: "post (Primary_Reconcile K vgr cls) (\<lambda>tr r. typed vgr tr (left_in_memory vgr r))"
  unfolding Primary_Reconcile_def Let_def
  by (intro post_option post_sum typed_ret typed_skip [OF silent_parts(6)] post_if post_prod
        typed_skip [OF silent_parts(7)] typed_skip [OF silent_sources]
        typed_bind_pair [OF typed_primary_update]) simp_all

section \<open>Whole reconciliations\<close>

lemma typed_finished:
  assumes "typed v t v'" and "finished v' result err t' r"
  shows "typed v (t @ t') v'"
proof -
  obtain x where "t' = [E_status_vgr v' x]" using assms(2) by (auto simp: finished_def)
  then have "typed v' t' v'" by (simp add: typed_def)
  with assms(1) show ?thesis by (rule typed_append)
qed

lemma typed_dispatched:
  assumes "dispatched K prov v cls t r" shows "\<exists>v'. typed v t v'"
  using assms
proof cases
  case (delete d)
  have "\<forall>e \<in> set t. \<not> status_event e"
  proof
    fix e
    assume "e \<in> set t"
    from emits_runs [OF emits_Delete delete(4) this] show "\<not> status_event e" by (cases e) auto
  qed
  then show ?thesis using typed_silent [OF sent_status_quiet, of t v v] by blast
next
  case primary_panics
  then show ?thesis using post_runs [OF typed_Primary] by blast
next
  case (primary t1 v' result err t2)
  then show ?thesis using typed_finished post_runs [OF typed_Primary primary(6)] by fastforce
next
  case (secondary t1 v' result err t2)
  then show ?thesis using typed_finished post_runs [OF typed_Secondary secondary(7)] by fastforce
qed (auto intro!: exI [of _ v] simp: typed_silent)

text \<open>The types of the VGRs the server gives out, and of the statuses it is sent.\<close>

fun typed_answer :: "event \<Rightarrow> bool" where
  "typed_answer (E_get_vgr _ (Inr v)) = valid_status v"
| "typed_answer (E_status_vgr _ (Inr v)) = valid_status v"
| "typed_answer _ = True"

fun sends_typed :: "event \<Rightarrow> bool" where
  "sends_typed (E_status_vgr v _) = valid_status v"
| "sends_typed _ = True"

text \<open>
  C21: every status a reconciliation sends has well-typed conditions, on every path, the second
  update included that repeats what the server made of the first: no condition type twice, and
  each condition with a type, a reason and a status of the three. It needs that the VGR it read
  and the server's answers to its status updates have well-typed conditions.
\<close>

theorem conditions_well_typed:
  assumes "runs (Reconcile K prov req) tr r" and "list_all typed_answer tr"
  shows "list_all sends_typed tr"
  using post_runs [OF post_Reconcile assms(1)]
proof cases
  case (dispatch v cls t)
  from typed_dispatched [OF dispatch(2)] obtain v' where t: "typed v t v'" by blast
  have a: "valid_status v" "list_all typed_answer t" using assms(2) dispatch(1) by simp_all
  then have "\<forall>u w. (u, Inr w) \<in> set (sent_status t) \<longrightarrow> valid_status w"
    by (force simp: sent_status_mem list_all_iff)
  with t a(1) have "\<forall>u x. E_status_vgr u x \<in> set t \<longrightarrow> valid_status u"
    unfolding typed_def sent_status_mem by blast
  then have "sends_typed e" if "e \<in> set t" for e
    using that by (cases e) auto
  then show ?thesis using dispatch(1) by (simp add: list_all_iff)
qed simp_all

text \<open>A primary, from its first reconciliation with the finalizer.\<close>

theorem conditions_well_typed_witness:
  "\<exists>tr r. runs (Reconcile (stored_kube protected_vgr) ''mock'' (''app'', ''group'')) tr r \<and>
     list_all sends_typed tr \<and> list_ex (\<lambda>e. status_event e \<and> sends_typed e) tr"
proof -
  let ?m = "Reconcile (stored_kube protected_vgr) ''mock'' (''app'', ''group'')"
  let ?h = "history (snd (run_state ?m steady_world))"
  have r: "runs ?m ?h (fst (run_state ?m steady_world))" by (rule steady_runs) simp
  have "list_all typed_answer ?h \<and> list_ex status_event ?h"
    by (simp add: reconcile_run_defs stored_kube_def protected_vgr_def Primary_def cron_5m valid_status_def
        valid_condition_def condition_types_def ConditionTrue_def ConditionFalse_def cong: bind_eval_cong)
  then have a: "list_all typed_answer ?h" and s: "list_ex status_event ?h" by blast+
  from conditions_well_typed [OF r a] s r show ?thesis by (auto simp: list_all_iff list_ex_iff)
qed

end
