(* ===== verification/Endpoints.thy ===== *)
theory Endpoints
  imports Controller_Props
begin

text \<open>
  The two ends of a replication, a primary on one cluster and a secondary on another, which never
  talk to each other: what the primary puts into a ReplicationSource has to fit what the secondary
  makes and exports for the PVC of the same name.
\<close>

section \<open>What the primary writes\<close>


definition source_request :: "vgr \<Rightarrow> vgr_class \<Rightarrow> event \<Rightarrow> bool" where
  "source_request vgr cls e \<longleftrightarrow> (\<forall>ns n f x. e = E_apply_rs (ns, n) f x \<longrightarrow>
     (\<exists>sc modes. f = mutate_rs (NewVSHandler vgr (pc_SchedulingInterval (primary_getConfiguration cls))) n
        \<lparr>b_remoteAddress = GetRemoteServiceNameForRDFromPVCName n ns,
         b_pskSecretName = pc_PSKSecretName (primary_getConfiguration cls),
         b_storageClassName = sc, b_accessModes = modes\<rparr>))"

lemma source_request_other: "\<not> writes_rs e \<Longrightarrow> source_request vgr cls e"
  by (auto simp: source_request_def)

lemma emits_source_request: "emits (source_request vgr cls) (Primary_Reconcile K vgr cls)"
proof -
  have "emits (source_request vgr cls) (ReconcileRS K (NewVSHandler vgr (pc_SchedulingInterval
      (primary_getConfiguration cls))) n ns \<lparr>b_remoteAddress = GetRemoteServiceNameForRDFromPVCName n ns,
         b_pskSecretName = pc_PSKSecretName (primary_getConfiguration cls),
         b_storageClassName = sc, b_accessModes = modes\<rparr>)" for n ns sc modes
    unfolding ReconcileRS_def IsPVCTerminating_def validateSecretAndAddOwnerRef_def DeleteRD_def
      getReplicationDestinationName_def ensurePVCLabels_def createOrUpdateRS_def addFinalizerToPVC_def
      GetReplicationSourceName_def Let_def
    by (intro emits_intros) (auto simp: source_request_def)
  then show ?thesis
    unfolding Primary_Reconcile_def checkVRGConflict_def pauseAllReplicationSources_def pause_and_stop_def
      delete_volsync_pod_def reconcileReplicationSources_def protect_pvc_def
      reconcilePVCReplicationSource_def primary_updateStatus_def Let_def
    by (intro emits_intros) (simp_all add: source_request_def)
qed

section \<open>What the secondary writes\<close>




section \<open>The two ends together\<close>







fun data_source :: "event \<Rightarrow> bool" where
  "data_source (E_apply_rs k f (Inr s)) = (k = (''app'', ''data'') \<and> f (blank_rs k) = Inr s)"
| "data_source _ = False"

lemma data_sourceD: "data_source e \<Longrightarrow>
    \<exists>f s. e = E_apply_rs (''app'', ''data'') f (Inr s) \<and> f (blank_rs (''app'', ''data'')) = Inr s"
  by (cases e rule: data_source.cases) auto

lemma primary_data:
  "list_ex data_source (history (snd (run_state
     (Primary_Reconcile (steady_kube [] [sample_pvc ''app'' ''data'']) (sample_vgr ''app'' ''group'') sample_class)
     steady_world)))"
  by (simp add: primary_run_defs sample_defs steady_kube_def steady_world_def cron_5m cong: bind_eval_cong)



section \<open>The specification of a source\<close>

text \<open>
  C15: whatever ReplicationSource a primary finds for a PVC, it leaves the server with one whose
  schedule is that of the VGR's class, the same for every PVC whatever its annotations say, whose
  manual trigger is cleared, whose labels name the VGR, and whose source, address and secret are
  those of the PVC and the class; a source that was paused stays paused.
\<close>

theorem source_specification:
  assumes "runs (Primary_Reconcile K vgr cls) tr r" and "E_apply_rs (ns, n) f x \<in> set tr" and "f s = Inr s'"
  shows "\<exists>cron t. getScheduleCronSpec (pc_SchedulingInterval (primary_getConfiguration cls)) = Inr cron \<and>
     rs_trigger s' = Some \<lparr>schedule = Some cron, manual = ''''\<rparr> \<and> rs_key s' = rs_key s \<and>
     rs_labels s' VGROwnerLabel = Some (vgr_name vgr) \<and>
     rs_labels s' VGROwnerNamespaceLabel = Some (vgr_namespace vgr) \<and> rs_sourcePVC s' = n \<and>
     rs_rsyncTLS s' = Some t \<and> rst_address t = Some (''volsync-rsync-tls-dst-'' @ n @ ''.'' @ ns @ ''.svc.clusterset.local'') \<and>
     rst_keySecret t = Some (pc_PSKSecretName (primary_getConfiguration cls)) \<and> rs_paused s' = rs_paused s"
proof -
  from emits_runs [OF emits_source_request assms(1,2)] obtain sc modes where
    f: "f = mutate_rs (NewVSHandler vgr (pc_SchedulingInterval (primary_getConfiguration cls))) n
      \<lparr>b_remoteAddress = GetRemoteServiceNameForRDFromPVCName n ns,
       b_pskSecretName = pc_PSKSecretName (primary_getConfiguration cls),
       b_storageClassName = sc, b_accessModes = modes\<rparr>" by (auto simp: source_request_def)
  show ?thesis
    using assms(3) unfolding f mutate_rs_def Let_def
    by (auto simp: NewVSHandler_def GetRemoteServiceNameForRDFromPVCName_def getLocalServiceNameForRD_def
        getReplicationDestinationName_def split: sum.splits)
qed

theorem source_specification_witness:
  "\<exists>tr r f s. runs (Primary_Reconcile (steady_kube [] [sample_pvc ''app'' ''data''])
       (sample_vgr ''app'' ''group'') sample_class) tr r \<and> E_apply_rs (''app'', ''data'') f (Inr s) \<in> set tr \<and>
     rs_sourcePVC s = ''data'' \<and> rs_labels s VGROwnerLabel = Some ''group''"
proof -
  let ?m = "Primary_Reconcile (steady_kube [] [sample_pvc ''app'' ''data'']) (sample_vgr ''app'' ''group'') sample_class"
  let ?p = "history (snd (run_state ?m steady_world))"
  have p: "runs ?m ?p (fst (run_state ?m steady_world))" by (rule steady_runs) simp
  from primary_data obtain f s where f: "E_apply_rs (''app'', ''data'') f (Inr s) \<in> set ?p"
    "f (blank_rs (''app'', ''data'')) = Inr s" by (auto simp: list_ex_iff dest!: data_sourceD)
  have "vgr_name (sample_vgr ''app'' ''group'') = ''group''" by (simp add: sample_vgr_def)
  with source_specification [OF p f] have "rs_sourcePVC s = ''data'' \<and> rs_labels s VGROwnerLabel = Some ''group''"
    by auto
  with p f(1) show ?thesis by blast
qed
end
