(* ===== verification/Reach.thy ===== *)
theory Reach
  imports Controller_Props Ref_Cluster
begin

text \<open>
  Which PVCs the two modes reach: what has to be true of a PVC before an object is written for it.
\<close>

section \<open>A listing that obeys its options\<close>

text \<open>The server shows only what it was asked for: the namespace, and every requirement.\<close>

fun obeys :: "event \<Rightarrow> bool" where
  "obeys (E_list_pvc opts (Inr items)) = list_all (\<lambda>p.
     (inNamespace opts = None \<or> inNamespace opts = Some (pvc_namespace p)) \<and>
     list_all (meets (pvc_labels p)) (matchingSelector opts)) items"
| "obeys _ = True"

lemma obeyed: "list_all obeys tr \<Longrightarrow> e \<in> set tr \<Longrightarrow> obeys e"
  by (simp only: list_all_iff)


section \<open>Primary\<close>



definition reached :: "'c kube \<Rightarrow> vgr \<Rightarrow> event list \<Rightarrow> bool" where
  "reached K vgr tr \<longleftrightarrow> (\<forall>k f x. E_apply_rs k f x \<in> set tr \<longrightarrow>
     (\<exists>ls sel q items. vgr_selector vgr = Some ls \<and> k_selector K ls = Inr sel \<and>
        fst (k_requirement K VGROwnerLabel ''='' [vgr_name vgr]) = Some q \<and>
        E_list_pvc (primary_list_options sel q) (Inr items) \<in> set tr \<and> k \<in> pvc_key ` set items))"

lemma reached_quiet: "\<forall>e \<in> set tr. \<not> writes_rs e \<Longrightarrow> reached K vgr tr"
  by (auto simp: reached_def)





section \<open>Secondary\<close>

definition applied_rd_to :: "key set \<Rightarrow> event \<Rightarrow> bool" where
  "applied_rd_to ks e \<longleftrightarrow> (\<forall>k f x. e = E_apply_rd k f x \<longrightarrow> k \<in> ks)"

lemma applied_rd_other: "\<not> writes_rd e \<Longrightarrow> applied_rd_to ks e"
  by (auto simp: applied_rd_to_def)

lemma emits_demote_loop:
  "emits (applied_rd_to (pvc_key ` set pvcs)) (reconcileReplicationDestinations K vgr config pvcs)"
proof -
  have "emits (applied_rd_to ks) (ReconcileRD K v n ns a)" if "(ns, n) \<in> ks" for ks v n ns a
    using that
    unfolding ReconcileRD_def IsPVCTerminating_def validateSecretAndAddOwnerRef_def DeleteRS_def
      getReplicationDestinationName_def createOrUpdateRD_def addFinalizerToPVC_def
      GetReplicationSourceName_def reconcileServiceExportForRD_def Let_def
    by (intro emits_intros emits_mono [OF no_rd_CreateTemporary applied_rd_other])
      (simp_all add: applied_rd_to_def)
  then show ?thesis
    unfolding reconcileReplicationDestinations_def demote_pvc_def handleLostPVC_def
      reconcilePVCReplicationDestination_def Let_def
    by (intro emits_intros) (auto simp: applied_rd_to_def)
qed

lemma emits_report_loop:
  "emits (applied_rd_to (pvc_key ` set pvcs)) (reconcile_and_report K config vgr pvcs)"
  unfolding reconcile_and_report_def secondary_updateStatus_def Let_def
  by (intro emits_intros emits_demote_loop) (simp_all add: applied_rd_to_def)

definition rd_reached :: "'c kube \<Rightarrow> vgr \<Rightarrow> event list \<Rightarrow> bool" where
  "rd_reached K vgr tr \<longleftrightarrow> (\<forall>k f x. E_apply_rd k f x \<in> set tr \<longrightarrow>
     (\<exists>ls sel items. vgr_selector vgr = Some ls \<and> k_selector K ls = Inr sel \<and>
        E_list_pvc \<lparr>inNamespace = Some (vgr_namespace vgr), matchingLabels = [], matchingSelector = sel\<rparr>
          (Inr items) \<in> set tr \<and> k \<in> pvc_key ` set items))"

lemma post_getPVCList_selector:
  "post (getPVCList K vgr) (\<lambda>tr r. (\<forall>e \<in> set tr. \<not> writes_rd e) \<and> (\<forall>items. r = Inr items \<longrightarrow>
     (\<exists>ls sel. vgr_selector vgr = Some ls \<and> k_selector K ls = Inr sel \<and>
        E_list_pvc \<lparr>inNamespace = Some (vgr_namespace vgr), matchingLabels = [], matchingSelector = sel\<rparr>
          (Inr items) \<in> set tr)))"
  unfolding getPVCList_def by (intro vcg) auto

lemma keys_kept: "map pvc_key xs = map pvc_key ys \<Longrightarrow> pvc_key ` set xs = pvc_key ` set ys"
  by (metis list.set_map)

lemma post_handleFinalSync_keys:
  "post (handleFinalSync K vgr pvcs) (\<lambda>tr x. case x of (v, pvcs', run, res, err) \<Rightarrow>
     (\<forall>e \<in> set tr. \<not> writes_rd e) \<and> (res = None \<and> err = None \<longrightarrow> pvc_key ` set pvcs' = pvc_key ` set pvcs))"
  by (rule post_weaken [OF post_handleFinalSync]) (auto simp: final_sync_handled_def intro!: keys_kept)

lemma rd_reached_quiet: "\<forall>e \<in> set tr. \<not> writes_rd e \<Longrightarrow> rd_reached K vgr tr"
  by (auto simp: rd_reached_def)

lemma rd_reached_after:
  assumes "\<forall>e \<in> set l. \<not> writes_rd e" and "\<forall>e \<in> set m. \<not> writes_rd e"
    and "\<exists>ls sel. vgr_selector vgr = Some ls \<and> k_selector K ls = Inr sel \<and>
        E_list_pvc \<lparr>inNamespace = Some (vgr_namespace vgr), matchingLabels = [], matchingSelector = sel\<rparr>
          (Inr items) \<in> set l"
    and "\<forall>e \<in> set t. applied_rd_to (pvc_key ` set items) e"
  shows "rd_reached K vgr (l @ m @ t)"
proof -
  have "k \<in> pvc_key ` set items" if a: "E_apply_rd k f x \<in> set (l @ m @ t)" for k f x
  proof -
    have w: "writes_rd (E_apply_rd k f x)" by simp
    from w assms(1) have "E_apply_rd k f x \<notin> set l" by blast
    moreover from w assms(2) have "E_apply_rd k f x \<notin> set m" by blast
    ultimately have "E_apply_rd k f x \<in> set t" using a by simp
    with assms(4) show ?thesis unfolding applied_rd_to_def by blast
  qed
  moreover from assms(3) obtain ls sel where "vgr_selector vgr = Some ls" and "k_selector K ls = Inr sel"
    and "E_list_pvc \<lparr>inNamespace = Some (vgr_namespace vgr), matchingLabels = [], matchingSelector = sel\<rparr>
      (Inr items) \<in> set (l @ m @ t)" by (elim exE conjE) (simp only: set_append Un_iff simp_thms)
  ultimately show ?thesis unfolding rd_reached_def by blast
qed

lemma post_Secondary_reached: "post (Secondary_Reconcile K vgr cls) (\<lambda>tr r. rd_reached K vgr tr)"
  unfolding Secondary_Reconcile_def Let_def
proof (intro vcg post_weaken [OF post_getPVCList_selector] post_weaken [OF post_handleFinalSync_keys]
      post_weaken [OF no_rd_restoreTemporaryPVCs [unfolded emits_def]]
      post_weaken [OF post_isFinalSyncComplete] post_weaken [OF emits_report_loop [unfolded emits_def]], goal_cases)
  case (6 l a pvcs f b v b1 pvcs' b2 run b3 res err m b4 c b5 complete t b6)
  then have "\<forall>e \<in> set (f @ m @ c). \<not> writes_rd e" "\<forall>e \<in> set t. applied_rd_to (pvc_key ` set pvcs) e"
    by auto
  with 6 rd_reached_after [of l "f @ m @ c" vgr K pvcs t] show ?case by simp
next
  case (9 l a pvcs f b v b1 pvcs' b2 run b3 res err m b4 complete t b5)
  then have "\<forall>e \<in> set (f @ m). \<not> writes_rd e" "\<forall>e \<in> set t. applied_rd_to (pvc_key ` set pvcs) e"
    by auto
  with 9 rd_reached_after [of l "f @ m" vgr K pvcs t] show ?case by simp
qed (auto intro!: rd_reached_quiet)

text \<open>
  C17: on a server whose listings obey their options, a secondary writes a ReplicationDestination
  only for a PVC in the VGR's own namespace that meets the VGR's selector. A primary lists the
  PVCs of all namespaces: what it replicates from another one has no destination.
\<close>

theorem secondary_reaches_namespace:
  assumes "runs (Secondary_Reconcile K vgr cls) tr r" and "list_all obeys tr" and "E_apply_rd k f x \<in> set tr"
  shows "fst k = vgr_namespace vgr \<and> (\<exists>ls sel opts items p. vgr_selector vgr = Some ls \<and> k_selector K ls = Inr sel \<and>
     E_list_pvc opts (Inr items) \<in> set tr \<and> p \<in> set items \<and> pvc_key p = k \<and> list_all (meets (pvc_labels p)) sel)"
proof -
  let ?opts = "\<lambda>sel. \<lparr>inNamespace = Some (vgr_namespace vgr), matchingLabels = [], matchingSelector = sel\<rparr>"
  from post_runs [OF post_Secondary_reached assms(1)] assms(3) obtain ls sel items
    where s: "vgr_selector vgr = Some ls" "k_selector K ls = Inr sel"
      and l: "E_list_pvc (?opts sel) (Inr items) \<in> set tr" and "k \<in> pvc_key ` set items"
    unfolding rd_reached_def by blast
  then obtain p where p: "p \<in> set items" "pvc_key p = k" by blast
  have "obeys (E_list_pvc (?opts sel) (Inr items))" by (rule obeyed [OF assms(2) l])
  with p(1) have "pvc_namespace p = vgr_namespace vgr" "list_all (meets (pvc_labels p)) sel"
    by (auto simp: list_all_iff)
  with s l p show ?thesis by auto
qed


section \<open>Runs that reach their PVCs\<close>






lemma secondary_reach_run:
  "list_all obeys (history (snd (run_state sample_secondary steady_world)))"
  by (simp add: sample_secondary_def secondary_run_defs quiet_kube_def ClaimLost_def
      IsNotFound_def not_found_def cong: bind_eval_cong)

theorem secondary_reaches_namespace_witness:
  "\<exists>tr r k f x. runs sample_secondary tr r \<and> E_apply_rd k f x \<in> set tr \<and> fst k = ''app''"
proof -
  let ?h = "history (snd (run_state sample_secondary steady_world))"
  have r: "runs sample_secondary ?h (fst (run_state sample_secondary steady_world))" by (rule steady_runs) simp
  have "list_ex (applies_rd (''app'', ''data'')) ?h"
    using sample_secondary_run by (simp add: case_prod_beta Let_def)
  then obtain f x where a: "E_apply_rd (''app'', ''data'') f x \<in> set ?h"
    by (auto simp: list_ex_iff elim!: applies_rd.elims)
  from secondary_reaches_namespace [OF r [unfolded sample_secondary_def]
      secondary_reach_run [unfolded sample_secondary_def] a [unfolded sample_secondary_def]]
  have "fst (''app'', ''data'') = ''app''" by (simp add: sample_vgr_def)
  with r a show ?thesis by blast
qed

end
