(* ===== verification/Settle.thy ===== *)
theory Settle
  imports Controller_Props Ref_Cluster
begin

text \<open>
  What the two modes achieve: a reconciliation that no answer of the server holds up reports its
  state after one pass. The converse of the safety theorems, which bound what may be reported.
\<close>

section \<open>What holds a reconciliation up\<close>

text \<open>
  A request that fails. That an object is not there when it is read, is there already when it is
  created, or is gone already when it is deleted is no failure, except for the deletions whose
  error the source returns as it is.
\<close>

fun failure :: "event \<Rightarrow> bool" where
  "failure (E_list_pvc _ (Inl _)) = True"
| "failure (E_list_rs _ (Inl _)) = True"
| "failure (E_get_pvc _ (Inl e)) = (\<not> IsNotFound e)"
| "failure (E_get_rs _ (Inl e)) = (\<not> IsNotFound e)"
| "failure (E_get_rd _ (Inl e)) = (\<not> IsNotFound e)"
| "failure (E_get_pv _ (Inl _)) = True"
| "failure (E_list_pod _ (Inl _)) = True"
| "failure (E_update_rs _ (Inl _)) = True"
| "failure (E_get_secret _ (Inl _)) = True"
| "failure (E_create_pvc _ (Inl e)) = (\<not> IsAlreadyExists e)"
| "failure (E_update_pvc _ (Inl _)) = True"
| "failure (E_update_pv _ (Inl _)) = True"
| "failure (E_delete_pvc _ d) = (IgnoreNotFound d \<noteq> None)"
| "failure (E_delete_rs _ d) = (d \<noteq> None)"
| "failure (E_delete_rd _ d) = (d \<noteq> None)"
| "failure (E_apply_rs _ _ (Inl _)) = True"
| "failure (E_apply_rd _ _ (Inl _)) = True"
| "failure (E_apply_export _ _ (Inl _)) = True"
| "failure (E_status_vgr _ (Inl _)) = True"
| "failure _ = False"

text \<open>A PVC that one request still finds, or does not, and the next one does not find.\<close>

fun gone_since :: "event \<Rightarrow> event \<Rightarrow> bool" where
  "gone_since (E_get_pvc k _) e = (\<exists>x. e = E_get_pvc k (Inl x) \<and> IsNotFound x)"
| "gone_since _ _ = False"

fun vanishes :: "event list \<Rightarrow> bool" where
  "vanishes (a # b # tr) \<longleftrightarrow> gone_since a b \<or> vanishes (b # tr)"
| "vanishes _ \<longleftrightarrow> False"

lemma vanishes_left: "vanishes xs \<Longrightarrow> vanishes (xs @ ys)"
  by (induction xs rule: vanishes.induct) auto

lemma vanishes_Cons: "vanishes tr \<Longrightarrow> vanishes (e # tr)"
  by (cases tr) auto

lemma vanishes_right: "vanishes ys \<Longrightarrow> vanishes (xs @ ys)"
  by (induction xs) (auto intro: vanishes_Cons)

definition held :: "(event \<Rightarrow> bool) \<Rightarrow> event list \<Rightarrow> bool" where
  "held P tr \<longleftrightarrow> list_ex (\<lambda>e. failure e \<or> P e) tr \<or> vanishes tr"

interpretation held: excuse "held P" for P
  by unfold_locales (auto simp: held_def intro: vanishes_left vanishes_right)

lemma held_Nil [simp]: "\<not> held P []"
  by (simp add: held_def)

lemma held_Cons_iff [simp]:
  "held P (e # tr) \<longleftrightarrow> failure e \<or> P e \<or> (case tr of [] \<Rightarrow> False | b # _ \<Rightarrow> gone_since e b) \<or> held P tr"
  by (cases tr) (auto simp: held_def)

lemma held_append: "held P xs \<or> held P ys \<Longrightarrow> held P (xs @ ys)"
  by (auto intro: held.bad_left held.bad_right)

definition listed_in :: "pvc list \<Rightarrow> event list \<Rightarrow> bool" where
  "listed_in pvcs tr \<longleftrightarrow> (\<exists>opts. E_list_pvc opts (Inr pvcs) \<in> set tr)"

lemma listed_in_append [simp]: "listed_in pvcs (xs @ ys) \<longleftrightarrow> listed_in pvcs xs \<or> listed_in pvcs ys"
  by (auto simp: listed_in_def)

lemma listed_in_Cons [simp]:
  "listed_in pvcs (e # tr) \<longleftrightarrow> (\<exists>opts. e = E_list_pvc opts (Inr pvcs)) \<or> listed_in pvcs tr"
  by (auto simp: listed_in_def)

lemma held_appendD: "\<not> held P (xs @ ys) \<Longrightarrow> \<not> held P xs \<and> \<not> held P ys"
  using held_append by blast

section \<open>The first passes of a relocation\<close>








lemma suffix_tmp [simp]: "HasSuffix (name @ tmp_suffix) tmp_suffix"
  by (simp add: HasSuffix_suffix)

























section \<open>A pass as secondary\<close>











text \<open>One status update was accepted, and the reconciliation comes back after the regular interval.\<close>

definition settled :: "string \<Rightarrow> string list \<Rightarrow> event list \<Rightarrow> vgr \<times> ctrl_result \<times> error \<Rightarrow> bool" where
  "settled state names tr r \<longleftrightarrow> (\<exists>v v'. sent_status tr = [(v, Inr v')] \<and> vgr_state v = state \<and>
     vgr_pvcRefs v = names \<and> r = (v', requeue_after requeueInterval, None))"




lemma settled_after [simp]: "sent_status t = [] \<Longrightarrow> settled st names (t @ tr) r = settled st names tr r"
  by (auto simp: settled_def)













section \<open>A pass as primary\<close>

text \<open>A conflict with the VRG, no PVC at all, or one that is being deleted.\<close>

fun detains_primary :: "event \<Rightarrow> bool" where
  "detains_primary (E_list_vrg _ (Inr items)) = list_ex (\<lambda>g. vrg_replicationState g = VRGSecondary) items"
| "detains_primary (E_list_pvc _ (Inr items)) = (items = [])"
| "detains_primary (E_get_pvc _ (Inr p)) = (pvc_deletionTimestamp p \<noteq> None)"
| "detains_primary _ = False"

abbreviation held_primary :: "event list \<Rightarrow> bool" where
  "held_primary \<equiv> held detains_primary"

lemma held_primary_terminating:
  "post (IsPVCTerminating K name ns) (\<lambda>tr r. r = Inr False \<or> held_primary tr)"
  unfolding IsPVCTerminating_def by (intro vcg) (auto simp: IsZero_def)

lemma held_validate: "post (validateSecretAndAddOwnerRef K s ns) (\<lambda>tr r. r = Inr True \<or> held P tr)"
  unfolding validateSecretAndAddOwnerRef_def by (intro vcg) auto

lemma held_DeleteRD: "post (DeleteRD K name ns) (\<lambda>tr r. r = None \<or> held P tr)"
  unfolding DeleteRD_def Let_def by (intro vcg) auto

lemma held_ensure: "post (ensurePVCLabels K v name ns) (\<lambda>tr r. r = None \<or> held P tr)"
  unfolding ensurePVCLabels_def Let_def by (intro vcg) (simp_all split: if_splits)

lemma held_addFinalizer: "post (addFinalizerToPVC K name ns) (\<lambda>tr r. r = None \<or> held P tr)"
  unfolding addFinalizerToPVC_def by (intro vcg) auto

lemma held_ReconcileRS:
  assumes "\<not> HasSuffix name tmp_suffix"
  shows "post (ReconcileRS K v name ns b) (\<lambda>tr r. (\<exists>s. r = Inr (Some s)) \<or> held_primary tr)"
  unfolding ReconcileRS_def createOrUpdateRS_def
  by (intro vcg post_weaken [OF held_primary_terminating] post_weaken [OF held_validate]
      post_weaken [OF held_DeleteRD] post_weaken [OF held_ensure] post_weaken [OF held_addFinalizer])
    (use assms in \<open>auto intro!: held_append\<close>)

text \<open>The PVCs a primary replicates: not VolSync's own, and not the temporary ones.\<close>

definition to_replicate :: "pvc \<Rightarrow> bool" where
  "to_replicate p \<longleftrightarrow> \<not> isVolSyncOwned p \<and> \<not> isTemporaryPVC p"

lemma skipped_ReconcileRS:
  "HasSuffix name tmp_suffix \<Longrightarrow> post (ReconcileRS K v name ns b) (\<lambda>tr r. r = Inr None)"
  unfolding ReconcileRS_def by (auto intro: vcg)

lemma held_protect_pvc:
  "post (protect_pvc K v config acc p) (\<lambda>tr r. (\<exists>acc'. r = Inr acc' \<and>
     fst acc' = (if to_replicate p then fst acc @ [pvc_name p] else fst acc)) \<or> held_primary tr)"
proof (cases "HasSuffix (pvc_name p) tmp_suffix")
  case True
  then show ?thesis
    unfolding protect_pvc_def reconcilePVCReplicationSource_def Let_def
    by (intro vcg post_weaken [OF skipped_ReconcileRS]) (auto simp: to_replicate_def isTemporaryPVC_def)
next
  case False
  then show ?thesis
    unfolding protect_pvc_def reconcilePVCReplicationSource_def Let_def
    by (intro vcg post_weaken [OF held_ReconcileRS]) (auto simp: to_replicate_def isTemporaryPVC_def)
qed

lemma fold_snoc_filter:
  "fold (\<lambda>x b. if P x then b @ [f x] else b) xs b = b @ map f (filter P xs)"
  by (induction xs arbitrary: b) auto

lemma held_sources:
  "post (reconcileReplicationSources K v config pvcs) (\<lambda>tr r. sent_status tr = [] \<and>
     ((\<exists>acc. r = Inr acc \<and> fst acc = map pvc_name (filter to_replicate pvcs)) \<or> held_primary tr))"
proof -
  have "post (fold_each (protect_pvc K v config) ([], None) pvcs) (\<lambda>tr r. (\<exists>acc. r = Inr acc \<and>
      fst acc = fold (\<lambda>p b. if to_replicate p then b @ [pvc_name p] else b) pvcs (fst ([], None :: time option))) \<or>
      held_primary tr)"
    by (rule held.post_fold [where h = fst]) (rule held_protect_pvc)
  moreover have "emits (\<lambda>e. \<not> status_event e) (reconcileReplicationSources K v config pvcs)"
    unfolding reconcileReplicationSources_def protect_pvc_def reconcilePVCReplicationSource_def
      ReconcileRS_def IsPVCTerminating_def validateSecretAndAddOwnerRef_def DeleteRD_def
      ensurePVCLabels_def createOrUpdateRS_def addFinalizerToPVC_def Let_def
    by (intro emits_intros) simp_all
  ultimately show ?thesis
    unfolding reconcileReplicationSources_def emits_def
    by (rule post_weaken [OF post_conj]) (simp add: fold_snoc_filter sent_status_quiet)
qed

lemma held_conflict:
  "post (checkVRGConflict K vgr) (\<lambda>tr r. r = (None, None) \<and> sent_status tr = [] \<or> held_primary tr)"
  by (rule post_weaken [OF post_checkVRGConflict])
    (auto simp: conflict_checked_def list_ex_iff split: if_splits)

lemma held_primary_status:
  "post (primary_updateStatus K vgr names sync) (\<lambda>tr r. (\<exists>v v'. sent_status tr = [(v, Inr v')] \<and>
     vgr_state v = PrimaryState \<and> vgr_pvcRefs v = names \<and> r = (v', None)) \<or> held_primary tr)"
  unfolding primary_updateStatus_def status_update_def Let_def
  by (intro vcg post_weaken [OF post_set_condition_frame]) auto

lemma held_Primary:
  assumes "vgr_selector vgr = Some ls" and "k_selector K ls = Inr sel"
    and "fst (k_requirement K VGROwnerLabel ''='' [vgr_name vgr]) = Some q"
  shows "post (Primary_Reconcile K vgr cls) (\<lambda>tr x.
     (\<exists>pvcs r. listed_in pvcs tr \<and> settled PrimaryState (map pvc_name (filter to_replicate pvcs)) tr r \<and>
        x = Returned r) \<or> held_primary tr)"
  unfolding Primary_Reconcile_def Let_def assms option.case sum.case
  by (intro vcg post_weaken [OF held_conflict] post_weaken [OF held_sources] post_weaken [OF held_primary_status])
    (auto dest!: held_appendD intro!: held_append simp: settled_def)

text \<open>
  C12: a reconciliation as primary that nothing holds up succeeds in one pass: the VGR has a selector
  that parses and a name that is a valid label value, no request fails, no VRG of the namespace is
  to be secondary, a PVC is listed and none is being deleted. It then sends one status, which says
  Primary and names exactly the listed PVCs that are neither VolSync's own nor temporary, and comes
  back after the regular interval.
\<close>

theorem primary_settles:
  assumes "runs (Primary_Reconcile K vgr cls) tr r" and "vgr_selector vgr = Some ls"
    and "k_selector K ls = Inr sel" and "fst (k_requirement K VGROwnerLabel ''='' [vgr_name vgr]) = Some q"
    and "\<not> held detains_primary tr"
  shows "\<exists>opts pvcs v v'. E_list_pvc opts (Inr pvcs) \<in> set tr \<and> sent_status tr = [(v, Inr v')] \<and>
     vgr_state v = PrimaryState \<and> vgr_pvcRefs v = map pvc_name (filter to_replicate pvcs) \<and>
     r = Returned (v', requeue_after requeueInterval, None)"
  using post_runs [OF held_Primary [OF assms(2-4)] assms(1)] assms(5)
  unfolding listed_in_def settled_def by blast

definition two_pvcs :: "pvc list" where
  "two_pvcs = [sample_pvc ''app'' ''data'', sample_pvc ''app'' ''data-tmp'']"

lemma primary_run:
  "\<not> held detains_primary (history (snd (run_state
     (Primary_Reconcile (steady_kube [] two_pvcs) (sample_vgr ''app'' ''group'') sample_class) steady_world)))"
  by (simp add: primary_run_defs sample_defs steady_kube_def steady_world_def cron_5m two_pvcs_def HasSuffix_def
      tmp_suffix_def cong: bind_eval_cong)

theorem primary_settles_witness:
  "\<exists>tr r v v'. runs (Primary_Reconcile (steady_kube [] two_pvcs) (sample_vgr ''app'' ''group'') sample_class) tr
       (Returned r) \<and> sent_status tr = [(v, Inr v')] \<and> vgr_state v = PrimaryState"
proof -
  let ?m = "Primary_Reconcile (steady_kube [] two_pvcs) (sample_vgr ''app'' ''group'') sample_class"
  let ?run = "run_state ?m steady_world"
  have r: "runs ?m (history (snd ?run)) (fst ?run)" by (rule steady_runs) simp
  have "vgr_selector (sample_vgr ''app'' ''group'') = Some \<lparr>matchLabels = [], matchExpressions = []\<rparr>"
    "k_selector (steady_kube [] two_pvcs) \<lparr>matchLabels = [], matchExpressions = []\<rparr> = Inr []"
    "fst (k_requirement (steady_kube [] two_pvcs) VGROwnerLabel ''='' [vgr_name (sample_vgr ''app'' ''group'')]) =
      Some \<lparr>req_key = VGROwnerLabel, req_operator = ''='', req_values = [''group'']\<rparr>"
    by (simp_all add: sample_vgr_def steady_kube_def)
  from primary_settles [OF r this primary_run] r show ?thesis by metis
qed

end
