(* ===== verification/Startup.thy ===== *)
theory Startup
  imports Controller
begin

text \<open>
  The process around the reconcilers: the start of cmd/main.go, and what a watch event of
  \<open>SetupWithManager\<close> in volumegroupreplication_controller.go leads to. The flag package with the
  logger's own flags, and controller-runtime's manager, are a parameter: a record \<open>host\<close>.
\<close>

section \<open>The start\<close>








section \<open>Watch events\<close>

text \<open>
  The watch on VolumeReplicationGroups: an event that passes the predicate is mapped to requests,
  from the namespace of its object.
\<close>

definition vrg_event_requests :: "'c kube \<Rightarrow> string \<Rightarrow> watch_event \<Rightarrow> ('c, key list) kop" where
  "vrg_event_requests K namespace ev =
     (if vrgPredicate ev then vrgToVGRRequests K namespace else ret [])"

section \<open>Properties\<close>




text \<open>
  An event of a VolumeReplicationGroup wakes exactly the VGRs listed in its namespace, when the
  object was created or an update changed its replication state, and if the listing fails none;
  every other event, a change of the action or of the status included, wakes none and asks nothing.
\<close>

lemma watch_requests_exact:
  fixes K :: "'c kube"
  assumes "runs (vrg_event_requests K ns ev) tr reqs"
  shows "(\<exists>x. tr = [E_list_vgr (in_namespace ns) x] \<and>
       reqs = (case x of Inl _ \<Rightarrow> [] | Inr vs \<Rightarrow> map vgr_key vs) \<and>
       (ev = CreateEvent \<or> (\<exists>a b. ev = UpdateEvent (VRG a) (VRG b) \<and>
          vrg_replicationState a \<noteq> vrg_replicationState b))) \<or>
     (tr = [] \<and> reqs = [] \<and> ev \<noteq> CreateEvent \<and>
       (\<forall>a b. ev = UpdateEvent (VRG a) (VRG b) \<longrightarrow> vrg_replicationState a = vrg_replicationState b))"
proof -
  have p: "vrgPredicate ev \<longleftrightarrow> ev = CreateEvent \<or> (\<exists>a b. ev = UpdateEvent (VRG a) (VRG b) \<and>
      vrg_replicationState a \<noteq> vrg_replicationState b)"
    by (cases ev rule: vrgPredicate.cases) auto
  have mapped: "post (vrgToVGRRequests K ns) (\<lambda>tr reqs. \<exists>x. tr = [E_list_vgr (in_namespace ns) x] \<and>
      reqs = (case x of Inl _ \<Rightarrow> [] | Inr vs \<Rightarrow> map vgr_key vs))"
    unfolding vrgToVGRRequests_def by (intro vcg) simp_all
  have dropped: "post (ret [] :: ('c, key list) kop) (\<lambda>tr reqs. tr = [] \<and> reqs = [])" by (intro vcg) simp
  show ?thesis
  proof (cases "vrgPredicate ev")
    case True
    then have "runs (vrgToVGRRequests K ns) tr reqs" using assms by (simp add: vrg_event_requests_def)
    from post_runs [OF mapped this] True [unfolded p] show ?thesis by blast
  next
    case False
    then have "runs (ret [] :: ('c, key list) kop) tr reqs" using assms by (simp add: vrg_event_requests_def)
    from post_runs [OF dropped this] False [unfolded p] show ?thesis by blast
  qed
qed




end
